(* ===== verification/Prelude.thy ===== *)
theory Prelude
  imports Main "HOL-Library.Word" "HOL-Library.Signed_Division" "HOL-Library.Sublist"
begin

text \<open>
  The shared layer of the development: names for the C integer types, the C operators whose
  meaning differs from Isabelle's, the reasons for which a C execution stops being defined, and
  the generic locale that lifts "one step keeps the invariant" to whole runs.  Every component
  theory builds on this one.
\<close>

section \<open>Types and collections\<close>

type_synonym u8 = "8 word"
type_synonym u32 = "32 word"
type_synonym u64 = "64 word"

text \<open>
  A C program that leaves the defined behaviour of the language, or that the platform stops, is
  modelled as a value of this type on the left of a sum.
\<close>

datatype fault =
    BufferOverflow  \<comment> \<open>a write past the end of an array\<close>
  | OverRead        \<comment> \<open>a string function that runs past the end of its array\<close>
  | NullDeref       \<comment> \<open>a null pointer is followed\<close>
  | Abort           \<comment> \<open>ESP_ERROR_CHECK on a failed call\<close>
  | Restart         \<comment> \<open>esp_restart\<close>

named_theorems cstring \<open>facts on the C string functions\<close>
named_theorems call_log \<open>how the read-outs of the call log move through an operation\<close>
named_theorems pin_names \<open>the GPIO numbers and flag values of the headers\<close>

section \<open>C operators\<close>

text \<open>Logical negation of an 8-bit flag, as the int that C gives and that the callee receives.\<close>

definition c_not :: "u8 \<Rightarrow> u32" where
  "c_not x = (if x = 0 then 1 else 0)"

lemma c_not_simps [simp]:
  "c_not 0 = 1"
  "x \<noteq> 0 \<Longrightarrow> c_not x = 0"
  by (simp_all add: c_not_def)

text \<open>The value an \<open>int\<close> holds after an assignment: 32 bits, two's complement.\<close>

definition c_int :: "int \<Rightarrow> int" where
  "c_int i = signed_take_bit 31 i"

lemma c_int_eq: "- (2 ^ 31) \<le> i \<Longrightarrow> i < 2 ^ 31 \<Longrightarrow> c_int i = i"
  by (simp add: c_int_def signed_take_bit_int_eq_self)

lemma c_int_bounds: "- (2 ^ 31) \<le> c_int i" "c_int i < 2 ^ 31"
  unfolding c_int_def
  by (rule signed_take_bit_int_greater_eq_minus_exp, rule signed_take_bit_int_less_exp)

text \<open>
  C's division and remainder truncate towards zero: \<open>sdiv\<close> and \<open>smod\<close> of the library.  On
  non-negative operands they agree with Isabelle's.
\<close>

lemma sdiv_smod_nonneg:
  fixes a b :: int
  assumes "0 \<le> a" and "0 < b"
  shows "a sdiv b = a div b" and "a smod b = a mod b"
  using assms by (simp_all add: signed_divide_int_def signed_modulo_int_def sgn_if
      minus_div_mult_eq_mod mult.commute)

section \<open>Runs of a component\<close>

text \<open>
  A component that handles one event after another: the client law is that every event keeps the
  invariant, and what it gives is that every sequence of events does.
\<close>

locale event_machine =
  fixes handle :: "'e \<Rightarrow> 's \<Rightarrow> 's"
    and inv :: "'s \<Rightarrow> bool"
  assumes handle_inv: "inv s \<Longrightarrow> inv (handle e s)"
begin

lemma run_inv: "inv s \<Longrightarrow> inv (fold handle es s)"
  by (induction es arbitrary: s) (auto intro: handle_inv)

lemma run_append_inv: "inv (fold handle es s) \<Longrightarrow> inv (fold handle (es @ es') s)"
  by (simp add: run_inv)

end

section \<open>Lists\<close>

lemma takeWhile_append_stop:
  assumes "\<And>x. x \<in> set xs \<Longrightarrow> P x" and "\<not> P y"
  shows "takeWhile P (xs @ y # ys) = xs"
  using assms by (simp add: takeWhile_tail)

lemma map_of_rev_eq_None: "map_of (rev ws) p = None \<longleftrightarrow> p \<notin> fst ` set ws"
  by (simp add: map_of_eq_None_iff)

end
