(* ===== verification/Platform.thy ===== *)
theory Platform
  imports Prelude
begin

text \<open>
  The boundary between the program and the ESP-IDF drivers.  The drivers are not part of the
  repository, so the model does not say what they do: an operation of the program is the sequence
  of driver calls it makes, kept in a log, newest call first.  What the robot was told is read off
  that log: the level last commanded on a pin, the pulse width last commanded on a servo unit, the
  pins configured as outputs.  An H-bridge motor is a pair of pins, and the level pair is what
  selects its drive (main/Chassis/include/Chassis.h:56-57, main/FIRE/include/Fire.h:86-98).

  The locale \<open>motor_op\<close> is the contract every motor operation of Chassis.c and Fire.c offers to its
  callers; \<open>motor_op_pair\<close> says how two of them combine.
\<close>

section \<open>Driver calls\<close>

datatype gpio_mode_t = GPIO_MODE_OUTPUT
datatype gpio_int_type_t = GPIO_INTR_DISABLE

record gpio_config_t =
  pin_bit_mask :: u64
  mode :: gpio_mode_t
  pull_up_en :: u8
  pull_down_en :: u8
  intr_type :: gpio_int_type_t

datatype mcpwm_unit_t = MCPWM_UNIT_0 | MCPWM_UNIT_1
datatype mcpwm_io_signals_t = MCPWM0A
datatype mcpwm_timer_t = MCPWM_TIMER_0
datatype mcpwm_generator_t = MCPWM_OPR_A
datatype mcpwm_counter_type_t = MCPWM_UP_COUNTER
datatype mcpwm_duty_type_t = MCPWM_DUTY_MODE_0

record mcpwm_config_t =
  frequency :: nat
  cmpr_a :: nat
  cmpr_b :: nat
  counter_mode :: mcpwm_counter_type_t
  duty_mode :: mcpwm_duty_type_t

text \<open>Operating-system and network calls of the start-up code (main.c) that bear on its order.\<close>

datatype wifi_auth_mode_t = WIFI_AUTH_OPEN

record wifi_ap_config_t =
  ssid :: "u8 list"
  ssid_len :: nat
  authmode :: wifi_auth_mode_t
  max_connection :: nat

datatype os_call =
    Nvs_flash_init
  | Tcpip_adapter_init
  | XEventGroupCreate
  | Esp_event_loop_init
  | Esp_wifi_init
  | Esp_wifi_set_mode_AP
  | Esp_wifi_set_config wifi_ap_config_t
  | Esp_wifi_start
  | Esp_wifi_connect
  | XEventGroupSetBits u32
  | XEventGroupClearBits u32
  | XQueueCreate nat nat
  | XTaskCreate string nat nat

datatype call =
    Gpio_config gpio_config_t
  | Gpio_set_level nat u32
  | Mcpwm_gpio_init mcpwm_unit_t mcpwm_io_signals_t nat
  | Mcpwm_init mcpwm_unit_t mcpwm_timer_t mcpwm_config_t
  | Mcpwm_set_duty_in_us mcpwm_unit_t mcpwm_timer_t mcpwm_generator_t u32
  | Task_delay nat
  | Os_call os_call

record hw =
  calls :: "call list"

definition emit :: "call \<Rightarrow> 'a hw_scheme \<Rightarrow> 'a hw_scheme" where
  "emit c s = s\<lparr>calls := c # calls s\<rparr>"

definition gpio_config :: "gpio_config_t \<Rightarrow> 'a hw_scheme \<Rightarrow> 'a hw_scheme" where
  "gpio_config conf = emit (Gpio_config conf)"

definition gpio_set_level :: "nat \<Rightarrow> u32 \<Rightarrow> 'a hw_scheme \<Rightarrow> 'a hw_scheme" where
  "gpio_set_level pin level = emit (Gpio_set_level pin level)"

definition vTaskDelay :: "nat \<Rightarrow> 'a hw_scheme \<Rightarrow> 'a hw_scheme" where
  "vTaskDelay ticks = emit (Task_delay ticks)"

text \<open>A run of \<open>gpio_set_level\<close> calls, in program order.\<close>

definition set_levels :: "(nat \<times> u32) list \<Rightarrow> 'a hw_scheme \<Rightarrow> 'a hw_scheme" where
  "set_levels ws = fold (\<lambda>(pin, level). gpio_set_level pin level) ws"

section \<open>Reading the log\<close>

fun pin_level :: "call list \<Rightarrow> nat \<Rightarrow> u32 option" where
  "pin_level [] q = None"
| "pin_level (Gpio_set_level p l # cs) q = (if p = q then Some l else pin_level cs q)"
| "pin_level (c # cs) q = pin_level cs q"

fun duty_us :: "call list \<Rightarrow> mcpwm_unit_t \<Rightarrow> u32 option" where
  "duty_us [] v = None"
| "duty_us (Mcpwm_set_duty_in_us u t g d # cs) v = (if u = v then Some d else duty_us cs v)"
| "duty_us (c # cs) v = duty_us cs v"

fun is_output :: "call list \<Rightarrow> nat \<Rightarrow> bool" where
  "is_output [] q \<longleftrightarrow> False"
| "is_output (Gpio_config conf # cs) q \<longleftrightarrow>
     (bit (pin_bit_mask conf) q \<and> mode conf = GPIO_MODE_OUTPUT) \<or> is_output cs q"
| "is_output (c # cs) q \<longleftrightarrow> is_output cs q"

datatype drive = Clockwise | CounterClockwise | Brake | Coast | Undriven

type_synonym motor = "nat \<times> nat"

definition drive_of :: "u32 option \<Rightarrow> u32 option \<Rightarrow> drive" where
  "drive_of in1 in2 =
     (case (in1, in2) of
        (Some a, Some b) \<Rightarrow>
          (if a \<noteq> 0 \<and> b = 0 then Clockwise
           else if a = 0 \<and> b \<noteq> 0 then CounterClockwise
           else if a \<noteq> 0 \<and> b \<noteq> 0 then Brake
           else Coast)
      | _ \<Rightarrow> Undriven)"

definition motor_drive :: "call list \<Rightarrow> motor \<Rightarrow> drive" where
  "motor_drive cs m = drive_of (pin_level cs (fst m)) (pin_level cs (snd m))"

definition pins_of :: "motor set \<Rightarrow> nat set" where
  "pins_of ms = fst ` ms \<union> snd ` ms"

section \<open>Facts on the log\<close>

lemma calls_emit [simp, call_log]: "calls (emit c s) = c # calls s"
  by (simp add: emit_def)

lemma more_emit [simp, call_log]: "hw.more (emit c s) = hw.more s"
  by (cases s) (simp add: emit_def)

lemma drive_of_simps [simp]:
  "drive_of (Some 1) (Some 0) = Clockwise"
  "drive_of (Some 0) (Some 1) = CounterClockwise"
  "drive_of (Some 1) (Some 1) = Brake"
  "drive_of (Some 0) (Some 0) = Coast"
  by (simp_all add: drive_of_def)

lemma calls_set_levels:
  "calls (set_levels ws s) = rev (map (\<lambda>(p, l). Gpio_set_level p l) ws) @ calls s"
  by (induction ws arbitrary: s) (auto simp: set_levels_def gpio_set_level_def)

lemma more_set_levels [simp, call_log]: "hw.more (set_levels ws s) = hw.more s"
  by (induction ws arbitrary: s) (auto simp: set_levels_def gpio_set_level_def)

lemma pin_level_writes:
  "pin_level (map (\<lambda>(p, l). Gpio_set_level p l) ws @ cs) q =
     (case map_of ws q of Some l \<Rightarrow> Some l | None \<Rightarrow> pin_level cs q)"
  by (induction ws) auto

lemma pin_level_set_levels [call_log]:
  "pin_level (calls (set_levels ws s)) q =
     (case map_of (rev ws) q of Some l \<Rightarrow> Some l | None \<Rightarrow> pin_level (calls s) q)"
  by (simp add: calls_set_levels rev_map pin_level_writes)

lemma duty_us_writes: "duty_us (map (\<lambda>(p, l). Gpio_set_level p l) ws @ cs) u = duty_us cs u"
  by (induction ws) auto

lemma duty_us_set_levels [simp, call_log]:
  "duty_us (calls (set_levels ws s)) u = duty_us (calls s) u"
  by (simp add: calls_set_levels rev_map duty_us_writes)

lemma is_output_writes: "is_output (map (\<lambda>(p, l). Gpio_set_level p l) ws @ cs) q = is_output cs q"
  by (induction ws) auto

lemma is_output_set_levels [simp, call_log]:
  "is_output (calls (set_levels ws s)) q = is_output (calls s) q"
  by (simp add: calls_set_levels rev_map is_output_writes)

text \<open>Masks built from \<open>1ULL << pin\<close> select the pins they name.\<close>

lemma bit_pin: "bit (push_bit a 1 :: u64) q \<longleftrightarrow> q < 64 \<and> q = a"
  by (auto simp: bit_simps)

lemma bit_pin_pair: "bit (or (push_bit a 1) (push_bit b 1) :: u64) q \<longleftrightarrow> q < 64 \<and> (q = a \<or> q = b)"
  by (auto simp: bit_simps)

lemma motor_drive_cong:
  assumes "pin_level cs (fst m) = pin_level cs' (fst m)"
    and "pin_level cs (snd m) = pin_level cs' (snd m)"
  shows "motor_drive cs m = motor_drive cs' m"
  using assms by (simp add: motor_drive_def)

section \<open>The contract of a motor operation\<close>

locale motor_op =
  fixes operate :: "'a hw_scheme \<Rightarrow> 'a hw_scheme"
    and motors :: "motor set"
    and result :: "motor \<Rightarrow> drive"
  assumes drives: "m \<in> motors \<Longrightarrow> motor_drive (calls (operate s)) m = result m"
    and keeps_pins: "q \<notin> pins_of motors \<Longrightarrow> pin_level (calls (operate s)) q = pin_level (calls s) q"
    and keeps_duty: "duty_us (calls (operate s)) u = duty_us (calls s) u"
    and keeps_more: "hw.more (operate s) = hw.more s"
begin

lemma keeps_drive:
  assumes "fst m \<notin> pins_of motors" and "snd m \<notin> pins_of motors"
  shows "motor_drive (calls (operate s)) m = motor_drive (calls s) m"
  using assms by (intro motor_drive_cong keeps_pins)

lemma repeat_drives: "m \<in> motors \<Longrightarrow> motor_drive (calls ((operate ^^ Suc n) s)) m = result m"
  by (simp add: drives)

end

locale motor_op_pair =
  first: motor_op opA motorsA resultA + second: motor_op opB motorsB resultB
  for opA :: "'a hw_scheme \<Rightarrow> 'a hw_scheme" and motorsA resultA
    and opB :: "'a hw_scheme \<Rightarrow> 'a hw_scheme" and motorsB resultB
begin

text \<open>On motors both drive, the later one decides.\<close>

lemma last_one_wins:
  "m \<in> motorsB \<Longrightarrow> motor_drive (calls (opB (opA s))) m = motor_drive (calls (opB s)) m"
  by (simp add: second.drives)

text \<open>On separate motors the order does not matter.\<close>

lemma separate_commute:
  assumes "pins_of motorsA \<inter> pins_of motorsB = {}"
    and m: "m \<in> motorsA \<union> motorsB"
  shows "motor_drive (calls (opB (opA s))) m = motor_drive (calls (opA (opB s))) m"
proof -
  have pins: "fst m \<in> pins_of ms \<and> snd m \<in> pins_of ms" if "m \<in> ms" for ms
    using that by (auto simp: pins_of_def)
  show "motor_drive (calls (opB (opA s))) m = motor_drive (calls (opA (opB s))) m"
  proof (cases "m \<in> motorsA")
    case True
    with assms pins [OF True] have "fst m \<notin> pins_of motorsB" "snd m \<notin> pins_of motorsB" by auto
    with True show ?thesis by (simp add: second.keeps_drive first.drives)
  next
    case False
    with m have mB: "m \<in> motorsB" by simp
    with assms pins [OF mB] have "fst m \<notin> pins_of motorsA" "snd m \<notin> pins_of motorsA" by auto
    with mB show ?thesis by (simp add: first.keeps_drive second.drives)
  qed
qed

text \<open>On every other pin the two together change nothing.\<close>

lemma both_keep_pins:
  "q \<notin> pins_of motorsA \<union> pins_of motorsB \<Longrightarrow> pin_level (calls (opB (opA s))) q = pin_level (calls s) q"
  by (simp add: first.keeps_pins second.keeps_pins)

end

text \<open>
  How the contract is discharged: an operation that is a run of level writes meets it when the
  table of its writes gives every motor its drive and touches no other pin.
\<close>

lemma drive_of_not_Undriven:
  "drive_of x y \<noteq> Undriven \<Longrightarrow> \<exists>a b. x = Some a \<and> y = Some b"
  by (auto simp: drive_of_def split: option.splits)

lemma motor_op_set_levels:
  assumes op: "\<And>s. f s = set_levels ws s"
    and table: "\<And>m. m \<in> ms \<Longrightarrow>
      drive_of (map_of (rev ws) (fst m)) (map_of (rev ws) (snd m)) = res m"
    and driven: "\<And>m. m \<in> ms \<Longrightarrow> res m \<noteq> Undriven"
    and pins: "fst ` set ws \<subseteq> pins_of ms"
  shows "motor_op f ms res"
proof unfold_locales
  fix m s assume m: "m \<in> ms"
  obtain a b where "map_of (rev ws) (fst m) = Some a" "map_of (rev ws) (snd m) = Some b"
    using drive_of_not_Undriven table [OF m] driven [OF m] by metis
  with table [OF m] show "motor_drive (calls (f s)) m = res m"
    by (simp add: motor_drive_def op pin_level_set_levels)
next
  fix q s assume "q \<notin> pins_of ms"
  with pins have "map_of (rev ws) q = None" by (auto simp: map_of_rev_eq_None)
  then show "pin_level (calls (f s)) q = pin_level (calls s) q"
    by (simp add: op pin_level_set_levels)
qed (simp_all add: op)

end
