(* ===== verification/Chassis.thy ===== *)
theory Chassis
  imports Platform
begin

text \<open>
  The chassis component: main/Chassis/src/Chassis.c and its header.  Four motors on two L298N
  bridges, eight pins; every motion is one function that writes all eight.  The layout is the one
  of the header's drawing (Chassis.h:58-63) and of the comments in the motion functions: C front
  left, D front right, B rear left, A rear right.
\<close>

section \<open>Pins and configuration\<close>

definition motorflagState :: u8 where
  "motorflagState = 0"

definition GPIO_OUTPUT_A_IN1 :: nat where "GPIO_OUTPUT_A_IN1 = 16"
definition GPIO_OUTPUT_A_IN2 :: nat where "GPIO_OUTPUT_A_IN2 = 17"
definition GPIO_OUTPUT_A_PIN_SEL :: u64 where
  "GPIO_OUTPUT_A_PIN_SEL = or (push_bit GPIO_OUTPUT_A_IN1 1) (push_bit GPIO_OUTPUT_A_IN2 1)"
definition GPIO_OUTPUT_B_IN1 :: nat where "GPIO_OUTPUT_B_IN1 = 32"
definition GPIO_OUTPUT_B_IN2 :: nat where "GPIO_OUTPUT_B_IN2 = 33"
definition GPIO_OUTPUT_B_PIN_SEL :: u64 where
  "GPIO_OUTPUT_B_PIN_SEL = or (push_bit GPIO_OUTPUT_B_IN1 1) (push_bit GPIO_OUTPUT_B_IN2 1)"
definition GPIO_OUTPUT_C_IN1 :: nat where "GPIO_OUTPUT_C_IN1 = 13"
definition GPIO_OUTPUT_C_IN2 :: nat where "GPIO_OUTPUT_C_IN2 = 15"
definition GPIO_OUTPUT_C_PIN_SEL :: u64 where
  "GPIO_OUTPUT_C_PIN_SEL = or (push_bit GPIO_OUTPUT_C_IN1 1) (push_bit GPIO_OUTPUT_C_IN2 1)"
definition GPIO_OUTPUT_D_IN1 :: nat where "GPIO_OUTPUT_D_IN1 = 0"
definition GPIO_OUTPUT_D_IN2 :: nat where "GPIO_OUTPUT_D_IN2 = 2"
definition GPIO_OUTPUT_D_PIN_SEL :: u64 where
  "GPIO_OUTPUT_D_PIN_SEL = or (push_bit GPIO_OUTPUT_D_IN1 1) (push_bit GPIO_OUTPUT_D_IN2 1)"

definition motorA_conf :: gpio_config_t where
  "motorA_conf = \<lparr>pin_bit_mask = GPIO_OUTPUT_A_PIN_SEL, mode = GPIO_MODE_OUTPUT,
     pull_up_en = 0, pull_down_en = 0, intr_type = GPIO_INTR_DISABLE\<rparr>"
definition motorB_conf :: gpio_config_t where
  "motorB_conf = \<lparr>pin_bit_mask = GPIO_OUTPUT_B_PIN_SEL, mode = GPIO_MODE_OUTPUT,
     pull_up_en = 0, pull_down_en = 0, intr_type = GPIO_INTR_DISABLE\<rparr>"
definition motorC_conf :: gpio_config_t where
  "motorC_conf = \<lparr>pin_bit_mask = GPIO_OUTPUT_C_PIN_SEL, mode = GPIO_MODE_OUTPUT,
     pull_up_en = 0, pull_down_en = 0, intr_type = GPIO_INTR_DISABLE\<rparr>"
definition motorD_conf :: gpio_config_t where
  "motorD_conf = \<lparr>pin_bit_mask = GPIO_OUTPUT_D_PIN_SEL, mode = GPIO_MODE_OUTPUT,
     pull_up_en = 0, pull_down_en = 0, intr_type = GPIO_INTR_DISABLE\<rparr>"

section \<open>Operations\<close>

text \<open>The two levels the functions write: \<open>motorflagState\<close> and \<open>!motorflagState\<close>.\<close>

abbreviation (input) flag :: u32 where "flag \<equiv> ucast motorflagState"
abbreviation (input) nflag :: u32 where "nflag \<equiv> c_not motorflagState"

definition Chassis_Init :: "'a hw_scheme \<Rightarrow> u8 \<times> 'a hw_scheme" where
  "Chassis_Init s =
     (0, gpio_config motorD_conf (gpio_config motorC_conf
          (gpio_config motorB_conf (gpio_config motorA_conf s))))"

definition Chassis_En :: "'a hw_scheme \<Rightarrow> u8 \<times> 'a hw_scheme" where
  "Chassis_En s = (0, set_levels
     [(GPIO_OUTPUT_A_IN1, nflag), (GPIO_OUTPUT_A_IN2, nflag),
      (GPIO_OUTPUT_B_IN1, nflag), (GPIO_OUTPUT_B_IN2, nflag),
      (GPIO_OUTPUT_C_IN1, nflag), (GPIO_OUTPUT_C_IN2, nflag),
      (GPIO_OUTPUT_D_IN1, nflag), (GPIO_OUTPUT_D_IN2, nflag)] s)"

definition Chassis_Forward :: "'a hw_scheme \<Rightarrow> 'a hw_scheme" where
  "Chassis_Forward s = set_levels
     [(GPIO_OUTPUT_C_IN1, nflag), (GPIO_OUTPUT_C_IN2, flag),
      (GPIO_OUTPUT_D_IN1, nflag), (GPIO_OUTPUT_D_IN2, flag),
      (GPIO_OUTPUT_A_IN1, flag), (GPIO_OUTPUT_A_IN2, nflag),
      (GPIO_OUTPUT_B_IN1, flag), (GPIO_OUTPUT_B_IN2, nflag)] s"

definition Chassis_Backward :: "'a hw_scheme \<Rightarrow> 'a hw_scheme" where
  "Chassis_Backward s = set_levels
     [(GPIO_OUTPUT_A_IN1, nflag), (GPIO_OUTPUT_A_IN2, flag),
      (GPIO_OUTPUT_B_IN1, nflag), (GPIO_OUTPUT_B_IN2, flag),
      (GPIO_OUTPUT_C_IN1, flag), (GPIO_OUTPUT_C_IN2, nflag),
      (GPIO_OUTPUT_D_IN1, flag), (GPIO_OUTPUT_D_IN2, nflag)] s"

definition Chassis_Left :: "'a hw_scheme \<Rightarrow> 'a hw_scheme" where
  "Chassis_Left s = set_levels
     [(GPIO_OUTPUT_B_IN1, flag), (GPIO_OUTPUT_B_IN2, nflag),
      (GPIO_OUTPUT_C_IN1, flag), (GPIO_OUTPUT_C_IN2, nflag),
      (GPIO_OUTPUT_D_IN1, nflag), (GPIO_OUTPUT_D_IN2, flag),
      (GPIO_OUTPUT_A_IN1, nflag), (GPIO_OUTPUT_A_IN2, flag)] s"

definition Chassis_Right :: "'a hw_scheme \<Rightarrow> 'a hw_scheme" where
  "Chassis_Right s = set_levels
     [(GPIO_OUTPUT_A_IN1, flag), (GPIO_OUTPUT_A_IN2, nflag),
      (GPIO_OUTPUT_D_IN1, flag), (GPIO_OUTPUT_D_IN2, nflag),
      (GPIO_OUTPUT_B_IN1, nflag), (GPIO_OUTPUT_B_IN2, flag),
      (GPIO_OUTPUT_C_IN1, nflag), (GPIO_OUTPUT_C_IN2, flag)] s"

definition Chassis_Left_revolve :: "'a hw_scheme \<Rightarrow> 'a hw_scheme" where
  "Chassis_Left_revolve s = set_levels
     [(GPIO_OUTPUT_A_IN1, flag), (GPIO_OUTPUT_A_IN2, nflag),
      (GPIO_OUTPUT_B_IN1, nflag), (GPIO_OUTPUT_B_IN2, flag),
      (GPIO_OUTPUT_C_IN1, flag), (GPIO_OUTPUT_C_IN2, nflag),
      (GPIO_OUTPUT_D_IN1, nflag), (GPIO_OUTPUT_D_IN2, flag)] s"

definition Chassis_Right_revolve :: "'a hw_scheme \<Rightarrow> 'a hw_scheme" where
  "Chassis_Right_revolve s = set_levels
     [(GPIO_OUTPUT_A_IN1, nflag), (GPIO_OUTPUT_A_IN2, flag),
      (GPIO_OUTPUT_B_IN1, flag), (GPIO_OUTPUT_B_IN2, nflag),
      (GPIO_OUTPUT_C_IN1, nflag), (GPIO_OUTPUT_C_IN2, flag),
      (GPIO_OUTPUT_D_IN1, flag), (GPIO_OUTPUT_D_IN2, nflag)] s"

definition Motor_Test :: "'a hw_scheme \<Rightarrow> 'a hw_scheme" where
  "Motor_Test s = set_levels [(GPIO_OUTPUT_A_IN1, flag), (GPIO_OUTPUT_A_IN2, nflag)] s"

section \<open>What a motion is\<close>

datatype wheel = A | B | C | D

definition wheel_motor :: "wheel \<Rightarrow> motor" where
  "wheel_motor w =
     (case w of
        A \<Rightarrow> (GPIO_OUTPUT_A_IN1, GPIO_OUTPUT_A_IN2)
      | B \<Rightarrow> (GPIO_OUTPUT_B_IN1, GPIO_OUTPUT_B_IN2)
      | C \<Rightarrow> (GPIO_OUTPUT_C_IN1, GPIO_OUTPUT_C_IN2)
      | D \<Rightarrow> (GPIO_OUTPUT_D_IN1, GPIO_OUTPUT_D_IN2))"

definition wheel_drive :: "'a hw_scheme \<Rightarrow> wheel \<Rightarrow> drive" where
  "wheel_drive s w = motor_drive (calls s) (wheel_motor w)"

datatype motion = Stop | Forward | Backward | Left | Right | Left_revolve | Right_revolve

text \<open>
  The abstract specification.  A motion is a body velocity: ahead, to the left, and turning left.
  The wheel law of a four-wheel omnidirectional base gives each wheel its sense of rotation, with
  \<open>front\<close> and \<open>left\<close> the signs of the wheel's place.  Rolling ahead is clockwise for a front motor
  and counter-clockwise for a rear motor, which faces the other way.
\<close>

fun velocity :: "motion \<Rightarrow> int \<times> int \<times> int" where
  "velocity Stop = (0, 0, 0)"
| "velocity Forward = (1, 0, 0)"
| "velocity Backward = (- 1, 0, 0)"
| "velocity Left = (0, 1, 0)"
| "velocity Right = (0, - 1, 0)"
| "velocity Left_revolve = (0, 0, 1)"
| "velocity Right_revolve = (0, 0, - 1)"

fun front :: "wheel \<Rightarrow> int" where
  "front C = 1" | "front D = 1" | "front A = - 1" | "front B = - 1"

fun left :: "wheel \<Rightarrow> int" where
  "left B = 1" | "left C = 1" | "left A = - 1" | "left D = - 1"

definition rolling :: "motion \<Rightarrow> wheel \<Rightarrow> int" where
  "rolling m w = (case velocity m of (vx, vy, omega) \<Rightarrow>
     vx - left w * front w * vy - left w * omega)"

definition drive_spec :: "motion \<Rightarrow> wheel \<Rightarrow> drive" where
  "drive_spec m w =
     (let r = front w * rolling m w in
      if r > 0 then Clockwise else if r < 0 then CounterClockwise else Brake)"

text \<open>The function of Chassis.c that carries out a motion.\<close>

fun chassis_op :: "motion \<Rightarrow> 'a hw_scheme \<Rightarrow> 'a hw_scheme" where
  "chassis_op Stop s = snd (Chassis_En s)"
| "chassis_op Forward s = Chassis_Forward s"
| "chassis_op Backward s = Chassis_Backward s"
| "chassis_op Left s = Chassis_Left s"
| "chassis_op Right s = Chassis_Right s"
| "chassis_op Left_revolve s = Chassis_Left_revolve s"
| "chassis_op Right_revolve s = Chassis_Right_revolve s"

definition wheel_of :: "motor \<Rightarrow> wheel" where
  "wheel_of m = (if m = wheel_motor A then A else if m = wheel_motor B then B
     else if m = wheel_motor C then C else D)"

definition chassis_motors :: "motor set" where
  "chassis_motors = range wheel_motor"

instantiation wheel :: enum
begin

definition enum_wheel :: "wheel list" where
  "enum_wheel = [A, B, C, D]"

definition enum_all_wheel :: "(wheel \<Rightarrow> bool) \<Rightarrow> bool" where
  "enum_all_wheel P \<longleftrightarrow> P A \<and> P B \<and> P C \<and> P D"

definition enum_ex_wheel :: "(wheel \<Rightarrow> bool) \<Rightarrow> bool" where
  "enum_ex_wheel P \<longleftrightarrow> P A \<or> P B \<or> P C \<or> P D"

instance
proof
  have all: "w \<in> {A, B, C, D}" for w :: wheel by (cases w) simp_all
  show "(UNIV :: wheel set) = set enum_class.enum" using all by (auto simp: enum_wheel_def)
  show "distinct (enum_class.enum :: wheel list)" by (simp add: enum_wheel_def)
  show "enum_class.enum_all P \<longleftrightarrow> Ball UNIV P" "enum_class.enum_ex P \<longleftrightarrow> Bex UNIV P"
    for P :: "wheel \<Rightarrow> bool"
    using all by (auto simp: enum_all_wheel_def enum_ex_wheel_def) (metis (full_types) wheel.exhaust)+
qed

end

lemma all_wheels: "(\<forall>w. P w) \<longleftrightarrow> P A \<and> P B \<and> P C \<and> P D"
  by (metis wheel.exhaust)

section \<open>The contract holds\<close>

lemmas chassis_pins [pin_names] =
  GPIO_OUTPUT_A_IN1_def GPIO_OUTPUT_A_IN2_def GPIO_OUTPUT_B_IN1_def GPIO_OUTPUT_B_IN2_def
  GPIO_OUTPUT_C_IN1_def GPIO_OUTPUT_C_IN2_def GPIO_OUTPUT_D_IN1_def GPIO_OUTPUT_D_IN2_def

lemma chassis_levels [simp]: "flag = 0" "nflag = 1"
  by (simp_all add: motorflagState_def)

lemma wheel_motor_simps [simp]:
  "wheel_motor A = (16, 17)" "wheel_motor B = (32, 33)"
  "wheel_motor C = (13, 15)" "wheel_motor D = (0, 2)"
  by (simp_all add: wheel_motor_def pin_names)

lemma wheel_of_wheel_motor [simp]: "wheel_of (wheel_motor w) = w"
  by (cases w) (simp_all add: wheel_of_def)

lemma pins_of_chassis_motors: "pins_of chassis_motors = {16, 17, 32, 33, 13, 15, 0, 2}"
  by (auto simp: pins_of_def chassis_motors_def UNIV_enum enum_wheel_def)

lemmas chassis_ops =
  Chassis_En_def Chassis_Forward_def Chassis_Backward_def Chassis_Left_def Chassis_Right_def
  Chassis_Left_revolve_def Chassis_Right_revolve_def

text \<open>Every motion function meets the contract of a motor operation, with the specified drives.\<close>

lemma drive_spec_driven: "drive_spec mo w \<noteq> Undriven"
  by (simp add: drive_spec_def Let_def)

lemmas chassis_eval = pin_names drive_spec_def rolling_def

text \<open>
  Every motion function is a run of level writes: a table that gives each wheel its drive, on the eight
  bridge inputs only, with no level but 0 and 1.
\<close>

definition chassis_table :: "motion \<Rightarrow> (nat \<times> u32) list \<Rightarrow> bool" where
  "chassis_table mo ws \<longleftrightarrow>
     (\<forall>w. drive_of (map_of (rev ws) (fst (wheel_motor w))) (map_of (rev ws) (snd (wheel_motor w)))
        = drive_spec mo w)
     \<and> list_all (\<lambda>(p, l). p \<in> {16, 17, 32, 33, 13, 15, 0, 2} \<and> (l = 0 \<or> l = 1)) ws"

lemma chassis_op_writes:
  "\<exists>ws. (\<forall>s :: 'a hw_scheme. chassis_op mo s = set_levels ws s) \<and> chassis_table mo ws"
  by (cases mo; simp only: chassis_op.simps chassis_ops snd_conv;
      intro exI conjI, intro allI, rule refl)
    (simp_all add: chassis_table_def all_wheels chassis_eval)

lemma chassis_op_contract:
  "motor_op (chassis_op mo) chassis_motors (\<lambda>d. drive_spec mo (wheel_of d))"
proof -
  obtain ws where op: "\<And>s :: 'a hw_scheme. chassis_op mo s = set_levels ws s"
    and table: "chassis_table mo ws" using chassis_op_writes by blast
  show "motor_op (chassis_op mo :: 'a hw_scheme \<Rightarrow> _) chassis_motors (\<lambda>d. drive_spec mo (wheel_of d))"
  proof (rule motor_op_set_levels [OF op])
    fix d assume "d \<in> chassis_motors"
    with table show "drive_of (map_of (rev ws) (fst d)) (map_of (rev ws) (snd d))
        = drive_spec mo (wheel_of d)"
      by (auto simp: chassis_motors_def chassis_table_def simp del: wheel_motor_simps)
  qed (use table in \<open>auto simp: drive_spec_driven pins_of_chassis_motors chassis_table_def list_all_iff\<close>)
qed

interpretation chassis: motor_op "chassis_op mo" chassis_motors "\<lambda>d. drive_spec mo (wheel_of d)"
  for mo
  by (rule chassis_op_contract)

interpretation chassis_seq:
  motor_op_pair "chassis_op mo" chassis_motors "\<lambda>d. drive_spec mo (wheel_of d)"
    "chassis_op mo'" chassis_motors "\<lambda>d. drive_spec mo' (wheel_of d)"
  for mo mo'
  by unfold_locales

lemma wheel_motor_chassis [simp]: "wheel_motor w \<in> chassis_motors"
  by (simp add: chassis_motors_def)

lemma wheel_drive_chassis_op [simp]: "wheel_drive (chassis_op mo s) w = drive_spec mo w"
  by (simp add: wheel_drive_def chassis.drives del: wheel_motor_simps)

lemma wheel_drive_cong: "(\<And>q. q \<in> {16, 17, 32, 33, 13, 15, 0, 2} \<Longrightarrow>
    pin_level (calls s) q = pin_level (calls t) q) \<Longrightarrow> wheel_drive s w = wheel_drive t w"
  by (cases w) (simp_all add: wheel_drive_def motor_drive_def)

section \<open>Properties\<close>

text \<open>
  C9: every motion function of Chassis.c, from any earlier pin state, leaves the four wheels in
  the drives that the wheel law of an omnidirectional base gives for the motion's body velocity.
\<close>

theorem chassis_motion_correct: "wheel_drive (chassis_op mo s) w = drive_spec mo w"
  by (rule wheel_drive_chassis_op)

fun opposite :: "motion \<Rightarrow> motion" where
  "opposite Stop = Stop"
| "opposite Forward = Backward"
| "opposite Backward = Forward"
| "opposite Left = Right"
| "opposite Right = Left"
| "opposite Left_revolve = Right_revolve"
| "opposite Right_revolve = Left_revolve"

fun reversed :: "drive \<Rightarrow> drive" where
  "reversed Clockwise = CounterClockwise"
| "reversed CounterClockwise = Clockwise"
| "reversed d = d"

lemma rolling_opposite: "rolling (opposite mo) w = - rolling mo w"
  by (cases mo) (simp_all add: rolling_def)

lemma drive_spec_opposite: "drive_spec (opposite mo) w = reversed (drive_spec mo w)"
  by (simp add: drive_spec_def rolling_opposite Let_def)

text \<open>
  A chassis function moves nothing but the chassis.  The level of every pin that is not one
  of the eight bridge inputs, the servo pulses and the caller's own state are as before.
\<close>

lemma chassis_frame:
  assumes "q \<notin> {16, 17, 32, 33, 13, 15, 0, 2}"
  shows "pin_level (calls (chassis_op mo s)) q = pin_level (calls s) q
    \<and> duty_us (calls (chassis_op mo s)) u = duty_us (calls s) u
    \<and> hw.more (chassis_op mo s) = hw.more s"
  using assms
  by (simp add: chassis.keeps_pins chassis.keeps_duty chassis.keeps_more pins_of_chassis_motors)

lemma chassis_frame_witness:
  "(26::nat) \<notin> {16, 17, 32, 33, 13, 15, 0, 2} \<and>
   pin_level (calls (chassis_op Forward \<lparr>calls = [Gpio_set_level 26 1]\<rparr>)) 26 = Some 1"
  using chassis_frame [of 26 Forward "\<lparr>calls = [Gpio_set_level 26 1]\<rparr>" MCPWM_UNIT_0] by simp

lemma chassis_masks:
  "bit GPIO_OUTPUT_A_PIN_SEL q \<longleftrightarrow> q \<in> {16, 17}"
  "bit GPIO_OUTPUT_B_PIN_SEL q \<longleftrightarrow> q \<in> {32, 33}"
  "bit GPIO_OUTPUT_C_PIN_SEL q \<longleftrightarrow> q \<in> {13, 15}"
  "bit GPIO_OUTPUT_D_PIN_SEL q \<longleftrightarrow> q \<in> {0, 2}"
  unfolding GPIO_OUTPUT_A_PIN_SEL_def GPIO_OUTPUT_B_PIN_SEL_def GPIO_OUTPUT_C_PIN_SEL_def
    GPIO_OUTPUT_D_PIN_SEL_def bit_pin_pair
  by (auto simp: pin_names)

text \<open>
  \<open>Chassis_Init\<close> makes exactly the eight bridge inputs outputs, and commands no level.
\<close>

lemma Chassis_Init_outputs:
  "(is_output (calls (snd (Chassis_Init s))) q \<longleftrightarrow>
      q \<in> {16, 17, 32, 33, 13, 15, 0, 2} \<or> is_output (calls s) q)
   \<and> pin_level (calls (snd (Chassis_Init s))) q = pin_level (calls s) q
   \<and> fst (Chassis_Init s) = 0"
  by (auto simp: Chassis_Init_def gpio_config_def motorA_conf_def motorB_conf_def motorC_conf_def
      motorD_conf_def chassis_masks)

text \<open>
  The motions come in opposite pairs.  The function for the opposite motion turns every wheel
  the other way round, and stopping is its own opposite.
\<close>

lemma chassis_opposite:
  "wheel_drive (chassis_op (opposite mo) s) w = reversed (wheel_drive (chassis_op mo s') w)"
  by (simp add: drive_spec_opposite)

end
