(* ===== verification/Fire.thy ===== *)
theory Fire
  imports Platform
begin

text \<open>
  The launcher component: main/FIRE/src/Fire.c and its header.  Two motors, the feeder
  (Fire_A: \<open>Fire_Pluck_Run\<close>, \<open>Stop_Fire_Pluck\<close>) and the friction wheels (Fire_B:
  \<open>Fire_friction_wheel\<close>, \<open>Stop_Fire_friction\<close>), each a pair of pins.
\<close>

section \<open>Pins, configuration and operations\<close>

definition FireFlagState :: u8 where
  "FireFlagState = 0"

definition GPIO_FIRE_A_IN1 :: nat where "GPIO_FIRE_A_IN1 = 18"
definition GPIO_FIRE_A_IN2 :: nat where "GPIO_FIRE_A_IN2 = 5"
definition GPIO_FIRE_A_PIN_SEL :: u64 where
  "GPIO_FIRE_A_PIN_SEL = or (push_bit GPIO_FIRE_A_IN1 1) (push_bit GPIO_FIRE_A_IN2 1)"
definition GPIO_FIRE_B_IN1 :: nat where "GPIO_FIRE_B_IN1 = 26"
definition GPIO_FIRE_B_IN2 :: nat where "GPIO_FIRE_B_IN2 = 25"
definition GPIO_FIRE_B_PIN_SEL :: u64 where
  "GPIO_FIRE_B_PIN_SEL = or (push_bit GPIO_FIRE_B_IN1 1) (push_bit GPIO_FIRE_B_IN2 1)"

definition Fire_A_config :: gpio_config_t where
  "Fire_A_config = \<lparr>pin_bit_mask = GPIO_FIRE_A_PIN_SEL, mode = GPIO_MODE_OUTPUT,
     pull_up_en = 0, pull_down_en = 0, intr_type = GPIO_INTR_DISABLE\<rparr>"
definition Fire_B_config :: gpio_config_t where
  "Fire_B_config = \<lparr>pin_bit_mask = GPIO_FIRE_B_PIN_SEL, mode = GPIO_MODE_OUTPUT,
     pull_up_en = 0, pull_down_en = 0, intr_type = GPIO_INTR_DISABLE\<rparr>"

definition FIRE_Init :: "'a hw_scheme \<Rightarrow> 'a hw_scheme" where
  "FIRE_Init s = gpio_config Fire_B_config (gpio_config Fire_A_config s)"

definition Fire_friction_wheel :: "'a hw_scheme \<Rightarrow> 'a hw_scheme" where
  "Fire_friction_wheel s = set_levels
     [(GPIO_FIRE_B_IN1, c_not FireFlagState), (GPIO_FIRE_B_IN2, ucast FireFlagState)] s"

definition Fire_Pluck_Run :: "'a hw_scheme \<Rightarrow> 'a hw_scheme" where
  "Fire_Pluck_Run s = set_levels
     [(GPIO_FIRE_A_IN1, ucast FireFlagState), (GPIO_FIRE_A_IN2, c_not FireFlagState)] s"

definition Stop_Fire_friction :: "'a hw_scheme \<Rightarrow> 'a hw_scheme" where
  "Stop_Fire_friction s = set_levels
     [(GPIO_FIRE_B_IN1, c_not FireFlagState), (GPIO_FIRE_B_IN2, c_not FireFlagState)] s"

definition Stop_Fire_Pluck :: "'a hw_scheme \<Rightarrow> 'a hw_scheme" where
  "Stop_Fire_Pluck s = set_levels
     [(GPIO_FIRE_A_IN1, c_not FireFlagState), (GPIO_FIRE_A_IN2, c_not FireFlagState)] s"

definition feeder :: motor where
  "feeder = (GPIO_FIRE_A_IN1, GPIO_FIRE_A_IN2)"

definition friction :: motor where
  "friction = (GPIO_FIRE_B_IN1, GPIO_FIRE_B_IN2)"

section \<open>The contract holds\<close>

lemmas fire_pins [pin_names] =
  GPIO_FIRE_A_IN1_def GPIO_FIRE_A_IN2_def GPIO_FIRE_B_IN1_def GPIO_FIRE_B_IN2_def

lemmas fire_eval = pin_names feeder_def friction_def FireFlagState_def pins_of_def

interpretation fric_on: motor_op Fire_friction_wheel "{friction}" "\<lambda>_. Clockwise"
  by (rule motor_op_set_levels [OF Fire_friction_wheel_def]) (simp_all add: fire_eval)

interpretation fric_off: motor_op Stop_Fire_friction "{friction}" "\<lambda>_. Brake"
  by (rule motor_op_set_levels [OF Stop_Fire_friction_def]) (simp_all add: fire_eval)

interpretation feed_on: motor_op Fire_Pluck_Run "{feeder}" "\<lambda>_. CounterClockwise"
  by (rule motor_op_set_levels [OF Fire_Pluck_Run_def]) (simp_all add: fire_eval)

interpretation feed_off: motor_op Stop_Fire_Pluck "{feeder}" "\<lambda>_. Brake"
  by (rule motor_op_set_levels [OF Stop_Fire_Pluck_def]) (simp_all add: fire_eval)

interpretation fric_feed:
  motor_op_pair Fire_friction_wheel "{friction}" "\<lambda>_. Clockwise"
    Fire_Pluck_Run "{feeder}" "\<lambda>_. CounterClockwise"
  by unfold_locales

interpretation fric_on_off:
  motor_op_pair Fire_friction_wheel "{friction}" "\<lambda>_. Clockwise"
    Stop_Fire_friction "{friction}" "\<lambda>_. Brake"
  by unfold_locales

interpretation feed_on_off:
  motor_op_pair Fire_Pluck_Run "{feeder}" "\<lambda>_. CounterClockwise"
    Stop_Fire_Pluck "{feeder}" "\<lambda>_. Brake"
  by unfold_locales

text \<open>The four operations as launcher commands, and the state they are meant to leave.\<close>

datatype fire_cmd = FrictionRun | FrictionStop | PluckRun | PluckStop

fun fire_op :: "fire_cmd \<Rightarrow> 'a hw_scheme \<Rightarrow> 'a hw_scheme" where
  "fire_op FrictionRun s = Fire_friction_wheel s"
| "fire_op FrictionStop s = Stop_Fire_friction s"
| "fire_op PluckRun s = Fire_Pluck_Run s"
| "fire_op PluckStop s = Stop_Fire_Pluck s"

text \<open>
  The abstract launcher: the drives of the friction wheels and of the feeder.
\<close>

fun launcher_step :: "fire_cmd \<Rightarrow> drive \<times> drive \<Rightarrow> drive \<times> drive" where
  "launcher_step FrictionRun (fr, fe) = (Clockwise, fe)"
| "launcher_step FrictionStop (fr, fe) = (Brake, fe)"
| "launcher_step PluckRun (fr, fe) = (fr, CounterClockwise)"
| "launcher_step PluckStop (fr, fe) = (fr, Brake)"

definition launcher :: "'a hw_scheme \<Rightarrow> drive \<times> drive" where
  "launcher s = (motor_drive (calls s) friction, motor_drive (calls s) feeder)"

lemma fire_separate:
  "fst friction \<notin> pins_of {feeder}" "snd friction \<notin> pins_of {feeder}"
  "fst feeder \<notin> pins_of {friction}" "snd feeder \<notin> pins_of {friction}"
  by (simp_all add: fire_eval)

lemma launcher_simulation: "launcher (fire_op c s) = launcher_step c (launcher s)"
  by (cases c) (simp_all add: launcher_def fric_on.drives fric_off.drives feed_on.drives
      feed_off.drives fric_on.keeps_drive fric_off.keeps_drive feed_on.keeps_drive
      feed_off.keeps_drive fire_separate)

lemma fire_op_keeps:
  "q \<notin> {18, 5, 26, 25} \<Longrightarrow> pin_level (calls (fire_op c s)) q = pin_level (calls s) q"
  "duty_us (calls (fire_op c s)) u = duty_us (calls s) u"
  "hw.more (fire_op c s) = hw.more s"
  by (cases c; simp add: fric_on.keeps_pins fric_off.keeps_pins feed_on.keeps_pins
      feed_off.keeps_pins fric_on.keeps_duty fric_off.keeps_duty feed_on.keeps_duty
      feed_off.keeps_duty fric_on.keeps_more fric_off.keeps_more feed_on.keeps_more
      feed_off.keeps_more fire_eval)+

section \<open>Properties\<close>

text \<open>
  Fire.c refines the abstract launcher on every sequence of commands: the friction wheels and
  the feeder are two independent motors, each in the state its own last command gave it.
\<close>

lemma launcher_refinement: "launcher (fold fire_op cs s) = fold launcher_step cs (launcher s)"
  by (induction cs arbitrary: s) (simp_all add: launcher_simulation)

text \<open>
  Starting the friction wheels and starting the feeder commute: both orders leave both motors
  running.
\<close>

lemma fire_start_order:
  "launcher (Fire_Pluck_Run (Fire_friction_wheel s))
     = launcher (Fire_friction_wheel (Fire_Pluck_Run s))
   \<and> launcher (Fire_Pluck_Run (Fire_friction_wheel s)) = (Clockwise, CounterClockwise)"
proof -
  have sep: "pins_of {friction} \<inter> pins_of {feeder} = {}" by (simp add: fire_eval)
  have "motor_drive (calls (Fire_Pluck_Run (Fire_friction_wheel s))) m
      = motor_drive (calls (Fire_friction_wheel (Fire_Pluck_Run s))) m"
    if "m \<in> {friction} \<union> {feeder}" for m
    using fric_feed.separate_commute [OF sep that] .
  then show ?thesis
    by (simp add: launcher_def feed_on.drives feed_on.keeps_drive fric_on.drives
        fric_on.keeps_drive fire_separate)
qed

end
