(* ===== verification/Led.thy ===== *)
theory Led
  imports Platform
begin

text \<open>
  The on-board LED component: main/LED/src/MyLed.c and its header.  It is compiled but no longer
  called (main.c keeps its calls as comments).
\<close>

section \<open>Definitions\<close>

definition MyLED_flagState :: u8 where
  "MyLED_flagState = 0"

definition GPIO_OUTPUT_MY_LED :: nat where
  "GPIO_OUTPUT_MY_LED = 22"

text \<open>The mask field is given the pin number itself, not the bit of that pin.\<close>

definition MYLED_conf :: gpio_config_t where
  "MYLED_conf = \<lparr>pin_bit_mask = of_nat GPIO_OUTPUT_MY_LED, mode = GPIO_MODE_OUTPUT,
     pull_up_en = 0, pull_down_en = 0, intr_type = GPIO_INTR_DISABLE\<rparr>"

definition MyLED_Init :: "'a hw_scheme \<Rightarrow> 'a hw_scheme" where
  "MyLED_Init s = gpio_config MYLED_conf s"

definition MyLED_ON :: "'a hw_scheme \<Rightarrow> 'a hw_scheme" where
  "MyLED_ON s = gpio_set_level GPIO_OUTPUT_MY_LED (c_not MyLED_flagState) s"

definition MyLED_Off :: "'a hw_scheme \<Rightarrow> 'a hw_scheme" where
  "MyLED_Off s = gpio_set_level GPIO_OUTPUT_MY_LED (ucast MyLED_flagState) s"

section \<open>Properties\<close>

lemma MYLED_mask: "bit (pin_bit_mask MYLED_conf) q \<longleftrightarrow> q \<in> {1, 2, 4}"
proof -
  have "pin_bit_mask MYLED_conf = or (push_bit 1 1) (or (push_bit 2 1) (push_bit 4 1))"
    by (simp add: MYLED_conf_def GPIO_OUTPUT_MY_LED_def)
  then show ?thesis by (simp only: bit_or_iff bit_pin) auto
qed

lemma MYLED_mode: "mode MYLED_conf = GPIO_MODE_OUTPUT"
  by (simp add: MYLED_conf_def)

text \<open>
  What \<open>MyLED_Init\<close> makes outputs: the pins 1, 2 and 4, whose bits the number 22 has, one of
  which (2) is an input of chassis motor D; the LED's own pin 22 is not among them.
\<close>

lemma MyLED_Init_outputs:
  "is_output (calls (MyLED_Init s)) q \<longleftrightarrow> q \<in> {1, 2, 4} \<or> is_output (calls s) q"
  by (auto simp: MyLED_Init_def gpio_config_def MYLED_mask MYLED_mode)

text \<open>
  The LED functions command high and low on pin 22, whatever went before, and no other pin.
\<close>

lemma MyLED_levels:
  "pin_level (calls (MyLED_ON s)) q = (if q = 22 then Some 1 else pin_level (calls s) q)
   \<and> pin_level (calls (MyLED_Off s)) q = (if q = 22 then Some 0 else pin_level (calls s) q)"
  by (simp add: MyLED_ON_def MyLED_Off_def gpio_set_level_def GPIO_OUTPUT_MY_LED_def
      MyLED_flagState_def)

end
