(* ===== verification/Gimbal.thy ===== *)
theory Gimbal
  imports Platform
begin

text \<open>
  The gimbal component: main/Gimbal/src/Gimbal.c and its header.  Two servos, yaw on MCPWM unit 0
  and pitch on unit 1, each commanded by a pulse width.  Arithmetic is that of \<open>uint32_t\<close>.
\<close>

section \<open>Definitions\<close>

definition SERVO_MIN_PULSEWIDTH :: u32 where "SERVO_MIN_PULSEWIDTH = 500"
definition SERVO_MAX_PULSEWIDTH :: u32 where "SERVO_MAX_PULSEWIDTH = 2500"
definition SERVO_MAX_DEGREE :: int where "SERVO_MAX_DEGREE = 270"
definition SERVO_MID_DEGREE :: int where "SERVO_MID_DEGREE = 135"
definition GPIO_GIMBAL_YAW :: nat where "GPIO_GIMBAL_YAW = 22"
definition GPIO_GIMBAL_PITCH :: nat where "GPIO_GIMBAL_PITCH = 23"

definition Yaw_pwm_config :: mcpwm_config_t where
  "Yaw_pwm_config = \<lparr>frequency = 50, cmpr_a = 0, cmpr_b = 0, counter_mode = MCPWM_UP_COUNTER,
     duty_mode = MCPWM_DUTY_MODE_0\<rparr>"

definition Pitch_pwm_config :: mcpwm_config_t where
  "Pitch_pwm_config = \<lparr>frequency = 50, cmpr_a = 0, cmpr_b = 0, counter_mode = MCPWM_UP_COUNTER,
     duty_mode = MCPWM_DUTY_MODE_0\<rparr>"

definition mcpwm_example_gpio_initialize :: "'a hw_scheme \<Rightarrow> 'a hw_scheme" where
  "mcpwm_example_gpio_initialize s =
     emit (Mcpwm_gpio_init MCPWM_UNIT_1 MCPWM0A GPIO_GIMBAL_PITCH)
       (emit (Mcpwm_gpio_init MCPWM_UNIT_0 MCPWM0A GPIO_GIMBAL_YAW) s)"

definition servo_per_degree_init :: "u32 \<Rightarrow> u32" where
  "servo_per_degree_init degree_of_rotation =
     SERVO_MIN_PULSEWIDTH +
     ((SERVO_MAX_PULSEWIDTH - SERVO_MIN_PULSEWIDTH) * degree_of_rotation)
       div word_of_int SERVO_MAX_DEGREE"

text \<open>
  The comparisons of the safety check are unsigned, because \<open>set_angle\<close> is a \<open>uint32_t\<close>.
\<close>

definition servo_set_angle_To :: "u32 \<Rightarrow> int \<Rightarrow> 'a hw_scheme \<Rightarrow> u32 \<times> 'a hw_scheme" where
  "servo_set_angle_To set_angle MotorIndex s =
     (let a1 = (if set_angle \<le> 0 then 0 else set_angle);
          a2 = (if a1 \<ge> word_of_int SERVO_MAX_DEGREE then word_of_int SERVO_MAX_DEGREE else a1);
          s1 = (if MotorIndex = 0 then
                  vTaskDelay 10 (emit (Mcpwm_set_duty_in_us MCPWM_UNIT_0 MCPWM_TIMER_0 MCPWM_OPR_A
                    (servo_per_degree_init a2)) s)
                else s);
          s2 = (if MotorIndex = 1 then
                  vTaskDelay 10 (emit (Mcpwm_set_duty_in_us MCPWM_UNIT_1 MCPWM_TIMER_0 MCPWM_OPR_A
                    (servo_per_degree_init a2)) s1)
                else s1)
      in (0, s2))"

definition Gimbal_server_start :: "'a hw_scheme \<Rightarrow> 'a hw_scheme" where
  "Gimbal_server_start s =
     (let s1 = mcpwm_example_gpio_initialize s;
          s2 = emit (Mcpwm_init MCPWM_UNIT_0 MCPWM_TIMER_0 Yaw_pwm_config) s1;
          s3 = emit (Mcpwm_init MCPWM_UNIT_1 MCPWM_TIMER_0 Pitch_pwm_config) s2;
          s4 = snd (servo_set_angle_To 235 0 s3)
      in snd (servo_set_angle_To 90 1 s4))"

section \<open>The pulse of an angle\<close>

lemmas servo_consts =
  SERVO_MIN_PULSEWIDTH_def SERVO_MAX_PULSEWIDTH_def SERVO_MAX_DEGREE_def SERVO_MID_DEGREE_def

text \<open>The exact width, without the machine's wrap-around.\<close>

definition pulse_of_degree :: "nat \<Rightarrow> nat" where
  "pulse_of_degree d = 500 + 2000 * d div 270"

lemma servo_per_degree_unat:
  assumes "unat d \<le> 2147483"
  shows "unat (servo_per_degree_init d) = pulse_of_degree (unat d)"
proof -
  have m: "unat (2000 * d) = 2000 * unat d"
    using assms by (subst unat_mult_lem [THEN iffD1]) simp_all
  have q: "unat ((2000 * d) div 270) = 2000 * unat d div 270"
    by (simp add: unat_div m)
  have "500 + 2000 * unat d div 270 < 2 ^ 32" using assms by simp
  then have "unat (500 + (2000 * d) div 270) = 500 + 2000 * unat d div 270"
    by (subst unat_add_lem [THEN iffD1]) (simp_all add: q)
  then show ?thesis by (simp add: servo_per_degree_init_def servo_consts pulse_of_degree_def)
qed

lemma pulse_of_degree_bounds: "d \<le> 270 \<Longrightarrow> 500 \<le> pulse_of_degree d \<and> pulse_of_degree d \<le> 2500"
  by (simp add: pulse_of_degree_def)

lemma pulse_of_degree_mono: "d \<le> d' \<Longrightarrow> pulse_of_degree d \<le> pulse_of_degree d'"
  by (simp add: pulse_of_degree_def div_le_mono)

text \<open>The angle that reaches the servo.\<close>

definition clamped :: "u32 \<Rightarrow> u32" where
  "clamped a = (if a \<ge> 270 then 270 else a)"

lemma unat_clamped: "unat (clamped a) = min 270 (unat a)"
  by (auto simp: clamped_def word_le_nat_alt)

lemma servo_set_angle_calls:
  "calls (snd (servo_set_angle_To a 0 s)) =
     Task_delay 10 # Mcpwm_set_duty_in_us MCPWM_UNIT_0 MCPWM_TIMER_0 MCPWM_OPR_A
       (servo_per_degree_init (clamped a)) # calls s"
  "calls (snd (servo_set_angle_To a 1 s)) =
     Task_delay 10 # Mcpwm_set_duty_in_us MCPWM_UNIT_1 MCPWM_TIMER_0 MCPWM_OPR_A
       (servo_per_degree_init (clamped a)) # calls s"
  "i \<noteq> 0 \<Longrightarrow> i \<noteq> 1 \<Longrightarrow> servo_set_angle_To a i s = (0, s)"
  "hw.more (snd (servo_set_angle_To a i s)) = hw.more s"
  by (auto simp: servo_set_angle_To_def Let_def vTaskDelay_def clamped_def servo_consts)

text \<open>The servo unit an index selects, and the read-outs after a call.\<close>

definition unit_of :: "int \<Rightarrow> mcpwm_unit_t option" where
  "unit_of i = (if i = 0 then Some MCPWM_UNIT_0 else if i = 1 then Some MCPWM_UNIT_1 else None)"

lemma servo_set_angle_readout [call_log]:
  "duty_us (calls (snd (servo_set_angle_To a i s))) u =
     (if unit_of i = Some u then Some (servo_per_degree_init (clamped a)) else duty_us (calls s) u)"
  "pin_level (calls (snd (servo_set_angle_To a i s))) q = pin_level (calls s) q"
  by (simp_all add: servo_set_angle_To_def Let_def vTaskDelay_def clamped_def servo_consts
      unit_of_def)

section \<open>Properties\<close>

text \<open>
  The pulse computed in \<open>uint32_t\<close> arithmetic is the exact linear map from degrees to
  microseconds, inside the servo's 500 to 2500, for every angle up to the 270 degrees of the
  header; the products stay far from wrapping.
\<close>

lemma servo_pulse_exact:
  assumes "unat d \<le> 270"
  shows "unat (servo_per_degree_init d) = 500 + 2000 * unat d div 270
    \<and> 500 \<le> unat (servo_per_degree_init d) \<and> unat (servo_per_degree_init d) \<le> 2500"
  using assms pulse_of_degree_bounds [of "unat d"] servo_per_degree_unat [of d]
  by (simp add: pulse_of_degree_def)

lemma servo_pulse_exact_witness:
  "unat (135 :: u32) \<le> 270 \<and> unat (servo_per_degree_init 135) = 1500"
  using servo_pulse_exact [of 135] by simp

text \<open>
  C13: whatever 32-bit value reaches \<open>servo_set_angle_To\<close>, the pulse commanded on the selected
  servo lies between 500 and 2500 and is monotone in the request; the other servo and every motor
  pin keep their commands.
\<close>

theorem servo_command_safe:
  assumes "unit_of i = Some u"
  shows "\<exists>p. duty_us (calls (snd (servo_set_angle_To a i s))) u = Some p
      \<and> 500 \<le> unat p \<and> unat p \<le> 2500
      \<and> (\<forall>b p'. unat a \<le> unat b \<longrightarrow>
           duty_us (calls (snd (servo_set_angle_To b i s))) u = Some p' \<longrightarrow> unat p \<le> unat p')
      \<and> (\<forall>v. v \<noteq> u \<longrightarrow> duty_us (calls (snd (servo_set_angle_To a i s))) v = duty_us (calls s) v)
      \<and> (\<forall>q. pin_level (calls (snd (servo_set_angle_To a i s))) q = pin_level (calls s) q)"
proof -
  have exact: "unat (servo_per_degree_init (clamped b)) = pulse_of_degree (min 270 (unat b))" for b
    using servo_per_degree_unat [of "clamped b"] by (simp add: unat_clamped)
  show ?thesis
    using assms pulse_of_degree_bounds [of "min 270 (unat a)"]
    by (auto simp: servo_set_angle_readout exact intro!: pulse_of_degree_mono)
qed

theorem servo_command_safe_witness:
  "unit_of 0 = Some MCPWM_UNIT_0 \<and>
   (\<exists>p. duty_us (calls (snd (servo_set_angle_To 235 0 \<lparr>calls = []\<rparr>))) MCPWM_UNIT_0 = Some p
      \<and> 500 \<le> unat p \<and> unat p \<le> 2500)"
proof -
  have u: "unit_of 0 = Some MCPWM_UNIT_0" by (simp add: unit_of_def)
  show ?thesis using u servo_command_safe [OF u, of 235 "\<lparr>calls = []\<rparr>"] by auto
qed

text \<open>
  The lower bound of the safety check never acts.  A negative angle passed by a caller arrives
  as a large unsigned value and is sent to the upper end stop, 270 degrees, not to 0.
\<close>

lemma servo_negative_to_max:
  assumes "a < 0" and "- (2 ^ 31) \<le> a" and "unit_of i = Some u"
  shows "duty_us (calls (snd (servo_set_angle_To (word_of_int a) i s))) u
    = Some (servo_per_degree_init 270)"
proof -
  have "(a + 2 ^ 32) mod 2 ^ 32 = a + 2 ^ 32"
    by (rule mod_pos_pos_trivial) (use assms in simp_all)
  then have "uint (word_of_int a :: u32) = a + 2 ^ 32"
    by (simp only: mod_add_self2 uint_word_of_int) simp
  then have "270 \<le> (word_of_int a :: u32)"
    using assms(2) by (simp add: word_le_def)
  with assms(3) show ?thesis by (simp add: servo_set_angle_readout clamped_def)
qed

lemma servo_negative_to_max_witness:
  "(- 10 :: int) < 0 \<and> unit_of 1 = Some MCPWM_UNIT_1 \<and>
   duty_us (calls (snd (servo_set_angle_To (word_of_int (- 10)) 1 \<lparr>calls = []\<rparr>))) MCPWM_UNIT_1
     = Some (servo_per_degree_init 270)"
  using servo_negative_to_max [of "- 10" 1 MCPWM_UNIT_1 "\<lparr>calls = []\<rparr>"] by (simp add: unit_of_def)

end
