(* ===== verification/CString.thy ===== *)
theory CString
  imports Prelude
begin

text \<open>
  The C library functions the program calls on character arrays: \<open>strlen\<close>, \<open>strstr\<close>,
  \<open>strcmp\<close>, \<open>bcmp\<close>, \<open>atoi\<close> and the \<open>%d\<close> conversion of \<open>sprintf\<close>.  An array is a list of
  its cells and the string in it ends at the first null cell; an array without one is not a string,
  and a function that scans it reads past its end (\<open>OverRead\<close>).  The element type is left open,
  with the null element as an argument, because the web server works on \<open>char\<close> and the DNS server
  on \<open>uint8_t\<close>.
\<close>

section \<open>Definitions\<close>

abbreviation NUL :: char where
  "NUL \<equiv> CHR 0x00"

text \<open>The string that starts at the head of an array.\<close>

definition cstr :: "'a \<Rightarrow> 'a list \<Rightarrow> 'a list option" where
  "cstr nul buf = (if nul \<in> set buf then Some (takeWhile (\<lambda>c. c \<noteq> nul) buf) else None)"

text \<open>The first position at which \<open>needle\<close> occurs.\<close>

fun find_sub :: "'a list \<Rightarrow> 'a list \<Rightarrow> nat option" where
  "find_sub needle [] = (if needle = [] then Some 0 else None)"
| "find_sub needle (c # cs) =
     (if take (length needle) (c # cs) = needle then Some 0
      else map_option Suc (find_sub needle cs))"

definition strstr :: "'a \<Rightarrow> 'a list \<Rightarrow> 'a list \<Rightarrow> fault + nat option" where
  "strstr nul hay needle =
     (case cstr nul hay of None \<Rightarrow> Inl OverRead | Some s \<Rightarrow> Inr (find_sub needle s))"

definition strlen :: "'a \<Rightarrow> 'a list \<Rightarrow> fault + nat" where
  "strlen nul buf = (case cstr nul buf of None \<Rightarrow> Inl OverRead | Some s \<Rightarrow> Inr (length s))"

text \<open>\<open>strcmp (buf, lit) == 0\<close> for a literal \<open>lit\<close>.\<close>

definition strcmp_eq :: "'a \<Rightarrow> 'a list \<Rightarrow> 'a list \<Rightarrow> fault + bool" where
  "strcmp_eq nul buf lit = (case cstr nul buf of None \<Rightarrow> Inl OverRead | Some s \<Rightarrow> Inr (s = lit))"

text \<open>\<open>bcmp (a, b, n) == 0\<close>: the first \<open>n\<close> bytes agree.\<close>

definition bcmp_eq :: "'a list \<Rightarrow> 'a list \<Rightarrow> nat \<Rightarrow> bool" where
  "bcmp_eq a b n \<longleftrightarrow> take n a = take n b"

definition is_digit :: "char \<Rightarrow> bool" where
  "is_digit c \<longleftrightarrow> 48 \<le> (of_char c :: nat) \<and> (of_char c :: nat) \<le> 57"

definition is_space :: "char \<Rightarrow> bool" where
  "is_space c \<longleftrightarrow> of_char c \<in> {9, 10, 11, 12, 13, 32 :: nat}"

fun digits_val :: "int \<Rightarrow> string \<Rightarrow> int" where
  "digits_val acc [] = acc"
| "digits_val acc (c # cs) =
     (if is_digit c then digits_val (10 * acc + (int (of_char c) - 48)) cs else acc)"

text \<open>
  \<open>atoi\<close> on the memory it is given: white space is skipped, a sign is read, then digits up to the
  first other character.  The result is not limited to the range of \<open>int\<close>; a value outside it needs
  ten digits, six of them behind the four-byte array that the control task passes.
\<close>

definition atoi :: "string \<Rightarrow> int" where
  "atoi mem =
     (case dropWhile is_space mem of
        [] \<Rightarrow> 0
      | c # cs \<Rightarrow>
          if c = CHR ''-'' then - digits_val 0 cs
          else if c = CHR ''+'' then digits_val 0 cs
          else digits_val 0 (c # cs))"

definition digit_char :: "nat \<Rightarrow> char" where
  "digit_char d = char_of (48 + d)"

fun dec_nat :: "nat \<Rightarrow> string" where
  "dec_nat n = (if n < 10 then [digit_char n] else dec_nat (n div 10) @ [digit_char (n mod 10)])"

text \<open>The text the conversion \<open>%d\<close> produces.\<close>

definition sprintf_d :: "int \<Rightarrow> string" where
  "sprintf_d i = (if i < 0 then CHR ''-'' # dec_nat (nat (- i)) else dec_nat (nat i))"

declare dec_nat.simps [simp del]

section \<open>Strings in arrays\<close>

lemma cstr_eq_Some [cstring]:
  "nul \<notin> set s \<Longrightarrow> cstr nul (s @ nul # rest) = Some s"
  by (auto simp: cstr_def intro: takeWhile_append_stop)

lemma cstr_replicate [cstring]:
  "nul \<notin> set s \<Longrightarrow> 0 < n \<Longrightarrow> cstr nul (s @ replicate n nul) = Some s"
  by (cases n) (simp_all add: cstr_eq_Some)

lemma cstr_SomeD:
  assumes "cstr nul buf = Some s"
  shows "nul \<notin> set s" and "length s < length buf" and "take (length s) buf = s"
    and "buf ! length s = nul"
proof -
  from assms have s: "s = takeWhile (\<lambda>c. c \<noteq> nul) buf" and mem: "nul \<in> set buf"
    by (auto simp: cstr_def split: if_splits)
  from s show "nul \<notin> set s" by (auto dest: set_takeWhileD)
  have "length (takeWhile (\<lambda>c. c \<noteq> nul) buf) < length buf"
    using mem by (induction buf) auto
  with s show len: "length s < length buf" by simp
  have "buf = s @ dropWhile (\<lambda>c. c \<noteq> nul) buf" using s by simp
  then show "take (length s) buf = s" by (metis append_eq_conv_conj)
  from len s show "buf ! length s = nul"
    using nth_length_takeWhile [of "\<lambda>c. c \<noteq> nul" buf] by simp
qed

lemma cstr_None: "cstr nul buf = None \<longleftrightarrow> nul \<notin> set buf"
  by (simp add: cstr_def)

section \<open>Searching\<close>

lemma find_sub_Some_iff:
  "find_sub needle hay = Some i \<Longrightarrow> \<exists>rest. hay = take i hay @ needle @ rest \<and> i \<le> length hay"
proof (induction hay arbitrary: i)
  case Nil
  then show ?case by (auto split: if_splits)
next
  case (Cons c cs)
  show ?case
  proof (cases "take (length needle) (c # cs) = needle")
    case True
    with Cons.prems have "i = 0" by simp
    moreover have "c # cs = needle @ drop (length needle) (c # cs)"
      using True append_take_drop_id [of "length needle" "c # cs"] by simp
    ultimately show ?thesis by (metis append_Nil take0 le0)
  next
    case False
    with Cons.prems obtain j where "i = Suc j" and "find_sub needle cs = Some j"
      by (auto split: if_splits)
    with Cons.IH show ?thesis by fastforce
  qed
qed

lemma find_sub_None_iff: "find_sub needle hay = None \<longleftrightarrow> \<not> sublist needle hay"
proof (induction hay)
  case Nil
  then show ?case by simp
next
  case (Cons c cs)
  have "take (length needle) (c # cs) = needle \<longleftrightarrow> prefix needle (c # cs)"
    by (metis append_eq_conv_conj prefix_def take_is_prefix)
  then show ?case using Cons by (simp add: sublist_Cons_right)
qed

lemma find_sub_first:
  "find_sub needle hay = Some i \<Longrightarrow> j < i \<Longrightarrow> take (length needle) (drop j hay) \<noteq> needle"
proof (induction hay arbitrary: i j)
  case Nil
  then show ?case by (auto split: if_splits)
next
  case (Cons c cs)
  then show ?case by (cases j) (auto split: if_splits)
qed

text \<open>
  The first occurrence of a single character, and of a needle that the text before it does not
  contain: the two searches of the request parser.
\<close>

lemma find_sub_char: "c \<notin> set xs \<Longrightarrow> find_sub [c] (xs @ c # ys) = Some (length xs)"
  by (induction xs) auto

lemma find_sub_no_head:
  assumes "h \<notin> set xs"
  shows "find_sub (h # t) (xs @ (h # t) @ ys) = Some (length xs)"
  using assms by (induction xs) auto

lemma find_sub_absent: "h \<notin> set xs \<Longrightarrow> find_sub (h # t) xs = None"
  by (induction xs) auto

section \<open>Numbers\<close>

lemma of_char_digit: "d < 10 \<Longrightarrow> (of_char (digit_char d) :: nat) = 48 + d"
  by (simp add: digit_char_def)

lemma is_digit_digit_char: "d < 10 \<Longrightarrow> is_digit (digit_char d)"
  by (simp add: is_digit_def of_char_digit)

lemma digits_val_digit [simp]:
  "d < 10 \<Longrightarrow> digits_val acc (digit_char d # cs) = digits_val (10 * acc + int d) cs"
  by (simp add: is_digit_digit_char of_char_digit)

lemma digits_val_stop [simp]: "\<not> is_digit c \<Longrightarrow> digits_val acc (c # cs) = acc"
  by simp

declare digits_val.simps(2) [simp del]

lemma digit_char_not_special:
  assumes "d < 10"
  shows "\<not> is_space (digit_char d)" and "digit_char d \<noteq> CHR ''-''" and "digit_char d \<noteq> CHR ''+''"
proof -
  show "\<not> is_space (digit_char d)" using assms by (simp add: is_space_def of_char_digit)
  have "(of_char (digit_char d) :: nat) \<noteq> of_char CHR ''-''"
    and "(of_char (digit_char d) :: nat) \<noteq> of_char CHR ''+''"
    using assms by (simp_all add: of_char_digit)
  then show "digit_char d \<noteq> CHR ''-''" and "digit_char d \<noteq> CHR ''+''" by metis+
qed

lemma atoi_digit_first:
  "d < 10 \<Longrightarrow> atoi (digit_char d # cs) = digits_val 0 (digit_char d # cs)"
  by (simp add: atoi_def digit_char_not_special)

lemma digits_val_dec_nat:
  "digits_val 0 (dec_nat n @ rest) = digits_val (int n) rest"
proof (induction n arbitrary: rest rule: dec_nat.induct)
  case (1 n)
  show ?case
  proof (cases "n < 10")
    case True
    then show ?thesis by (simp add: dec_nat.simps [of n])
  next
    case False
    with "1.IH" have "digits_val 0 (dec_nat n @ rest)
        = digits_val (int (n div 10)) (digit_char (n mod 10) # rest)"
      by (simp add: dec_nat.simps [of n])
    also have "\<dots> = digits_val (int n) rest"
      by (simp add: zdiv_int zmod_int)
    finally show ?thesis .
  qed
qed

lemma dec_nat_Cons: "\<exists>d cs. dec_nat n = digit_char d # cs \<and> d < 10"
proof (induction n rule: dec_nat.induct)
  case (1 n)
  then show ?case by (cases "n < 10") (auto simp: dec_nat.simps [of n])
qed

text \<open>What \<open>sprintf\<close> prints, \<open>atoi\<close> reads back, whatever non-digit follows.\<close>

lemma atoi_sprintf_d:
  assumes "0 \<le> i" and "\<not> is_digit c"
  shows "atoi (sprintf_d i @ c # rest) = i"
proof -
  obtain d cs where "dec_nat (nat i) = digit_char d # cs" "d < 10"
    using dec_nat_Cons by blast
  then have "atoi (dec_nat (nat i) @ c # rest) = digits_val 0 (dec_nat (nat i) @ c # rest)"
    by (simp add: atoi_def digit_char_not_special)
  with assms show ?thesis by (simp add: sprintf_d_def digits_val_dec_nat)
qed

lemma length_dec_nat: "0 < k \<Longrightarrow> n < 10 ^ k \<Longrightarrow> length (dec_nat n) \<le> k"
proof (induction n arbitrary: k rule: dec_nat.induct)
  case (1 n)
  show ?case
  proof (cases "n < 10")
    case True
    with "1.prems" show ?thesis by (simp add: dec_nat.simps [of n])
  next
    case False
    from "1.prems" False obtain k' where k: "k = Suc k'" and "0 < k'"
      by (cases k; cases "k - 1") auto
    moreover from "1.prems" k have "n div 10 < 10 ^ k'" by (simp add: less_mult_imp_div_less mult.commute)
    ultimately have "length (dec_nat (n div 10)) \<le> k'" using "1.IH" False by blast
    with False k show ?thesis by (simp add: dec_nat.simps [of n])
  qed
qed

lemma set_dec_nat: "c \<in> set (dec_nat n) \<Longrightarrow> \<exists>d < 10. c = digit_char d"
proof (induction n rule: dec_nat.induct)
  case (1 n)
  have "\<exists>d < 10. digit_char (n mod 10) = digit_char d" by (rule exI [of _ "n mod 10"]) simp
  with 1 show ?case by (cases "n < 10") (auto simp: dec_nat.simps [of n])
qed

lemma sprintf_d_no_space: "is_space c \<Longrightarrow> c \<notin> set (sprintf_d i)"
  by (auto simp: sprintf_d_def is_space_def of_char_digit dest!: set_dec_nat)

lemma length_sprintf_d:
  assumes "- (10 ^ 10) < i" and "i < 10 ^ 10"
  shows "length (sprintf_d i) \<le> 11"
proof -
  have "length (dec_nat (nat \<bar>i\<bar>)) \<le> 10"
    by (rule length_dec_nat) (use assms in \<open>auto simp: nat_less_iff\<close>)
  then show ?thesis by (auto simp: sprintf_d_def)
qed

text \<open>A search passes over what does not contain the first character.\<close>

lemma find_sub_skip:
  "c \<notin> set xs \<Longrightarrow> find_sub (c # w) (xs @ ys) = map_option ((+) (length xs)) (find_sub (c # w) ys)"
proof (induction xs)
  case Nil
  show ?case by (cases "find_sub (c # w) ys") simp_all
next
  case (Cons x xs)
  then show ?case by (auto simp: option.map_comp comp_def)
qed

end
