(* ===== verification/DnsServer.thy ===== *)
theory DnsServer
  imports CString Platform
begin

unbundle bit_operations_syntax

text \<open>
  The captive-portal name server: components/dns_server/my_dns_server.c.  One 128-byte buffer lives
  through all turns of the loop: each datagram is received over it, turned into its own answer in
  place, and sent back.  What \<open>recvfrom\<close> returns is the input of a turn.
\<close>

section \<open>Definitions\<close>

definition create_udp_socket :: "int \<Rightarrow> int \<Rightarrow> int \<times> int list" where
  "create_udp_socket sock err =
     (if sock < 0 then (- 1, [])
      else if err < 0 then (- 1, [sock])
      else (sock, []))"

record dns =
  data :: "u8 list"          \<comment> \<open>the receive buffer\<close>
  dumps :: "string list"     \<comment> \<open>the request lines printed, newest first\<close>
  replies :: "u8 list list"  \<comment> \<open>the datagrams sent, newest first\<close>
  ticks :: nat               \<comment> \<open>ticks spent in vTaskDelay\<close>

definition str_bytes :: "string \<Rightarrow> u8 list" where
  "str_bytes s = map of_char s"

definition blocked_words :: "u8 list list" where
  "blocked_words = map str_bytes
     [''taobao'', ''qq'', ''sogou'', ''amap'', ''alipay'', ''youku'', ''iqiyi'', ''baidu'']"

text \<open>The chain of \<open>strstr\<close> tests joined by \<open>||\<close>: it stops at the first hit.\<close>

fun any_match :: "u8 list list \<Rightarrow> u8 list \<Rightarrow> fault + bool" where
  "any_match [] mem = Inr False"
| "any_match (w # ws) mem =
     (case strstr 0 mem w of
        Inl f \<Rightarrow> Inl f
      | Inr (Some i) \<Rightarrow> Inr True
      | Inr None \<Rightarrow> any_match ws mem)"

text \<open>The statements \<open>data[len++] = b\<close>.\<close>

fun put_bytes :: "u8 list \<Rightarrow> u8 list \<Rightarrow> nat \<Rightarrow> fault + u8 list \<times> nat" where
  "put_bytes [] buf len = Inr (buf, len)"
| "put_bytes (b # bs) buf len =
     (if len < length buf then put_bytes bs (buf[len := b]) (Suc len) else Inl BufferOverflow)"

definition answer_bytes :: "u8 list" where
  "answer_bytes =
     [0xC0, 0x0C,
      0x00, 0x01, 0x00, 0x01,
      0x00, 0x00, 0x00, 0x0A,
      0x00, 0x04,
      192, 168, 4, 1]"

definition mark_response :: "u8 list \<Rightarrow> u8 list" where
  "mark_response d =
     (let d1 = d[2 := d ! 2 OR 0x80];
          d2 = d1[3 := d1 ! 3 OR 0x80]
      in d2[7 := 1])"

text \<open>The characters the loop of lines 83 to 90 prints for a datagram.\<close>

definition dump_char :: "u8 \<Rightarrow> char" where
  "dump_char b =
     (let n = unat b in
      if (97 \<le> n \<and> n \<le> 122) \<or> (65 \<le> n \<and> n \<le> 90) \<or> (48 \<le> n \<and> n \<le> 57) then char_of n
      else CHR ''_'')"

definition request_dump :: "u8 list \<Rightarrow> nat \<Rightarrow> string" where
  "request_dump d len = map (\<lambda>i. dump_char (d ! i)) [4..<len]"

definition my_dns_server_turn :: "int \<times> u8 list \<Rightarrow> fault + dns \<Rightarrow> fault + dns" where
  "my_dns_server_turn rcv r =
     (case (rcv, r) of
        (_, Inl f) \<Rightarrow> Inl f
      | ((len, bytes), Inr s) \<Rightarrow>
          if len < 0 \<or> len > 100 then Inr s
          else
            let d0 = bytes @ drop (length bytes) (data s);
                s1 = s\<lparr>data := d0, dumps := request_dump d0 (nat len) # dumps s\<rparr> in
            (case any_match blocked_words (drop 0xC d0) of
               Inl f \<Rightarrow> Inl f
             | Inr True \<Rightarrow> Inr s1
             | Inr False \<Rightarrow>
                 (case put_bytes answer_bytes (mark_response d0) (nat len) of
                    Inl f \<Rightarrow> Inl f
                  | Inr (d2, len2) \<Rightarrow>
                      Inr (s1\<lparr>data := d2, replies := take len2 d2 # replies s1,
                        ticks := ticks s1 + 10\<rparr>))))"

text \<open>
  The task: \<open>opened\<close> and \<open>bound\<close> are the results of \<open>socket\<close> and \<open>bind\<close>, and each receive is a function
  of the descriptor it is called with.  The loop is entered whether or not there is a socket.
\<close>

definition my_dns_server ::
  "int \<Rightarrow> int \<Rightarrow> (int \<Rightarrow> int \<times> u8 list) list \<Rightarrow> dns \<Rightarrow> fault + dns" where
  "my_dns_server opened bound recvs s =
     (let sock = fst (create_udp_socket opened bound)
      in fold my_dns_server_turn (map (\<lambda>recvfrom. recvfrom sock) recvs) (Inr s))"

definition dns_server_start :: "'a hw_scheme \<Rightarrow> 'a hw_scheme" where
  "dns_server_start s = emit (Os_call (XTaskCreate ''dns_task'' 4096 5)) s"

text \<open>The documented behaviour of \<open>recvfrom\<close> with a limit of 100.\<close>

definition recv_ok :: "int \<times> u8 list \<Rightarrow> bool" where
  "recv_ok rcv \<longleftrightarrow> (0 \<le> fst rcv \<longrightarrow> fst rcv = int (length (snd rcv)) \<and> length (snd rcv) \<le> 100)"

text \<open>An address record, as a resolver reads it from the wire.\<close>

record resource =
  name_at :: nat
  rtype :: nat
  rclass :: nat
  ttl :: nat
  rdata :: "u8 list"

definition be16 :: "u8 \<Rightarrow> u8 \<Rightarrow> nat" where
  "be16 a b = unat a * 256 + unat b"

text \<open>The twelve bytes every message begins with, as a resolver reads them.\<close>

record dns_header =
  ident :: nat
  response :: bool
  query_flags :: u8
  recursion_available :: bool
  reply_flags :: u8
  questions :: nat
  answers :: nat
  authorities :: nat
  additionals :: nat

definition read_header :: "u8 list \<Rightarrow> dns_header" where
  "read_header d = \<lparr>ident = be16 (d ! 0) (d ! 1),
     response = bit (d ! 2) 7, query_flags = d ! 2 AND 0x7F,
     recursion_available = bit (d ! 3) 7, reply_flags = d ! 3 AND 0x7F,
     questions = be16 (d ! 4) (d ! 5), answers = be16 (d ! 6) (d ! 7),
     authorities = be16 (d ! 8) (d ! 9), additionals = be16 (d ! 10) (d ! 11)\<rparr>"

fun read_resource :: "u8 list \<Rightarrow> resource option" where
  "read_resource (p # q # t1 # t0 # c1 # c0 # l3 # l2 # l1 # l0 # n1 # n0 # rest) =
     (if 192 \<le> unat p \<and> be16 n1 n0 \<le> length rest
      then Some \<lparr>name_at = be16 p q - 49152, rtype = be16 t1 t0, rclass = be16 c1 c0,
        ttl = be16 l3 l2 * 65536 + be16 l1 l0, rdata = take (be16 n1 n0) rest\<rparr>
      else None)"
| "read_resource _ = None"

section \<open>Lemmas\<close>

lemma any_match_string:
  assumes "cstr 0 mem = Some s"
  shows "any_match ws mem = Inr (\<exists>w \<in> set ws. sublist w s)"
proof (induction ws)
  case (Cons w ws)
  show ?case
  proof (cases "find_sub w s")
    case None
    then have "\<not> sublist w s" by (simp add: find_sub_None_iff)
    with None Cons assms show ?thesis by (auto simp: strstr_def)
  next
    case (Some i)
    then have "sublist w s" by (metis find_sub_None_iff option.distinct(1))
    with Some assms show ?thesis by (auto simp: strstr_def)
  qed
qed simp

lemma put_bytes_fits:
  "len + length bs \<le> length buf \<Longrightarrow>
   put_bytes bs buf len = Inr (take len buf @ bs @ drop (len + length bs) buf, len + length bs)"
proof (induction bs arbitrary: buf len)
  case Nil
  then show ?case by simp
next
  case (Cons b bs)
  then have "put_bytes bs (buf[len := b]) (Suc len) =
      Inr (take (Suc len) (buf[len := b]) @ bs @ drop (Suc len + length bs) (buf[len := b]),
        Suc len + length bs)"
    by (intro Cons.IH) simp
  with Cons.prems show ?case by (simp add: take_Suc_conv_app_nth)
qed

lemma length_mark_response [simp]: "length (mark_response d) = length d"
  by (simp add: mark_response_def)

lemma length_answer_bytes [simp]: "length answer_bytes = 16"
  by (simp add: answer_bytes_def)

lemma put_answer:
  assumes "length d = 128" and "len \<le> 100"
  shows "put_bytes answer_bytes (mark_response d) len =
    Inr (take len (mark_response d) @ answer_bytes @ drop (len + 16) (mark_response d), len + 16)"
  using put_bytes_fits [of len answer_bytes "mark_response d"] assms by simp

text \<open>Everything a turn can do, by the shape of its input.\<close>

lemma turn_skips: "len < 0 \<or> 100 < len \<Longrightarrow> my_dns_server_turn (len, bytes) (Inr s) = Inr s"
  by (auto simp: my_dns_server_turn_def)

lemma turn_received:
  assumes "recv_ok (len, bytes)" and "0 \<le> len" and "length (data s) = 128"
  shows "my_dns_server_turn (len, bytes) (Inr s) =
    (let d0 = bytes @ drop (length bytes) (data s);
         line = request_dump d0 (length bytes) in
     case any_match blocked_words (drop 0xC d0) of
       Inl f \<Rightarrow> Inl f
     | Inr True \<Rightarrow> Inr (s\<lparr>data := d0, dumps := line # dumps s\<rparr>)
     | Inr False \<Rightarrow> Inr (s\<lparr>
         dumps := line # dumps s,
         data := take (length bytes) (mark_response d0) @ answer_bytes
           @ drop (length bytes + 16) (mark_response d0),
         replies := (take (length bytes) (mark_response d0) @ answer_bytes) # replies s,
         ticks := ticks s + 10\<rparr>))"
proof -
  have len: "len = int (length bytes)" "length bytes \<le> 100"
    using assms(1,2) by (simp_all add: recv_ok_def)
  have "put_bytes answer_bytes (mark_response (bytes @ drop (length bytes) (data s))) (length bytes)
    = Inr (take (length bytes) (mark_response (bytes @ drop (length bytes) (data s)))
        @ answer_bytes @ drop (length bytes + 16) (mark_response (bytes @ drop (length bytes) (data s))),
        length bytes + 16)"
    by (rule put_answer) (use len assms(3) in simp_all)
  then show ?thesis using len assms(3)
    by (simp add: my_dns_server_turn_def Let_def split: sum.split bool.split)
qed

text \<open>
  No turn writes the last twelve cells of the buffer, so a zero among them at the start stops every
  search.  The invariant carries them as \<open>tail\<close>.
\<close>

definition dns_inv :: "u8 list \<Rightarrow> fault + dns \<Rightarrow> bool" where
  "dns_inv tail r \<longleftrightarrow>
     (case r of
        Inl f \<Rightarrow> f = OverRead \<and> 0 \<notin> set tail
      | Inr s \<Rightarrow> length (data s) = 128 \<and> drop 116 (data s) = tail
          \<and> (\<forall>d \<in> set (replies s). length d \<le> 116))"

lemma any_match_needs_zero: "any_match ws mem = Inl f \<Longrightarrow> f = OverRead \<and> 0 \<notin> set mem"
  by (induction ws) (auto simp: strstr_def cstr_def split: option.splits if_splits)

lemma drop_mark_response: "12 < n \<Longrightarrow> drop n (mark_response d) = drop n d"
  by (simp add: mark_response_def Let_def)

text \<open>One turn, with the condition on \<open>recvfrom\<close> put into the event.\<close>

definition dns_event :: "int \<times> u8 list \<Rightarrow> fault + dns \<Rightarrow> fault + dns" where
  "dns_event rcv r = (if recv_ok rcv then my_dns_server_turn rcv r else r)"

lemma dns_received_inv:
  assumes inv: "dns_inv tail (Inr s)" and ok: "recv_ok (len, bytes)" and len: "0 \<le> len"
  shows "dns_inv tail (my_dns_server_turn (len, bytes) (Inr s))"
proof -
  have d: "length (data s) = 128" "drop 116 (data s) = tail" "\<forall>d \<in> set (replies s). length d \<le> 116"
    and b: "length bytes \<le> 100"
    using inv ok len by (simp_all add: dns_inv_def recv_ok_def)
  let ?d0 = "bytes @ drop (length bytes) (data s)"
  have tail: "drop 116 ?d0 = tail" using d(2) b by simp
  have "set tail \<subseteq> set (drop 12 ?d0)"
    using set_drop_subset_set_drop [of 12 116 ?d0] by (simp only: tail)
  then have fault: "any_match blocked_words (drop 12 ?d0) = Inl f \<Longrightarrow> f = OverRead \<and> 0 \<notin> set tail" for f
    using any_match_needs_zero by fastforce
  have answered: "drop 116 (take (length bytes) (mark_response ?d0) @ answer_bytes
      @ drop (length bytes + 16) (mark_response ?d0)) = tail"
    using b d(1) tail drop_mark_response [of 116 ?d0] by (simp add: min_def)
  show ?thesis
    unfolding turn_received [OF ok len d(1)]
    using d b tail fault answered
    by (auto simp: dns_inv_def Let_def split: sum.split bool.split)
qed

lemma dns_turn_inv:
  assumes "dns_inv tail r" and "recv_ok rcv"
  shows "dns_inv tail (my_dns_server_turn rcv r)"
proof (cases r)
  case (Inl f)
  with assms(1) show ?thesis by (simp add: my_dns_server_turn_def)
next
  case (Inr s)
  obtain len bytes where rcv: "rcv = (len, bytes)" by fastforce
  show ?thesis
    using assms Inr dns_received_inv [of tail s len bytes] turn_skips [of len bytes s]
    by (cases "0 \<le> len") (simp_all add: rcv)
qed

interpretation name_server: event_machine dns_event "dns_inv tail" for tail
  by unfold_locales (simp add: dns_event_def dns_turn_inv)

lemma fold_dns_event:
  "(\<And>x. x \<in> set rcvs \<Longrightarrow> recv_ok x) \<Longrightarrow> fold my_dns_server_turn rcvs r = fold dns_event rcvs r"
  by (induction rcvs arbitrary: r) (simp_all add: dns_event_def)

text \<open>The question of a query: the bytes from offset 12 up to the first zero.\<close>

definition qname :: "u8 list \<Rightarrow> u8 list" where
  "qname bytes = takeWhile (\<lambda>b. b \<noteq> 0) (drop 12 bytes)"

definition is_query :: "u8 list \<Rightarrow> bool" where
  "is_query bytes \<longleftrightarrow> 12 < length bytes \<and> length bytes \<le> 100 \<and> 0 \<in> set (drop 12 bytes)"

definition blocked :: "u8 list \<Rightarrow> bool" where
  "blocked bytes \<longleftrightarrow> (\<exists>w \<in> set blocked_words. sublist w (qname bytes))"

lemma any_match_query:
  assumes "is_query bytes"
  shows "any_match blocked_words (drop 12 (bytes @ rest)) = Inr (blocked bytes)"
proof -
  have "cstr 0 (drop 12 (bytes @ rest)) = Some (qname bytes)"
    using assms by (auto simp: is_query_def cstr_def qname_def takeWhile_append1)
  from any_match_string [OF this] show ?thesis by (simp add: blocked_def)
qed

lemma mark_response_append: "12 < length bytes \<Longrightarrow> mark_response (bytes @ rest) = mark_response bytes @ rest"
  by (simp add: mark_response_def Let_def list_update_append nth_append)

text \<open>The read-out of the answer section.\<close>

lemma read_answer:
  "read_resource answer_bytes = Some \<lparr>name_at = 12, rtype = 1, rclass = 1, ttl = 10,
     rdata = [192, 168, 4, 1]\<rparr>"
  by (simp add: answer_bytes_def be16_def)

lemma top_bit_set: "bit (b OR 0x80 :: u8) 7" "(b OR 0x80) AND 0x7F = b AND (0x7F :: u8)"
  by (simp_all add: bit_or_iff bit.conj_disj_distrib2)

lemma read_header_response:
  assumes "12 < length bytes"
  shows "read_header (mark_response bytes @ rest) = (read_header bytes)\<lparr>response := True,
    recursion_available := True, answers := 256 * unat (bytes ! 6) + 1\<rparr>"
  using assms
  by (auto simp: read_header_def mark_response_def Let_def nth_append top_bit_set be16_def)

section \<open>Properties\<close>

text \<open>
  C20: for every sequence of datagrams that \<open>recvfrom\<close> may deliver into the 100 bytes it is given, the
  16 answer bytes fit: the 128-byte buffer keeps its size, no datagram sent is longer than 116 bytes,
  and no write leaves the buffer.  The one way the server can fail is a \<open>strstr\<close> that finds no zero
  byte, and that cannot happen when one of the last twelve cells of the buffer was zero at the start.
\<close>

theorem dns_no_overflow:
  assumes "length (data s) = 128" and "replies s = []"
    and "\<And>recvfrom fd. recvfrom \<in> set recvs \<Longrightarrow> recv_ok (recvfrom fd)"
  shows "(\<exists>t. my_dns_server opened bound recvs s = Inr t \<and> length (data t) = 128
      \<and> (\<forall>d \<in> set (replies t). length d \<le> 116))
    \<or> my_dns_server opened bound recvs s = Inl OverRead \<and> 0 \<notin> set (drop 116 (data s))"
proof -
  let ?rcvs = "map (\<lambda>recvfrom. recvfrom (fst (create_udp_socket opened bound))) recvs"
  have "dns_inv (drop 116 (data s)) (fold dns_event ?rcvs (Inr s))"
    by (rule name_server.run_inv) (simp add: dns_inv_def assms(1,2))
  moreover have "fold my_dns_server_turn ?rcvs (Inr s) = fold dns_event ?rcvs (Inr s)"
    using assms(3) by (intro fold_dns_event) auto
  ultimately show ?thesis
    by (auto simp: my_dns_server_def Let_def dns_inv_def split: sum.splits)
qed

definition empty_dns :: dns where
  "empty_dns = \<lparr>data = replicate 128 0, dumps = [], replies = [], ticks = 0\<rparr>"

text \<open>A query for the address of "esp".\<close>

definition esp_query :: "u8 list" where
  "esp_query = [18, 52, 1, 0, 0, 1, 0, 0, 0, 0, 0, 0, 3] @ str_bytes ''esp'' @ [0, 0, 1, 0, 1]"

lemma recv_ok_query: "recv_ok (int (length esp_query), esp_query)"
  by (simp add: recv_ok_def esp_query_def str_bytes_def)

theorem dns_no_overflow_witness:
  "\<exists>t. my_dns_server 3 0 [\<lambda>fd. (21, esp_query)] empty_dns = Inr t \<and> length (data t) = 128
      \<and> (\<forall>d \<in> set (replies t). length d \<le> 116)"
proof -
  have "recv_ok (21, esp_query)" using recv_ok_query by (simp add: esp_query_def str_bytes_def)
  then show ?thesis
    using dns_no_overflow [of empty_dns "[\<lambda>fd. (21, esp_query)]" 3 0] by (auto simp: empty_dns_def)
qed

text \<open>
  C10: a query whose name is not blocked gets an answer.  A resolver reads in the header of the datagram
  sent back what the query's header said, but that it is a response, that recursion is available and
  that there is one answer (256 times the high byte of the query's own count more, which the code does
  not reset).  Behind the header comes the query's question unchanged, and then a record that reads as:
  the name at offset 12, an internet address, lifetime ten seconds, 192.168.4.1.  What an earlier
  datagram left in the buffer has no influence.
\<close>

theorem dns_query_answered:
  assumes "is_query bytes" and "\<not> blocked bytes" and "length (data s) = 128"
  shows "\<exists>t reply. my_dns_server_turn (int (length bytes), bytes) (Inr s) = Inr t
    \<and> replies t = reply # replies s \<and> length reply = length bytes + 16
    \<and> read_header reply = (read_header bytes)\<lparr>response := True, recursion_available := True,
        answers := 256 * unat (bytes ! 6) + 1\<rparr>
    \<and> take (length bytes - 12) (drop 12 reply) = drop 12 bytes
    \<and> read_resource (drop (length bytes) reply) = Some \<lparr>name_at = 12, rtype = 1, rclass = 1,
        ttl = 10, rdata = [192, 168, 4, 1]\<rparr>"
proof -
  have b: "12 < length bytes" "length bytes \<le> 100" using assms(1) by (simp_all add: is_query_def)
  have ok: "recv_ok (int (length bytes), bytes)" using b by (simp add: recv_ok_def)
  let ?reply = "mark_response bytes @ answer_bytes"
  obtain t where "my_dns_server_turn (int (length bytes), bytes) (Inr s) = Inr t"
    and "replies t = ?reply # replies s"
    unfolding turn_received [OF ok of_nat_0_le_iff assms(3)] Let_def any_match_query [OF assms(1)]
    using b assms(2) by (simp add: mark_response_append)
  moreover have "drop 12 (mark_response bytes) = drop 12 bytes"
    using b by (simp add: mark_response_def Let_def)
  ultimately show ?thesis
    using b read_answer read_header_response [OF b(1)] by (intro exI [of _ t] exI [of _ ?reply]) simp
qed

lemma esp_query_ok: "is_query esp_query" "\<not> blocked esp_query"
proof -
  show "is_query esp_query" by (simp add: is_query_def esp_query_def str_bytes_def)
  have "any_match blocked_words (qname esp_query @ [0]) = Inr False"
    by (simp add: blocked_words_def str_bytes_def qname_def esp_query_def strstr_def cstr_def)
  moreover have "cstr 0 (qname esp_query @ [0]) = Some (qname esp_query)"
    by (rule cstr_eq_Some) (auto simp: qname_def dest: set_takeWhileD)
  ultimately show "\<not> blocked esp_query"
    using any_match_string by (fastforce simp: blocked_def)
qed

theorem dns_query_answered_witness:
  "\<exists>t reply. my_dns_server_turn (21, esp_query) (Inr empty_dns) = Inr t
    \<and> replies t = [reply] \<and> response (read_header reply) \<and> answers (read_header reply) = 1
    \<and> read_resource (drop 21 reply) = Some \<lparr>name_at = 12, rtype = 1, rclass = 1, ttl = 10,
        rdata = [192, 168, 4, 1]\<rparr>"
proof -
  have "length esp_query = 21" "esp_query ! 6 = 0" by (simp_all add: esp_query_def str_bytes_def)
  with dns_query_answered [OF esp_query_ok, of empty_dns] show ?thesis
    by (auto simp: empty_dns_def)
qed

text \<open>
  A query whose name contains one of the eight blocked words is dropped: nothing is sent, and no
  time is spent waiting.
\<close>

lemma dns_blocked_dropped:
  assumes "is_query bytes" and "blocked bytes" and "length (data s) = 128"
  shows "\<exists>t. my_dns_server_turn (int (length bytes), bytes) (Inr s) = Inr t
    \<and> replies t = replies s \<and> ticks t = ticks s"
proof -
  have ok: "recv_ok (int (length bytes), bytes)"
    using assms(1) by (simp add: recv_ok_def is_query_def)
  show ?thesis
    unfolding turn_received [OF ok of_nat_0_le_iff assms(3)] Let_def any_match_query [OF assms(1)]
    using assms(2) by simp
qed

definition qq_query :: "u8 list" where
  "qq_query = [18, 52, 1, 0, 0, 1, 0, 0, 0, 0, 0, 0, 2] @ str_bytes ''qq'' @ [0, 0, 1, 0, 1]"

lemma dns_blocked_dropped_witness:
  "\<exists>t. my_dns_server_turn (20, qq_query) (Inr empty_dns) = Inr t \<and> replies t = []"
proof -
  have q: "is_query qq_query" by (simp add: is_query_def qq_query_def str_bytes_def)
  have "qname qq_query = [2] @ str_bytes ''qq''"
    by (simp add: qname_def qq_query_def str_bytes_def)
  then have "blocked qq_query"
    unfolding blocked_def blocked_words_def
    by (intro bexI [of _ "str_bytes ''qq''"]) (auto intro: suffix_imp_sublist simp: suffix_def)
  from dns_blocked_dropped [OF q this, of empty_dns] show ?thesis
    by (auto simp add: empty_dns_def qq_query_def str_bytes_def)
qed

text \<open>
  A datagram of at most 12 bytes has no name of its own, but is filtered and answered all the
  same: the words are looked for in what the previous datagram left behind offset 12.
\<close>

lemma dns_short_datagram_uses_stale_bytes:
  assumes "length bytes \<le> 12" and "length (data s) = 128" and "cstr 0 (drop 12 (data s)) = Some old"
  shows "(\<exists>t. my_dns_server_turn (int (length bytes), bytes) (Inr s) = Inr t
      \<and> (replies t = replies s \<longleftrightarrow> (\<exists>w \<in> set blocked_words. sublist w old)))"
proof -
  have ok: "recv_ok (int (length bytes), bytes)" using assms(1) by (simp add: recv_ok_def)
  have "drop 12 (bytes @ drop (length bytes) (data s)) = drop 12 (data s)"
    using assms(1) by simp
  note stale = this
  show ?thesis
    unfolding turn_received [OF ok of_nat_0_le_iff assms(2)] Let_def stale
      any_match_string [OF assms(3), of blocked_words]
    by (cases "\<exists>w \<in> set blocked_words. sublist w old") simp_all
qed

lemma dns_short_datagram_uses_stale_bytes_witness:
  "\<exists>t. my_dns_server_turn (0, []) (Inr empty_dns) = Inr t \<and> replies t \<noteq> []"
proof -
  have old: "cstr 0 (drop 12 (data empty_dns)) = Some []"
    by (simp add: empty_dns_def cstr_def)
  have "\<not> (\<exists>w \<in> set blocked_words. sublist w ([] :: u8 list))"
    by (simp add: blocked_words_def str_bytes_def)
  with dns_short_datagram_uses_stale_bytes [OF _ _ old, of "[]"] show ?thesis
    by (auto simp: empty_dns_def)
qed

text \<open>
  When the socket could not be opened or bound the server logs it and enters its loop all the same.
  Every receive on the missing descriptor fails, and each such turn changes nothing and waits for
  nothing: the task spins.
\<close>

lemma dns_spins_without_socket:
  assumes "opened < 0 \<or> bound < 0" and "\<And>recvfrom. recvfrom \<in> set recvs \<Longrightarrow> fst (recvfrom (- 1)) < 0"
  shows "my_dns_server opened bound recvs s = Inr s"
proof -
  have "fst (create_udp_socket opened bound) = - 1" using assms(1) by (auto simp: create_udp_socket_def)
  moreover have "fold my_dns_server_turn (map (\<lambda>recvfrom. recvfrom (- 1)) recvs) (Inr s) = Inr s"
    using assms(2)
  proof (induction recvs)
    case (Cons r recvs)
    then have "my_dns_server_turn (fst (r (- 1)), snd (r (- 1))) (Inr s) = Inr s"
      by (intro turn_skips) simp
    with Cons show ?case by simp
  qed simp
  ultimately show ?thesis by (simp add: my_dns_server_def)
qed

end
