(* ===== verification/HttpWriter.thy ===== *)
theory HttpWriter
  imports CString
begin

text \<open>
  The write loop of components/web_server/webserver.c: \<open>my_write\<close>.  The socket call \<open>send\<close> is not
  part of the repository: it is the argument \<open>snd_call\<close>, which answers the \<open>k\<close>-th call, made with
  the bytes still to go, with a return value and an errno.  The loop need not end (a \<open>send\<close> that is
  interrupted for ever is retried for ever), so it is a partial function whose value \<open>None\<close> is
  "does not return".

  The locale \<open>writer\<close> is the contract the request handler relies on.
\<close>

section \<open>Definitions\<close>

datatype errno = EINTR | OtherErrno int

type_synonym send_call = "nat \<Rightarrow> string \<Rightarrow> int \<times> errno"

record sock =
  sends :: nat        \<comment> \<open>calls of send so far\<close>
  sent :: string      \<comment> \<open>the bytes send has accepted, in order\<close>
  waited :: nat       \<comment> \<open>ticks spent in vTaskDelay\<close>

partial_function (option) my_write :: "send_call \<Rightarrow> string \<Rightarrow> sock \<Rightarrow> (int \<times> sock) option" where
  "my_write snd_call buffer k =
     (if buffer = [] then Some (0, k)
      else
        let (written_bytes, err) = snd_call (sends k) buffer;
            k1 = k\<lparr>sends := Suc (sends k)\<rparr>
        in if written_bytes \<le> 0 then
             (if err = EINTR then my_write snd_call buffer (k1\<lparr>waited := waited k1 + 10\<rparr>)
              else Some (- 1, k1))
           else my_write snd_call (drop (nat written_bytes) buffer)
             (k1\<lparr>sent := sent k1 @ take (nat written_bytes) buffer, waited := waited k1 + 10\<rparr>))"

text \<open>From call number \<open>n\<close> on, \<open>send\<close> is no longer interrupted.\<close>

definition quiet_after :: "nat \<Rightarrow> send_call \<Rightarrow> bool" where
  "quiet_after n snd_call \<longleftrightarrow>
     (\<forall>j d w e. n \<le> j \<longrightarrow> snd_call j d = (w, e) \<longrightarrow> w \<le> 0 \<longrightarrow> e \<noteq> EINTR)"

section \<open>The loop\<close>

lemma my_write_Nil [simp]: "my_write sc [] k = Some (0, k)"
  by (simp add: my_write.simps)

lemma my_write_Cons:
  "buffer \<noteq> [] \<Longrightarrow> sc (sends k) buffer = (w, e) \<Longrightarrow> my_write sc buffer k =
     (if w \<le> 0 then
        (if e = EINTR then my_write sc buffer (k\<lparr>sends := Suc (sends k), waited := waited k + 10\<rparr>)
         else Some (- 1, k\<lparr>sends := Suc (sends k)\<rparr>))
      else my_write sc (drop (nat w) buffer)
        (k\<lparr>sends := Suc (sends k), sent := sent k @ take (nat w) buffer, waited := waited k + 10\<rparr>))"
  by (subst my_write.simps) (simp add: Let_def)

text \<open>What a returned value says, in one statement for the induction.\<close>

definition write_post :: "string \<Rightarrow> sock \<Rightarrow> int \<times> sock \<Rightarrow> bool" where
  "write_post buffer k r \<longleftrightarrow>
     (\<exists>n. sent (snd r) = sent k @ take n buffer)
     \<and> (fst r = 0 \<and> sent (snd r) = sent k @ buffer \<or> fst r = - 1)
     \<and> sends k \<le> sends (snd r) \<and> waited k \<le> waited (snd r)"

lemma take_take_append: "take n xs @ take m (drop n xs) = take (n + m) xs"
  by (simp add: take_add)

lemma my_write_returns:
  assumes ret: "my_write sc buffer k = Some r"
  shows "write_post buffer k r"
proof (rule my_write.raw_induct [where P = "\<lambda>sc buffer k r. write_post buffer k r", OF _ ret])
  fix f :: "send_call \<Rightarrow> string \<Rightarrow> sock \<Rightarrow> (int \<times> sock) option" and sc buffer k r
  assume IH: "\<And>sc buffer k r. f sc buffer k = Some r \<Longrightarrow> write_post buffer k r"
    and eq: "(if buffer = [] then Some (0, k)
      else let (w, e) = sc (sends k) buffer; k1 = k\<lparr>sends := Suc (sends k)\<rparr>
        in if w \<le> 0 then (if e = EINTR then f sc buffer (k1\<lparr>waited := waited k1 + 10\<rparr>)
             else Some (- 1, k1))
           else f sc (drop (nat w) buffer)
             (k1\<lparr>sent := sent k1 @ take (nat w) buffer, waited := waited k1 + 10\<rparr>)) = Some r"
  show "write_post buffer k r"
  proof (cases "buffer = []")
    case True
    with eq show ?thesis by (auto simp: write_post_def)
  next
    case False
    obtain w e where we: "sc (sends k) buffer = (w, e)" by fastforce
    show ?thesis
    proof (cases "w \<le> 0")
      case True
      with False we eq show ?thesis
        by (auto simp: write_post_def Let_def split: if_splits dest!: IH intro: exI [of _ 0])
    next
      case neg: False
      with False we eq have "f sc (drop (nat w) buffer) (k\<lparr>sends := Suc (sends k),
          sent := sent k @ take (nat w) buffer, waited := waited k + 10\<rparr>) = Some r"
        by (simp add: Let_def)
      from IH [OF this] show ?thesis
        by (auto simp: write_post_def take_take_append)
    qed
  qed
qed

section \<open>The contract of a writer\<close>

locale writer =
  fixes put :: "'env \<Rightarrow> string \<Rightarrow> sock \<Rightarrow> (int \<times> sock) option"
  assumes put_all: "put env d k = Some (0, k') \<Longrightarrow> sent k' = sent k @ d"
    and put_some: "put env d k = Some (r, k') \<Longrightarrow> \<exists>n. sent k' = sent k @ take n d"
    and put_code: "put env d k = Some (r, k') \<Longrightarrow> r = 0 \<or> r = - 1"
begin

text \<open>Two writes one after the other, as the response of a GET request is made.\<close>

lemma put_both:
  "put env a k = Some (0, k1) \<Longrightarrow> put env b k1 = Some (0, k2) \<Longrightarrow> sent k2 = sent k @ a @ b"
  by (simp add: put_all)

lemma put_both_partial:
  assumes "put env a k = Some (r, k1)" and "put env b k1 = Some (r', k2)"
  shows "\<exists>n m. sent k2 = sent k @ take n a @ take m b"
  using put_some [OF assms(1)] put_some [OF assms(2)] by fastforce

end

interpretation http: writer my_write
  by unfold_locales (fastforce dest: my_write_returns simp: write_post_def)+

section \<open>Termination\<close>

lemma my_write_ends:
  assumes "quiet_after n sc"
  shows "\<exists>r. my_write sc buffer k = Some r"
proof (induction "length buffer + (n - sends k)" arbitrary: buffer k rule: less_induct)
  case less
  show ?case
  proof (cases "buffer = []")
    case True
    then show ?thesis by simp
  next
    case False
    obtain w e where we: "sc (sends k) buffer = (w, e)" by fastforce
    show ?thesis
    proof (cases "w \<le> 0")
      case True
      show ?thesis
      proof (cases "e = EINTR")
        case intr: True
        with assms we True have "sends k < n"
          by (meson quiet_after_def not_le)
        with less [of buffer "k\<lparr>sends := Suc (sends k), waited := waited k + 10\<rparr>"]
        show ?thesis using False we True intr by (simp add: my_write_Cons)
      qed (use False we True in \<open>simp add: my_write_Cons\<close>)
    next
      case pos: False
      with False have "length buffer - nat w + (n - Suc (sends k)) < length buffer + (n - sends k)"
        by (cases buffer) (auto simp: less_imp_diff_less)
      with less [of "drop (nat w) buffer" "k\<lparr>sends := Suc (sends k),
          sent := sent k @ take (nat w) buffer, waited := waited k + 10\<rparr>"]
      show ?thesis using False we pos by (simp add: my_write_Cons)
    qed
  qed
qed

lemma my_write_stuck:
  assumes "\<And>j d. \<exists>w. w \<le> 0 \<and> sc j d = (w, EINTR)"
  shows "my_write sc buffer k = Some r \<Longrightarrow> buffer = []"
proof -
  assume ret: "my_write sc buffer k = Some r"
  have "(\<forall>j d. \<exists>w. w \<le> 0 \<and> sc j d = (w, EINTR)) \<longrightarrow> buffer = []"
  proof (rule my_write.raw_induct [where P = "\<lambda>sc buffer k r.
      (\<forall>j d. \<exists>w. w \<le> 0 \<and> sc j d = (w, EINTR)) \<longrightarrow> buffer = []", OF _ ret], rule impI)
    fix f :: "send_call \<Rightarrow> string \<Rightarrow> sock \<Rightarrow> (int \<times> sock) option" and sc buffer k r
    assume IH: "\<And>sc buffer k r. f sc buffer k = Some r \<Longrightarrow>
        (\<forall>j d. \<exists>w. w \<le> 0 \<and> sc j d = (w, EINTR)) \<longrightarrow> buffer = []"
      and eq: "(if buffer = [] then Some (0, k)
        else let (w, e) = sc (sends k) buffer; k1 = k\<lparr>sends := Suc (sends k)\<rparr>
          in if w \<le> 0 then (if e = EINTR then f sc buffer (k1\<lparr>waited := waited k1 + 10\<rparr>)
               else Some (- 1, k1))
             else f sc (drop (nat w) buffer)
               (k1\<lparr>sent := sent k1 @ take (nat w) buffer, waited := waited k1 + 10\<rparr>)) = Some r"
      and intr: "\<forall>j d. \<exists>w. w \<le> 0 \<and> sc j d = (w, EINTR)"
    from intr obtain w where "w \<le> 0" "sc (sends k) buffer = (w, EINTR)" by blast
    with eq IH intr show "buffer = []" by (fastforce simp: Let_def split: if_splits)
  qed
  with assms show ?thesis by blast
qed

section \<open>Properties\<close>

text \<open>
  C15: when \<open>my_write\<close> returns 0 the socket has accepted exactly the bytes of the buffer, in order
  and once; when it returns -1, a prefix of them; it returns nothing else.
\<close>

theorem my_write_correct:
  assumes "my_write sc buffer k = Some (r, k')"
  shows "(r = 0 \<and> sent k' = sent k @ buffer) \<or> (r = - 1 \<and> (\<exists>n. sent k' = sent k @ take n buffer))"
  using my_write_returns [OF assms] by (auto simp: write_post_def)

definition three_at_a_time :: send_call where
  "three_at_a_time k d = (if k = 1 then (- 1, EINTR) else (3, OtherErrno 0))"

lemma three_at_a_time_run:
  "my_write three_at_a_time ''abcde'' \<lparr>sends = 0, sent = [], waited = 0\<rparr>
     = Some (0, \<lparr>sends = 3, sent = ''abcde'', waited = 30\<rparr>)"
  by (simp add: my_write_Cons three_at_a_time_def)

theorem my_write_correct_witness:
  "my_write three_at_a_time ''abcde'' \<lparr>sends = 0, sent = [], waited = 0\<rparr>
     = Some (0, \<lparr>sends = 3, sent = ''abcde'', waited = 30\<rparr>)
   \<and> sent \<lparr>sends = 3, sent = ''abcde'', waited = 30\<rparr> = ''abcde''"
  using my_write_correct [OF three_at_a_time_run] three_at_a_time_run by simp

text \<open>
  \<open>my_write\<close> returns whenever \<open>send\<close> is interrupted only finitely often; how the bytes are cut
  up and whether \<open>send\<close> fails does not matter.
\<close>

lemma my_write_terminates:
  assumes "quiet_after n sc"
  shows "\<exists>r k'. my_write sc buffer k = Some (r, k')"
  using my_write_ends [OF assms, of buffer k] by auto

lemma my_write_terminates_witness:
  "quiet_after 2 three_at_a_time \<and>
   (\<exists>r k'. my_write three_at_a_time ''abc'' \<lparr>sends = 0, sent = [], waited = 0\<rparr> = Some (r, k'))"
proof -
  have q: "quiet_after 2 three_at_a_time" by (simp add: quiet_after_def three_at_a_time_def)
  show ?thesis using q my_write_terminates [OF q] by blast
qed

text \<open>
  The converse danger: there is no retry limit.  If every \<open>send\<close> is interrupted, \<open>my_write\<close> on
  a non-empty buffer does not return.
\<close>

lemma my_write_diverges:
  assumes "\<And>j d. sc j d = (- 1, EINTR)" and "buffer \<noteq> []"
  shows "my_write sc buffer k = None"
proof (rule ccontr)
  assume "my_write sc buffer k \<noteq> None"
  then obtain r where r: "my_write sc buffer k = Some r" by blast
  have "\<exists>w. w \<le> 0 \<and> sc j d = (w, EINTR)" for j d using assms(1) by auto
  from my_write_stuck [OF this r] assms(2) show False by simp
qed

lemma my_write_diverges_witness:
  "my_write (\<lambda>j d. (- 1, EINTR)) ''x'' \<lparr>sends = 0, sent = [], waited = 0\<rparr> = None"
  by (rule my_write_diverges) simp_all

end
