(* ===== verification/SdkConfig.thy ===== *)
theory SdkConfig
  imports Main "HOL-Library.Sublist"
begin

text \<open>
  The build configuration: build/config/sdkconfig.h, which the program is compiled with, and
  build/bootloader/config/sdkconfig.h, which its boot loader is compiled with.  A header is the list
  of its object-like macros in order; a macro's body is a number, a string, or the name of another
  macro (the second part of each header keeps old option names that way).  \<open>expand\<close> is the
  preprocessor's replacement: a body that is a macro name is replaced again, and a name is not
  replaced inside its own replacement.

  The lists follow the headers line by line; each definition is one run of lines.
\<close>

section \<open>Macros\<close>

datatype macro_body = IntLit int | StrLit string | Alias string

type_synonym header = "(string \<times> macro_body) list"

fun lookup :: "header \<Rightarrow> string \<Rightarrow> macro_body option" where
  "lookup [] n = None"
| "lookup ((m, b) # h) n = (if m = n then Some b else lookup h n)"

function expand :: "header \<Rightarrow> string \<Rightarrow> macro_body" where
  "expand h n =
     (case lookup h n of
        None \<Rightarrow> Alias n
      | Some (Alias m) \<Rightarrow> expand (filter (\<lambda>e. fst e \<noteq> n) h) m
      | Some b \<Rightarrow> b)"
  by pat_completeness auto

lemma lookup_in_set: "lookup h n = Some b \<Longrightarrow> (n, b) \<in> set h"
  by (induction h n rule: lookup.induct) (auto split: if_splits)

termination expand
proof (relation "measure (\<lambda>(h, n). length h)")
  fix h :: header and n b m
  assume "lookup h n = Some b" and "b = Alias m"
  then have "(n, Alias m) \<in> set h" by (simp add: lookup_in_set)
  then have "length (filter (\<lambda>e. fst e \<noteq> n) h) < length h"
    by (intro length_filter_less) auto
  then show "((filter (\<lambda>e. fst e \<noteq> n) h, m), h, n) \<in> measure (\<lambda>(h, n). length h)" by simp
qed simp

declare expand.simps [simp del]

text \<open>The value of a numeric option, and the test \<open>#ifdef\<close>.\<close>

definition option_value :: "header \<Rightarrow> string \<Rightarrow> int option" where
  "option_value h n = (case expand h n of IntLit i \<Rightarrow> Some i | _ \<Rightarrow> None)"

definition is_defined :: "header \<Rightarrow> string \<Rightarrow> bool" where
  "is_defined h n \<longleftrightarrow> lookup h n \<noteq> None"

section \<open>The application's header\<close>

definition sdk_build :: header where
  "sdk_build =
     [(''CONFIG_IDF_CMAKE'', IntLit 1),
      (''CONFIG_IDF_TARGET_ARCH_XTENSA'', IntLit 1),
      (''CONFIG_IDF_TARGET'', StrLit ''esp32''),
      (''CONFIG_IDF_TARGET_ESP32'', IntLit 1),
      (''CONFIG_IDF_FIRMWARE_CHIP_ID'', IntLit 0x0000),
      (''CONFIG_SDK_TOOLPREFIX'', StrLit ''xtensa-esp32-elf-''),
      (''CONFIG_APP_BUILD_TYPE_APP_2NDBOOT'', IntLit 1),
      (''CONFIG_APP_BUILD_GENERATE_BINARIES'', IntLit 1),
      (''CONFIG_APP_BUILD_BOOTLOADER'', IntLit 1),
      (''CONFIG_APP_BUILD_USE_FLASH_SECTIONS'', IntLit 1),
      (''CONFIG_APP_COMPILE_TIME_DATE'', IntLit 1),
      (''CONFIG_APP_RETRIEVE_LEN_ELF_SHA'', IntLit 16),
      (''CONFIG_BOOTLOADER_OFFSET_IN_FLASH'', IntLit 0x1000),
      (''CONFIG_BOOTLOADER_COMPILER_OPTIMIZATION_SIZE'', IntLit 1),
      (''CONFIG_BOOTLOADER_LOG_LEVEL_INFO'', IntLit 1),
      (''CONFIG_BOOTLOADER_LOG_LEVEL'', IntLit 3),
      (''CONFIG_BOOTLOADER_VDDSDIO_BOOST_1_9V'', IntLit 1),
      (''CONFIG_BOOTLOADER_WDT_ENABLE'', IntLit 1),
      (''CONFIG_BOOTLOADER_WDT_TIME_MS'', IntLit 9000),
      (''CONFIG_BOOTLOADER_RESERVE_RTC_SIZE'', IntLit 0x0),
      (''CONFIG_BOOTLOADER_FLASH_XMC_SUPPORT'', IntLit 1),
      (''CONFIG_ESPTOOLPY_BAUD_OTHER_VAL'', IntLit 115200),
      (''CONFIG_ESPTOOLPY_FLASHMODE_DIO'', IntLit 1),
      (''CONFIG_ESPTOOLPY_FLASH_SAMPLE_MODE_STR'', IntLit 1),
      (''CONFIG_ESPTOOLPY_FLASHMODE'', StrLit ''dio''),
      (''CONFIG_ESPTOOLPY_FLASHFREQ_40M'', IntLit 1),
      (''CONFIG_ESPTOOLPY_FLASHFREQ'', StrLit ''40m''),
      (''CONFIG_ESPTOOLPY_FLASHSIZE_2MB'', IntLit 1),
      (''CONFIG_ESPTOOLPY_FLASHSIZE'', StrLit ''2MB''),
      (''CONFIG_ESPTOOLPY_FLASHSIZE_DETECT'', IntLit 1),
      (''CONFIG_ESPTOOLPY_BEFORE_RESET'', IntLit 1),
      (''CONFIG_ESPTOOLPY_BEFORE'', StrLit ''default_reset''),
      (''CONFIG_ESPTOOLPY_AFTER_RESET'', IntLit 1),
      (''CONFIG_ESPTOOLPY_AFTER'', StrLit ''hard_reset''),
      (''CONFIG_ESPTOOLPY_MONITOR_BAUD_115200B'', IntLit 1),
      (''CONFIG_ESPTOOLPY_MONITOR_BAUD_OTHER_VAL'', IntLit 115200),
      (''CONFIG_ESPTOOLPY_MONITOR_BAUD'', IntLit 115200),
      (''CONFIG_PARTITION_TABLE_SINGLE_APP'', IntLit 1),
      (''CONFIG_PARTITION_TABLE_CUSTOM_FILENAME'', StrLit ''partitions.csv''),
      (''CONFIG_PARTITION_TABLE_FILENAME'', StrLit ''partitions_singleapp.csv''),
      (''CONFIG_PARTITION_TABLE_OFFSET'', IntLit 0x8000),
      (''CONFIG_PARTITION_TABLE_MD5'', IntLit 1),
      (''CONFIG_COMPILER_OPTIMIZATION_DEFAULT'', IntLit 1),
      (''CONFIG_COMPILER_OPTIMIZATION_ASSERTIONS_ENABLE'', IntLit 1),
      (''CONFIG_COMPILER_OPTIMIZATION_ASSERTION_LEVEL'', IntLit 2),
      (''CONFIG_COMPILER_HIDE_PATHS_MACROS'', IntLit 1),
      (''CONFIG_COMPILER_STACK_CHECK_MODE_NONE'', IntLit 1)]"

definition sdk_chip :: header where
  "sdk_chip =
     [(''CONFIG_APPTRACE_DEST_NONE'', IntLit 1),
      (''CONFIG_APPTRACE_LOCK_ENABLE'', IntLit 1),
      (''CONFIG_COAP_MBEDTLS_PSK'', IntLit 1),
      (''CONFIG_COAP_LOG_DEFAULT_LEVEL'', IntLit 0),
      (''CONFIG_ADC_DISABLE_DAC'', IntLit 1),
      (''CONFIG_SPI_MASTER_ISR_IN_IRAM'', IntLit 1),
      (''CONFIG_SPI_SLAVE_ISR_IN_IRAM'', IntLit 1),
      (''CONFIG_EFUSE_CODE_SCHEME_COMPAT_3_4'', IntLit 1),
      (''CONFIG_EFUSE_MAX_BLK_LEN'', IntLit 192),
      (''CONFIG_ESP_TLS_USING_MBEDTLS'', IntLit 1),
      (''CONFIG_ESP32_REV_MIN_0'', IntLit 1),
      (''CONFIG_ESP32_REV_MIN'', IntLit 0),
      (''CONFIG_ESP32_DPORT_WORKAROUND'', IntLit 1),
      (''CONFIG_ESP32_DEFAULT_CPU_FREQ_160'', IntLit 1),
      (''CONFIG_ESP32_DEFAULT_CPU_FREQ_MHZ'', IntLit 160),
      (''CONFIG_ESP32_TRACEMEM_RESERVE_DRAM'', IntLit 0x0),
      (''CONFIG_ESP32_ULP_COPROC_RESERVE_MEM'', IntLit 0),
      (''CONFIG_ESP32_DEBUG_OCDAWARE'', IntLit 1),
      (''CONFIG_ESP32_BROWNOUT_DET'', IntLit 1),
      (''CONFIG_ESP32_BROWNOUT_DET_LVL_SEL_0'', IntLit 1),
      (''CONFIG_ESP32_BROWNOUT_DET_LVL'', IntLit 0),
      (''CONFIG_ESP32_TIME_SYSCALL_USE_RTC_FRC1'', IntLit 1),
      (''CONFIG_ESP32_RTC_CLK_SRC_INT_RC'', IntLit 1),
      (''CONFIG_ESP32_RTC_CLK_CAL_CYCLES'', IntLit 1024),
      (''CONFIG_ESP32_DEEP_SLEEP_WAKEUP_DELAY'', IntLit 2000),
      (''CONFIG_ESP32_XTAL_FREQ_40'', IntLit 1),
      (''CONFIG_ESP32_XTAL_FREQ'', IntLit 40),
      (''CONFIG_ESP32_DPORT_DIS_INTERRUPT_LVL'', IntLit 5),
      (''CONFIG_ADC_CAL_EFUSE_TP_ENABLE'', IntLit 1),
      (''CONFIG_ADC_CAL_EFUSE_VREF_ENABLE'', IntLit 1),
      (''CONFIG_ADC_CAL_LUT_ENABLE'', IntLit 1),
      (''CONFIG_ESP_ERR_TO_NAME_LOOKUP'', IntLit 1),
      (''CONFIG_ETH_ENABLED'', IntLit 1),
      (''CONFIG_ETH_USE_ESP32_EMAC'', IntLit 1),
      (''CONFIG_ETH_PHY_INTERFACE_RMII'', IntLit 1),
      (''CONFIG_ETH_RMII_CLK_INPUT'', IntLit 1),
      (''CONFIG_ETH_RMII_CLK_IN_GPIO'', IntLit 0),
      (''CONFIG_ETH_DMA_BUFFER_SIZE'', IntLit 512),
      (''CONFIG_ETH_DMA_RX_BUFFER_NUM'', IntLit 10),
      (''CONFIG_ETH_DMA_TX_BUFFER_NUM'', IntLit 10),
      (''CONFIG_ETH_USE_SPI_ETHERNET'', IntLit 1),
      (''CONFIG_ESP_EVENT_POST_FROM_ISR'', IntLit 1),
      (''CONFIG_ESP_EVENT_POST_FROM_IRAM_ISR'', IntLit 1),
      (''CONFIG_ESP_HTTP_CLIENT_ENABLE_HTTPS'', IntLit 1),
      (''CONFIG_ESP_HTTP_CLIENT_ENABLE_DIGEST_AUTH'', IntLit 1),
      (''CONFIG_HTTPD_MAX_REQ_HDR_LEN'', IntLit 512),
      (''CONFIG_HTTPD_MAX_URI_LEN'', IntLit 512),
      (''CONFIG_HTTPD_ERR_RESP_NO_DELAY'', IntLit 1),
      (''CONFIG_HTTPD_PURGE_BUF_LEN'', IntLit 32)]"

definition sdk_system :: header where
  "sdk_system =
     [(''CONFIG_ESP_MAC_ADDR_UNIVERSE_WIFI_STA'', IntLit 1),
      (''CONFIG_ESP_MAC_ADDR_UNIVERSE_WIFI_AP'', IntLit 1),
      (''CONFIG_ESP_MAC_ADDR_UNIVERSE_BT'', IntLit 1),
      (''CONFIG_ESP_MAC_ADDR_UNIVERSE_ETH'', IntLit 1),
      (''CONFIG_ESP32_UNIVERSAL_MAC_ADDRESSES_FOUR'', IntLit 1),
      (''CONFIG_ESP32_UNIVERSAL_MAC_ADDRESSES'', IntLit 4),
      (''CONFIG_ESP_SLEEP_POWER_DOWN_FLASH'', IntLit 1),
      (''CONFIG_ESP_SLEEP_RTC_BUS_ISO_WORKAROUND'', IntLit 1),
      (''CONFIG_ESP_IPC_TASK_STACK_SIZE'', IntLit 1536),
      (''CONFIG_ESP_IPC_USES_CALLERS_PRIORITY'', IntLit 1),
      (''CONFIG_ESP_IPC_ISR_ENABLE'', IntLit 1),
      (''CONFIG_LCD_PANEL_IO_FORMAT_BUF_SIZE'', IntLit 32),
      (''CONFIG_ESP_NETIF_IP_LOST_TIMER_INTERVAL'', IntLit 120),
      (''CONFIG_ESP_NETIF_TCPIP_LWIP'', IntLit 1),
      (''CONFIG_ESP_NETIF_TCPIP_ADAPTER_COMPATIBLE_LAYER'', IntLit 1),
      (''CONFIG_ESP_PHY_CALIBRATION_AND_DATA_STORAGE'', IntLit 1),
      (''CONFIG_ESP_PHY_MAX_WIFI_TX_POWER'', IntLit 20),
      (''CONFIG_ESP_PHY_MAX_TX_POWER'', IntLit 20),
      (''CONFIG_ESP_PHY_REDUCE_TX_POWER'', IntLit 1),
      (''CONFIG_ESP_SYSTEM_PANIC_PRINT_REBOOT'', IntLit 1),
      (''CONFIG_ESP_SYSTEM_EVENT_QUEUE_SIZE'', IntLit 32),
      (''CONFIG_ESP_SYSTEM_EVENT_TASK_STACK_SIZE'', IntLit 2304),
      (''CONFIG_ESP_MAIN_TASK_STACK_SIZE'', IntLit 3584),
      (''CONFIG_ESP_MAIN_TASK_AFFINITY_CPU0'', IntLit 1),
      (''CONFIG_ESP_MAIN_TASK_AFFINITY'', IntLit 0x0),
      (''CONFIG_ESP_MINIMAL_SHARED_STACK_SIZE'', IntLit 2048),
      (''CONFIG_ESP_CONSOLE_UART_DEFAULT'', IntLit 1),
      (''CONFIG_ESP_CONSOLE_UART'', IntLit 1),
      (''CONFIG_ESP_CONSOLE_MULTIPLE_UART'', IntLit 1),
      (''CONFIG_ESP_CONSOLE_UART_NUM'', IntLit 0),
      (''CONFIG_ESP_CONSOLE_UART_BAUDRATE'', IntLit 115200),
      (''CONFIG_ESP_INT_WDT'', IntLit 1),
      (''CONFIG_ESP_INT_WDT_TIMEOUT_MS'', IntLit 300),
      (''CONFIG_ESP_INT_WDT_CHECK_CPU1'', IntLit 1),
      (''CONFIG_ESP_TASK_WDT'', IntLit 1),
      (''CONFIG_ESP_TASK_WDT_TIMEOUT_S'', IntLit 5),
      (''CONFIG_ESP_TASK_WDT_CHECK_IDLE_TASK_CPU0'', IntLit 1),
      (''CONFIG_ESP_TASK_WDT_CHECK_IDLE_TASK_CPU1'', IntLit 1),
      (''CONFIG_ESP_SYSTEM_CHECK_INT_LEVEL_4'', IntLit 1),
      (''CONFIG_ESP_TIME_FUNCS_USE_RTC_TIMER'', IntLit 1),
      (''CONFIG_ESP_TIME_FUNCS_USE_ESP_TIMER'', IntLit 1),
      (''CONFIG_ESP_TIMER_TASK_STACK_SIZE'', IntLit 3584),
      (''CONFIG_ESP_TIMER_INTERRUPT_LEVEL'', IntLit 1),
      (''CONFIG_ESP_TIMER_IMPL_TG0_LAC'', IntLit 1),
      (''CONFIG_ESP32_WIFI_ENABLED'', IntLit 1),
      (''CONFIG_ESP32_WIFI_STATIC_RX_BUFFER_NUM'', IntLit 10),
      (''CONFIG_ESP32_WIFI_DYNAMIC_RX_BUFFER_NUM'', IntLit 32),
      (''CONFIG_ESP32_WIFI_DYNAMIC_TX_BUFFER'', IntLit 1),
      (''CONFIG_ESP32_WIFI_TX_BUFFER_TYPE'', IntLit 1),
      (''CONFIG_ESP32_WIFI_DYNAMIC_TX_BUFFER_NUM'', IntLit 32),
      (''CONFIG_ESP32_WIFI_AMPDU_TX_ENABLED'', IntLit 1),
      (''CONFIG_ESP32_WIFI_TX_BA_WIN'', IntLit 6),
      (''CONFIG_ESP32_WIFI_AMPDU_RX_ENABLED'', IntLit 1),
      (''CONFIG_ESP32_WIFI_RX_BA_WIN'', IntLit 6),
      (''CONFIG_ESP32_WIFI_NVS_ENABLED'', IntLit 1),
      (''CONFIG_ESP32_WIFI_TASK_PINNED_TO_CORE_0'', IntLit 1),
      (''CONFIG_ESP32_WIFI_SOFTAP_BEACON_MAX_LEN'', IntLit 752),
      (''CONFIG_ESP32_WIFI_MGMT_SBUF_NUM'', IntLit 32),
      (''CONFIG_ESP32_WIFI_IRAM_OPT'', IntLit 1),
      (''CONFIG_ESP32_WIFI_RX_IRAM_OPT'', IntLit 1),
      (''CONFIG_ESP32_WIFI_ENABLE_WPA3_SAE'', IntLit 1),
      (''CONFIG_ESP_WIFI_SOFTAP_SUPPORT'', IntLit 1),
      (''CONFIG_ESP_COREDUMP_ENABLE_TO_NONE'', IntLit 1)]"

definition sdk_services :: header where
  "sdk_services =
     [(''CONFIG_FATFS_CODEPAGE_437'', IntLit 1),
      (''CONFIG_FATFS_CODEPAGE'', IntLit 437),
      (''CONFIG_FATFS_LFN_NONE'', IntLit 1),
      (''CONFIG_FATFS_FS_LOCK'', IntLit 0),
      (''CONFIG_FATFS_TIMEOUT_MS'', IntLit 10000),
      (''CONFIG_FATFS_PER_FILE_CACHE'', IntLit 1),
      (''CONFIG_FMB_COMM_MODE_TCP_EN'', IntLit 1),
      (''CONFIG_FMB_TCP_PORT_DEFAULT'', IntLit 502),
      (''CONFIG_FMB_TCP_PORT_MAX_CONN'', IntLit 5),
      (''CONFIG_FMB_TCP_CONNECTION_TOUT_SEC'', IntLit 20),
      (''CONFIG_FMB_COMM_MODE_RTU_EN'', IntLit 1),
      (''CONFIG_FMB_COMM_MODE_ASCII_EN'', IntLit 1),
      (''CONFIG_FMB_MASTER_TIMEOUT_MS_RESPOND'', IntLit 150),
      (''CONFIG_FMB_MASTER_DELAY_MS_CONVERT'', IntLit 200),
      (''CONFIG_FMB_QUEUE_LENGTH'', IntLit 20),
      (''CONFIG_FMB_PORT_TASK_STACK_SIZE'', IntLit 4096),
      (''CONFIG_FMB_SERIAL_BUF_SIZE'', IntLit 256),
      (''CONFIG_FMB_SERIAL_ASCII_BITS_PER_SYMB'', IntLit 8),
      (''CONFIG_FMB_SERIAL_ASCII_TIMEOUT_RESPOND_MS'', IntLit 1000),
      (''CONFIG_FMB_PORT_TASK_PRIO'', IntLit 10),
      (''CONFIG_FMB_PORT_TASK_AFFINITY_CPU0'', IntLit 1),
      (''CONFIG_FMB_PORT_TASK_AFFINITY'', IntLit 0x0),
      (''CONFIG_FMB_CONTROLLER_SLAVE_ID_SUPPORT'', IntLit 1),
      (''CONFIG_FMB_CONTROLLER_SLAVE_ID'', IntLit 0x00112233),
      (''CONFIG_FMB_CONTROLLER_NOTIFY_TIMEOUT'', IntLit 20),
      (''CONFIG_FMB_CONTROLLER_NOTIFY_QUEUE_SIZE'', IntLit 20),
      (''CONFIG_FMB_CONTROLLER_STACK_SIZE'', IntLit 4096),
      (''CONFIG_FMB_EVENT_QUEUE_TIMEOUT'', IntLit 20),
      (''CONFIG_FMB_TIMER_GROUP'', IntLit 0),
      (''CONFIG_FMB_TIMER_INDEX'', IntLit 0),
      (''CONFIG_FMB_MASTER_TIMER_GROUP'', IntLit 0),
      (''CONFIG_FMB_MASTER_TIMER_INDEX'', IntLit 0)]"

definition sdk_freertos :: header where
  "sdk_freertos =
     [(''CONFIG_FREERTOS_NO_AFFINITY'', IntLit 0x7FFFFFFF),
      (''CONFIG_FREERTOS_TICK_SUPPORT_CORETIMER'', IntLit 1),
      (''CONFIG_FREERTOS_CORETIMER_0'', IntLit 1),
      (''CONFIG_FREERTOS_SYSTICK_USES_CCOUNT'', IntLit 1),
      (''CONFIG_FREERTOS_HZ'', IntLit 100),
      (''CONFIG_FREERTOS_ASSERT_ON_UNTESTED_FUNCTION'', IntLit 1),
      (''CONFIG_FREERTOS_CHECK_STACKOVERFLOW_CANARY'', IntLit 1),
      (''CONFIG_FREERTOS_INTERRUPT_BACKTRACE'', IntLit 1),
      (''CONFIG_FREERTOS_THREAD_LOCAL_STORAGE_POINTERS'', IntLit 1),
      (''CONFIG_FREERTOS_ASSERT_FAIL_ABORT'', IntLit 1),
      (''CONFIG_FREERTOS_IDLE_TASK_STACKSIZE'', IntLit 1536),
      (''CONFIG_FREERTOS_ISR_STACKSIZE'', IntLit 1536),
      (''CONFIG_FREERTOS_MAX_TASK_NAME_LEN'', IntLit 16),
      (''CONFIG_FREERTOS_SUPPORT_STATIC_ALLOCATION'', IntLit 1),
      (''CONFIG_FREERTOS_TIMER_TASK_PRIORITY'', IntLit 1),
      (''CONFIG_FREERTOS_TIMER_TASK_STACK_DEPTH'', IntLit 2048),
      (''CONFIG_FREERTOS_TIMER_QUEUE_LENGTH'', IntLit 10),
      (''CONFIG_FREERTOS_QUEUE_REGISTRY_SIZE'', IntLit 0),
      (''CONFIG_FREERTOS_TASK_FUNCTION_WRAPPER'', IntLit 1),
      (''CONFIG_FREERTOS_CHECK_MUTEX_GIVEN_BY_OWNER'', IntLit 1),
      (''CONFIG_FREERTOS_DEBUG_OCDAWARE'', IntLit 1),
      (''CONFIG_FREERTOS_ENABLE_TASK_SNAPSHOT'', IntLit 1),
      (''CONFIG_HAL_ASSERTION_EQUALS_SYSTEM'', IntLit 1),
      (''CONFIG_HAL_DEFAULT_ASSERTION_LEVEL'', IntLit 2),
      (''CONFIG_HEAP_POISONING_DISABLED'', IntLit 1),
      (''CONFIG_HEAP_TRACING_OFF'', IntLit 1),
      (''CONFIG_LOG_DEFAULT_LEVEL_INFO'', IntLit 1),
      (''CONFIG_LOG_DEFAULT_LEVEL'', IntLit 3),
      (''CONFIG_LOG_MAXIMUM_EQUALS_DEFAULT'', IntLit 1),
      (''CONFIG_LOG_MAXIMUM_LEVEL'', IntLit 3),
      (''CONFIG_LOG_COLORS'', IntLit 1),
      (''CONFIG_LOG_TIMESTAMP_SOURCE_RTOS'', IntLit 1)]"

definition sdk_lwip :: header where
  "sdk_lwip =
     [(''CONFIG_LWIP_LOCAL_HOSTNAME'', StrLit ''espressif''),
      (''CONFIG_LWIP_DNS_SUPPORT_MDNS_QUERIES'', IntLit 1),
      (''CONFIG_LWIP_TIMERS_ONDEMAND'', IntLit 1),
      (''CONFIG_LWIP_MAX_SOCKETS'', IntLit 10),
      (''CONFIG_LWIP_SO_REUSE'', IntLit 1),
      (''CONFIG_LWIP_SO_REUSE_RXTOALL'', IntLit 1),
      (''CONFIG_LWIP_IP4_FRAG'', IntLit 1),
      (''CONFIG_LWIP_IP6_FRAG'', IntLit 1),
      (''CONFIG_LWIP_ESP_GRATUITOUS_ARP'', IntLit 1),
      (''CONFIG_LWIP_GARP_TMR_INTERVAL'', IntLit 60),
      (''CONFIG_LWIP_TCPIP_RECVMBOX_SIZE'', IntLit 32),
      (''CONFIG_LWIP_DHCP_DOES_ARP_CHECK'', IntLit 1),
      (''CONFIG_LWIP_DHCP_DISABLE_VENDOR_CLASS_ID'', IntLit 1),
      (''CONFIG_LWIP_DHCP_OPTIONS_LEN'', IntLit 68),
      (''CONFIG_LWIP_DHCPS'', IntLit 1),
      (''CONFIG_LWIP_DHCPS_LEASE_UNIT'', IntLit 60),
      (''CONFIG_LWIP_DHCPS_MAX_STATION_NUM'', IntLit 8),
      (''CONFIG_LWIP_IPV6'', IntLit 1),
      (''CONFIG_LWIP_IPV6_NUM_ADDRESSES'', IntLit 3),
      (''CONFIG_LWIP_NETIF_LOOPBACK'', IntLit 1),
      (''CONFIG_LWIP_LOOPBACK_MAX_PBUFS'', IntLit 8),
      (''CONFIG_LWIP_MAX_ACTIVE_TCP'', IntLit 16),
      (''CONFIG_LWIP_MAX_LISTENING_TCP'', IntLit 16),
      (''CONFIG_LWIP_TCP_HIGH_SPEED_RETRANSMISSION'', IntLit 1),
      (''CONFIG_LWIP_TCP_MAXRTX'', IntLit 12),
      (''CONFIG_LWIP_TCP_SYNMAXRTX'', IntLit 12),
      (''CONFIG_LWIP_TCP_MSS'', IntLit 1440),
      (''CONFIG_LWIP_TCP_TMR_INTERVAL'', IntLit 250),
      (''CONFIG_LWIP_TCP_MSL'', IntLit 60000),
      (''CONFIG_LWIP_TCP_SND_BUF_DEFAULT'', IntLit 5744),
      (''CONFIG_LWIP_TCP_WND_DEFAULT'', IntLit 5744),
      (''CONFIG_LWIP_TCP_RECVMBOX_SIZE'', IntLit 6),
      (''CONFIG_LWIP_TCP_QUEUE_OOSEQ'', IntLit 1),
      (''CONFIG_LWIP_TCP_OVERSIZE_MSS'', IntLit 1),
      (''CONFIG_LWIP_TCP_RTO_TIME'', IntLit 1500),
      (''CONFIG_LWIP_MAX_UDP_PCBS'', IntLit 16),
      (''CONFIG_LWIP_UDP_RECVMBOX_SIZE'', IntLit 6),
      (''CONFIG_LWIP_CHECKSUM_CHECK_ICMP'', IntLit 1),
      (''CONFIG_LWIP_TCPIP_TASK_STACK_SIZE'', IntLit 3072),
      (''CONFIG_LWIP_TCPIP_TASK_AFFINITY_NO_AFFINITY'', IntLit 1),
      (''CONFIG_LWIP_TCPIP_TASK_AFFINITY'', IntLit 0x7FFFFFFF),
      (''CONFIG_LWIP_IPV6_MEMP_NUM_ND6_QUEUE'', IntLit 3),
      (''CONFIG_LWIP_IPV6_ND6_NUM_NEIGHBORS'', IntLit 5),
      (''CONFIG_LWIP_ICMP'', IntLit 1),
      (''CONFIG_LWIP_MAX_RAW_PCBS'', IntLit 16),
      (''CONFIG_LWIP_SNTP_MAX_SERVERS'', IntLit 1),
      (''CONFIG_LWIP_SNTP_UPDATE_DELAY'', IntLit 3600000),
      (''CONFIG_LWIP_ESP_LWIP_ASSERT'', IntLit 1),
      (''CONFIG_LWIP_HOOK_TCP_ISN_DEFAULT'', IntLit 1),
      (''CONFIG_LWIP_HOOK_IP6_ROUTE_NONE'', IntLit 1),
      (''CONFIG_LWIP_HOOK_ND6_GET_GW_NONE'', IntLit 1),
      (''CONFIG_LWIP_HOOK_NETCONN_EXT_RESOLVE_NONE'', IntLit 1)]"

definition sdk_mbedtls :: header where
  "sdk_mbedtls =
     [(''CONFIG_MBEDTLS_INTERNAL_MEM_ALLOC'', IntLit 1),
      (''CONFIG_MBEDTLS_ASYMMETRIC_CONTENT_LEN'', IntLit 1),
      (''CONFIG_MBEDTLS_SSL_IN_CONTENT_LEN'', IntLit 16384),
      (''CONFIG_MBEDTLS_SSL_OUT_CONTENT_LEN'', IntLit 4096),
      (''CONFIG_MBEDTLS_CERTIFICATE_BUNDLE'', IntLit 1),
      (''CONFIG_MBEDTLS_CERTIFICATE_BUNDLE_DEFAULT_FULL'', IntLit 1),
      (''CONFIG_MBEDTLS_HARDWARE_AES'', IntLit 1),
      (''CONFIG_MBEDTLS_HARDWARE_MPI'', IntLit 1),
      (''CONFIG_MBEDTLS_HARDWARE_SHA'', IntLit 1),
      (''CONFIG_MBEDTLS_ROM_MD5'', IntLit 1),
      (''CONFIG_MBEDTLS_HAVE_TIME'', IntLit 1),
      (''CONFIG_MBEDTLS_ECDSA_DETERMINISTIC'', IntLit 1),
      (''CONFIG_MBEDTLS_SHA512_C'', IntLit 1),
      (''CONFIG_MBEDTLS_TLS_SERVER_AND_CLIENT'', IntLit 1),
      (''CONFIG_MBEDTLS_TLS_SERVER'', IntLit 1),
      (''CONFIG_MBEDTLS_TLS_CLIENT'', IntLit 1),
      (''CONFIG_MBEDTLS_TLS_ENABLED'', IntLit 1),
      (''CONFIG_MBEDTLS_KEY_EXCHANGE_RSA'', IntLit 1),
      (''CONFIG_MBEDTLS_KEY_EXCHANGE_DHE_RSA'', IntLit 1),
      (''CONFIG_MBEDTLS_KEY_EXCHANGE_ELLIPTIC_CURVE'', IntLit 1),
      (''CONFIG_MBEDTLS_KEY_EXCHANGE_ECDHE_RSA'', IntLit 1),
      (''CONFIG_MBEDTLS_KEY_EXCHANGE_ECDHE_ECDSA'', IntLit 1),
      (''CONFIG_MBEDTLS_KEY_EXCHANGE_ECDH_ECDSA'', IntLit 1),
      (''CONFIG_MBEDTLS_KEY_EXCHANGE_ECDH_RSA'', IntLit 1),
      (''CONFIG_MBEDTLS_SSL_RENEGOTIATION'', IntLit 1),
      (''CONFIG_MBEDTLS_SSL_PROTO_TLS1'', IntLit 1),
      (''CONFIG_MBEDTLS_SSL_PROTO_TLS1_1'', IntLit 1),
      (''CONFIG_MBEDTLS_SSL_PROTO_TLS1_2'', IntLit 1),
      (''CONFIG_MBEDTLS_SSL_ALPN'', IntLit 1),
      (''CONFIG_MBEDTLS_CLIENT_SSL_SESSION_TICKETS'', IntLit 1),
      (''CONFIG_MBEDTLS_X509_CHECK_KEY_USAGE'', IntLit 1),
      (''CONFIG_MBEDTLS_X509_CHECK_EXTENDED_KEY_USAGE'', IntLit 1),
      (''CONFIG_MBEDTLS_SERVER_SSL_SESSION_TICKETS'', IntLit 1),
      (''CONFIG_MBEDTLS_AES_C'', IntLit 1),
      (''CONFIG_MBEDTLS_RC4_DISABLED'', IntLit 1),
      (''CONFIG_MBEDTLS_CCM_C'', IntLit 1),
      (''CONFIG_MBEDTLS_GCM_C'', IntLit 1),
      (''CONFIG_MBEDTLS_PEM_PARSE_C'', IntLit 1),
      (''CONFIG_MBEDTLS_PEM_WRITE_C'', IntLit 1),
      (''CONFIG_MBEDTLS_X509_CRL_PARSE_C'', IntLit 1),
      (''CONFIG_MBEDTLS_X509_CSR_PARSE_C'', IntLit 1),
      (''CONFIG_MBEDTLS_ECP_C'', IntLit 1),
      (''CONFIG_MBEDTLS_ECDH_C'', IntLit 1),
      (''CONFIG_MBEDTLS_ECDSA_C'', IntLit 1),
      (''CONFIG_MBEDTLS_ECP_DP_SECP192R1_ENABLED'', IntLit 1),
      (''CONFIG_MBEDTLS_ECP_DP_SECP224R1_ENABLED'', IntLit 1),
      (''CONFIG_MBEDTLS_ECP_DP_SECP256R1_ENABLED'', IntLit 1),
      (''CONFIG_MBEDTLS_ECP_DP_SECP384R1_ENABLED'', IntLit 1),
      (''CONFIG_MBEDTLS_ECP_DP_SECP521R1_ENABLED'', IntLit 1),
      (''CONFIG_MBEDTLS_ECP_DP_SECP192K1_ENABLED'', IntLit 1),
      (''CONFIG_MBEDTLS_ECP_DP_SECP224K1_ENABLED'', IntLit 1),
      (''CONFIG_MBEDTLS_ECP_DP_SECP256K1_ENABLED'', IntLit 1),
      (''CONFIG_MBEDTLS_ECP_DP_BP256R1_ENABLED'', IntLit 1),
      (''CONFIG_MBEDTLS_ECP_DP_BP384R1_ENABLED'', IntLit 1),
      (''CONFIG_MBEDTLS_ECP_DP_BP512R1_ENABLED'', IntLit 1),
      (''CONFIG_MBEDTLS_ECP_DP_CURVE25519_ENABLED'', IntLit 1),
      (''CONFIG_MBEDTLS_ECP_NIST_OPTIM'', IntLit 1)]"

definition sdk_storage :: header where
  "sdk_storage =
     [(''CONFIG_MDNS_MAX_SERVICES'', IntLit 10),
      (''CONFIG_MDNS_TASK_PRIORITY'', IntLit 1),
      (''CONFIG_MDNS_TASK_STACK_SIZE'', IntLit 4096),
      (''CONFIG_MDNS_TASK_AFFINITY_CPU0'', IntLit 1),
      (''CONFIG_MDNS_TASK_AFFINITY'', IntLit 0x0),
      (''CONFIG_MDNS_SERVICE_ADD_TIMEOUT_MS'', IntLit 2000),
      (''CONFIG_MDNS_TIMER_PERIOD_MS'', IntLit 100),
      (''CONFIG_MDNS_MULTIPLE_INSTANCE'', IntLit 1),
      (''CONFIG_MQTT_PROTOCOL_311'', IntLit 1),
      (''CONFIG_MQTT_TRANSPORT_SSL'', IntLit 1),
      (''CONFIG_MQTT_TRANSPORT_WEBSOCKET'', IntLit 1),
      (''CONFIG_MQTT_TRANSPORT_WEBSOCKET_SECURE'', IntLit 1),
      (''CONFIG_NEWLIB_STDOUT_LINE_ENDING_CRLF'', IntLit 1),
      (''CONFIG_NEWLIB_STDIN_LINE_ENDING_CR'', IntLit 1),
      (''CONFIG_OPENSSL_ERROR_STACK'', IntLit 1),
      (''CONFIG_OPENSSL_ASSERT_EXIT'', IntLit 1),
      (''CONFIG_PTHREAD_TASK_PRIO_DEFAULT'', IntLit 5),
      (''CONFIG_PTHREAD_TASK_STACK_SIZE_DEFAULT'', IntLit 3072),
      (''CONFIG_PTHREAD_STACK_MIN'', IntLit 768),
      (''CONFIG_PTHREAD_DEFAULT_CORE_NO_AFFINITY'', IntLit 1),
      (''CONFIG_PTHREAD_TASK_CORE_DEFAULT'', IntLit (- 1)),
      (''CONFIG_PTHREAD_TASK_NAME_DEFAULT'', StrLit ''pthread''),
      (''CONFIG_SPI_FLASH_ROM_DRIVER_PATCH'', IntLit 1),
      (''CONFIG_SPI_FLASH_DANGEROUS_WRITE_ABORTS'', IntLit 1),
      (''CONFIG_SPI_FLASH_YIELD_DURING_ERASE'', IntLit 1),
      (''CONFIG_SPI_FLASH_ERASE_YIELD_DURATION_MS'', IntLit 20),
      (''CONFIG_SPI_FLASH_ERASE_YIELD_TICKS'', IntLit 1),
      (''CONFIG_SPI_FLASH_WRITE_CHUNK_SIZE'', IntLit 8192),
      (''CONFIG_SPI_FLASH_SUPPORT_ISSI_CHIP'', IntLit 1),
      (''CONFIG_SPI_FLASH_SUPPORT_MXIC_CHIP'', IntLit 1),
      (''CONFIG_SPI_FLASH_SUPPORT_GD_CHIP'', IntLit 1),
      (''CONFIG_SPI_FLASH_SUPPORT_WINBOND_CHIP'', IntLit 1),
      (''CONFIG_SPI_FLASH_ENABLE_ENCRYPTED_READ_WRITE'', IntLit 1),
      (''CONFIG_SPIFFS_MAX_PARTITIONS'', IntLit 3),
      (''CONFIG_SPIFFS_CACHE'', IntLit 1),
      (''CONFIG_SPIFFS_CACHE_WR'', IntLit 1),
      (''CONFIG_SPIFFS_PAGE_CHECK'', IntLit 1),
      (''CONFIG_SPIFFS_GC_MAX_RUNS'', IntLit 10),
      (''CONFIG_SPIFFS_PAGE_SIZE'', IntLit 256),
      (''CONFIG_SPIFFS_OBJ_NAME_LEN'', IntLit 32),
      (''CONFIG_SPIFFS_USE_MAGIC'', IntLit 1),
      (''CONFIG_SPIFFS_USE_MAGIC_LENGTH'', IntLit 1),
      (''CONFIG_SPIFFS_META_LENGTH'', IntLit 4),
      (''CONFIG_SPIFFS_USE_MTIME'', IntLit 1),
      (''CONFIG_WS_TRANSPORT'', IntLit 1),
      (''CONFIG_WS_BUFFER_SIZE'', IntLit 1024),
      (''CONFIG_UNITY_ENABLE_FLOAT'', IntLit 1),
      (''CONFIG_UNITY_ENABLE_DOUBLE'', IntLit 1),
      (''CONFIG_UNITY_ENABLE_IDF_TEST_RUNNER'', IntLit 1),
      (''CONFIG_VFS_SUPPORT_IO'', IntLit 1),
      (''CONFIG_VFS_SUPPORT_DIR'', IntLit 1),
      (''CONFIG_VFS_SUPPORT_SELECT'', IntLit 1),
      (''CONFIG_VFS_SUPPRESS_SELECT_DEBUG_OUTPUT'', IntLit 1),
      (''CONFIG_VFS_SUPPORT_TERMIOS'', IntLit 1),
      (''CONFIG_VFS_SEMIHOSTFS_MAX_MOUNT_POINTS'', IntLit 1),
      (''CONFIG_VFS_SEMIHOSTFS_HOST_PATH_MAX_LEN'', IntLit 128),
      (''CONFIG_WL_SECTOR_SIZE_4096'', IntLit 1),
      (''CONFIG_WL_SECTOR_SIZE'', IntLit 4096),
      (''CONFIG_WIFI_PROV_SCAN_MAX_ENTRIES'', IntLit 16),
      (''CONFIG_WIFI_PROV_AUTOSTOP_TIMEOUT'', IntLit 30),
      (''CONFIG_WPA_MBEDTLS_CRYPTO'', IntLit 1)]"

definition sdk_deprecated :: header where
  "sdk_deprecated =
     [(''CONFIG_ADC2_DISABLE_DAC'', Alias ''CONFIG_ADC_DISABLE_DAC''),
      (''CONFIG_BROWNOUT_DET'', Alias ''CONFIG_ESP32_BROWNOUT_DET''),
      (''CONFIG_BROWNOUT_DET_LVL_SEL_0'', Alias ''CONFIG_ESP32_BROWNOUT_DET_LVL_SEL_0''),
      (''CONFIG_COMPILER_OPTIMIZATION_LEVEL_DEBUG'', Alias ''CONFIG_COMPILER_OPTIMIZATION_DEFAULT''),
      (''CONFIG_CONSOLE_UART_DEFAULT'', Alias ''CONFIG_ESP_CONSOLE_UART_DEFAULT''),
      (''CONFIG_ESP32S2_PANIC_PRINT_REBOOT'', Alias ''CONFIG_ESP_SYSTEM_PANIC_PRINT_REBOOT''),
      (''CONFIG_ESP32_APPTRACE_DEST_NONE'', Alias ''CONFIG_APPTRACE_DEST_NONE''),
      (''CONFIG_ESP32_DEFAULT_PTHREAD_CORE_NO_AFFINITY'', Alias ''CONFIG_PTHREAD_DEFAULT_CORE_NO_AFFINITY''),
      (''CONFIG_ESP32_ENABLE_COREDUMP_TO_NONE'', Alias ''CONFIG_ESP_COREDUMP_ENABLE_TO_NONE''),
      (''CONFIG_ESP32_PANIC_PRINT_REBOOT'', Alias ''CONFIG_ESP_SYSTEM_PANIC_PRINT_REBOOT''),
      (''CONFIG_ESP32_PHY_CALIBRATION_AND_DATA_STORAGE'', Alias ''CONFIG_ESP_PHY_CALIBRATION_AND_DATA_STORAGE''),
      (''CONFIG_ESP32_PHY_MAX_WIFI_TX_POWER'', Alias ''CONFIG_ESP_PHY_MAX_WIFI_TX_POWER''),
      (''CONFIG_ESP32_PTHREAD_STACK_MIN'', Alias ''CONFIG_PTHREAD_STACK_MIN''),
      (''CONFIG_ESP32_PTHREAD_TASK_NAME_DEFAULT'', Alias ''CONFIG_PTHREAD_TASK_NAME_DEFAULT''),
      (''CONFIG_ESP32_PTHREAD_TASK_PRIO_DEFAULT'', Alias ''CONFIG_PTHREAD_TASK_PRIO_DEFAULT''),
      (''CONFIG_ESP32_PTHREAD_TASK_STACK_SIZE_DEFAULT'', Alias ''CONFIG_PTHREAD_TASK_STACK_SIZE_DEFAULT''),
      (''CONFIG_ESP32_REDUCE_PHY_TX_POWER'', Alias ''CONFIG_ESP_PHY_REDUCE_TX_POWER''),
      (''CONFIG_ESP32_RTC_CLOCK_SOURCE_INTERNAL_RC'', Alias ''CONFIG_ESP32_RTC_CLK_SRC_INT_RC''),
      (''CONFIG_ESP_GRATUITOUS_ARP'', Alias ''CONFIG_LWIP_ESP_GRATUITOUS_ARP''),
      (''CONFIG_ESP_SYSTEM_PD_FLASH'', Alias ''CONFIG_ESP_SLEEP_POWER_DOWN_FLASH''),
      (''CONFIG_FLASHMODE_DIO'', Alias ''CONFIG_ESPTOOLPY_FLASHMODE_DIO''),
      (''CONFIG_FOUR_UNIVERSAL_MAC_ADDRESS'', Alias ''CONFIG_ESP32_UNIVERSAL_MAC_ADDRESSES_FOUR''),
      (''CONFIG_GARP_TMR_INTERVAL'', Alias ''CONFIG_LWIP_GARP_TMR_INTERVAL''),
      (''CONFIG_INT_WDT'', Alias ''CONFIG_ESP_INT_WDT''),
      (''CONFIG_INT_WDT_CHECK_CPU1'', Alias ''CONFIG_ESP_INT_WDT_CHECK_CPU1''),
      (''CONFIG_INT_WDT_TIMEOUT_MS'', Alias ''CONFIG_ESP_INT_WDT_TIMEOUT_MS''),
      (''CONFIG_IPC_TASK_STACK_SIZE'', Alias ''CONFIG_ESP_IPC_TASK_STACK_SIZE''),
      (''CONFIG_LOG_BOOTLOADER_LEVEL_INFO'', Alias ''CONFIG_BOOTLOADER_LOG_LEVEL_INFO''),
      (''CONFIG_MAIN_TASK_STACK_SIZE'', Alias ''CONFIG_ESP_MAIN_TASK_STACK_SIZE''),
      (''CONFIG_MB_CONTROLLER_NOTIFY_QUEUE_SIZE'', Alias ''CONFIG_FMB_CONTROLLER_NOTIFY_QUEUE_SIZE''),
      (''CONFIG_MB_CONTROLLER_NOTIFY_TIMEOUT'', Alias ''CONFIG_FMB_CONTROLLER_NOTIFY_TIMEOUT''),
      (''CONFIG_MB_CONTROLLER_SLAVE_ID'', Alias ''CONFIG_FMB_CONTROLLER_SLAVE_ID''),
      (''CONFIG_MB_CONTROLLER_SLAVE_ID_SUPPORT'', Alias ''CONFIG_FMB_CONTROLLER_SLAVE_ID_SUPPORT''),
      (''CONFIG_MB_CONTROLLER_STACK_SIZE'', Alias ''CONFIG_FMB_CONTROLLER_STACK_SIZE''),
      (''CONFIG_MB_EVENT_QUEUE_TIMEOUT'', Alias ''CONFIG_FMB_EVENT_QUEUE_TIMEOUT''),
      (''CONFIG_MB_MASTER_DELAY_MS_CONVERT'', Alias ''CONFIG_FMB_MASTER_DELAY_MS_CONVERT''),
      (''CONFIG_MB_MASTER_TIMEOUT_MS_RESPOND'', Alias ''CONFIG_FMB_MASTER_TIMEOUT_MS_RESPOND''),
      (''CONFIG_MB_QUEUE_LENGTH'', Alias ''CONFIG_FMB_QUEUE_LENGTH''),
      (''CONFIG_MB_SERIAL_BUF_SIZE'', Alias ''CONFIG_FMB_SERIAL_BUF_SIZE''),
      (''CONFIG_MB_SERIAL_TASK_PRIO'', Alias ''CONFIG_FMB_PORT_TASK_PRIO''),
      (''CONFIG_MB_SERIAL_TASK_STACK_SIZE'', Alias ''CONFIG_FMB_PORT_TASK_STACK_SIZE''),
      (''CONFIG_MB_TIMER_GROUP'', Alias ''CONFIG_FMB_TIMER_GROUP''),
      (''CONFIG_MB_TIMER_INDEX'', Alias ''CONFIG_FMB_TIMER_INDEX''),
      (''CONFIG_MONITOR_BAUD_115200B'', Alias ''CONFIG_ESPTOOLPY_MONITOR_BAUD_115200B''),
      (''CONFIG_OPTIMIZATION_ASSERTIONS_ENABLED'', Alias ''CONFIG_COMPILER_OPTIMIZATION_ASSERTIONS_ENABLE''),
      (''CONFIG_OPTIMIZATION_LEVEL_DEBUG'', Alias ''CONFIG_COMPILER_OPTIMIZATION_DEFAULT''),
      (''CONFIG_POST_EVENTS_FROM_IRAM_ISR'', Alias ''CONFIG_ESP_EVENT_POST_FROM_IRAM_ISR''),
      (''CONFIG_POST_EVENTS_FROM_ISR'', Alias ''CONFIG_ESP_EVENT_POST_FROM_ISR''),
      (''CONFIG_REDUCE_PHY_TX_POWER'', Alias ''CONFIG_ESP_PHY_REDUCE_TX_POWER''),
      (''CONFIG_SEMIHOSTFS_HOST_PATH_MAX_LEN'', Alias ''CONFIG_VFS_SEMIHOSTFS_HOST_PATH_MAX_LEN''),
      (''CONFIG_SEMIHOSTFS_MAX_MOUNT_POINTS'', Alias ''CONFIG_VFS_SEMIHOSTFS_MAX_MOUNT_POINTS''),
      (''CONFIG_SPI_FLASH_WRITING_DANGEROUS_REGIONS_ABORTS'', Alias ''CONFIG_SPI_FLASH_DANGEROUS_WRITE_ABORTS''),
      (''CONFIG_STACK_CHECK_NONE'', Alias ''CONFIG_COMPILER_STACK_CHECK_MODE_NONE''),
      (''CONFIG_SUPPORT_TERMIOS'', Alias ''CONFIG_VFS_SUPPORT_TERMIOS''),
      (''CONFIG_SUPPRESS_SELECT_DEBUG_OUTPUT'', Alias ''CONFIG_VFS_SUPPRESS_SELECT_DEBUG_OUTPUT''),
      (''CONFIG_SYSTEM_EVENT_QUEUE_SIZE'', Alias ''CONFIG_ESP_SYSTEM_EVENT_QUEUE_SIZE''),
      (''CONFIG_SYSTEM_EVENT_TASK_STACK_SIZE'', Alias ''CONFIG_ESP_SYSTEM_EVENT_TASK_STACK_SIZE''),
      (''CONFIG_TASK_WDT'', Alias ''CONFIG_ESP_TASK_WDT''),
      (''CONFIG_TASK_WDT_CHECK_IDLE_TASK_CPU0'', Alias ''CONFIG_ESP_TASK_WDT_CHECK_IDLE_TASK_CPU0''),
      (''CONFIG_TASK_WDT_CHECK_IDLE_TASK_CPU1'', Alias ''CONFIG_ESP_TASK_WDT_CHECK_IDLE_TASK_CPU1''),
      (''CONFIG_TASK_WDT_TIMEOUT_S'', Alias ''CONFIG_ESP_TASK_WDT_TIMEOUT_S''),
      (''CONFIG_TCPIP_RECVMBOX_SIZE'', Alias ''CONFIG_LWIP_TCPIP_RECVMBOX_SIZE''),
      (''CONFIG_TCPIP_TASK_AFFINITY_NO_AFFINITY'', Alias ''CONFIG_LWIP_TCPIP_TASK_AFFINITY_NO_AFFINITY''),
      (''CONFIG_TCPIP_TASK_STACK_SIZE'', Alias ''CONFIG_LWIP_TCPIP_TASK_STACK_SIZE''),
      (''CONFIG_TCP_MAXRTX'', Alias ''CONFIG_LWIP_TCP_MAXRTX''),
      (''CONFIG_TCP_MSL'', Alias ''CONFIG_LWIP_TCP_MSL''),
      (''CONFIG_TCP_MSS'', Alias ''CONFIG_LWIP_TCP_MSS''),
      (''CONFIG_TCP_OVERSIZE_MSS'', Alias ''CONFIG_LWIP_TCP_OVERSIZE_MSS''),
      (''CONFIG_TCP_QUEUE_OOSEQ'', Alias ''CONFIG_LWIP_TCP_QUEUE_OOSEQ''),
      (''CONFIG_TCP_RECVMBOX_SIZE'', Alias ''CONFIG_LWIP_TCP_RECVMBOX_SIZE''),
      (''CONFIG_TCP_SND_BUF_DEFAULT'', Alias ''CONFIG_LWIP_TCP_SND_BUF_DEFAULT''),
      (''CONFIG_TCP_SYNMAXRTX'', Alias ''CONFIG_LWIP_TCP_SYNMAXRTX''),
      (''CONFIG_TCP_WND_DEFAULT'', Alias ''CONFIG_LWIP_TCP_WND_DEFAULT''),
      (''CONFIG_TIMER_QUEUE_LENGTH'', Alias ''CONFIG_FREERTOS_TIMER_QUEUE_LENGTH''),
      (''CONFIG_TIMER_TASK_PRIORITY'', Alias ''CONFIG_FREERTOS_TIMER_TASK_PRIORITY''),
      (''CONFIG_TIMER_TASK_STACK_DEPTH'', Alias ''CONFIG_FREERTOS_TIMER_TASK_STACK_DEPTH''),
      (''CONFIG_TIMER_TASK_STACK_SIZE'', Alias ''CONFIG_ESP_TIMER_TASK_STACK_SIZE''),
      (''CONFIG_TOOLPREFIX'', Alias ''CONFIG_SDK_TOOLPREFIX''),
      (''CONFIG_UDP_RECVMBOX_SIZE'', Alias ''CONFIG_LWIP_UDP_RECVMBOX_SIZE'')]"

definition sdkconfig :: header where
  "sdkconfig = sdk_build @ sdk_chip @ sdk_system @ sdk_services @ sdk_freertos @ sdk_lwip
     @ sdk_mbedtls @ sdk_storage @ sdk_deprecated"

section \<open>The boot loader's header\<close>

definition boot_build :: header where
  "boot_build =
     [(''CONFIG_IDF_CMAKE'', IntLit 1),
      (''CONFIG_IDF_TARGET_ARCH_XTENSA'', IntLit 1),
      (''CONFIG_IDF_TARGET'', StrLit ''esp32''),
      (''CONFIG_IDF_TARGET_ESP32'', IntLit 1),
      (''CONFIG_IDF_FIRMWARE_CHIP_ID'', IntLit 0x0000),
      (''CONFIG_SDK_TOOLPREFIX'', StrLit ''xtensa-esp32-elf-''),
      (''CONFIG_APP_BUILD_TYPE_APP_2NDBOOT'', IntLit 1),
      (''CONFIG_APP_BUILD_GENERATE_BINARIES'', IntLit 1),
      (''CONFIG_APP_BUILD_BOOTLOADER'', IntLit 1),
      (''CONFIG_APP_BUILD_USE_FLASH_SECTIONS'', IntLit 1),
      (''CONFIG_BOOTLOADER_OFFSET_IN_FLASH'', IntLit 0x1000),
      (''CONFIG_BOOTLOADER_COMPILER_OPTIMIZATION_SIZE'', IntLit 1),
      (''CONFIG_BOOTLOADER_LOG_LEVEL_INFO'', IntLit 1),
      (''CONFIG_BOOTLOADER_LOG_LEVEL'', IntLit 3),
      (''CONFIG_BOOTLOADER_VDDSDIO_BOOST_1_9V'', IntLit 1),
      (''CONFIG_BOOTLOADER_WDT_ENABLE'', IntLit 1),
      (''CONFIG_BOOTLOADER_WDT_TIME_MS'', IntLit 9000),
      (''CONFIG_BOOTLOADER_RESERVE_RTC_SIZE'', IntLit 0x0),
      (''CONFIG_BOOTLOADER_FLASH_XMC_SUPPORT'', IntLit 1),
      (''CONFIG_ESPTOOLPY_BAUD_OTHER_VAL'', IntLit 115200),
      (''CONFIG_ESPTOOLPY_FLASHMODE_DIO'', IntLit 1),
      (''CONFIG_ESPTOOLPY_FLASH_SAMPLE_MODE_STR'', IntLit 1),
      (''CONFIG_ESPTOOLPY_FLASHMODE'', StrLit ''dio''),
      (''CONFIG_ESPTOOLPY_FLASHFREQ_40M'', IntLit 1),
      (''CONFIG_ESPTOOLPY_FLASHFREQ'', StrLit ''40m''),
      (''CONFIG_ESPTOOLPY_FLASHSIZE_2MB'', IntLit 1),
      (''CONFIG_ESPTOOLPY_FLASHSIZE'', StrLit ''2MB''),
      (''CONFIG_ESPTOOLPY_FLASHSIZE_DETECT'', IntLit 1),
      (''CONFIG_ESPTOOLPY_BEFORE_RESET'', IntLit 1),
      (''CONFIG_ESPTOOLPY_BEFORE'', StrLit ''default_reset''),
      (''CONFIG_ESPTOOLPY_AFTER_RESET'', IntLit 1),
      (''CONFIG_ESPTOOLPY_AFTER'', StrLit ''hard_reset''),
      (''CONFIG_ESPTOOLPY_MONITOR_BAUD_115200B'', IntLit 1),
      (''CONFIG_ESPTOOLPY_MONITOR_BAUD_OTHER_VAL'', IntLit 115200),
      (''CONFIG_ESPTOOLPY_MONITOR_BAUD'', IntLit 115200),
      (''CONFIG_PARTITION_TABLE_SINGLE_APP'', IntLit 1),
      (''CONFIG_PARTITION_TABLE_CUSTOM_FILENAME'', StrLit ''partitions.csv''),
      (''CONFIG_PARTITION_TABLE_FILENAME'', StrLit ''partitions_singleapp.csv''),
      (''CONFIG_PARTITION_TABLE_OFFSET'', IntLit 0x8000),
      (''CONFIG_PARTITION_TABLE_MD5'', IntLit 1),
      (''CONFIG_COMPILER_OPTIMIZATION_DEFAULT'', IntLit 1),
      (''CONFIG_COMPILER_OPTIMIZATION_ASSERTIONS_ENABLE'', IntLit 1),
      (''CONFIG_COMPILER_OPTIMIZATION_ASSERTION_LEVEL'', IntLit 2),
      (''CONFIG_COMPILER_HIDE_PATHS_MACROS'', IntLit 1),
      (''CONFIG_COMPILER_STACK_CHECK_MODE_NONE'', IntLit 1)]"

definition boot_chip :: header where
  "boot_chip =
     [(''CONFIG_EFUSE_CODE_SCHEME_COMPAT_3_4'', IntLit 1),
      (''CONFIG_EFUSE_MAX_BLK_LEN'', IntLit 192),
      (''CONFIG_ESP32_REV_MIN_0'', IntLit 1),
      (''CONFIG_ESP32_REV_MIN'', IntLit 0),
      (''CONFIG_ESP32_DPORT_WORKAROUND'', IntLit 1),
      (''CONFIG_ESP32_DEFAULT_CPU_FREQ_160'', IntLit 1),
      (''CONFIG_ESP32_DEFAULT_CPU_FREQ_MHZ'', IntLit 160),
      (''CONFIG_ESP32_TRACEMEM_RESERVE_DRAM'', IntLit 0x0),
      (''CONFIG_ESP32_ULP_COPROC_RESERVE_MEM'', IntLit 0),
      (''CONFIG_ESP32_DEBUG_OCDAWARE'', IntLit 1),
      (''CONFIG_ESP32_BROWNOUT_DET'', IntLit 1),
      (''CONFIG_ESP32_BROWNOUT_DET_LVL_SEL_0'', IntLit 1),
      (''CONFIG_ESP32_BROWNOUT_DET_LVL'', IntLit 0),
      (''CONFIG_ESP32_TIME_SYSCALL_USE_RTC_FRC1'', IntLit 1),
      (''CONFIG_ESP32_RTC_CLK_SRC_INT_RC'', IntLit 1),
      (''CONFIG_ESP32_RTC_CLK_CAL_CYCLES'', IntLit 1024),
      (''CONFIG_ESP32_DEEP_SLEEP_WAKEUP_DELAY'', IntLit 2000),
      (''CONFIG_ESP32_XTAL_FREQ_40'', IntLit 1),
      (''CONFIG_ESP32_XTAL_FREQ'', IntLit 40),
      (''CONFIG_ESP32_DPORT_DIS_INTERRUPT_LVL'', IntLit 5),
      (''CONFIG_ESP_ERR_TO_NAME_LOOKUP'', IntLit 1),
      (''CONFIG_ESP_MAC_ADDR_UNIVERSE_WIFI_STA'', IntLit 1),
      (''CONFIG_ESP_MAC_ADDR_UNIVERSE_WIFI_AP'', IntLit 1),
      (''CONFIG_ESP_MAC_ADDR_UNIVERSE_BT'', IntLit 1),
      (''CONFIG_ESP_MAC_ADDR_UNIVERSE_ETH'', IntLit 1),
      (''CONFIG_ESP32_UNIVERSAL_MAC_ADDRESSES_FOUR'', IntLit 1),
      (''CONFIG_ESP32_UNIVERSAL_MAC_ADDRESSES'', IntLit 4),
      (''CONFIG_ESP_SLEEP_POWER_DOWN_FLASH'', IntLit 1),
      (''CONFIG_ESP_SLEEP_RTC_BUS_ISO_WORKAROUND'', IntLit 1),
      (''CONFIG_ESP_SYSTEM_PANIC_PRINT_REBOOT'', IntLit 1),
      (''CONFIG_ESP_SYSTEM_EVENT_QUEUE_SIZE'', IntLit 32),
      (''CONFIG_ESP_SYSTEM_EVENT_TASK_STACK_SIZE'', IntLit 2304),
      (''CONFIG_ESP_MAIN_TASK_STACK_SIZE'', IntLit 3584),
      (''CONFIG_ESP_MAIN_TASK_AFFINITY_CPU0'', IntLit 1),
      (''CONFIG_ESP_MAIN_TASK_AFFINITY'', IntLit 0x0),
      (''CONFIG_ESP_MINIMAL_SHARED_STACK_SIZE'', IntLit 2048),
      (''CONFIG_ESP_CONSOLE_UART_DEFAULT'', IntLit 1),
      (''CONFIG_ESP_CONSOLE_UART'', IntLit 1),
      (''CONFIG_ESP_CONSOLE_MULTIPLE_UART'', IntLit 1),
      (''CONFIG_ESP_CONSOLE_UART_NUM'', IntLit 0),
      (''CONFIG_ESP_CONSOLE_UART_BAUDRATE'', IntLit 115200),
      (''CONFIG_ESP_INT_WDT'', IntLit 1),
      (''CONFIG_ESP_INT_WDT_TIMEOUT_MS'', IntLit 300),
      (''CONFIG_ESP_INT_WDT_CHECK_CPU1'', IntLit 1),
      (''CONFIG_ESP_TASK_WDT'', IntLit 1),
      (''CONFIG_ESP_TASK_WDT_TIMEOUT_S'', IntLit 5),
      (''CONFIG_ESP_TASK_WDT_CHECK_IDLE_TASK_CPU0'', IntLit 1),
      (''CONFIG_ESP_TASK_WDT_CHECK_IDLE_TASK_CPU1'', IntLit 1),
      (''CONFIG_ESP_SYSTEM_CHECK_INT_LEVEL_4'', IntLit 1)]"

definition boot_freertos :: header where
  "boot_freertos =
     [(''CONFIG_FREERTOS_NO_AFFINITY'', IntLit 0x7FFFFFFF),
      (''CONFIG_FREERTOS_TICK_SUPPORT_CORETIMER'', IntLit 1),
      (''CONFIG_FREERTOS_CORETIMER_0'', IntLit 1),
      (''CONFIG_FREERTOS_SYSTICK_USES_CCOUNT'', IntLit 1),
      (''CONFIG_FREERTOS_HZ'', IntLit 100),
      (''CONFIG_FREERTOS_ASSERT_ON_UNTESTED_FUNCTION'', IntLit 1),
      (''CONFIG_FREERTOS_CHECK_STACKOVERFLOW_CANARY'', IntLit 1),
      (''CONFIG_FREERTOS_INTERRUPT_BACKTRACE'', IntLit 1),
      (''CONFIG_FREERTOS_THREAD_LOCAL_STORAGE_POINTERS'', IntLit 1),
      (''CONFIG_FREERTOS_ASSERT_FAIL_ABORT'', IntLit 1),
      (''CONFIG_FREERTOS_IDLE_TASK_STACKSIZE'', IntLit 1536),
      (''CONFIG_FREERTOS_ISR_STACKSIZE'', IntLit 1536),
      (''CONFIG_FREERTOS_MAX_TASK_NAME_LEN'', IntLit 16),
      (''CONFIG_FREERTOS_SUPPORT_STATIC_ALLOCATION'', IntLit 1),
      (''CONFIG_FREERTOS_TIMER_TASK_PRIORITY'', IntLit 1),
      (''CONFIG_FREERTOS_TIMER_TASK_STACK_DEPTH'', IntLit 2048),
      (''CONFIG_FREERTOS_TIMER_QUEUE_LENGTH'', IntLit 10),
      (''CONFIG_FREERTOS_QUEUE_REGISTRY_SIZE'', IntLit 0),
      (''CONFIG_FREERTOS_TASK_FUNCTION_WRAPPER'', IntLit 1),
      (''CONFIG_FREERTOS_CHECK_MUTEX_GIVEN_BY_OWNER'', IntLit 1),
      (''CONFIG_FREERTOS_DEBUG_OCDAWARE'', IntLit 1),
      (''CONFIG_FREERTOS_ENABLE_TASK_SNAPSHOT'', IntLit 1),
      (''CONFIG_HAL_ASSERTION_EQUALS_SYSTEM'', IntLit 1),
      (''CONFIG_HAL_DEFAULT_ASSERTION_LEVEL'', IntLit 2),
      (''CONFIG_LOG_DEFAULT_LEVEL_INFO'', IntLit 1),
      (''CONFIG_LOG_DEFAULT_LEVEL'', IntLit 3),
      (''CONFIG_LOG_MAXIMUM_EQUALS_DEFAULT'', IntLit 1),
      (''CONFIG_LOG_MAXIMUM_LEVEL'', IntLit 3),
      (''CONFIG_LOG_COLORS'', IntLit 1),
      (''CONFIG_LOG_TIMESTAMP_SOURCE_RTOS'', IntLit 1)]"

definition boot_storage :: header where
  "boot_storage =
     [(''CONFIG_NEWLIB_STDOUT_LINE_ENDING_CRLF'', IntLit 1),
      (''CONFIG_NEWLIB_STDIN_LINE_ENDING_CR'', IntLit 1),
      (''CONFIG_SPI_FLASH_ROM_DRIVER_PATCH'', IntLit 1),
      (''CONFIG_SPI_FLASH_DANGEROUS_WRITE_ABORTS'', IntLit 1),
      (''CONFIG_SPI_FLASH_YIELD_DURING_ERASE'', IntLit 1),
      (''CONFIG_SPI_FLASH_ERASE_YIELD_DURATION_MS'', IntLit 20),
      (''CONFIG_SPI_FLASH_ERASE_YIELD_TICKS'', IntLit 1),
      (''CONFIG_SPI_FLASH_WRITE_CHUNK_SIZE'', IntLit 8192),
      (''CONFIG_SPI_FLASH_SUPPORT_ISSI_CHIP'', IntLit 1),
      (''CONFIG_SPI_FLASH_SUPPORT_MXIC_CHIP'', IntLit 1),
      (''CONFIG_SPI_FLASH_SUPPORT_GD_CHIP'', IntLit 1),
      (''CONFIG_SPI_FLASH_SUPPORT_WINBOND_CHIP'', IntLit 1),
      (''CONFIG_SPI_FLASH_ENABLE_ENCRYPTED_READ_WRITE'', IntLit 1)]"

definition boot_deprecated :: header where
  "boot_deprecated =
     [(''CONFIG_BROWNOUT_DET'', Alias ''CONFIG_ESP32_BROWNOUT_DET''),
      (''CONFIG_BROWNOUT_DET_LVL_SEL_0'', Alias ''CONFIG_ESP32_BROWNOUT_DET_LVL_SEL_0''),
      (''CONFIG_COMPILER_OPTIMIZATION_LEVEL_DEBUG'', Alias ''CONFIG_COMPILER_OPTIMIZATION_DEFAULT''),
      (''CONFIG_CONSOLE_UART_DEFAULT'', Alias ''CONFIG_ESP_CONSOLE_UART_DEFAULT''),
      (''CONFIG_ESP32S2_PANIC_PRINT_REBOOT'', Alias ''CONFIG_ESP_SYSTEM_PANIC_PRINT_REBOOT''),
      (''CONFIG_ESP32_PANIC_PRINT_REBOOT'', Alias ''CONFIG_ESP_SYSTEM_PANIC_PRINT_REBOOT''),
      (''CONFIG_ESP32_RTC_CLOCK_SOURCE_INTERNAL_RC'', Alias ''CONFIG_ESP32_RTC_CLK_SRC_INT_RC''),
      (''CONFIG_ESP_SYSTEM_PD_FLASH'', Alias ''CONFIG_ESP_SLEEP_POWER_DOWN_FLASH''),
      (''CONFIG_FLASHMODE_DIO'', Alias ''CONFIG_ESPTOOLPY_FLASHMODE_DIO''),
      (''CONFIG_FOUR_UNIVERSAL_MAC_ADDRESS'', Alias ''CONFIG_ESP32_UNIVERSAL_MAC_ADDRESSES_FOUR''),
      (''CONFIG_INT_WDT'', Alias ''CONFIG_ESP_INT_WDT''),
      (''CONFIG_INT_WDT_CHECK_CPU1'', Alias ''CONFIG_ESP_INT_WDT_CHECK_CPU1''),
      (''CONFIG_INT_WDT_TIMEOUT_MS'', Alias ''CONFIG_ESP_INT_WDT_TIMEOUT_MS''),
      (''CONFIG_LOG_BOOTLOADER_LEVEL_INFO'', Alias ''CONFIG_BOOTLOADER_LOG_LEVEL_INFO''),
      (''CONFIG_MAIN_TASK_STACK_SIZE'', Alias ''CONFIG_ESP_MAIN_TASK_STACK_SIZE''),
      (''CONFIG_MONITOR_BAUD_115200B'', Alias ''CONFIG_ESPTOOLPY_MONITOR_BAUD_115200B''),
      (''CONFIG_OPTIMIZATION_ASSERTIONS_ENABLED'', Alias ''CONFIG_COMPILER_OPTIMIZATION_ASSERTIONS_ENABLE''),
      (''CONFIG_OPTIMIZATION_LEVEL_DEBUG'', Alias ''CONFIG_COMPILER_OPTIMIZATION_DEFAULT''),
      (''CONFIG_SPI_FLASH_WRITING_DANGEROUS_REGIONS_ABORTS'', Alias ''CONFIG_SPI_FLASH_DANGEROUS_WRITE_ABORTS''),
      (''CONFIG_STACK_CHECK_NONE'', Alias ''CONFIG_COMPILER_STACK_CHECK_MODE_NONE''),
      (''CONFIG_SYSTEM_EVENT_QUEUE_SIZE'', Alias ''CONFIG_ESP_SYSTEM_EVENT_QUEUE_SIZE''),
      (''CONFIG_SYSTEM_EVENT_TASK_STACK_SIZE'', Alias ''CONFIG_ESP_SYSTEM_EVENT_TASK_STACK_SIZE''),
      (''CONFIG_TASK_WDT'', Alias ''CONFIG_ESP_TASK_WDT''),
      (''CONFIG_TASK_WDT_CHECK_IDLE_TASK_CPU0'', Alias ''CONFIG_ESP_TASK_WDT_CHECK_IDLE_TASK_CPU0''),
      (''CONFIG_TASK_WDT_CHECK_IDLE_TASK_CPU1'', Alias ''CONFIG_ESP_TASK_WDT_CHECK_IDLE_TASK_CPU1''),
      (''CONFIG_TASK_WDT_TIMEOUT_S'', Alias ''CONFIG_ESP_TASK_WDT_TIMEOUT_S''),
      (''CONFIG_TIMER_QUEUE_LENGTH'', Alias ''CONFIG_FREERTOS_TIMER_QUEUE_LENGTH''),
      (''CONFIG_TIMER_TASK_PRIORITY'', Alias ''CONFIG_FREERTOS_TIMER_TASK_PRIORITY''),
      (''CONFIG_TIMER_TASK_STACK_DEPTH'', Alias ''CONFIG_FREERTOS_TIMER_TASK_STACK_DEPTH''),
      (''CONFIG_TOOLPREFIX'', Alias ''CONFIG_SDK_TOOLPREFIX'')]"

definition boot_sdkconfig :: header where
  "boot_sdkconfig = boot_build @ boot_chip @ boot_freertos @ boot_storage @ boot_deprecated"

section \<open>Looking options up\<close>

lemma expand_literal: "lookup h n = Some b \<Longrightarrow> (\<And>m. b \<noteq> Alias m) \<Longrightarrow> expand h n = b"
  by (simp add: expand.simps [of h n] split: macro_body.split)

lemma option_value_literal: "lookup h n = Some (IntLit i) \<Longrightarrow> option_value h n = Some i"
  by (simp add: option_value_def expand_literal)

lemma lookup_filter: "n \<noteq> m \<Longrightarrow> lookup (filter (\<lambda>e. fst e \<noteq> n) h) m = lookup h m"
  by (induction h m rule: lookup.induct) auto

lemma option_value_alias:
  assumes "lookup h n = Some (Alias m)" and "lookup h m = Some (IntLit i)"
  shows "option_value h n = Some i"
proof -
  have "n \<noteq> m" using assms by auto
  then show ?thesis using assms
    by (simp add: option_value_def expand.simps [of h n] lookup_filter expand_literal)
qed

lemma lookup_append: "lookup (a @ b) n = (case lookup a n of None \<Rightarrow> lookup b n | Some v \<Rightarrow> Some v)"
  by (induction a n rule: lookup.induct) auto

text \<open>
  Names are compared letter by letter up to the first difference: with these equations alone the
  simplifier looks a name up in the long lists in reasonable time.
\<close>

fun same_name :: "string \<Rightarrow> string \<Rightarrow> bool" where
  "same_name [] [] \<longleftrightarrow> True"
| "same_name [] (d # ds) \<longleftrightarrow> False"
| "same_name (c # cs) [] \<longleftrightarrow> False"
| "same_name (c # cs) (d # ds) \<longleftrightarrow> (if c = d then same_name cs ds else False)"

lemma same_name_iff: "same_name m n \<longleftrightarrow> m = n"
  by (induction m n rule: same_name.induct) auto

lemma lookup_letters: "lookup ((m, b) # h) n = (if same_name m n then Some b else lookup h n)"
  by (simp add: same_name_iff)

lemma conj_left_cong: "P = P' \<Longrightarrow> (P \<and> Q) \<longleftrightarrow> (P' \<and> Q)"
  by simp

lemmas sdk_groups = sdk_build_def sdk_chip_def sdk_system_def sdk_services_def sdk_freertos_def
  sdk_lwip_def sdk_mbedtls_def sdk_storage_def sdk_deprecated_def

lemmas sdk_lookup = sdkconfig_def sdk_groups lookup_append lookup.simps(1) lookup_letters
  same_name.simps char.inject if_False if_True simp_thms option.case

text \<open>The options the program depends on.\<close>

lemma sdk_HZ: "lookup sdkconfig ''CONFIG_FREERTOS_HZ'' = Some (IntLit 100)"
  by (simp only: sdk_lookup cong: if_weak_cong conj_left_cong option.case_cong_weak)

lemma sdk_MAX_SOCKETS: "lookup sdkconfig ''CONFIG_LWIP_MAX_SOCKETS'' = Some (IntLit 10)"
  by (simp only: sdk_lookup cong: if_weak_cong conj_left_cong option.case_cong_weak)

lemma sdk_TASK_WDT_TIMEOUT_S: "lookup sdkconfig ''CONFIG_ESP_TASK_WDT_TIMEOUT_S'' = Some (IntLit 5)"
  by (simp only: sdk_lookup cong: if_weak_cong conj_left_cong option.case_cong_weak)

lemma sdk_MAX_TASK_NAME_LEN:
  "lookup sdkconfig ''CONFIG_FREERTOS_MAX_TASK_NAME_LEN'' = Some (IntLit 16)"
  by (simp only: sdk_lookup cong: if_weak_cong conj_left_cong option.case_cong_weak)

lemma sdk_no_WDT_PANIC: "lookup sdkconfig ''CONFIG_ESP_TASK_WDT_PANIC'' = None"
  by (simp only: sdk_lookup cong: if_weak_cong conj_left_cong option.case_cong_weak)

lemma sdk_no_EXAMPLE:
  "lookup sdkconfig ''CONFIG_EXAMPLE_CONNECT_WIFI'' = None"
  "lookup sdkconfig ''CONFIG_EXAMPLE_CONNECT_ETHERNET'' = None"
  by (simp_all only: sdk_lookup cong: if_weak_cong conj_left_cong option.case_cong_weak)

section \<open>The two headers\<close>

lemma same_name_refl: "same_name n n = True"
  by (simp add: same_name_iff)

lemma subseq_letters:
  "subseq ((m, b) # xs) ((n, c) # ys) =
     (if same_name m n then (if b = c then subseq xs ys else subseq ((m, b) # xs) ys)
      else subseq ((m, b) # xs) ys)"
  by (simp add: same_name_iff)

lemmas header_subseq = subseq_letters list_emb_Nil same_name.simps same_name_refl char.inject if_False
  if_True simp_thms append.simps

lemma boot_build_part: "subseq boot_build sdk_build"
  unfolding boot_build_def sdk_build_def
  by (simp only: header_subseq cong: if_weak_cong conj_left_cong)

lemma boot_chip_part: "subseq boot_chip (sdk_chip @ sdk_system)"
  unfolding boot_chip_def sdk_chip_def sdk_system_def
  by (simp only: header_subseq cong: if_weak_cong conj_left_cong)

lemma boot_freertos_part: "subseq boot_freertos sdk_freertos"
  unfolding boot_freertos_def sdk_freertos_def
  by (simp only: header_subseq cong: if_weak_cong conj_left_cong)

lemma boot_storage_part: "subseq boot_storage sdk_storage"
  unfolding boot_storage_def sdk_storage_def
  by (simp only: header_subseq cong: if_weak_cong conj_left_cong)

lemma boot_deprecated_part: "subseq boot_deprecated sdk_deprecated"
  unfolding boot_deprecated_def sdk_deprecated_def
  by (simp only: header_subseq cong: if_weak_cong conj_left_cong)

lemma subseq_skip: "subseq xs ys \<Longrightarrow> subseq xs (zs @ ys)"
  by (rule list_emb_append2)

text \<open>
  Where the targets of the old names stand, as positions in the lists, and that the entries there
  have a number or a string for a body.
\<close>

definition literal :: "string \<times> macro_body \<Rightarrow> bool" where
  "literal e \<longleftrightarrow> (case snd e of Alias m \<Rightarrow> False | _ \<Rightarrow> True)"

definition alias_targets :: header where
  "alias_targets =
     [sdk_chip ! 4, sdk_chip ! 18, sdk_chip ! 19, sdk_build ! 42, sdk_system ! 26,
       sdk_system ! 19, sdk_chip ! 0, sdk_storage ! 19, sdk_system ! 62, sdk_system ! 19,
       sdk_system ! 15, sdk_system ! 16, sdk_storage ! 18, sdk_storage ! 21, sdk_storage ! 16,
       sdk_storage ! 17, sdk_system ! 18, sdk_chip ! 22, sdk_lwip ! 8, sdk_system ! 6,
       sdk_build ! 22, sdk_system ! 4, sdk_lwip ! 9, sdk_system ! 31, sdk_system ! 33,
       sdk_system ! 32, sdk_system ! 8, sdk_build ! 14, sdk_system ! 22, sdk_services ! 25,
       sdk_services ! 24, sdk_services ! 23, sdk_services ! 22, sdk_services ! 26,
       sdk_services ! 27, sdk_services ! 13, sdk_services ! 12, sdk_services ! 14,
       sdk_services ! 16, sdk_services ! 19, sdk_services ! 15, sdk_services ! 28,
       sdk_services ! 29, sdk_build ! 34, sdk_build ! 43, sdk_build ! 42, sdk_chip ! 42,
       sdk_chip ! 41, sdk_system ! 18, sdk_storage ! 55, sdk_storage ! 54, sdk_storage ! 23,
       sdk_build ! 46, sdk_storage ! 53, sdk_storage ! 52, sdk_system ! 20, sdk_system ! 21,
       sdk_system ! 34, sdk_system ! 36, sdk_system ! 37, sdk_system ! 35, sdk_lwip ! 10,
       sdk_lwip ! 39, sdk_lwip ! 38, sdk_lwip ! 24, sdk_lwip ! 28, sdk_lwip ! 26,
       sdk_lwip ! 33, sdk_lwip ! 32, sdk_lwip ! 31, sdk_lwip ! 29, sdk_lwip ! 25,
       sdk_lwip ! 30, sdk_freertos ! 16, sdk_freertos ! 14, sdk_freertos ! 15, sdk_system ! 41,
       sdk_build ! 5, sdk_lwip ! 36]"

definition boot_alias_targets :: header where
  "boot_alias_targets =
     [boot_chip ! 10, boot_chip ! 11, boot_build ! 40, boot_chip ! 36, boot_chip ! 29,
       boot_chip ! 29, boot_chip ! 14, boot_chip ! 27, boot_build ! 20, boot_chip ! 25,
       boot_chip ! 41, boot_chip ! 43, boot_chip ! 42, boot_build ! 12, boot_chip ! 32,
       boot_build ! 32, boot_build ! 41, boot_build ! 40, boot_storage ! 3, boot_build ! 44,
       boot_chip ! 30, boot_chip ! 31, boot_chip ! 44, boot_chip ! 46, boot_chip ! 47,
       boot_chip ! 45, boot_freertos ! 16, boot_freertos ! 14, boot_freertos ! 15,
       boot_build ! 5]"

lemma alias_targets_names: "map snd sdk_deprecated = map (Alias \<circ> fst) alias_targets"
  by (simp add: alias_targets_def sdk_groups)

lemma boot_alias_targets_names: "map snd boot_deprecated = map (Alias \<circ> fst) boot_alias_targets"
  by (simp add: boot_alias_targets_def boot_build_def boot_chip_def boot_freertos_def
      boot_storage_def boot_deprecated_def)

text \<open>The first part of each header, where every body is a number or a string.\<close>

definition sdk_options :: header where
  "sdk_options = sdk_build @ sdk_chip @ sdk_system @ sdk_services @ sdk_freertos @ sdk_lwip
     @ sdk_mbedtls @ sdk_storage"

definition boot_options :: header where
  "boot_options = boot_build @ boot_chip @ boot_freertos @ boot_storage"

lemma header_split:
  "sdkconfig = sdk_options @ sdk_deprecated" "boot_sdkconfig = boot_options @ boot_deprecated"
  by (simp_all add: sdkconfig_def sdk_options_def boot_sdkconfig_def boot_options_def)

lemma sdk_lengths:
  "length sdk_build = 47" "length sdk_chip = 49" "length sdk_system = 63"
  "length sdk_services = 32" "length sdk_freertos = 32" "length sdk_lwip = 52"
  "length sdk_mbedtls = 57" "length sdk_storage = 61"
  by (simp_all add: sdk_groups)

lemma boot_lengths:
  "length boot_build = 45" "length boot_chip = 49" "length boot_freertos = 30"
  "length boot_storage = 13"
  by (simp_all add: boot_build_def boot_chip_def boot_freertos_def boot_storage_def)

lemma alias_targets_options:
  "set alias_targets \<subseteq> set sdk_options" "set boot_alias_targets \<subseteq> set boot_options"
  unfolding alias_targets_def boot_alias_targets_def sdk_options_def boot_options_def
  by (simp_all add: nth_mem sdk_lengths boot_lengths)

lemma options_literal: "list_all literal sdk_options" "list_all literal boot_options"
  by (simp_all add: sdk_options_def boot_options_def literal_def sdk_groups boot_build_def
      boot_chip_def boot_freertos_def boot_storage_def)

lemma lookup_present: "(n, b) \<in> set h \<Longrightarrow> \<exists>b'. lookup h n = Some b'"
  by (induction h n rule: lookup.induct) auto

text \<open>
  A header whose first part has only numbers and strings, and whose second part names macros of the
  first: every defined name is replaced by a number or a string.
\<close>

lemma expand_to_literal:
  assumes lits: "list_all literal opts" and names: "map snd old = map (Alias \<circ> fst) targets"
    and targets: "set targets \<subseteq> set opts" and n: "is_defined (opts @ old) n"
  shows "literal (n, expand (opts @ old) n)"
proof -
  let ?h = "opts @ old"
  have opt: "literal (k, b)" "lookup ?h k = Some b" if "lookup opts k = Some b" for k b
    using that lits lookup_in_set [OF that] by (simp_all add: list_all_iff lookup_append)
  obtain b where b: "lookup ?h n = Some b" using n by (auto simp: is_defined_def)
  show ?thesis
  proof (cases b)
    case (Alias m)
    with b opt(1) have "lookup old n = Some (Alias m)"
      by (fastforce simp: lookup_append literal_def split: option.splits)
    then have "Alias m \<in> set (map snd old)" by (force dest: lookup_in_set)
    with names targets obtain v where "(m, v) \<in> set opts" by fastforce
    then obtain w where w: "lookup opts m = Some w" using lookup_present by blast
    have "w \<noteq> Alias k" for k using opt(1) [OF w] by (auto simp: literal_def)
    moreover have "n \<noteq> m" using b Alias opt(2) [OF w] calculation by auto
    ultimately show ?thesis
      using b Alias opt [OF w]
      by (simp add: expand.simps [of ?h n] lookup_filter [of n m "opts @ old", simplified]
          expand_literal literal_def)
  qed (use b in \<open>simp_all add: expand.simps [of ?h n] literal_def\<close>)
qed

text \<open>
  The boot loader and the application are built with the same configuration: the boot loader's
  macros are, with the same bodies and in the same order, among the application's.
\<close>

lemma boot_config_agrees: "subseq boot_sdkconfig sdkconfig"
proof -
  have "subseq (boot_build @ boot_chip @ boot_freertos @ boot_storage @ boot_deprecated)
      (sdk_build @ (sdk_chip @ sdk_system) @ (sdk_services @ sdk_freertos)
        @ (sdk_lwip @ sdk_mbedtls @ sdk_storage) @ sdk_deprecated)"
    by (intro list_emb_append_mono boot_build_part boot_chip_part boot_deprecated_part subseq_skip
        boot_freertos_part boot_storage_part)
  then show ?thesis by (simp add: boot_sdkconfig_def sdkconfig_def)
qed

section \<open>Properties\<close>

text \<open>
  C39: every option name that either header defines is replaced by a number or a string: the old
  names lead to an option of the same header, never to an undefined name or to each other.
\<close>

theorem config_expands:
  assumes "is_defined h n" and "h = sdkconfig \<or> h = boot_sdkconfig"
  shows "\<forall>m. expand h n \<noteq> Alias m"
proof -
  have "literal (n, expand h n)"
    using assms
      expand_to_literal [OF options_literal(1) alias_targets_names alias_targets_options(1)]
      expand_to_literal [OF options_literal(2) boot_alias_targets_names alias_targets_options(2)]
    by (auto simp: header_split)
  then show ?thesis by (auto simp: literal_def)
qed

theorem config_expands_witness:
  "is_defined sdkconfig ''CONFIG_FREERTOS_HZ''
   \<and> (\<forall>m. expand sdkconfig ''CONFIG_FREERTOS_HZ'' \<noteq> Alias m)"
  using config_expands [of sdkconfig "''CONFIG_FREERTOS_HZ''"] sdk_HZ by (simp add: is_defined_def)

end
