(* ===== verification/Dispatch.thy ===== *)
theory Dispatch
  imports CString SdkConfig Chassis Fire Gimbal
begin

text \<open>
  The control task: \<open>web_recdata\<close> of components/web_server/webserver.c.  Each turn of its loop takes
  one \<open>URL_Data\<close> from the queue, cuts the command word and the four value characters out of the
  URL, and drives the gimbal, the launcher or the chassis.

  The value is read by \<open>atoi\<close> from the four-byte array \<open>val_Buff_02\<close>, which holds no terminator: the
  characters that happen to follow the array on the stack are read too.  They are the argument
  \<open>beyond\<close> of the model.

  After the definitions: the abstract controller, which has five facts about the robot as its state
  and a command as its input, and the simulation that the control task implements it.
\<close>

section \<open>Definitions\<close>

record URL_Data =
  My_URLBuff :: string
  My_URLString :: string

text \<open>
  The statics of webserver.c the task writes (its copy of the angles of Gimbal.h) and its local
  \<open>rec_Data\<close>, beside the driver calls.
\<close>

record ctl = hw +
  global_Yaw_Angle :: int
  global_Pitch_Angle :: int
  rec_Data :: URL_Data

definition angle_check :: "int \<Rightarrow> int" where
  "angle_check a =
     (let a1 = (if a \<le> 0 then 0 else a) in
      if a1 \<ge> SERVO_MAX_DEGREE then SERVO_MAX_DEGREE else a1)"

definition move_pitch :: "int \<Rightarrow> ctl \<Rightarrow> ctl" where
  "move_pitch delta s =
     (let s1 = s\<lparr>global_Pitch_Angle := angle_check (global_Pitch_Angle s + delta)\<rparr>
      in snd (servo_set_angle_To (word_of_int (global_Pitch_Angle s1)) 1 s1))"

definition move_yaw :: "int \<Rightarrow> ctl \<Rightarrow> ctl" where
  "move_yaw delta s =
     (let s1 = s\<lparr>global_Yaw_Angle := angle_check (global_Yaw_Angle s + delta)\<rparr>
      in snd (servo_set_angle_To (word_of_int (global_Yaw_Angle s1)) 0 s1))"

definition gimbal_branch :: "int \<Rightarrow> ctl \<Rightarrow> ctl" where
  "gimbal_branch Myvalue s =
     (let s1 = (if Myvalue = 0 then move_pitch (- 10) s else s);
          s2 = (if Myvalue = 1 then move_pitch 10 s1 else s1);
          s3 = (if Myvalue = 2 then move_yaw 10 s2 else s2)
      in if Myvalue = 3 then move_yaw (- 10) s3 else s3)"

definition rocker_branch :: "int \<Rightarrow> ctl \<Rightarrow> ctl" where
  "rocker_branch Myvalue s =
     (let x = Myvalue sdiv 100;
          y = Myvalue smod 100;
          s1 = (if (x > 4 \<and> x < 6) \<and> (y > 4 \<and> y < 6) then snd (Chassis_En s) else s);
          s2 = (if (x \<ge> 4 \<and> x \<le> 6) \<and> (y \<ge> 0 \<and> y \<le> 4) then Chassis_Forward s1 else s1);
          s3 = (if (x \<ge> 4 \<and> x \<le> 6) \<and> (y \<ge> 6 \<and> y \<le> 10) then Chassis_Backward s2 else s2);
          s4 = (if (x \<ge> 0 \<and> x \<le> 4) \<and> (y \<ge> 4 \<and> y \<le> 6) then Chassis_Left s3 else s3);
          s5 = (if (x \<ge> 6 \<and> x \<le> 10) \<and> (y \<ge> 4 \<and> y \<le> 6) then Chassis_Right s4 else s4);
          s6 = (if ((x \<ge> 0 \<and> x \<le> 3) \<and> (y \<ge> 0 \<and> y \<le> 3)) \<or> ((x \<ge> 0 \<and> x \<le> 3) \<and> (y \<ge> 7 \<and> y \<le> 10))
                then Chassis_Left_revolve s5 else s5)
      in if ((x \<ge> 7 \<and> x \<le> 10) \<and> (y \<ge> 0 \<and> y \<le> 3)) \<or> ((x \<ge> 7 \<and> x \<le> 10) \<and> (y \<ge> 7 \<and> y \<le> 10))
         then Chassis_Right_revolve s6 else s6)"

definition url_Buff_01 :: "URL_Data \<Rightarrow> string" where
  "url_Buff_01 d = map (\<lambda>i. My_URLString d ! i) [0..<7]"

definition val_Buff_02 :: "URL_Data \<Rightarrow> string" where
  "val_Buff_02 d = map (\<lambda>j. My_URLString d ! j) [12..<16]"

definition parse_and_act :: "string \<Rightarrow> URL_Data \<Rightarrow> ctl \<Rightarrow> ctl" where
  "parse_and_act beyond d s =
     (let b = url_Buff_01 d; v = val_Buff_02 d @ beyond in
      if bcmp_eq b ''/gimbal?'' 5 then gimbal_branch (atoi v) s
      else if bcmp_eq b ''/blaste?'' 5 then Fire_friction_wheel s
      else if bcmp_eq b ''/fireSt?'' 5 then Stop_Fire_friction s
      else if bcmp_eq b ''/Pluck1?'' 5 then Fire_Pluck_Run s
      else if bcmp_eq b ''/luck2P?'' 5 then Stop_Fire_Pluck s
      else if bcmp_eq b ''/robott?'' 5 then s
      else if bcmp_eq b ''/rocker?'' 5 then rocker_branch (atoi v) s
      else snd (Chassis_En s))"

text \<open>
  One turn of the loop.  \<open>xQueueReceive\<close> either fills \<open>rec_Data\<close> or, when it reports a failure,
  leaves it as it was; both ways the parsing that follows is done.  FreeRTOS defines
  \<open>portTICK_RATE_MS\<close> from the tick rate of build/config/sdkconfig.h.
\<close>

definition portTICK_RATE_MS :: nat where
  "portTICK_RATE_MS =
     (case option_value sdkconfig ''CONFIG_FREERTOS_HZ'' of Some hz \<Rightarrow> nat (1000 div hz) | None \<Rightarrow> 0)"

definition web_recdata_turn :: "string \<times> URL_Data option \<Rightarrow> ctl \<Rightarrow> ctl" where
  "web_recdata_turn ev s =
     (case ev of (beyond, received) \<Rightarrow>
        let s1 = (case received of Some d \<Rightarrow> s\<lparr>rec_Data := d\<rparr> | None \<Rightarrow> s)
        in vTaskDelay (60 div portTICK_RATE_MS) (parse_and_act beyond (rec_Data s1) s1))"

definition web_recdata :: "(string \<times> URL_Data option) list \<Rightarrow> ctl \<Rightarrow> ctl" where
  "web_recdata evs s = fold web_recdata_turn evs s"

text \<open>The initial statics of webserver.c and the zero-initialised local.\<close>

definition ctl_init :: ctl where
  "ctl_init = \<lparr>calls = [], global_Yaw_Angle = SERVO_MID_DEGREE,
     global_Pitch_Angle = SERVO_MID_DEGREE,
     rec_Data = \<lparr>My_URLBuff = replicate 30 NUL, My_URLString = replicate 30 NUL\<rparr>\<rparr>"

section \<open>The abstract controller\<close>

datatype command =
    MovePitch int | MoveYaw int | Launch fire_cmd | Rocker int int | Idle | HaltChassis

record robot =
  yaw :: int
  pitch :: int
  gun :: "drive \<times> drive"
  wheels :: "wheel \<Rightarrow> drive"

text \<open>
  The rocker pad is an 11 by 11 grid cut into a three-by-three board: the corners turn, the edges
  move straight, and the middle square splits by the horizontal offset first.  Outside the grid
  nothing happens.
\<close>

definition third :: "int \<Rightarrow> int" where
  "third v = (if v \<le> 3 then - 1 else if v \<le> 6 then 0 else 1)"

definition pad_motion :: "int \<Rightarrow> int \<Rightarrow> motion" where
  "pad_motion x y =
     (let h = (if third x = 0 \<and> third y = 0 then sgn (x - 5) else third x);
          v = third y
      in if h < 0 then (if v = 0 then Left else Left_revolve)
         else if h > 0 then (if v = 0 then Right else Right_revolve)
         else if y < 5 then Forward else if y > 5 then Backward else Stop)"

definition on_pad :: "int \<Rightarrow> int \<Rightarrow> bool" where
  "on_pad x y \<longleftrightarrow> 0 \<le> x \<and> x \<le> 10 \<and> 0 \<le> y \<and> y \<le> 10"

fun obey :: "command \<Rightarrow> robot \<Rightarrow> robot" where
  "obey (MovePitch d) r = r\<lparr>pitch := max 0 (min 270 (pitch r + d))\<rparr>"
| "obey (MoveYaw d) r = r\<lparr>yaw := max 0 (min 270 (yaw r + d))\<rparr>"
| "obey (Launch c) r = r\<lparr>gun := launcher_step c (gun r)\<rparr>"
| "obey (Rocker x y) r = (if on_pad x y then r\<lparr>wheels := drive_spec (pad_motion x y)\<rparr> else r)"
| "obey Idle r = r"
| "obey HaltChassis r = r\<lparr>wheels := drive_spec Stop\<rparr>"

text \<open>The command a URL stands for.\<close>

definition gimbal_command :: "int \<Rightarrow> command" where
  "gimbal_command v = (if v = 0 then MovePitch (- 10) else if v = 1 then MovePitch 10
     else if v = 2 then MoveYaw 10 else if v = 3 then MoveYaw (- 10) else Idle)"

definition command_of :: "string \<Rightarrow> URL_Data \<Rightarrow> command" where
  "command_of beyond d =
     (let key = take 5 (url_Buff_01 d); v = atoi (val_Buff_02 d @ beyond) in
      case map_of [(''/gimb'', gimbal_command v), (''/blas'', Launch FrictionRun),
          (''/fire'', Launch FrictionStop), (''/Pluc'', Launch PluckRun),
          (''/luck'', Launch PluckStop), (''/robo'', Idle),
          (''/rock'', Rocker (v sdiv 100) (v smod 100))] key
      of Some c \<Rightarrow> c | None \<Rightarrow> HaltChassis)"

definition robot_of :: "ctl \<Rightarrow> robot" where
  "robot_of s = \<lparr>yaw = global_Yaw_Angle s, pitch = global_Pitch_Angle s, gun = launcher s,
     wheels = wheel_drive s\<rparr>"

section \<open>The operations seen from the controller\<close>

lemma portTICK_RATE_MS_eq: "portTICK_RATE_MS = 10"
  by (simp add: portTICK_RATE_MS_def option_value_literal [OF sdk_HZ])

lemma ctl_fields_of_more:
  assumes "hw.more s = hw.more t"
  shows "global_Yaw_Angle s = global_Yaw_Angle t" and "global_Pitch_Angle s = global_Pitch_Angle t"
    and "rec_Data s = rec_Data t"
  using assms by (cases s; cases t; simp)+

lemma robot_of_chassis: "robot_of (chassis_op mo s) = (robot_of s)\<lparr>wheels := drive_spec mo\<rparr>"
proof -
  have "hw.more (chassis_op mo s) = hw.more s" by (rule chassis.keeps_more)
  note fields = ctl_fields_of_more [OF this]
  have "launcher (chassis_op mo s) = launcher s"
    by (simp add: launcher_def motor_drive_def chassis.keeps_pins pins_of_chassis_motors feeder_def
        friction_def fire_pins)
  with fields show ?thesis by (simp add: robot_of_def fun_eq_iff)
qed

lemma robot_of_fire:
  "robot_of (fire_op c s) = (robot_of s)\<lparr>gun := launcher_step c (launcher s)\<rparr>"
proof -
  have "hw.more (fire_op c s) = hw.more s" by (rule fire_op_keeps)
  note fields = ctl_fields_of_more [OF this]
  have "wheel_drive (fire_op c s) w = wheel_drive s w" for w
    by (rule wheel_drive_cong) (auto simp: fire_op_keeps(1))
  with fields show ?thesis by (simp add: robot_of_def fun_eq_iff launcher_simulation)
qed

lemma robot_of_servo: "robot_of (snd (servo_set_angle_To a i s)) = robot_of s"
proof -
  note fields = ctl_fields_of_more [OF servo_set_angle_calls(4) [of a i s]]
  have "wheel_drive (snd (servo_set_angle_To a i s)) w = wheel_drive s w" for w
    by (rule wheel_drive_cong) (simp add: servo_set_angle_readout)
  moreover have "launcher (snd (servo_set_angle_To a i s)) = launcher s"
    by (simp add: launcher_def motor_drive_def servo_set_angle_readout)
  ultimately show ?thesis using fields by (simp add: robot_of_def fun_eq_iff)
qed

lemma angle_check_eq: "angle_check a = max 0 (min 270 a)"
  by (simp add: angle_check_def servo_consts Let_def)

lemma robot_of_move:
  "robot_of (move_pitch d s) = obey (MovePitch d) (robot_of s)"
  "robot_of (move_yaw d s) = obey (MoveYaw d) (robot_of s)"
  by (simp_all add: move_pitch_def move_yaw_def Let_def robot_of_servo)
    (simp_all add: robot_of_def angle_check_eq fun_eq_iff wheel_drive_def launcher_def)

lemma robot_of_delay: "robot_of (vTaskDelay n s) = robot_of s"
  by (simp add: robot_of_def vTaskDelay_def emit_def launcher_def motor_drive_def wheel_drive_def
      fun_eq_iff)

text \<open>The motion functions under their names in the rocker branch.\<close>

lemma robot_of_motions:
  "robot_of (snd (Chassis_En s)) = (robot_of s)\<lparr>wheels := drive_spec Stop\<rparr>"
  "robot_of (Chassis_Forward s) = (robot_of s)\<lparr>wheels := drive_spec Forward\<rparr>"
  "robot_of (Chassis_Backward s) = (robot_of s)\<lparr>wheels := drive_spec Backward\<rparr>"
  "robot_of (Chassis_Left s) = (robot_of s)\<lparr>wheels := drive_spec Left\<rparr>"
  "robot_of (Chassis_Right s) = (robot_of s)\<lparr>wheels := drive_spec Right\<rparr>"
  "robot_of (Chassis_Left_revolve s) = (robot_of s)\<lparr>wheels := drive_spec Left_revolve\<rparr>"
  "robot_of (Chassis_Right_revolve s) = (robot_of s)\<lparr>wheels := drive_spec Right_revolve\<rparr>"
  using robot_of_chassis [of Stop s] robot_of_chassis [of Forward s]
    robot_of_chassis [of Backward s] robot_of_chassis [of Left s] robot_of_chassis [of Right s]
    robot_of_chassis [of Left_revolve s] robot_of_chassis [of Right_revolve s]
  by simp_all

lemma robot_of_launches:
  "robot_of (Fire_friction_wheel s) = obey (Launch FrictionRun) (robot_of s)"
  "robot_of (Stop_Fire_friction s) = obey (Launch FrictionStop) (robot_of s)"
  "robot_of (Fire_Pluck_Run s) = obey (Launch PluckRun) (robot_of s)"
  "robot_of (Stop_Fire_Pluck s) = obey (Launch PluckStop) (robot_of s)"
  using robot_of_fire [of FrictionRun s] robot_of_fire [of FrictionStop s]
    robot_of_fire [of PluckRun s] robot_of_fire [of PluckStop s]
  by (simp_all add: robot_of_def)

section \<open>The rocker\<close>

text \<open>
  The seven tests of the rocker branch in program order.  Each motion writes all the wheels, so of
  those whose test holds the last one decides.
\<close>

definition rocker_tests :: "int \<Rightarrow> int \<Rightarrow> (bool \<times> motion) list" where
  "rocker_tests x y =
     [((x > 4 \<and> x < 6) \<and> (y > 4 \<and> y < 6), Stop),
      ((x \<ge> 4 \<and> x \<le> 6) \<and> (y \<ge> 0 \<and> y \<le> 4), Forward),
      ((x \<ge> 4 \<and> x \<le> 6) \<and> (y \<ge> 6 \<and> y \<le> 10), Backward),
      ((x \<ge> 0 \<and> x \<le> 4) \<and> (y \<ge> 4 \<and> y \<le> 6), Left),
      ((x \<ge> 6 \<and> x \<le> 10) \<and> (y \<ge> 4 \<and> y \<le> 6), Right),
      (((x \<ge> 0 \<and> x \<le> 3) \<and> (y \<ge> 0 \<and> y \<le> 3)) \<or> ((x \<ge> 0 \<and> x \<le> 3) \<and> (y \<ge> 7 \<and> y \<le> 10)),
        Left_revolve),
      (((x \<ge> 7 \<and> x \<le> 10) \<and> (y \<ge> 0 \<and> y \<le> 3)) \<or> ((x \<ge> 7 \<and> x \<le> 10) \<and> (y \<ge> 7 \<and> y \<le> 10)),
        Right_revolve)]"

definition last_motion :: "(bool \<times> motion) list \<Rightarrow> motion option" where
  "last_motion ts = fold (\<lambda>(b, mo) acc. if b then Some mo else acc) ts None"

lemma robot_of_if_motion:
  "robot_of s = r\<lparr>wheels := (case acc of None \<Rightarrow> wheels r | Some m \<Rightarrow> drive_spec m)\<rparr> \<Longrightarrow>
   robot_of (if b then chassis_op mo s else s)
     = r\<lparr>wheels := (case (if b then Some mo else acc) of None \<Rightarrow> wheels r | Some m \<Rightarrow> drive_spec m)\<rparr>"
  by (simp add: robot_of_chassis)

lemma rocker_branch_last:
  "robot_of (rocker_branch v s) = (robot_of s)\<lparr>wheels :=
     (case last_motion (rocker_tests (v sdiv 100) (v smod 100)) of
        None \<Rightarrow> wheels (robot_of s) | Some m \<Rightarrow> drive_spec m)\<rparr>"
  unfolding rocker_branch_def rocker_tests_def Let_def last_motion_def fold.simps prod.case
    comp_def id_def chassis_op.simps [symmetric]
  by (intro robot_of_if_motion) simp

lemma rocker_tests_pad:
  "last_motion (rocker_tests x y) = (if on_pad x y then Some (pad_motion x y) else None)"
  by (auto simp: last_motion_def rocker_tests_def on_pad_def pad_motion_def third_def sgn_if)

lemma rocker_branch_obeys:
  "robot_of (rocker_branch v s) = obey (Rocker (v sdiv 100) (v smod 100)) (robot_of s)"
  by (simp add: rocker_branch_last rocker_tests_pad)

lemma gimbal_branch_obeys: "robot_of (gimbal_branch v s) = obey (gimbal_command v) (robot_of s)"
  by (simp add: gimbal_branch_def Let_def gimbal_command_def robot_of_move)

section \<open>The control task implements the controller\<close>

lemma parse_and_act_obeys:
  "robot_of (parse_and_act beyond d s) = obey (command_of beyond d) (robot_of s)"
  by (simp add: parse_and_act_def command_of_def Let_def bcmp_eq_def gimbal_branch_obeys
      rocker_branch_obeys robot_of_launches robot_of_motions)

text \<open>The commands of a run: a failed receive repeats the command of the data still held.\<close>

fun commands_of :: "URL_Data \<Rightarrow> (string \<times> URL_Data option) list \<Rightarrow> command list" where
  "commands_of d [] = []"
| "commands_of d ((beyond, Some d') # evs) = command_of beyond d' # commands_of d' evs"
| "commands_of d ((beyond, None) # evs) = command_of beyond d # commands_of d evs"

lemma rec_Data_ops:
  "rec_Data (chassis_op mo s) = rec_Data s" "rec_Data (fire_op c s) = rec_Data s"
  "rec_Data (snd (servo_set_angle_To a i s)) = rec_Data s" "rec_Data (vTaskDelay n s) = rec_Data s"
  using ctl_fields_of_more(3) [OF chassis.keeps_more] ctl_fields_of_more(3) [OF fire_op_keeps(3)]
    ctl_fields_of_more(3) [OF servo_set_angle_calls(4)]
  by (simp_all add: vTaskDelay_def emit_def)

lemma rec_Data_rocker: "rec_Data (rocker_branch v s) = rec_Data s"
  unfolding rocker_branch_def Let_def chassis_op.simps [symmetric]
  by (simp add: rec_Data_ops del: chassis_op.simps)

lemma rec_Data_gimbal: "rec_Data (gimbal_branch v s) = rec_Data s"
  by (simp add: gimbal_branch_def move_pitch_def move_yaw_def Let_def rec_Data_ops)

lemma rec_Data_parse_and_act: "rec_Data (parse_and_act beyond d s) = rec_Data s"
  using rec_Data_ops(1) [of Stop s]
    rec_Data_ops(2) [of FrictionRun s] rec_Data_ops(2) [of FrictionStop s]
    rec_Data_ops(2) [of PluckRun s] rec_Data_ops(2) [of PluckStop s]
  by (simp add: parse_and_act_def Let_def rec_Data_rocker rec_Data_gimbal)

lemma robot_of_rec_Data [simp]: "robot_of (s\<lparr>rec_Data := d\<rparr>) = robot_of s"
  by (simp add: robot_of_def launcher_def wheel_drive_def fun_eq_iff)

lemma turn_obeys:
  "robot_of (web_recdata_turn (beyond, r) s) =
     obey (command_of beyond (case r of Some d \<Rightarrow> d | None \<Rightarrow> rec_Data s)) (robot_of s)"
  "rec_Data (web_recdata_turn (beyond, r) s) = (case r of Some d \<Rightarrow> d | None \<Rightarrow> rec_Data s)"
  by (cases r; simp add: web_recdata_turn_def robot_of_delay parse_and_act_obeys rec_Data_ops
      rec_Data_parse_and_act)+

lemma web_recdata_obeys:
  "robot_of (web_recdata evs s) = fold obey (commands_of (rec_Data s) evs) (robot_of s)"
proof (induction evs arbitrary: s)
  case Nil
  then show ?case by (simp add: web_recdata_def)
next
  case (Cons ev evs)
  obtain beyond r where ev: "ev = (beyond, r)" by fastforce
  from Cons [of "web_recdata_turn ev s"] show ?case
    by (cases r) (simp_all add: web_recdata_def ev turn_obeys)
qed

definition angles_in_range :: "ctl \<Rightarrow> bool" where
  "angles_in_range s \<longleftrightarrow> 0 \<le> global_Yaw_Angle s \<and> global_Yaw_Angle s \<le> 270
     \<and> 0 \<le> global_Pitch_Angle s \<and> global_Pitch_Angle s \<le> 270"

definition robot_in_range :: "robot \<Rightarrow> bool" where
  "robot_in_range r \<longleftrightarrow> 0 \<le> yaw r \<and> yaw r \<le> 270 \<and> 0 \<le> pitch r \<and> pitch r \<le> 270"

lemma angles_of_robot: "angles_in_range s = robot_in_range (robot_of s)"
  by (simp add: angles_in_range_def robot_in_range_def robot_of_def)

interpretation controller: event_machine obey robot_in_range
  by unfold_locales (case_tac e; auto simp: robot_in_range_def)

interpretation control_task: event_machine web_recdata_turn angles_in_range
proof unfold_locales
  fix s ev assume "angles_in_range s"
  then have "robot_in_range (robot_of s)" by (simp add: angles_of_robot)
  then have "robot_in_range (robot_of (web_recdata_turn (fst ev, snd ev) s))"
    unfolding turn_obeys by (rule controller.handle_inv)
  then show "angles_in_range (web_recdata_turn ev s)" by (simp add: angles_of_robot)
qed

section \<open>The servos follow the recorded angles\<close>

definition pulse_for :: "int \<Rightarrow> u32" where
  "pulse_for a = servo_per_degree_init (word_of_int a)"

definition servos :: "ctl \<Rightarrow> (int \<times> u32 option) \<times> (int \<times> u32 option)" where
  "servos s = ((global_Yaw_Angle s, duty_us (calls s) MCPWM_UNIT_0),
     (global_Pitch_Angle s, duty_us (calls s) MCPWM_UNIT_1))"

lemma clamped_angle_check: "clamped (word_of_int (angle_check a)) = word_of_int (angle_check a)"
proof -
  have "0 \<le> angle_check a" "angle_check a \<le> 270" by (simp_all add: angle_check_eq)
  then show ?thesis by (auto simp: clamped_def word_le_def uint_word_of_int)
qed

lemma servos_other_ops:
  "servos (chassis_op mo s) = servos s" "servos (fire_op c s) = servos s"
  "servos (vTaskDelay n s) = servos s" "servos (s\<lparr>rec_Data := d\<rparr>) = servos s"
  using ctl_fields_of_more [OF chassis.keeps_more [of mo s]]
    ctl_fields_of_more [OF fire_op_keeps(3) [of c s]]
  by (simp_all add: servos_def chassis.keeps_duty fire_op_keeps vTaskDelay_def emit_def)

lemma servos_move:
  "servos (move_yaw d s) = (let a = angle_check (global_Yaw_Angle s + d) in
     ((a, Some (pulse_for a)), snd (servos s)))"
  "servos (move_pitch d s) = (let a = angle_check (global_Pitch_Angle s + d) in
     (fst (servos s), (a, Some (pulse_for a))))"
  by (simp_all add: servos_def move_yaw_def move_pitch_def Let_def servo_set_angle_readout
      unit_of_def pulse_for_def clamped_angle_check
      ctl_fields_of_more [OF servo_set_angle_calls(4)])

lemma servos_rocker: "servos (rocker_branch v s) = servos s"
  unfolding rocker_branch_def Let_def chassis_op.simps [symmetric]
  by (simp add: servos_other_ops del: chassis_op.simps)

text \<open>An axis is at rest at the given reading, or its servo was sent the recorded angle.\<close>

definition follows :: "int \<times> u32 option \<Rightarrow> int \<times> u32 option \<Rightarrow> bool" where
  "follows start now \<longleftrightarrow> now = start \<or> snd now = Some (pulse_for (fst now))"

definition servos_follow :: "(int \<times> u32 option) \<times> (int \<times> u32 option) \<Rightarrow> ctl \<Rightarrow> bool" where
  "servos_follow start s \<longleftrightarrow>
     follows (fst start) (fst (servos s)) \<and> follows (snd start) (snd (servos s))"

lemma servos_parse_and_act:
  "servos_follow start s \<Longrightarrow> servos_follow start (parse_and_act beyond d s)"
  using servos_other_ops(1) [of Stop s] servos_other_ops(2) [of FrictionRun s]
    servos_other_ops(2) [of FrictionStop s] servos_other_ops(2) [of PluckRun s]
    servos_other_ops(2) [of PluckStop s]
  by (simp add: parse_and_act_def Let_def gimbal_branch_def servos_follow_def servos_rocker
      servos_move follows_def)

lemma servos_follow_cong: "servos s = servos t \<Longrightarrow> servos_follow start s = servos_follow start t"
  by (simp add: servos_follow_def)

lemmas servos_follow_ops [simp] =
  servos_other_ops(3) [THEN servos_follow_cong] servos_other_ops(4) [THEN servos_follow_cong]

interpretation servo_task: event_machine web_recdata_turn "servos_follow start" for start
proof unfold_locales
  fix s ev assume "servos_follow start s"
  then show "servos_follow start (web_recdata_turn ev s)"
    by (cases ev) (simp add: web_recdata_turn_def servos_parse_and_act split: option.split)
qed

lemma angle_check_iter:
  "0 \<le> a \<Longrightarrow> a \<le> 270 \<Longrightarrow> ((\<lambda>x. angle_check (x + 10)) ^^ n) a = min 270 (a + 10 * int n)"
  by (induction n) (auto simp: angle_check_eq)

lemma angle_check_iter_down:
  "0 \<le> a \<Longrightarrow> a \<le> 270 \<Longrightarrow> ((\<lambda>x. angle_check (x - 10)) ^^ n) a = max 0 (a - 10 * int n)"
  by (induction n) (auto simp: angle_check_eq)

section \<open>Properties\<close>

text \<open>
  C2: the control task of webserver.c implements the abstract controller.  For every sequence of
  queue receives, successful or not, and whatever follows the value array on the stack, the
  recorded angles, the launcher and the wheels end up where the decoded commands put them.
\<close>

theorem control_refinement:
  "robot_of (web_recdata evs s) = fold obey (commands_of (rec_Data s) evs) (robot_of s)"
  by (rule web_recdata_obeys)

text \<open>
  C11: from the initial statics, no sequence of requests takes a recorded gimbal angle out of the
  range from 0 to 270 degrees, so the conversion to \<open>uint32_t\<close> never sees a negative angle.
\<close>

theorem gimbal_angles_bounded: "angles_in_range (web_recdata evs ctl_init)"
  unfolding web_recdata_def
  by (rule control_task.run_inv) (simp add: angles_in_range_def ctl_init_def servo_consts)

text \<open>
  C27: on each axis, after any run of the control task, either neither the recorded angle nor the
  pulse has changed since the start of the run, or the servo was last sent exactly the pulse of the
  recorded angle.
\<close>

theorem gimbal_servos_follow: "servos_follow (servos s) (web_recdata evs s)"
  unfolding web_recdata_def
  by (rule servo_task.run_inv) (simp add: servos_follow_def follows_def)

text \<open>
  C18: the seven overlapping tests of the rocker branch amount to one decision.  A value inside the
  11 by 11 pad always sets all four wheels for the motion of its field, with the tie-breaks of
  \<open>pad_motion\<close>; a value outside leaves them alone.  Angles and launcher are untouched.
\<close>

theorem rocker_pad_decision:
  "wheel_drive (rocker_branch v s) =
     (if on_pad (v sdiv 100) (v smod 100) then drive_spec (pad_motion (v sdiv 100) (v smod 100))
      else wheel_drive s)
   \<and> launcher (rocker_branch v s) = launcher s
   \<and> servos (rocker_branch v s) = servos s"
  using rocker_branch_obeys [of v s] servos_rocker [of v s]
  by (auto simp: robot_of_def split: if_splits)

text \<open>
  Holding a gimbal button moves the axis in ten-degree steps and stops at the end stop: the
  \<open>n\<close> presses to the left from an angle in range give the smaller of 270 and the angle plus \<open>10 n\<close>,
  and \<open>n\<close> presses to the right the larger of 0 and the angle less \<open>10 n\<close>.
\<close>

lemma gimbal_repeated_steps:
  assumes "0 \<le> global_Yaw_Angle s" and "global_Yaw_Angle s \<le> 270"
  shows "global_Yaw_Angle ((gimbal_branch 2 ^^ n) s) = min 270 (global_Yaw_Angle s + 10 * int n)
    \<and> global_Yaw_Angle ((gimbal_branch 3 ^^ n) s) = max 0 (global_Yaw_Angle s - 10 * int n)"
proof -
  have step: "global_Yaw_Angle (move_yaw d t) = angle_check (global_Yaw_Angle t + d)" for d t
    using servos_move(1) [of d t] by (simp add: servos_def Let_def)
  have "global_Yaw_Angle ((gimbal_branch 2 ^^ n) s)
      = ((\<lambda>x. angle_check (x + 10)) ^^ n) (global_Yaw_Angle s)"
    by (induction n) (simp_all add: gimbal_branch_def step)
  moreover have "global_Yaw_Angle ((gimbal_branch 3 ^^ n) s)
      = ((\<lambda>x. angle_check (x - 10)) ^^ n) (global_Yaw_Angle s)"
    by (induction n) (simp_all add: gimbal_branch_def step)
  ultimately show ?thesis using assms by (simp add: angle_check_iter angle_check_iter_down)
qed

lemma gimbal_repeated_steps_witness:
  "0 \<le> global_Yaw_Angle ctl_init \<and> global_Yaw_Angle ctl_init \<le> 270 \<and>
   global_Yaw_Angle ((gimbal_branch 2 ^^ 20) ctl_init) = 270 \<and>
   global_Yaw_Angle ((gimbal_branch 3 ^^ 5) ctl_init) = 85"
  using gimbal_repeated_steps [of ctl_init 20] gimbal_repeated_steps [of ctl_init 5]
  by (simp add: ctl_init_def servo_consts)

text \<open>
  The start-up position and the recorded angle disagree.  \<open>Gimbal_server_start\<close> sends the yaw
  servo to 235 degrees while the control task's record says 135, so the first press of "left",
  which should add ten degrees, drives the servo back to 145.
\<close>

lemma gimbal_first_press_jumps:
  "duty_us (calls (Gimbal_server_start ctl_init)) MCPWM_UNIT_0 = Some (pulse_for 235)
   \<and> duty_us (calls (gimbal_branch 2 (Gimbal_server_start ctl_init))) MCPWM_UNIT_0
       = Some (pulse_for 145)
   \<and> unat (pulse_for 145) + 600 < unat (pulse_for 235)"
proof -
  have pulses: "unat (pulse_for 145) = 1574" "unat (pulse_for 235) = 2240"
    using servo_per_degree_unat [of 145] servo_per_degree_unat [of 235]
    by (simp_all add: pulse_for_def pulse_of_degree_def)
  have start: "duty_us (calls (Gimbal_server_start ctl_init)) MCPWM_UNIT_0 = Some (pulse_for 235)"
    "global_Yaw_Angle (Gimbal_server_start ctl_init) = 135"
    by (simp_all add: Gimbal_server_start_def mcpwm_example_gpio_initialize_def Let_def
        servo_set_angle_To_def vTaskDelay_def emit_def ctl_init_def pulse_for_def servo_consts)
  have "duty_us (calls (gimbal_branch 2 (Gimbal_server_start ctl_init))) MCPWM_UNIT_0
      = Some (pulse_for 145)"
    using servos_move(1) [of 10 "Gimbal_server_start ctl_init"] start(2)
    by (simp add: gimbal_branch_def servos_def angle_check_eq)
  with start pulses show ?thesis by simp
qed

end
