(* ===== verification/HttpTask.thy ===== *)
theory HttpTask
  imports HttpWriter Dispatch
begin

text \<open>
  The request task of components/web_server/webserver.c: \<open>handle_http_request\<close>.  It receives one
  request, cuts it into method and URI in place, puts the first bytes of both into a \<open>URL_Data\<close>,
  empties the command queue, sends that element, and answers.

  Arguments that stand for code outside the repository: the result \<open>rcv\<close> of the one \<open>recv\<close> call,
  the \<open>send\<close> call of \<open>my_write\<close>, the FreeRTOS queue operations (a record of functions on an abstract
  queue; \<open>queue_contract\<close> states their documented behaviour), and the bytes \<open>page\<close> of the embedded
  index.html.
\<close>

section \<open>Definitions\<close>

definition BUFF_SIZE :: nat where
  "BUFF_SIZE = 1024"

abbreviation CRLF :: string where
  "CRLF \<equiv> [CHR 0x0D, CHR 0x0A]"

text \<open>\<open>sprintf (buff, HTTP_200, n)\<close>; the conversion \<open>%d\<close> takes an \<open>int\<close>.\<close>

definition HTTP_200 :: "int \<Rightarrow> string" where
  "HTTP_200 n = ''HTTP/1.1 200 OK'' @ CRLF @ ''Server: lwIP/1.4.0'' @ CRLF
     @ ''Content-Type: text/html'' @ CRLF @ ''Connection: Keep-Alive'' @ CRLF
     @ ''Content-Length: '' @ sprintf_d (c_int n) @ '' '' @ CRLF @ CRLF"

definition HTTP_400 :: string where
  "HTTP_400 = ''HTTP/1.0 400 BadRequest'' @ CRLF @ ''Content-Length: 0'' @ CRLF
     @ ''Connection: Close'' @ CRLF @ ''Server: lwIP/1.4.0'' @ CRLF @ [CHR 0x0A]"

record 'q queue_api =
  xQueueReset :: "'q \<Rightarrow> 'q"
  xQueueSend :: "URL_Data \<Rightarrow> 'q \<Rightarrow> bool \<times> 'q"
  xQueueReceive :: "'q \<Rightarrow> (URL_Data \<times> 'q) option"

record 'q http =
  queue :: 'q
  wire :: sock
  closed :: "int list"

text \<open>The assignment loops: one cell per turn, from index \<open>j\<close> up to \<open>n\<close>.\<close>

function copy_loop :: "nat \<Rightarrow> nat \<Rightarrow> 'a list \<Rightarrow> 'a list \<Rightarrow> fault + 'a list" where
  "copy_loop j n src dst =
     (if j < n then
        (if \<not> j < length src then Inl OverRead
         else if \<not> j < length dst then Inl BufferOverflow
         else copy_loop (Suc j) n src (dst[j := src ! j]))
      else Inr dst)"
  by pat_completeness auto
termination
  by (relation "measure (\<lambda>(j, n, src, dst). n - j)") auto

declare copy_loop.simps [simp del]

text \<open>
  Lines 119 to 133: the cut at "HTTP", the cut at the first blank.  \<open>Inr None\<close> is the jump to
  \<open>requst_error\<close>; otherwise the array with its two cuts and the array that starts at \<open>uri\<close>.
\<close>

definition parse_request :: "string \<Rightarrow> fault + (string \<times> string) option" where
  "parse_request buff =
     (case strstr NUL buff ''HTTP'' of
        Inl f \<Rightarrow> Inl f
      | Inr None \<Rightarrow> Inr None
      | Inr (Some i) \<Rightarrow>
          let buff1 = buff[i := NUL] in
          (case strstr NUL buff1 '' '' of
             Inl f \<Rightarrow> Inl f
           | Inr None \<Rightarrow> Inr None
           | Inr (Some j) \<Rightarrow> let buff2 = buff1[j := NUL] in Inr (Some (buff2, drop (Suc j) buff2))))"

text \<open>Lines 145 to 159.\<close>

definition fill_url :: "string \<Rightarrow> string \<Rightarrow> fault + URL_Data" where
  "fill_url buff uri =
     (case strlen NUL uri of
        Inl f \<Rightarrow> Inl f
      | Inr uri_length \<Rightarrow>
          (case copy_loop 0 4 buff (replicate 30 NUL) of
             Inl f \<Rightarrow> Inl f
           | Inr b \<Rightarrow>
               (case copy_loop 0 uri_length uri (replicate 30 NUL) of
                  Inl f \<Rightarrow> Inl f
                | Inr u \<Rightarrow> Inr \<lparr>My_URLBuff = b, My_URLString = u\<rparr>)))"

text \<open>
  Lines 201 to 210; \<open>sprintf\<close> needs one cell more than it prints.  The length of the page is handed to
  \<open>my_write\<close> as an \<open>int\<close>.
\<close>

definition int_prefix :: "string \<Rightarrow> string" where
  "int_prefix page = take (nat (c_int (int (length page)))) page"

definition respond :: "send_call \<Rightarrow> string \<Rightarrow> string \<Rightarrow> sock \<Rightarrow> (fault + sock) option" where
  "respond sc page buff k =
     (case strcmp_eq NUL buff ''GET'' of
        Inl f \<Rightarrow> Some (Inl f)
      | Inr True \<Rightarrow>
          let txt = HTTP_200 (int (length page)) in
          if length txt \<ge> BUFF_SIZE then Some (Inl BufferOverflow)
          else (case my_write sc txt k of
                  None \<Rightarrow> None
                | Some (_, k1) \<Rightarrow>
                    (case my_write sc (int_prefix page) k1 of
                       None \<Rightarrow> None
                     | Some (_, k2) \<Rightarrow> Some (Inr k2)))
      | Inr False \<Rightarrow>
          (case my_write sc HTTP_400 k of None \<Rightarrow> None | Some (_, k1) \<Rightarrow> Some (Inr k1)))"

definition http_delay :: "nat \<Rightarrow> 'q http \<Rightarrow> 'q http" where
  "http_delay n h = h\<lparr>wire := (wire h)\<lparr>waited := waited (wire h) + n\<rparr>\<rparr>"

definition requst_error :: "int \<Rightarrow> 'q http \<Rightarrow> 'q http" where
  "requst_error fd h = h\<lparr>closed := fd # closed h\<rparr>"

definition handle_http_request ::
  "'q queue_api \<Rightarrow> send_call \<Rightarrow> string \<Rightarrow> int \<times> string \<Rightarrow> int \<Rightarrow> 'q http \<Rightarrow> (fault + 'q http) option"
where
  "handle_http_request api sc page rcv fd h =
     (let h0 = http_delay 30 h; (bytes_recvd, bytes) = rcv in
      if bytes_recvd \<le> 0 then Some (Inr (requst_error fd h0))
      else
        (case parse_request (bytes @ replicate (BUFF_SIZE - length bytes) NUL) of
           Inl f \<Rightarrow> Some (Inl f)
         | Inr None \<Rightarrow> Some (Inr (requst_error fd h0))
         | Inr (Some (buff, uri)) \<Rightarrow>
             (case fill_url buff uri of
                Inl f \<Rightarrow> Some (Inl f)
              | Inr myurl_data \<Rightarrow>
                  let (sendFlag, q) = xQueueSend api myurl_data (xQueueReset api (queue h0)) in
                  (case respond sc page buff (wire h0) of
                     None \<Rightarrow> None
                   | Some (Inl f) \<Rightarrow> Some (Inl f)
                   | Some (Inr k) \<Rightarrow>
                       Some (Inr (requst_error fd (http_delay 30 (h0\<lparr>queue := q, wire := k\<rparr>))))))))"

text \<open>
  What the queue part of \<open>handle_http_request\<close> puts into the queue for a given result of \<open>recv\<close>, nothing
  on the jump to \<open>requst_error\<close>.
\<close>

definition queued_item :: "int \<times> string \<Rightarrow> fault + URL_Data option" where
  "queued_item rcv =
     (let (bytes_recvd, bytes) = rcv in
      if bytes_recvd \<le> 0 then Inr None
      else
        (case parse_request (bytes @ replicate (BUFF_SIZE - length bytes) NUL) of
           Inl f \<Rightarrow> Inl f
         | Inr None \<Rightarrow> Inr None
         | Inr (Some (buff, uri)) \<Rightarrow>
             (case fill_url buff uri of Inl f \<Rightarrow> Inl f | Inr d \<Rightarrow> Inr (Some d))))"

section \<open>The documented behaviour of the queue\<close>

definition queue_contract :: "'q queue_api \<Rightarrow> ('q \<Rightarrow> URL_Data list) \<Rightarrow> nat \<Rightarrow> bool" where
  "queue_contract api contents cap \<longleftrightarrow>
     (\<forall>q. contents (xQueueReset api q) = [])
     \<and> (\<forall>q d. length (contents q) < cap \<longrightarrow>
          (\<exists>q'. xQueueSend api d q = (True, q') \<and> contents q' = contents q @ [d]))
     \<and> (\<forall>q d. cap \<le> length (contents q) \<longrightarrow>
          (\<exists>q'. xQueueSend api d q = (False, q') \<and> contents q' = contents q))
     \<and> (\<forall>q. contents q = [] \<longrightarrow> xQueueReceive api q = None)
     \<and> (\<forall>q d ds. contents q = d # ds \<longrightarrow>
          (\<exists>q'. xQueueReceive api q = Some (d, q') \<and> contents q' = ds))"

text \<open>A bounded list that meets it, for use at concrete inputs.\<close>

definition list_queue :: "nat \<Rightarrow> URL_Data list queue_api" where
  "list_queue cap = \<lparr>xQueueReset = (\<lambda>q. []),
     xQueueSend = (\<lambda>d q. if length q < cap then (True, q @ [d]) else (False, q)),
     xQueueReceive = (\<lambda>q. case q of [] \<Rightarrow> None | d # ds \<Rightarrow> Some (d, ds))\<rparr>"

text \<open>The contract as the interface its clients work with.\<close>

locale command_queue =
  fixes api :: "'q queue_api"
    and contents :: "'q \<Rightarrow> URL_Data list"
    and cap :: nat
  assumes after_reset: "contents (xQueueReset api q) = []"
    and send_room: "length (contents q) < cap \<Longrightarrow>
      \<exists>q'. xQueueSend api d q = (True, q') \<and> contents q' = contents q @ [d]"
    and send_full: "cap \<le> length (contents q) \<Longrightarrow>
      \<exists>q'. xQueueSend api d q = (False, q') \<and> contents q' = contents q"
    and receive_none: "contents q = [] \<Longrightarrow> xQueueReceive api q = None"
    and receive_front: "contents q = d # ds \<Longrightarrow>
      \<exists>q'. xQueueReceive api q = Some (d, q') \<and> contents q' = ds"
begin

lemma after_send:
  assumes "xQueueSend api d q = (ok, q')"
  shows "ok \<longleftrightarrow> length (contents q) < cap"
    and "contents q' = (if length (contents q) < cap then contents q @ [d] else contents q)"
  using assms send_room [of q d] send_full [of q d]
  by (cases "length (contents q) < cap"; auto)+

lemma before_receive:
  assumes "xQueueReceive api q = Some (d, q')"
  shows "contents q = d # contents q'"
proof (cases "contents q")
  case Nil
  with assms receive_none show ?thesis by simp
next
  case (Cons e es)
  with assms receive_front [OF Cons] show ?thesis by auto
qed

lemma reset_then_send:
  assumes "0 < cap"
  obtains q' where "xQueueSend api d (xQueueReset api q) = (True, q')" and "contents q' = [d]"
  using assms send_room [of "xQueueReset api q" d] by (auto simp: after_reset)

end

lemma queue_contract_iff: "queue_contract api contents cap \<longleftrightarrow> command_queue api contents cap"
  unfolding queue_contract_def command_queue_def by auto

lemmas queue_locale = queue_contract_iff [THEN iffD1]

interpretation lq: command_queue "list_queue cap" id cap for cap
  by unfold_locales (auto simp: list_queue_def)

lemma list_queue_contract: "queue_contract (list_queue cap) id cap"
  unfolding queue_contract_iff by (rule lq.command_queue_axioms)

section \<open>The copy loops\<close>

lemma copy_loop_fits:
  "j \<le> n \<Longrightarrow> n \<le> length src \<Longrightarrow> n \<le> length dst \<Longrightarrow>
   copy_loop j n src dst = Inr (take j dst @ take (n - j) (drop j src) @ drop n dst)"
proof (induction j n src dst rule: copy_loop.induct)
  case (1 j n src dst)
  show ?case
  proof (cases "j < n")
    case True
    with "1.prems" have "copy_loop j n src dst = copy_loop (Suc j) n src (dst[j := src ! j])"
      by (simp add: copy_loop.simps [of j])
    also have "\<dots> = Inr (take (Suc j) (dst[j := src ! j]) @ take (n - Suc j) (drop (Suc j) src)
        @ drop n (dst[j := src ! j]))"
      using True "1.prems" by (intro "1.IH") auto
    also have "\<dots> = Inr (take j dst @ take (n - j) (drop j src) @ drop n dst)"
      using True "1.prems"
      by (simp add: take_Suc_conv_app_nth Cons_nth_drop_Suc [symmetric] take_Cons' drop_update_cancel)
    finally show ?thesis .
  next
    case False
    with "1.prems" show ?thesis by (subst copy_loop.simps) simp
  qed
qed

lemma copy_loop_overflows:
  "j \<le> length dst \<Longrightarrow> length dst < n \<Longrightarrow> n \<le> length src \<Longrightarrow> copy_loop j n src dst = Inl BufferOverflow"
proof (induction j n src dst rule: copy_loop.induct)
  case (1 j n src dst)
  show ?case
  proof (cases "j < length dst")
    case True
    with 1 show ?thesis by (subst copy_loop.simps) simp
  next
    case False
    with "1.prems" show ?thesis by (subst copy_loop.simps) simp
  qed
qed

section \<open>Cutting a request\<close>

text \<open>
  A needle that does not occur before a separator it does not contain is found right behind the
  separator.
\<close>

lemma find_sub_after_sep:
  assumes "\<not> sublist needle xs" and "sep \<notin> set needle" and "needle \<noteq> []"
  shows "find_sub needle (xs @ sep # needle @ ys) = Some (Suc (length xs))"
  using assms(1)
proof (induction xs)
  case Nil
  have "take (length needle) (sep # needle @ ys) \<noteq> needle"
    using assms(2,3) by (cases needle) auto
  moreover have "find_sub needle (needle @ ys) = Some 0"
    using assms(3) by (cases needle) auto
  ultimately show ?case by simp
next
  case (Cons c xs)
  have "take (length needle) ((c # xs) @ sep # needle @ ys) \<noteq> needle"
  proof
    assume eq: "take (length needle) ((c # xs) @ sep # needle @ ys) = needle"
    show False
    proof (cases "length needle \<le> length (c # xs)")
      case True
      with eq have "take (length needle) (c # xs) = needle" by (simp only: take_append) simp
      then have "prefix needle (c # xs)" by (metis take_is_prefix)
      with Cons.prems show False by (auto dest: prefix_imp_sublist)
    next
      case False
      then have "sep \<in> set (take (length needle) ((c # xs) @ sep # needle @ ys))"
        by (auto simp: take_Cons' take_append)
      with eq assms(2) show False by simp
    qed
  qed
  moreover have "\<not> sublist needle xs" using Cons.prems by (auto simp: sublist_Cons_right)
  ultimately show ?case using Cons.IH by simp
qed

text \<open>The array that \<open>recv\<close> fills, for a request line with the given parts.\<close>

definition request_buff :: "string \<Rightarrow> string \<Rightarrow> string \<Rightarrow> string" where
  "request_buff meth uri rest =
     (meth @ '' '' @ uri @ '' '' @ ''HTTP'' @ rest)
       @ replicate (BUFF_SIZE - length (meth @ '' '' @ uri @ '' '' @ ''HTTP'' @ rest)) NUL"

definition request_line_ok :: "string \<Rightarrow> string \<Rightarrow> bool" where
  "request_line_ok meth uri \<longleftrightarrow> CHR '' '' \<notin> set meth \<and> NUL \<notin> set meth \<and> NUL \<notin> set uri
     \<and> \<not> sublist ''HTTP'' (meth @ '' '' @ uri)"

lemma parse_request_line:
  assumes ok: "request_line_ok meth uri"
    and len: "length (meth @ '' '' @ uri @ '' '' @ ''HTTP'' @ rest) < BUFF_SIZE"
  shows "\<exists>tail. parse_request (request_buff meth uri rest) =
    Inr (Some (meth @ NUL # uri @ '' '' @ NUL # tail, uri @ '' '' @ NUL # tail))"
proof -
  define zs where "zs = replicate (BUFF_SIZE - length (meth @ '' '' @ uri @ '' '' @ ''HTTP'' @ rest)) NUL"
  define tail where "tail = ''TTP'' @ rest @ zs"
  have zs: "NUL \<in> set (rest @ zs)" using len by (auto simp: zs_def)
  have buff: "request_buff meth uri rest = (meth @ '' '' @ uri) @ CHR '' '' # ''HTTP'' @ (rest @ zs)"
    by (simp add: request_buff_def zs_def)
  have pre: "NUL \<notin> set ((meth @ '' '' @ uri) @ CHR '' '' # ''HTTP'')"
    using ok by (auto simp: request_line_ok_def)
  have cut: "cstr NUL (xs @ ys) = Some (xs @ takeWhile (\<lambda>c. c \<noteq> NUL) ys)"
    if "NUL \<notin> set xs" "NUL \<in> set ys" for xs ys
  proof -
    have "takeWhile (\<lambda>c. c \<noteq> NUL) (xs @ ys) = xs @ takeWhile (\<lambda>c. c \<noteq> NUL) ys"
      using that(1) by (intro takeWhile_append2) blast
    with that(2) show ?thesis by (simp add: cstr_def)
  qed
  have "cstr NUL (request_buff meth uri rest)
      = Some ((meth @ '' '' @ uri) @ CHR '' '' # ''HTTP'' @ takeWhile (\<lambda>c. c \<noteq> NUL) (rest @ zs))"
    using cut [OF pre zs] by (simp add: buff)
  moreover have "find_sub ''HTTP'' ((meth @ '' '' @ uri) @ CHR '' '' # ''HTTP''
      @ takeWhile (\<lambda>c. c \<noteq> NUL) (rest @ zs)) = Some (Suc (length (meth @ '' '' @ uri)))"
    using ok by (intro find_sub_after_sep) (auto simp: request_line_ok_def)
  ultimately have first: "strstr NUL (request_buff meth uri rest) ''HTTP''
      = Inr (Some (Suc (length (meth @ '' '' @ uri))))"
    by (simp add: strstr_def)
  have buff1: "(request_buff meth uri rest)[Suc (length (meth @ '' '' @ uri)) := NUL]
      = meth @ CHR '' '' # uri @ '' '' @ NUL # tail"
    by (simp add: buff tail_def list_update_append)
  have "strstr NUL (meth @ CHR '' '' # uri @ '' '' @ NUL # tail) '' '' = Inr (Some (length meth))"
    using ok cstr_eq_Some [of NUL "meth @ CHR '' '' # uri @ '' ''" tail]
    by (simp add: strstr_def request_line_ok_def find_sub_char)
  moreover have "(meth @ CHR '' '' # uri @ '' '' @ NUL # tail)[length meth := NUL]
      = meth @ NUL # uri @ '' '' @ NUL # tail"
    by (simp add: list_update_append)
  ultimately show ?thesis
    unfolding parse_request_def first buff1 [symmetric]
    by (simp add: buff1 Let_def)
qed

lemma fill_url_line:
  assumes "NUL \<notin> set uri" and "3 \<le> length meth"
  shows "fill_url (meth @ NUL # uri @ '' '' @ NUL # tail) (uri @ '' '' @ NUL # tail) =
    (if length uri < 30
     then Inr \<lparr>My_URLBuff = take 4 (meth @ [NUL]) @ replicate 26 NUL,
       My_URLString = uri @ '' '' @ replicate (29 - length uri) NUL\<rparr>
     else Inl BufferOverflow)"
proof -
  have len: "strlen NUL (uri @ '' '' @ NUL # tail) = Inr (Suc (length uri))"
    using assms(1) cstr_eq_Some [of NUL "uri @ '' ''" tail] by (simp add: strlen_def)
  have b: "copy_loop 0 4 (meth @ NUL # uri @ '' '' @ NUL # tail) (replicate 30 NUL)
      = Inr (take 4 (meth @ [NUL]) @ replicate 26 NUL)"
    using assms(2) by (subst copy_loop_fits) (auto simp: take_Cons')
  have u: "copy_loop 0 (Suc (length uri)) (uri @ '' '' @ NUL # tail) (replicate 30 NUL) =
      (if length uri < 30 then Inr (uri @ '' '' @ replicate (29 - length uri) NUL)
       else Inl BufferOverflow)"
    by (simp add: copy_loop_fits copy_loop_overflows)
  show ?thesis unfolding fill_url_def len sum.case b u by simp
qed

section \<open>Answering\<close>

lemma length_HTTP_200: "length (HTTP_200 i) < BUFF_SIZE"
  using length_sprintf_d [of "c_int i"] c_int_bounds [of i] by (simp add: HTTP_200_def BUFF_SIZE_def)

lemma int_prefix_page: "length page < 2 ^ 31 \<Longrightarrow> int_prefix page = page"
  by (simp add: int_prefix_def c_int_eq)

lemma length_int_prefix: "length (int_prefix page) \<le> length page"
  by (simp add: int_prefix_def)

text \<open>\<open>send\<close> always accepts something.\<close>

definition send_works :: "send_call \<Rightarrow> bool" where
  "send_works sc \<longleftrightarrow> (\<forall>j d. d \<noteq> [] \<longrightarrow> 0 < fst (sc j d))"

lemma my_write_works:
  assumes "send_works sc"
  shows "\<exists>k'. my_write sc d k = Some (0, k')"
proof (induction "length d" arbitrary: d k rule: less_induct)
  case less
  show ?case
  proof (cases "d = []")
    case False
    obtain w e where we: "sc (sends k) d = (w, e)" by fastforce
    with assms False have "0 < w" by (metis send_works_def fst_conv)
    with False less [of "drop (nat w) d"] show ?thesis
      by (simp add: my_write_Cons [where buffer = d and k = k and sc = sc, OF False we])
  qed simp
qed

lemma respond_get:
  assumes "send_works sc" and "length page < 2 ^ 31" and "cstr NUL buff = Some ''GET''"
  shows "\<exists>k'. respond sc page buff k = Some (Inr k')
    \<and> sent k' = sent k @ HTTP_200 (int (length page)) @ page"
proof -
  obtain k1 where k1: "my_write sc (HTTP_200 (int (length page))) k = Some (0, k1)"
    using my_write_works [OF assms(1)] by blast
  obtain k2 where k2: "my_write sc page k1 = Some (0, k2)"
    using my_write_works [OF assms(1)] by blast
  from k1 k2 assms(3) http.put_both [OF k1 k2] length_HTTP_200 [of "int (length page)"] show ?thesis
    by (simp add: respond_def strcmp_eq_def Let_def int_prefix_page [OF assms(2)])
qed

lemma respond_other:
  assumes "send_works sc" and "cstr NUL buff = Some meth" and "meth \<noteq> ''GET''"
  shows "\<exists>k'. respond sc page buff k = Some (Inr k') \<and> sent k' = sent k @ HTTP_400"
proof -
  obtain k1 where k1: "my_write sc HTTP_400 k = Some (0, k1)"
    using my_write_works [OF assms(1)] by blast
  from k1 assms(2,3) http.put_all [OF k1] show ?thesis
    by (simp add: respond_def strcmp_eq_def)
qed

lemma respond_ends:
  assumes "quiet_after n sc" and "cstr NUL buff = Some meth"
  shows "\<exists>k'. respond sc page buff k = Some (Inr k')"
proof -
  obtain r1 k1 where k1: "my_write sc (HTTP_200 (int (length page))) k = Some (r1, k1)"
    using my_write_ends [OF assms(1)] by (metis surj_pair)
  obtain r2 k2 where k2: "my_write sc (int_prefix page) k1 = Some (r2, k2)"
    using my_write_ends [OF assms(1)] by (metis surj_pair)
  obtain r3 k3 where k3: "my_write sc HTTP_400 k = Some (r3, k3)"
    using my_write_ends [OF assms(1)] by (metis surj_pair)
  from k1 k2 k3 assms(2) length_HTTP_200 [of "int (length page)"] show ?thesis
    by (cases "meth = ''GET''") (simp_all add: respond_def strcmp_eq_def Let_def)
qed

text \<open>The element a request puts into the queue.\<close>

definition url_item :: "string \<Rightarrow> string \<Rightarrow> URL_Data" where
  "url_item meth uri = \<lparr>My_URLBuff = take 4 (meth @ [NUL]) @ replicate 26 NUL,
     My_URLString = uri @ '' '' @ replicate (29 - length uri) NUL\<rparr>"

text \<open>A request whose line is well formed, as \<open>recv\<close> returns it.\<close>

definition request :: "string \<Rightarrow> string \<Rightarrow> string \<Rightarrow> int \<times> string" where
  "request meth uri rest =
     (let r = meth @ '' '' @ uri @ '' '' @ ''HTTP'' @ rest in (int (length r), r))"

definition request_fits :: "string \<Rightarrow> string \<Rightarrow> string \<Rightarrow> bool" where
  "request_fits meth uri rest \<longleftrightarrow> length (snd (request meth uri rest)) < BUFF_SIZE"

text \<open>The handler on such a request, up to the answer.\<close>

lemma handle_request_line:
  assumes ok: "request_line_ok meth uri" and m: "3 \<le> length meth"
    and fits: "request_fits meth uri rest" and short: "length uri < 30"
  shows "\<exists>buff. cstr NUL buff = Some meth \<and>
    handle_http_request api sc page (request meth uri rest) fd h =
      (let h0 = http_delay 30 h;
           (sendFlag, q) = xQueueSend api (url_item meth uri) (xQueueReset api (queue h0)) in
       (case respond sc page buff (wire h0) of
          None \<Rightarrow> None
        | Some (Inl f) \<Rightarrow> Some (Inl f)
        | Some (Inr k) \<Rightarrow>
            Some (Inr (requst_error fd (http_delay 30 (h0\<lparr>queue := q, wire := k\<rparr>))))))"
proof -
  have len: "length (meth @ '' '' @ uri @ '' '' @ ''HTTP'' @ rest) < BUFF_SIZE"
    using fits by (simp add: request_fits_def request_def Let_def)
  from parse_request_line [OF ok len] obtain tail where
    p: "parse_request (request_buff meth uri rest) =
      Inr (Some (meth @ NUL # uri @ '' '' @ NUL # tail, uri @ '' '' @ NUL # tail))" by blast
  have nul: "NUL \<notin> set uri" "NUL \<notin> set meth" using ok by (simp_all add: request_line_ok_def)
  have "fill_url (meth @ NUL # uri @ '' '' @ NUL # tail) (uri @ '' '' @ NUL # tail)
      = Inr (url_item meth uri)"
    using fill_url_line [OF nul(1) m, of tail] short by (simp add: url_item_def)
  moreover have "cstr NUL (meth @ NUL # uri @ '' '' @ NUL # tail) = Some meth"
    by (rule cstr_eq_Some [OF nul(2)])
  moreover have "handle_http_request api sc page (request meth uri rest) fd h =
      (let h0 = http_delay 30 h in case parse_request (request_buff meth uri rest) of
           Inl f \<Rightarrow> Some (Inl f)
         | Inr None \<Rightarrow> Some (Inr (requst_error fd h0))
         | Inr (Some (buff, uri)) \<Rightarrow>
             (case fill_url buff uri of
                Inl f \<Rightarrow> Some (Inl f)
              | Inr myurl_data \<Rightarrow>
                  let (sendFlag, q) = xQueueSend api myurl_data (xQueueReset api (queue h0)) in
                  (case respond sc page buff (wire h0) of
                     None \<Rightarrow> None
                   | Some (Inl f) \<Rightarrow> Some (Inl f)
                   | Some (Inr k) \<Rightarrow>
                       Some (Inr (requst_error fd (http_delay 30 (h0\<lparr>queue := q, wire := k\<rparr>)))))))"
    using m by (simp add: handle_http_request_def request_def request_buff_def Let_def)
  ultimately show ?thesis
    by (intro exI [of _ "meth @ NUL # uri @ '' '' @ NUL # tail"]) (simp only: p Let_def sum.case option.case prod.case simp_thms)
qed

lemma request_item:
  assumes "request_line_ok meth uri" and "3 \<le> length meth" and "request_fits meth uri rest"
    and "length uri < 30"
  shows "queued_item (request meth uri rest) = Inr (Some (url_item meth uri))"
proof -
  have len: "length (meth @ '' '' @ uri @ '' '' @ ''HTTP'' @ rest) < BUFF_SIZE"
    using assms(3) by (simp add: request_fits_def request_def Let_def)
  from parse_request_line [OF assms(1) len] obtain tail where
    p: "parse_request (request_buff meth uri rest) =
      Inr (Some (meth @ NUL # uri @ '' '' @ NUL # tail, uri @ '' '' @ NUL # tail))" by blast
  have "fill_url (meth @ NUL # uri @ '' '' @ NUL # tail) (uri @ '' '' @ NUL # tail)
      = Inr (url_item meth uri)"
    using fill_url_line [of uri meth tail] assms by (simp add: url_item_def request_line_ok_def)
  with p assms(2) show ?thesis
    by (simp add: queued_item_def request_def request_buff_def Let_def)
qed

text \<open>
  Whatever it received, when the handler returns it has queued what \<open>queued_item\<close> says, and it has closed
  its descriptor and no other.
\<close>

lemma handle_queue:
  assumes "handle_http_request api sc html rcv fd h = Some (Inr h')"
  shows "(queued_item rcv = Inr None \<and> queue h' = queue h)
    \<or> (\<exists>d. queued_item rcv = Inr (Some d)
          \<and> queue h' = snd (xQueueSend api d (xQueueReset api (queue h))))"
  using assms
  by (auto simp: handle_http_request_def queued_item_def Let_def http_delay_def requst_error_def
      split: prod.splits if_splits sum.splits option.splits)

lemma handle_closes:
  assumes "handle_http_request api sc html rcv fd h = Some (Inr h')"
  shows "closed h' = fd # closed h"
  using assms
  by (auto simp: handle_http_request_def Let_def http_delay_def requst_error_def
      split: prod.splits if_splits sum.splits option.splits)

text \<open>What the handler leaves behind, for any way of answering that returns.\<close>

context command_queue
begin

lemma handle_outcome:
  assumes "0 < cap"
    and line: "request_line_ok meth uri" "3 \<le> length meth" "request_fits meth uri rest"
      "length uri < 30"
    and answer: "\<And>buff k. cstr NUL buff = Some meth \<Longrightarrow>
      \<exists>k'. respond sc page buff k = Some (Inr k') \<and> P (sent k) (sent k')"
  shows "\<exists>h'. handle_http_request api sc page (request meth uri rest) fd h = Some (Inr h')
    \<and> contents (queue h') = [url_item meth uri]
    \<and> P (sent (wire h)) (sent (wire h')) \<and> closed h' = fd # closed h"
proof -
  obtain q where q: "xQueueSend api (url_item meth uri) (xQueueReset api (queue h)) = (True, q)"
    "contents q = [url_item meth uri]"
    using reset_then_send [OF assms(1)] by metis
  obtain buff where buff: "cstr NUL buff = Some meth" and
    eq: "handle_http_request api sc page (request meth uri rest) fd h =
      (let h0 = http_delay 30 h;
           (sendFlag, q) = xQueueSend api (url_item meth uri) (xQueueReset api (queue h0)) in
       (case respond sc page buff (wire h0) of
          None \<Rightarrow> None
        | Some (Inl f) \<Rightarrow> Some (Inl f)
        | Some (Inr k) \<Rightarrow>
            Some (Inr (requst_error fd (http_delay 30 (h0\<lparr>queue := q, wire := k\<rparr>))))))"
    using handle_request_line [OF line, of api sc page fd h] by blast
  from answer [OF buff, of "wire (http_delay 30 h)"] q show ?thesis
    unfolding eq by (auto simp: http_delay_def requst_error_def Let_def)
qed

end

text \<open>A \<open>send\<close> that takes everything at once, for concrete runs.\<close>

definition send_everything :: send_call where
  "send_everything j d = (int (length d), OtherErrno 0)"

lemma send_everything_works: "send_works send_everything" "quiet_after 0 send_everything"
  by (auto simp: send_works_def send_everything_def quiet_after_def)

definition quiet_robot :: "URL_Data list http" where
  "quiet_robot = \<lparr>queue = [], wire = \<lparr>sends = 0, sent = [], waited = 0\<rparr>, closed = []\<rparr>"

lemma request_line_okI:
  "CHR '' '' \<notin> set meth \<Longrightarrow> NUL \<notin> set meth \<Longrightarrow> NUL \<notin> set uri \<Longrightarrow>
   CHR ''H'' \<notin> set (meth @ uri) \<Longrightarrow> request_line_ok meth uri"
  by (auto simp: request_line_ok_def dest!: set_mono_sublist)

lemma takeWhile_padded: "\<not> P y \<Longrightarrow> takeWhile P (xs @ replicate n y) = takeWhile P xs"
  by (induction xs) (auto simp: takeWhile_eq_Nil_iff hd_replicate)

lemma parse_request_no_HTTP:
  assumes "length bytes < BUFF_SIZE" and "\<not> sublist ''HTTP'' (takeWhile (\<lambda>c. c \<noteq> NUL) bytes)"
  shows "parse_request (bytes @ replicate (BUFF_SIZE - length bytes) NUL) = Inr None"
proof -
  have "cstr NUL (bytes @ replicate (BUFF_SIZE - length bytes) NUL)
      = Some (takeWhile (\<lambda>c. c \<noteq> NUL) bytes)"
    using assms(1) by (simp add: cstr_def takeWhile_padded)
  with assms(2) show ?thesis
    by (simp add: parse_request_def strstr_def find_sub_None_iff [THEN iffD2])
qed

lemma HTTP_200_length_field:
  "find_sub ''Content-Length: '' (HTTP_200 i) = Some 86"
  "drop (86 + 16) (HTTP_200 i) = sprintf_d (c_int i) @ '' '' @ CRLF @ CRLF"
  by (simp_all add: HTTP_200_def)

section \<open>Properties\<close>

text \<open>
  C8: a GET request with a URI of fewer than 30 characters is served.  Whatever the queue held
  before, it then holds exactly this request's element, so a command that was not yet taken is
  dropped in favour of the newest one; the client receives the 200 header with the page's length and
  then the whole page, and the socket is closed.  The page is one whose length an \<open>int\<close> can hold.
\<close>

theorem http_get_served:
  assumes "queue_contract api contents cap" and "0 < cap"
    and "send_works sc" and "length page < 2 ^ 31"
    and "request_line_ok ''GET'' uri" and "request_fits ''GET'' uri rest" and "length uri < 30"
  shows "\<exists>h'. handle_http_request api sc page (request ''GET'' uri rest) fd h = Some (Inr h')
    \<and> contents (queue h') = [url_item ''GET'' uri]
    \<and> sent (wire h') = sent (wire h) @ HTTP_200 (int (length page)) @ page
    \<and> closed h' = fd # closed h"
  using assms respond_get [OF assms(3,4)]
  by (intro command_queue.handle_outcome [OF queue_locale,
        where P = "\<lambda>a b. b = a @ HTTP_200 (int (length page)) @ page"]) auto

theorem http_get_served_witness:
  "\<exists>h'. handle_http_request (list_queue 30) send_everything ''page'' (request ''GET''
      ''/rocker?val=0505'' ''/1.1'') 54 quiet_robot = Some (Inr h')
    \<and> queue h' = [url_item ''GET'' ''/rocker?val=0505'']
    \<and> sent (wire h') = HTTP_200 4 @ ''page'' \<and> closed h' = [54]"
proof -
  have ok: "request_line_ok ''GET'' ''/rocker?val=0505''" by (rule request_line_okI) simp_all
  have fits: "request_fits ''GET'' ''/rocker?val=0505'' ''/1.1''"
    by (simp add: request_fits_def request_def Let_def BUFF_SIZE_def)
  show ?thesis
    using http_get_served [OF list_queue_contract _ send_everything_works(1) _ ok fits,
        where cap = 30 and page = "''page''" and fd = 54 and h = quiet_robot]
    by (simp add: quiet_robot_def)
qed

text \<open>
  Any other method is answered with the 400 text, but its command is queued all the same: a POST
  that is refused still moves the robot.
\<close>

lemma http_other_method:
  assumes "queue_contract api contents cap" and "0 < cap" and "send_works sc"
    and "request_line_ok meth uri" and "3 \<le> length meth" and "meth \<noteq> ''GET''"
    and "request_fits meth uri rest" and "length uri < 30"
  shows "\<exists>h'. handle_http_request api sc page (request meth uri rest) fd h = Some (Inr h')
    \<and> contents (queue h') = [url_item meth uri]
    \<and> sent (wire h') = sent (wire h) @ HTTP_400
    \<and> closed h' = fd # closed h"
  using assms respond_other [OF assms(3) _ assms(6)]
  by (intro command_queue.handle_outcome [OF queue_locale, where P = "\<lambda>a b. b = a @ HTTP_400"]) auto

lemma http_other_method_witness:
  "\<exists>h'. handle_http_request (list_queue 30) send_everything ''page'' (request ''POST''
      ''/blaste?val=0000'' ''/1.1'') 54 quiet_robot = Some (Inr h')
    \<and> queue h' = [url_item ''POST'' ''/blaste?val=0000''] \<and> sent (wire h') = HTTP_400"
proof -
  have ok: "request_line_ok ''POST'' ''/blaste?val=0000''" by (rule request_line_okI) simp_all
  have fits: "request_fits ''POST'' ''/blaste?val=0000'' ''/1.1''"
    by (simp add: request_fits_def request_def Let_def BUFF_SIZE_def)
  show ?thesis
    using http_other_method [OF list_queue_contract _ send_everything_works(1) ok _ _ fits,
        where cap = 30 and page = "''page''" and fd = 54 and h = quiet_robot]
    by (auto simp: quiet_robot_def)
qed

text \<open>
  C23: the command reaches the queue and the task ends with its socket closed even when the client
  does not take the answer: it is enough that \<open>send\<close> is not interrupted for ever.
\<close>

theorem http_command_survives_send_errors:
  assumes "queue_contract api contents cap" and "0 < cap"
    and "quiet_after n sc"
    and "request_line_ok meth uri" and "3 \<le> length meth"
    and "request_fits meth uri rest" and "length uri < 30"
  shows "\<exists>h'. handle_http_request api sc page (request meth uri rest) fd h = Some (Inr h')
    \<and> contents (queue h') = [url_item meth uri] \<and> closed h' = fd # closed h"
  using assms command_queue.handle_outcome [OF queue_locale [OF assms(1)] assms(2,4-7),
      where P = "\<lambda>a b. True" and sc = sc and page = page]
    respond_ends [OF assms(3)] by simp

theorem http_command_survives_send_errors_witness:
  "\<exists>h'. handle_http_request (list_queue 30) (\<lambda>j d. (- 1, OtherErrno 104)) ''page''
      (request ''GET'' ''/fireSt?val=0000'' ''/1.1'') 54 quiet_robot = Some (Inr h')
    \<and> queue h' = [url_item ''GET'' ''/fireSt?val=0000''] \<and> closed h' = [54]"
proof -
  have ok: "request_line_ok ''GET'' ''/fireSt?val=0000''" by (rule request_line_okI) simp_all
  have fits: "request_fits ''GET'' ''/fireSt?val=0000'' ''/1.1''"
    by (simp add: request_fits_def request_def Let_def BUFF_SIZE_def)
  have quiet: "quiet_after 0 (\<lambda>j d. (- 1, OtherErrno 104))" by (simp add: quiet_after_def)
  show ?thesis
    using http_command_survives_send_errors [OF list_queue_contract _ quiet ok _ fits,
        where cap = 30 and page = "''page''" and fd = 54 and h = quiet_robot]
    by (simp add: quiet_robot_def)
qed

text \<open>
  C30: a URI of 30 characters or more is copied past the end of \<open>My_URLString\<close>: the copy loop runs to
  the length of the URI, not to the size of the array, and the task's stack is overwritten.
\<close>

theorem http_long_uri_overflows:
  assumes "request_line_ok meth uri" and "3 \<le> length meth" and "request_fits meth uri rest"
    and "30 \<le> length uri"
  shows "handle_http_request api sc page (request meth uri rest) fd h = Some (Inl BufferOverflow)"
proof -
  have len: "length (meth @ '' '' @ uri @ '' '' @ ''HTTP'' @ rest) < BUFF_SIZE"
    using assms(3) by (simp add: request_fits_def request_def Let_def)
  from parse_request_line [OF assms(1) len] obtain tail where
    p: "parse_request (request_buff meth uri rest) =
      Inr (Some (meth @ NUL # uri @ '' '' @ NUL # tail, uri @ '' '' @ NUL # tail))" by blast
  have "fill_url (meth @ NUL # uri @ '' '' @ NUL # tail) (uri @ '' '' @ NUL # tail)
      = Inl BufferOverflow"
    using assms(1,2,4) fill_url_line [of uri meth tail] by (simp add: request_line_ok_def)
  with p show ?thesis
    by (simp add: handle_http_request_def request_def request_buff_def Let_def)
qed

theorem http_long_uri_overflows_witness:
  "handle_http_request (list_queue 30) send_everything ''page''
     (request ''GET'' ''/rocker?val=0505&time=1699999999'' ''/1.1'') 54 quiet_robot
   = Some (Inl BufferOverflow)"
proof -
  have ok: "request_line_ok ''GET'' ''/rocker?val=0505&time=1699999999''"
    by (rule request_line_okI) simp_all
  have fits: "request_fits ''GET'' ''/rocker?val=0505&time=1699999999'' ''/1.1''"
    by (simp add: request_fits_def request_def Let_def BUFF_SIZE_def)
  show ?thesis by (rule http_long_uri_overflows [OF ok _ fits]) simp_all
qed

text \<open>
  A receive that fails, and a request that holds no "HTTP", end in the error path: nothing is
  queued, nothing is sent, and the socket is closed.
\<close>

lemma http_bad_request_closed:
  assumes "n \<le> 0 \<or> length bytes < BUFF_SIZE
      \<and> \<not> sublist ''HTTP'' (takeWhile (\<lambda>c. c \<noteq> NUL) bytes)"
  shows "\<exists>h'. handle_http_request api sc page (n, bytes) fd h = Some (Inr h')
    \<and> queue h' = queue h \<and> sent (wire h') = sent (wire h) \<and> closed h' = fd # closed h"
  using assms parse_request_no_HTTP [of bytes]
  by (auto simp: handle_http_request_def Let_def http_delay_def requst_error_def)

lemma http_bad_request_closed_witness:
  "\<exists>h'. handle_http_request (list_queue 30) send_everything ''page'' (3, ''abc'') 54 quiet_robot
      = Some (Inr h') \<and> queue h' = [] \<and> closed h' = [54]"
proof -
  have none: "\<not> sublist ''HTTP'' (takeWhile (\<lambda>c. c \<noteq> NUL) ''abc'')"
    by (simp flip: find_sub_None_iff)
  show ?thesis
    using http_bad_request_closed [of 3 "''abc''" "list_queue 30" send_everything "''page''" 54
        quiet_robot] none
    by (auto simp: quiet_robot_def BUFF_SIZE_def)
qed

text \<open>
  How a client takes an answer apart: the header ends at the first empty line, the announced length is
  the number behind the first "Content-Length: " in it, and what follows is the body.
\<close>

definition read_answer :: "string \<Rightarrow> (int \<times> string) option" where
  "read_answer bytes =
     (case find_sub (CRLF @ CRLF) bytes of
        None \<Rightarrow> None
      | Some i \<Rightarrow>
          let header = take (i + 4) bytes in
          (case find_sub ''Content-Length: '' header of
             None \<Rightarrow> None
           | Some j \<Rightarrow> Some (atoi (drop (j + 16) header), drop (i + 4) bytes)))"

lemma blank_line_HTTP_200:
  "find_sub (CRLF @ CRLF) (HTTP_200 i @ body) = Some (length (HTTP_200 i) - 4)"
proof -
  let ?d = "sprintf_d (c_int i) @ '' ''"
  have "CHR 0x0D \<notin> set ?d" using sprintf_d_no_space [of "CHR 0x0D"] by (simp add: is_space_def)
  from find_sub_skip [OF this, of "CHR 0x0A # CRLF" "CRLF @ CRLF @ body"]
  have "find_sub (CRLF @ CRLF) (sprintf_d (c_int i) @ '' '' @ CRLF @ CRLF @ body)
      = Some (length (sprintf_d (c_int i)) + 1)"
    by simp
  then show ?thesis by (simp add: HTTP_200_def)
qed

lemma read_answer_HTTP_200:
  assumes "0 \<le> i" and "i < 2 ^ 31"
  shows "read_answer (HTTP_200 i @ body) = Some (i, body)"
proof -
  have "4 \<le> length (HTTP_200 i)" by (simp add: HTTP_200_def)
  moreover have "atoi (drop 102 (HTTP_200 i)) = i"
    using atoi_sprintf_d [OF assms(1), of "CHR '' ''" "CRLF @ CRLF"] HTTP_200_length_field(2) [of i]
      c_int_eq [of i] assms by (simp add: is_digit_def)
  ultimately show ?thesis
    using HTTP_200_length_field(1) [of i]
    by (simp add: read_answer_def blank_line_HTTP_200 [simplified])
qed

text \<open>
  C36: what the request task announces is what it sends.  For every GET that is served and every page
  whose length an \<open>int\<close> can hold, a client that takes the bytes sent apart at the first empty line
  reads the page as the body and the length of the page as the announced length.
\<close>

theorem http_answer_roundtrip:
  assumes "send_works sc" and "length page < 2 ^ 31"
    and "request_line_ok ''GET'' uri" and "request_fits ''GET'' uri rest" and "length uri < 30"
    and "handle_http_request api sc page (request ''GET'' uri rest) fd h = Some (Inr h')"
  shows "\<exists>answer. sent (wire h') = sent (wire h) @ answer
    \<and> read_answer answer = Some (int (length page), page)"
proof -
  obtain buff where buff: "cstr NUL buff = Some ''GET''" and
    eq: "handle_http_request api sc page (request ''GET'' uri rest) fd h =
      (let h0 = http_delay 30 h;
           (sendFlag, q) = xQueueSend api (url_item ''GET'' uri) (xQueueReset api (queue h0)) in
       (case respond sc page buff (wire h0) of
          None \<Rightarrow> None
        | Some (Inl f) \<Rightarrow> Some (Inl f)
        | Some (Inr k) \<Rightarrow>
            Some (Inr (requst_error fd (http_delay 30 (h0\<lparr>queue := q, wire := k\<rparr>))))))"
    using handle_request_line [OF assms(3) _ assms(4,5), of api sc page fd h] by auto
  obtain k where "respond sc page buff (wire (http_delay 30 h)) = Some (Inr k)"
    and "sent k = sent (wire h) @ HTTP_200 (int (length page)) @ page"
    using respond_get [OF assms(1,2) buff, of "wire (http_delay 30 h)"] by (auto simp: http_delay_def)
  then have "sent (wire h') = sent (wire h) @ HTTP_200 (int (length page)) @ page"
    using assms(6) unfolding eq by (auto simp: Let_def http_delay_def requst_error_def split: prod.splits)
  with read_answer_HTTP_200 [of "int (length page)" page] assms(2) show ?thesis by auto
qed

theorem http_answer_roundtrip_witness:
  "\<exists>h'. handle_http_request (list_queue 30) send_everything ''page'' (request ''GET''
      ''/rocker?val=0505'' ''/1.1'') 54 quiet_robot = Some (Inr h')
    \<and> read_answer (sent (wire h')) = Some (4, ''page'')"
proof -
  have ok: "request_line_ok ''GET'' ''/rocker?val=0505''" by (rule request_line_okI) simp_all
  have fits: "request_fits ''GET'' ''/rocker?val=0505'' ''/1.1''"
    by (simp add: request_fits_def request_def Let_def BUFF_SIZE_def)
  obtain h' where h: "handle_http_request (list_queue 30) send_everything ''page'' (request ''GET''
      ''/rocker?val=0505'' ''/1.1'') 54 quiet_robot = Some (Inr h')"
    using lq.handle_outcome [of 30 "''GET''" "''/rocker?val=0505''" "''/1.1''" send_everything
        "''page''" "\<lambda>a b. True" 54 quiet_robot] ok fits
      respond_ends [OF send_everything_works(2)] by auto
  from h http_answer_roundtrip [OF send_everything_works(1) _ ok fits _ h] show ?thesis
    by (auto simp: quiet_robot_def)
qed

text \<open>
  The 400 answer is not a complete HTTP header: it ends in CR LF LF and contains no empty line
  CR LF CR LF, unlike the 200 answer.
\<close>

lemma http_400_has_no_blank_line:
  "\<not> sublist (CRLF @ CRLF) HTTP_400 \<and> suffix (CRLF @ CRLF) (HTTP_200 i)"
proof -
  have "find_sub (CRLF @ CRLF) HTTP_400 = None" by (simp add: HTTP_400_def)
  moreover have "HTTP_200 i = take 86 (HTTP_200 i) @ ''Content-Length: '' @ sprintf_d (c_int i) @ '' ''
      @ (CRLF @ CRLF)"
    by (simp add: HTTP_200_def)
  ultimately show ?thesis by (metis find_sub_None_iff suffixI append.assoc)
qed

end
