(* ===== verification/WebServer.thy ===== *)
theory WebServer
  imports HttpTask
begin

text \<open>
  The listening task of components/web_server/webserver.c (\<open>webserver\<close>, \<open>web_server_start\<close>) and the
  way the request tasks and the control task share the command queue.

  The results of \<open>socket\<close>, \<open>bind\<close>, \<open>accept\<close>, \<open>malloc\<close> and \<open>xTaskCreate\<close> are inputs of the model.  The
  request tasks run concurrently: another task may run between a task's \<open>xQueueReset\<close> and its
  \<open>xQueueSend\<close>, so in the step relation \<open>traffic\<close> these are two steps.
\<close>

section \<open>Definitions\<close>

text \<open>
  What the listening task owns: whether \<open>urlRecHandle\<close> is set, the control tasks created, the
  descriptors accepted, those handed to a request task, the integers allocated for them, and the ticks
  spent in \<open>vTaskDelay\<close>.
\<close>

record server =
  urlRecHandle :: bool
  rec_tasks :: nat
  accepted :: "int list"
  http_tasks :: "int list"
  params :: "int list"
  server_ticks :: nat

record accept_result =
  new_fd :: int
  rec_created :: bool
  para_allocated :: bool
  task_created :: bool

definition server_init :: server where
  "server_init = \<lparr>urlRecHandle = False, rec_tasks = 0, accepted = [], http_tasks = [], params = [],
     server_ticks = 0\<rparr>"

definition webserver_turn :: "accept_result \<Rightarrow> fault + server \<Rightarrow> fault + server" where
  "webserver_turn ev r =
     (case r of
        Inl f \<Rightarrow> Inl f
      | Inr s \<Rightarrow>
          if new_fd ev = - 1 then Inr (s\<lparr>server_ticks := server_ticks s + 10\<rparr>)
          else
            let s1 = (if \<not> urlRecHandle s then
                        (if rec_created ev
                         then s\<lparr>urlRecHandle := True, rec_tasks := Suc (rec_tasks s)\<rparr> else s)
                      else s);
                s2 = s1\<lparr>accepted := new_fd ev # accepted s1\<rparr>
            in if \<not> para_allocated ev then Inl NullDeref
               else
                 let s3 = s2\<lparr>params := new_fd ev # params s2\<rparr>;
                     s4 = (if task_created ev
                           then s3\<lparr>http_tasks := new_fd ev # http_tasks s3\<rparr> else s3)
                 in Inr (s4\<lparr>server_ticks := server_ticks s4 + 10\<rparr>))"

text \<open>
  The whole task: it gives up when \<open>socket\<close> or \<open>bind\<close> fails, and otherwise listens.  The second
  component is the listening descriptor that is left open.
\<close>

definition webserver ::
  "int \<Rightarrow> int \<Rightarrow> accept_result list \<Rightarrow> (fault + server) \<times> int option" where
  "webserver sockfd bound evs =
     (if sockfd = - 1 then (Inr server_init, None)
      else if bound < 0 then (Inr server_init, Some sockfd)
      else (fold webserver_turn evs (Inr server_init), Some sockfd))"

text \<open>
  \<open>web_server_start\<close>: a queue of 30 elements of the size of \<open>URL_Data\<close>, or a restart when it cannot be
  made; then the listening task.
\<close>

definition queue_length :: nat where
  "queue_length = 30"

definition sizeof_URL_Data :: nat where
  "sizeof_URL_Data = 60"

definition web_server_start :: "bool \<Rightarrow> 'a hw_scheme \<Rightarrow> fault + 'a hw_scheme" where
  "web_server_start queue_created s =
     (let s1 = emit (Os_call (XQueueCreate queue_length sizeof_URL_Data)) s in
      if \<not> queue_created then Inl Restart
      else Inr (emit (Os_call (XTaskCreate ''webserver_task'' 2048 5)) s1))"

section \<open>Sharing the queue\<close>

text \<open>
  The elements of the request tasks that have emptied the queue and not yet sent, the queue, whether
  some send has failed, and what the control task has taken.
\<close>

record 'q shared =
  pending :: "URL_Data list"
  cmds :: 'q
  send_failed :: bool
  taken :: "URL_Data list"

inductive traffic :: "'q queue_api \<Rightarrow> nat \<Rightarrow> 'q shared \<Rightarrow> 'q shared \<Rightarrow> bool"
  for api :: "'q queue_api" and tasks :: nat where
  task_reset: "length (pending s) < tasks \<Longrightarrow>
     traffic api tasks s (s\<lparr>cmds := xQueueReset api (cmds s), pending := d # pending s\<rparr>)"
| task_send: "pending s = ds @ d # ds' \<Longrightarrow> xQueueSend api d (cmds s) = (ok, q) \<Longrightarrow>
     traffic api tasks s
       (s\<lparr>cmds := q, pending := ds @ ds', send_failed := (send_failed s \<or> \<not> ok)\<rparr>)"
| control_receive: "xQueueReceive api (cmds s) = Some (d, q) \<Longrightarrow>
     traffic api tasks s (s\<lparr>cmds := q, taken := d # taken s\<rparr>)"

inductive_cases traffic_cases: "traffic api tasks s t"

definition traffic_inv :: "('q \<Rightarrow> URL_Data list) \<Rightarrow> nat \<Rightarrow> 'q shared \<Rightarrow> bool" where
  "traffic_inv contents tasks s \<longleftrightarrow>
     length (contents (cmds s)) + length (pending s) \<le> tasks \<and> \<not> send_failed s"

section \<open>Lemmas\<close>

definition rec_task_inv :: "fault + server \<Rightarrow> bool" where
  "rec_task_inv r \<longleftrightarrow>
     (case r of Inl f \<Rightarrow> True | Inr s \<Rightarrow> rec_tasks s = (if urlRecHandle s then 1 else 0))"

interpretation listening: event_machine webserver_turn rec_task_inv
proof unfold_locales
  fix r ev assume "rec_task_inv r"
  then show "rec_task_inv (webserver_turn ev r)"
    by (cases r) (simp_all add: rec_task_inv_def webserver_turn_def Let_def)
qed

lemma webserver_turn_Inl [simp]: "fold webserver_turn evs (Inl f) = Inl f"
  by (induction evs) (simp_all add: webserver_turn_def)

lemma webserver_run_log:
  "fold webserver_turn evs (Inr s) = Inr t \<Longrightarrow>
     accepted t = rev (map new_fd (filter (\<lambda>e. new_fd e \<noteq> - 1) evs)) @ accepted s
     \<and> params t = rev (map new_fd (filter (\<lambda>e. new_fd e \<noteq> - 1) evs)) @ params s
     \<and> http_tasks t = rev (map new_fd (filter (\<lambda>e. new_fd e \<noteq> - 1 \<and> task_created e) evs))
         @ http_tasks s"
proof (induction evs arbitrary: s)
  case Nil
  then show ?case by simp
next
  case (Cons e evs)
  show ?case
  proof (cases "webserver_turn e (Inr s)")
    case (Inl f)
    with Cons.prems show ?thesis by simp
  next
    case (Inr s')
    with Cons.prems have "fold webserver_turn evs (Inr s') = Inr t" by simp
    from Cons.IH [OF this] Inr show ?thesis
      by (auto simp: webserver_turn_def Let_def split: if_splits)
  qed
qed

context command_queue
begin

lemma traffic_step_inv:
  assumes bound: "tasks \<le> cap" and step: "traffic api tasks s t"
    and inv: "traffic_inv contents tasks s"
  shows "traffic_inv contents tasks t"
  using step
proof cases
  case (task_reset d)
  with inv show ?thesis by (auto simp: traffic_inv_def after_reset)
next
  case (task_send ds d ds' ok q)
  with inv bound have "length (contents (cmds s)) < cap" by (auto simp: traffic_inv_def)
  with task_send inv after_send [OF task_send(3)] show ?thesis by (auto simp: traffic_inv_def)
next
  case (control_receive d q)
  with inv before_receive [OF control_receive(2)] show ?thesis by (auto simp: traffic_inv_def)
qed

lemma traffic_run_inv:
  assumes "tasks \<le> cap" and "(traffic api tasks)\<^sup>*\<^sup>* s t" and "traffic_inv contents tasks s"
  shows "traffic_inv contents tasks t"
  using assms(2,3)
  by (induction rule: rtranclp_induct) (auto intro: traffic_step_inv [OF assms(1)])

text \<open>The steps that are possible, by what they leave in the queue.\<close>

lemma reset_step:
  assumes "length (pending s) < tasks"
  shows "\<exists>t. traffic api tasks s t \<and> contents (cmds t) = [] \<and> pending t = d # pending s
    \<and> taken t = taken s \<and> send_failed t = send_failed s"
  using traffic.task_reset [OF assms, of api d] by (auto simp: after_reset intro!: exI conjI)

lemma send_step:
  assumes "length (contents (cmds s)) < cap" and "pending s = ds @ d # ds'"
  shows "\<exists>t. traffic api tasks s t \<and> contents (cmds t) = contents (cmds s) @ [d]
    \<and> pending t = ds @ ds' \<and> taken t = taken s \<and> send_failed t = send_failed s"
proof -
  obtain q where "xQueueSend api d (cmds s) = (True, q)" "contents q = contents (cmds s) @ [d]"
    using send_room [OF assms(1)] by blast
  with traffic.task_send [OF assms(2) this(1), of tasks] show ?thesis by (auto intro!: exI conjI)
qed

lemma receive_step:
  assumes "contents (cmds s) = d # ds"
  shows "\<exists>t. traffic api tasks s t \<and> contents (cmds t) = ds \<and> pending t = pending s
    \<and> taken t = d # taken s \<and> send_failed t = send_failed s"
proof -
  obtain q where "xQueueReceive api (cmds s) = Some (d, q)" "contents q = ds"
    using receive_front [OF assms] by blast
  with traffic.control_receive [OF this(1), of tasks] show ?thesis by (auto intro!: exI conjI)
qed

lemma traffic_overtake:
  assumes "2 \<le> cap" and "2 \<le> tasks" and "pending s = []"
  shows "\<exists>s1 s2 t. traffic api tasks s s1 \<and> pending s1 = [d1]
    \<and> traffic api tasks s1 s2 \<and> pending s2 = [d2, d1]
    \<and> (traffic api tasks)\<^sup>*\<^sup>* s2 t \<and> pending t = [] \<and> contents (cmds t) = []
    \<and> taken t = d1 # d2 # taken s \<and> send_failed t = send_failed s"
proof -
  obtain s1 where s1: "traffic api tasks s s1" "pending s1 = [d1]" "taken s1 = taken s"
    "send_failed s1 = send_failed s"
    using reset_step [of s tasks d1] assms(2,3) by auto
  obtain s2 where s2: "traffic api tasks s1 s2" "contents (cmds s2) = []" "pending s2 = [d2, d1]"
    "taken s2 = taken s" "send_failed s2 = send_failed s"
    using reset_step [of s1 tasks d2] assms(2) s1 by auto
  obtain s3 where s3: "traffic api tasks s2 s3" "contents (cmds s3) = [d2]" "pending s3 = [d1]"
    "taken s3 = taken s" "send_failed s3 = send_failed s"
    using send_step [of s2 "[]" d2 "[d1]" tasks] assms(1) s2 by auto
  obtain s4 where s4: "traffic api tasks s3 s4" "contents (cmds s4) = [d2, d1]" "pending s4 = []"
    "taken s4 = taken s" "send_failed s4 = send_failed s"
    using send_step [of s3 "[]" d1 "[]" tasks] assms(1) s3 by auto
  obtain s5 where s5: "traffic api tasks s4 s5" "contents (cmds s5) = [d1]" "pending s5 = []"
    "taken s5 = d2 # taken s" "send_failed s5 = send_failed s"
    using receive_step [OF s4(2), of tasks] s4 by auto
  obtain t where t: "traffic api tasks s5 t" "contents (cmds t) = []" "pending t = []"
    "taken t = d1 # d2 # taken s" "send_failed t = send_failed s"
    using receive_step [OF s5(2), of tasks] s5 by auto
  have "(traffic api tasks)\<^sup>*\<^sup>* s2 t"
    using s3(1) s4(1) s5(1) t(1) by (meson converse_rtranclp_into_rtranclp r_into_rtranclp)
  with s1 s2 t show ?thesis by blast
qed

end

section \<open>Properties\<close>

text \<open>
  C21: however often clients connect and whichever task creations fail, at most one control task
  exists, and it exists exactly when the handle is set.
\<close>

theorem single_control_task:
  "fst (webserver sockfd bound evs) = Inr s \<Longrightarrow> rec_tasks s = (if urlRecHandle s then 1 else 0)"
  using listening.run_inv [of "Inr server_init" evs]
  by (auto simp: webserver_def rec_task_inv_def server_init_def split: if_splits)

definition one_client :: "accept_result list" where
  "one_client = [\<lparr>new_fd = 54, rec_created = True, para_allocated = True, task_created = True\<rparr>,
     \<lparr>new_fd = 55, rec_created = True, para_allocated = True, task_created = False\<rparr>]"

definition after_one_client :: server where
  "after_one_client = \<lparr>urlRecHandle = True, rec_tasks = 1, accepted = [55, 54], http_tasks = [54],
     params = [55, 54], server_ticks = 20\<rparr>"

lemma one_client_run: "fst (webserver 3 0 one_client) = Inr after_one_client"
  by (simp add: webserver_def one_client_def webserver_turn_def server_init_def after_one_client_def)

theorem single_control_task_witness:
  "fst (webserver 3 0 one_client) = Inr after_one_client \<and> rec_tasks after_one_client = 1"
  using single_control_task [OF one_client_run] one_client_run by (simp add: after_one_client_def)

text \<open>
  Every accepted connection costs one allocated integer, and nothing gives one back: the
  allocations are exactly the accepted descriptors, in order.  A descriptor whose request task could
  not be created is among them and is handed to nobody.
\<close>

lemma accepted_descriptors_accounted:
  assumes "fst (webserver sockfd 0 evs) = Inr s" and "sockfd \<noteq> - 1"
  shows "params s = accepted s
    \<and> accepted s = rev (map new_fd (filter (\<lambda>e. new_fd e \<noteq> - 1) evs))
    \<and> http_tasks s = rev (map new_fd (filter (\<lambda>e. new_fd e \<noteq> - 1 \<and> task_created e) evs))"
  using assms webserver_run_log [of evs server_init s]
  by (simp add: webserver_def server_init_def)

lemma accepted_descriptors_accounted_witness:
  "fst (webserver 3 0 one_client) = Inr after_one_client
   \<and> params after_one_client = [55, 54] \<and> http_tasks after_one_client = [54]"
  using accepted_descriptors_accounted [OF one_client_run] one_client_run
  by (simp add: one_client_def)

definition idle_shared :: "URL_Data list shared" where
  "idle_shared = \<lparr>pending = [], cmds = [], send_failed = False, taken = []\<rparr>"

definition some_item :: URL_Data where
  "some_item = \<lparr>My_URLBuff = [], My_URLString = []\<rparr>"

end
