(* ===== verification/AppMain.thy ===== *)
theory AppMain
  imports Chassis Fire Led Gimbal DnsServer WebServer
begin

text \<open>
  The start-up code: main/main.c.  \<open>app_main\<close> initialises the three mechanical components, then the
  network, then starts the two server tasks; \<open>event_handler\<close> reacts to the Wi-Fi events.  Whether a
  call that is wrapped in \<open>ESP_ERROR_CHECK\<close> succeeds is the argument \<open>succeeds\<close>; a failure aborts.
\<close>

section \<open>Definitions\<close>

definition CONNECTED_BIT :: u32 where
  "CONNECTED_BIT = 1"

datatype system_event_id =
    SYSTEM_EVENT_STA_START
  | SYSTEM_EVENT_STA_GOT_IP
  | SYSTEM_EVENT_STA_DISCONNECTED
  | SYSTEM_EVENT_AP_STAIPASSIGNED
  | SYSTEM_EVENT_AP_STADISCONNECTED
  | SYSTEM_EVENT_OTHER int

definition ESP_OK :: int where
  "ESP_OK = 0"

definition event_handler :: "system_event_id \<Rightarrow> 'a hw_scheme \<Rightarrow> int \<times> 'a hw_scheme" where
  "event_handler event s =
     (ESP_OK,
      case event of
        SYSTEM_EVENT_STA_START \<Rightarrow> s
      | SYSTEM_EVENT_STA_GOT_IP \<Rightarrow> emit (Os_call (XEventGroupSetBits CONNECTED_BIT)) s
      | SYSTEM_EVENT_STA_DISCONNECTED \<Rightarrow>
          emit (Os_call (XEventGroupClearBits CONNECTED_BIT)) (emit (Os_call Esp_wifi_connect) s)
      | SYSTEM_EVENT_AP_STAIPASSIGNED \<Rightarrow> s
      | SYSTEM_EVENT_AP_STADISCONNECTED \<Rightarrow> s
      | SYSTEM_EVENT_OTHER _ \<Rightarrow> s)"

text \<open>The bytes of the network name in the UTF-8 source.\<close>

definition ap_ssid :: "u8 list" where
  "ap_ssid = [229, 133, 168, 229, 144, 145, 232, 189, 174, 230, 173, 165, 229, 133, 181,
     230, 142, 167, 229, 136, 182, 229, 153, 168, 95, 53]"

definition wifi_ap_config :: wifi_ap_config_t where
  "wifi_ap_config = \<lparr>ssid = ap_ssid, ssid_len = length ap_ssid, authmode = WIFI_AUTH_OPEN,
     max_connection = 3\<rparr>"

definition plain :: "os_call \<Rightarrow> fault + 'a hw_scheme \<Rightarrow> fault + 'a hw_scheme" where
  "plain c r = map_sum id (emit (Os_call c)) r"

definition ESP_ERROR_CHECK ::
  "(os_call \<Rightarrow> bool) \<Rightarrow> os_call \<Rightarrow> fault + 'a hw_scheme \<Rightarrow> fault + 'a hw_scheme" where
  "ESP_ERROR_CHECK succeeds c r =
     (case r of
        Inl f \<Rightarrow> Inl f
      | Inr s \<Rightarrow> if succeeds c then Inr (emit (Os_call c) s) else Inl Abort)"

definition initialise_wifi ::
  "(os_call \<Rightarrow> bool) \<Rightarrow> fault + 'a hw_scheme \<Rightarrow> fault + 'a hw_scheme" where
  "initialise_wifi succeeds r0 =
     (let r1 = plain Tcpip_adapter_init r0;
          r2 = plain XEventGroupCreate r1;
          r3 = ESP_ERROR_CHECK succeeds Esp_event_loop_init r2;
          r4 = ESP_ERROR_CHECK succeeds Esp_wifi_init r3;
          r5 = ESP_ERROR_CHECK succeeds Esp_wifi_set_mode_AP r4;
          r6 = ESP_ERROR_CHECK succeeds (Esp_wifi_set_config wifi_ap_config) r5
      in ESP_ERROR_CHECK succeeds Esp_wifi_start r6)"

definition app_main ::
  "(os_call \<Rightarrow> bool) \<Rightarrow> bool \<Rightarrow> 'a hw_scheme \<Rightarrow> fault + 'a hw_scheme" where
  "app_main succeeds queue_created s =
     (let s1 = snd (Chassis_Init s);
          s2 = Gimbal_server_start s1;
          s3 = FIRE_Init s2;
          s4 = vTaskDelay (1000 div portTICK_RATE_MS) s3;
          r5 = ESP_ERROR_CHECK succeeds Nvs_flash_init (Inr s4);
          r6 = initialise_wifi succeeds r5
      in case r6 of
           Inl f \<Rightarrow> Inl f
         | Inr s6 \<Rightarrow> web_server_start queue_created (dns_server_start s6))"

section \<open>Lemmas\<close>

definition checked_calls :: "os_call list" where
  "checked_calls = [Nvs_flash_init, Esp_event_loop_init, Esp_wifi_init, Esp_wifi_set_mode_AP,
     Esp_wifi_set_config wifi_ap_config, Esp_wifi_start]"

definition motor_pins :: "nat set" where
  "motor_pins = {16, 17, 32, 33, 13, 15, 0, 2} \<union> {18, 5, 26, 25}"

fun starts_task :: "call \<Rightarrow> bool" where
  "starts_task (Os_call (XTaskCreate n st p)) \<longleftrightarrow> True"
| "starts_task c \<longleftrightarrow> False"

lemma fire_masks:
  "bit GPIO_FIRE_A_PIN_SEL q \<longleftrightarrow> q \<in> {18, 5}"
  "bit GPIO_FIRE_B_PIN_SEL q \<longleftrightarrow> q \<in> {26, 25}"
  unfolding GPIO_FIRE_A_PIN_SEL_def GPIO_FIRE_B_PIN_SEL_def bit_pin_pair
  by (auto simp: pin_names)

lemma FIRE_Init_outputs:
  "is_output (calls (FIRE_Init s)) q \<longleftrightarrow> q \<in> {18, 5, 26, 25} \<or> is_output (calls s) q"
  by (auto simp: FIRE_Init_def gpio_config_def Fire_A_config_def Fire_B_config_def fire_masks)

text \<open>The calls of the mechanical start-up, newest first.\<close>

definition mechanical_start :: "'a hw_scheme \<Rightarrow> 'a hw_scheme" where
  "mechanical_start s = vTaskDelay (1000 div portTICK_RATE_MS)
     (FIRE_Init (Gimbal_server_start (snd (Chassis_Init s))))"

lemma mechanical_start_calls:
  "calls (mechanical_start s) =
     [Task_delay 100, Gpio_config Fire_B_config, Gpio_config Fire_A_config, Task_delay 10,
      Mcpwm_set_duty_in_us MCPWM_UNIT_1 MCPWM_TIMER_0 MCPWM_OPR_A (servo_per_degree_init 90),
      Task_delay 10,
      Mcpwm_set_duty_in_us MCPWM_UNIT_0 MCPWM_TIMER_0 MCPWM_OPR_A (servo_per_degree_init 235),
      Mcpwm_init MCPWM_UNIT_1 MCPWM_TIMER_0 Pitch_pwm_config,
      Mcpwm_init MCPWM_UNIT_0 MCPWM_TIMER_0 Yaw_pwm_config,
      Mcpwm_gpio_init MCPWM_UNIT_1 MCPWM0A 23, Mcpwm_gpio_init MCPWM_UNIT_0 MCPWM0A 22,
      Gpio_config motorD_conf, Gpio_config motorC_conf, Gpio_config motorB_conf,
      Gpio_config motorA_conf] @ calls s"
  by (simp add: mechanical_start_def vTaskDelay_def portTICK_RATE_MS_eq FIRE_Init_def
      gpio_config_def Gimbal_server_start_def Let_def mcpwm_example_gpio_initialize_def
      servo_set_angle_To_def servo_consts Chassis_Init_def GPIO_GIMBAL_YAW_def
      GPIO_GIMBAL_PITCH_def)

lemma is_output_mechanical_start:
  "is_output (calls (mechanical_start s)) q \<longleftrightarrow> q \<in> motor_pins \<or> is_output (calls s) q"
  unfolding mechanical_start_calls
  by (auto simp: Fire_A_config_def Fire_B_config_def motorA_conf_def motorB_conf_def
      motorC_conf_def motorD_conf_def fire_masks chassis_masks motor_pins_def)

lemma app_main_result:
  "app_main succeeds queue_created s =
     (if list_all succeeds checked_calls then
        (if queue_created then
           Inr (emit (Os_call (XTaskCreate ''webserver_task'' 2048 5))
             (emit (Os_call (XQueueCreate 30 60))
               (emit (Os_call (XTaskCreate ''dns_task'' 4096 5))
                 (fold (\<lambda>c. emit (Os_call c))
                   [Nvs_flash_init, Tcpip_adapter_init, XEventGroupCreate, Esp_event_loop_init,
                    Esp_wifi_init, Esp_wifi_set_mode_AP, Esp_wifi_set_config wifi_ap_config,
                    Esp_wifi_start] (mechanical_start s)))))
         else Inl Restart)
      else Inl Abort)"
  by (simp add: app_main_def initialise_wifi_def Let_def plain_def ESP_ERROR_CHECK_def
      checked_calls_def mechanical_start_def web_server_start_def dns_server_start_def
      queue_length_def sizeof_URL_Data_def)

definition network_calls :: "call list" where
  "network_calls = map Os_call [Esp_wifi_start, Esp_wifi_set_config wifi_ap_config,
     Esp_wifi_set_mode_AP, Esp_wifi_init, Esp_event_loop_init, XEventGroupCreate,
     Tcpip_adapter_init, Nvs_flash_init]"

lemma app_main_log:
  assumes "list_all succeeds checked_calls"
  shows "\<exists>t. app_main succeeds True s = Inr t
    \<and> calls t = [Os_call (XTaskCreate ''webserver_task'' 2048 5), Os_call (XQueueCreate 30 60)]
        @ Os_call (XTaskCreate ''dns_task'' 4096 5) # network_calls @ calls (mechanical_start s)"
  unfolding app_main_result using assms by (simp add: network_calls_def)

fun connected :: "call list \<Rightarrow> bool" where
  "connected [] \<longleftrightarrow> False"
| "connected (Os_call (XEventGroupSetBits b) # cs) \<longleftrightarrow> and b CONNECTED_BIT \<noteq> 0 \<or> connected cs"
| "connected (Os_call (XEventGroupClearBits b) # cs) \<longleftrightarrow> and b CONNECTED_BIT = 0 \<and> connected cs"
| "connected (c # cs) \<longleftrightarrow> connected cs"

text \<open>What the bit is meant to say: the latest of the two station events was "got an address".\<close>

fun has_address :: "bool \<Rightarrow> system_event_id \<Rightarrow> bool" where
  "has_address b SYSTEM_EVENT_STA_GOT_IP = True"
| "has_address b SYSTEM_EVENT_STA_DISCONNECTED = False"
| "has_address b e = b"

lemma connected_event_handler:
  "connected (calls (snd (event_handler e s))) = has_address (connected (calls s)) e"
  by (cases e) (simp_all add: event_handler_def CONNECTED_BIT_def)

section \<open>Properties\<close>

text \<open>
  C22: when every checked call and the queue creation succeed, \<open>app_main\<close> starts the two server
  tasks only after all twelve motor pins have been made outputs and both servos have been sent to
  their start positions; no task that could command a motor exists before that.
\<close>

theorem app_main_configures_before_tasks:
  assumes "list_all succeeds checked_calls"
  shows "\<exists>t post pre. app_main succeeds True s = Inr t
    \<and> calls t = post @ Os_call (XTaskCreate ''dns_task'' 4096 5) # pre
    \<and> (\<forall>q \<in> motor_pins. is_output pre q)
    \<and> duty_us pre MCPWM_UNIT_0 = Some (servo_per_degree_init 235)
    \<and> duty_us pre MCPWM_UNIT_1 = Some (servo_per_degree_init 90)
    \<and> list_all (\<lambda>c. \<not> starts_task c) pre = list_all (\<lambda>c. \<not> starts_task c) (calls s)"
proof -
  let ?pre = "network_calls @ calls (mechanical_start s)"
  obtain t where t: "app_main succeeds True s = Inr t"
    and log: "calls t = [Os_call (XTaskCreate ''webserver_task'' 2048 5),
      Os_call (XQueueCreate 30 60)] @ Os_call (XTaskCreate ''dns_task'' 4096 5) # ?pre"
    using app_main_log [OF assms] by blast
  have "\<forall>q \<in> motor_pins. is_output ?pre q"
    by (simp add: network_calls_def is_output_mechanical_start)
  moreover have "duty_us ?pre MCPWM_UNIT_0 = Some (servo_per_degree_init 235)"
    "duty_us ?pre MCPWM_UNIT_1 = Some (servo_per_degree_init 90)"
    "list_all (\<lambda>c. \<not> starts_task c) ?pre = list_all (\<lambda>c. \<not> starts_task c) (calls s)"
    by (simp_all add: network_calls_def mechanical_start_calls)
  ultimately show ?thesis using t log by blast
qed

theorem app_main_configures_before_tasks_witness:
  "\<exists>t. app_main (\<lambda>_. True) True \<lparr>calls = []\<rparr> = Inr t"
  using app_main_configures_before_tasks [of "\<lambda>_. True" "\<lparr>calls = []\<rparr>"]
  by (auto simp: checked_calls_def)

text \<open>
  How start-up ends, for every pattern of failures: it aborts exactly when one of the six checked
  calls fails, it restarts exactly when they all succeed and the queue cannot be made, and otherwise
  it completes.
\<close>

lemma app_main_outcomes:
  "(app_main succeeds queue_created s = Inl Abort \<longleftrightarrow> \<not> list_all succeeds checked_calls)
   \<and> (app_main succeeds queue_created s = Inl Restart \<longleftrightarrow>
        list_all succeeds checked_calls \<and> \<not> queue_created)
   \<and> ((\<exists>t. app_main succeeds queue_created s = Inr t) \<longleftrightarrow>
        list_all succeeds checked_calls \<and> queue_created)"
  unfolding app_main_result by simp

text \<open>
  The event handler always reports success, and over any sequence of Wi-Fi events the connected
  bit says whether the last of the two station events was "got an address"; the access-point events
  do not touch it.
\<close>

lemma event_handler_tracks_address:
  "fst (event_handler e s) = ESP_OK
   \<and> connected (calls (fold (\<lambda>e s. snd (event_handler e s)) es s))
       = fold (\<lambda>e b. has_address b e) es (connected (calls s))"
proof -
  have "connected (calls (fold (\<lambda>e s. snd (event_handler e s)) es s))
       = fold (\<lambda>e b. has_address b e) es (connected (calls s))"
    by (induction es arbitrary: s) (simp_all add: connected_event_handler)
  then show ?thesis by (simp add: event_handler_def)
qed

text \<open>
  No two components drive the same pin: the chassis, the launcher and the gimbal use fourteen
  different pins.  The LED, were it used, would share the yaw servo's pin.
\<close>

lemma component_pins_disjoint:
  "distinct [GPIO_OUTPUT_A_IN1, GPIO_OUTPUT_A_IN2, GPIO_OUTPUT_B_IN1, GPIO_OUTPUT_B_IN2,
     GPIO_OUTPUT_C_IN1, GPIO_OUTPUT_C_IN2, GPIO_OUTPUT_D_IN1, GPIO_OUTPUT_D_IN2,
     GPIO_FIRE_A_IN1, GPIO_FIRE_A_IN2, GPIO_FIRE_B_IN1, GPIO_FIRE_B_IN2,
     GPIO_GIMBAL_YAW, GPIO_GIMBAL_PITCH]
   \<and> GPIO_OUTPUT_MY_LED = GPIO_GIMBAL_YAW"
  by (simp add: pin_names GPIO_GIMBAL_YAW_def GPIO_GIMBAL_PITCH_def GPIO_OUTPUT_MY_LED_def)

end
