(* ===== verification/RobotControl.thy ===== *)
theory RobotControl
  imports WebServer
begin

text \<open>
  The older control component: components/Robot_Control/RobotControl.c.  It has its own
  \<open>web_recdata\<close>, which prints what it receives, and a start function whose body is commented out.

  Both it and webserver.c include webserver.h, which defines \<open>URLString_queue\<close> and \<open>urlRecHandle\<close> as
  \<open>static\<close>: in C each translation unit then has variables of its own.  The model has one record of
  them per translation unit.
\<close>

section \<open>Definitions\<close>

record 'q unit_statics =
  URLString_queue :: "'q option"
  url_rec_handle :: bool

record 'q program_statics =
  webserver_c :: "'q unit_statics"
  RobotControl_c :: "'q unit_statics"

definition statics_init :: "'q program_statics" where
  "statics_init = \<lparr>webserver_c = \<lparr>URLString_queue = None, url_rec_handle = False\<rparr>,
     RobotControl_c = \<lparr>URLString_queue = None, url_rec_handle = False\<rparr>\<rparr>"

text \<open>The assignment \<open>URLString_queue = xQueueCreate (...)\<close> in webserver.c.\<close>

definition assign_queue :: "'q \<Rightarrow> 'q program_statics \<Rightarrow> 'q program_statics" where
  "assign_queue q st = st\<lparr>webserver_c := (webserver_c st)\<lparr>URLString_queue := Some q\<rparr>\<rparr>"

text \<open>
  One turn of RobotControl.c's loop on the queue of its own translation unit: what \<open>printf\<close> prints for
  the two \<open>%s\<close>, or \<open>None\<close> while the task is blocked.  \<open>xQueueReceive\<close> requires a queue; the null handle
  is a fault.
\<close>

definition rc_web_recdata_turn ::
  "'q queue_api \<Rightarrow> 'q program_statics \<Rightarrow> (fault + string \<times> string \<times> 'q) option" where
  "rc_web_recdata_turn api st =
     (case URLString_queue (RobotControl_c st) of
        None \<Rightarrow> Some (Inl NullDeref)
      | Some q \<Rightarrow>
          (case xQueueReceive api q of
             None \<Rightarrow> None
           | Some (d, q') \<Rightarrow>
               (case (cstr NUL (My_URLBuff d), cstr NUL (My_URLString d)) of
                  (Some a, Some b) \<Rightarrow> Some (Inr (a, b, q'))
                | _ \<Rightarrow> Some (Inl OverRead))))"

definition robot_server_start :: "'q program_statics \<Rightarrow> 'q program_statics" where
  "robot_server_start st = st"

section \<open>Properties\<close>

text \<open>
  The queue that webserver.c creates is invisible to RobotControl.c.  After start-up its copy of
  the handle is still null, so its loop, were the task created, would fault on its first receive.
\<close>

lemma robot_control_has_no_queue:
  "rc_web_recdata_turn api (robot_server_start (assign_queue q statics_init)) = Some (Inl NullDeref)
   \<and> URLString_queue (webserver_c (assign_queue q statics_init)) = Some q"
  by (simp add: rc_web_recdata_turn_def robot_server_start_def assign_queue_def statics_init_def)

text \<open>
  An element whose URI has up to 28 characters is printed as method and URI; one with exactly 29
  fills \<open>My_URLString\<close> to its last cell, leaves no terminator, and printing it runs past the array.
\<close>

lemma robot_control_prints:
  assumes "URLString_queue (RobotControl_c st) = Some q"
    and "xQueueReceive api q = Some (url_item meth uri, q')"
    and "length meth = 3" and "NUL \<notin> set meth" and "NUL \<notin> set uri" and "length uri < 30"
  shows "rc_web_recdata_turn api st =
    Some (if length uri < 29 then Inr (meth, uri @ '' '', q') else Inl OverRead)"
proof -
  have "cstr NUL (take 4 (meth @ [NUL]) @ replicate 26 NUL) = Some meth"
    using assms(3,4) cstr_eq_Some [of NUL meth "replicate 26 NUL"] by simp
  moreover have "cstr NUL (uri @ '' '' @ replicate (29 - length uri) NUL)
      = (if length uri < 29 then Some (uri @ '' '') else None)"
    using assms(5,6) cstr_replicate [of NUL "uri @ '' ''" "29 - length uri"]
    by (simp add: cstr_None)
  ultimately show ?thesis
    using assms(1,2) by (simp add: rc_web_recdata_turn_def url_item_def)
qed

definition shared_queue :: "URL_Data list program_statics" where
  "shared_queue = statics_init\<lparr>RobotControl_c :=
     \<lparr>URLString_queue = Some [url_item ''GET'' ''/blaste?val=0000''], url_rec_handle = True\<rparr>\<rparr>"

lemma robot_control_prints_witness:
  "rc_web_recdata_turn (list_queue 30) shared_queue
     = Some (Inr (''GET'', ''/blaste?val=0000 '', []))"
  using robot_control_prints [of shared_queue "[url_item ''GET'' ''/blaste?val=0000'']"
      "list_queue 30" "''GET''" "''/blaste?val=0000''" "[]"]
  by (simp add: shared_queue_def list_queue_def)

end
