(* ===== verification/WsEcho.thy ===== *)
theory WsEcho
  imports CString
begin

text \<open>
  The websocket echo server of main/ws_echo_server.c.  The file is in the source tree but not in the
  list of sources of main/CMakeLists.txt.  One request is described by what the HTTP server library and
  the allocator answer (\<open>ws_request\<close>); the state counts the live heap blocks, holds the asynchronous
  sends that are queued, and the frames sent.
\<close>

section \<open>Definitions\<close>

datatype ws_type = HTTPD_WS_TYPE_TEXT | HTTPD_WS_OTHER nat

definition ESP_ERR_NO_MEM :: int where
  "ESP_ERR_NO_MEM = 0x101"

record ws_request =
  is_get :: bool
  len_ret :: int
  frame_len :: nat
  frame_type :: ws_type
  calloc_ok :: bool
  body_ret :: int
  body :: string
  arg_ok :: bool
  sockfd :: int
  queue_ret :: int
  send_ret :: int

record ws_state =
  live :: nat
  work :: "int list"
  frames :: "(int \<times> ws_type \<times> string) list"

text \<open>\<open>free\<close> on the buffer, which may be the null pointer.\<close>

definition free_buf :: "string option \<Rightarrow> ws_state \<Rightarrow> ws_state" where
  "free_buf buf s = (case buf of None \<Rightarrow> s | Some _ \<Rightarrow> s\<lparr>live := live s - 1\<rparr>)"

definition trigger_async_send :: "ws_request \<Rightarrow> ws_state \<Rightarrow> fault + int \<times> ws_state" where
  "trigger_async_send rq s =
     (if \<not> arg_ok rq then Inl NullDeref
      else
        let s1 = s\<lparr>live := Suc (live s)\<rparr>
        in Inr (queue_ret rq,
             if queue_ret rq = 0 then s1\<lparr>work := work s1 @ [sockfd rq]\<rparr> else s1))"

definition ws_async_send :: "int \<Rightarrow> ws_state \<Rightarrow> ws_state" where
  "ws_async_send fd s =
     s\<lparr>frames := (fd, HTTPD_WS_TYPE_TEXT, ''Async data'') # frames s, live := live s - 1\<rparr>"

text \<open>From line 102 on, with the buffer that was filled, or the null pointer for an empty frame.\<close>

definition echo_tail :: "ws_request \<Rightarrow> string option \<Rightarrow> ws_state \<Rightarrow> fault + int \<times> ws_state" where
  "echo_tail rq payload s =
     (let echo = Inr (send_ret rq, free_buf payload
            (if send_ret rq = 0
             then s\<lparr>frames := (sockfd rq, frame_type rq, (case payload of None \<Rightarrow> [] | Some p \<Rightarrow>
               take (frame_len rq) p)) # frames s\<rparr> else s))
      in if frame_type rq = HTTPD_WS_TYPE_TEXT then
           (case payload of
              None \<Rightarrow> Inl NullDeref
            | Some p \<Rightarrow>
                (case strcmp_eq NUL p ''Trigger async'' of
                   Inl f \<Rightarrow> Inl f
                 | Inr True \<Rightarrow> trigger_async_send rq (free_buf payload s)
                 | Inr False \<Rightarrow> echo))
         else echo)"

definition echo_handler :: "ws_request \<Rightarrow> ws_state \<Rightarrow> fault + int \<times> ws_state" where
  "echo_handler rq s =
     (if is_get rq then Inr (0, s)
      else if len_ret rq \<noteq> 0 then Inr (len_ret rq, s)
      else if frame_len rq \<noteq> 0 then
        (if \<not> calloc_ok rq then Inr (ESP_ERR_NO_MEM, s)
         else
           let s1 = s\<lparr>live := Suc (live s)\<rparr>;
               buf = body rq @ replicate (Suc (frame_len rq) - length (body rq)) NUL
           in if body_ret rq \<noteq> 0 then Inr (body_ret rq, free_buf (Some buf) s1)
              else echo_tail rq (Some buf) s1)
      else echo_tail rq None s)"

text \<open>The server handle and its life: what \<open>httpd_start\<close> returned is an input.\<close>

record ws_server =
  server :: "nat option"
  running :: "nat list"

definition start_webserver :: "nat option \<Rightarrow> ws_server \<Rightarrow> nat option \<times> ws_server" where
  "start_webserver started s =
     (case started of
        Some h \<Rightarrow> (Some h, s\<lparr>running := h # running s\<rparr>)
      | None \<Rightarrow> (None, s))"

definition stop_webserver :: "nat \<Rightarrow> ws_server \<Rightarrow> ws_server" where
  "stop_webserver h s = s\<lparr>running := remove1 h (running s)\<rparr>"

definition disconnect_handler :: "ws_server \<Rightarrow> ws_server" where
  "disconnect_handler s =
     (case server s of
        Some h \<Rightarrow> (stop_webserver h s)\<lparr>server := None\<rparr>
      | None \<Rightarrow> s)"

definition connect_handler :: "nat option \<Rightarrow> ws_server \<Rightarrow> ws_server" where
  "connect_handler started s =
     (if server s = None
      then let (h, s1) = start_webserver started s in s1\<lparr>server := h\<rparr>
      else s)"

datatype ws_event = Connected "nat option" | Disconnected

fun ws_net_event :: "ws_event \<Rightarrow> ws_server \<Rightarrow> ws_server" where
  "ws_net_event (Connected started) s = connect_handler started s"
| "ws_net_event Disconnected s = disconnect_handler s"

text \<open>
  \<open>app_main\<close>: the checked calls, with the registrations that the configuration selects, then the
  first start, which assigns the handle whatever it was.  The handlers may already run between
  their registration and that start: \<open>early\<close> is what they are called with.
\<close>

datatype ws_check =
    Ws_nvs_flash_init | Ws_netif_init | Ws_event_loop_create | Ws_example_connect
  | Register_sta_got_ip | Register_sta_disconnected | Register_eth_got_ip | Register_eth_disconnected

definition ws_checks :: "bool \<Rightarrow> bool \<Rightarrow> ws_check list" where
  "ws_checks wifi ethernet =
     [Ws_nvs_flash_init, Ws_netif_init, Ws_event_loop_create, Ws_example_connect]
     @ (if wifi then [Register_sta_got_ip, Register_sta_disconnected] else [])
     @ (if ethernet then [Register_eth_got_ip, Register_eth_disconnected] else [])"

definition ws_app_main ::
  "(ws_check \<Rightarrow> bool) \<Rightarrow> bool \<Rightarrow> bool \<Rightarrow> ws_event list \<Rightarrow> nat option \<Rightarrow> fault + ws_server" where
  "ws_app_main succeeds wifi ethernet early started =
     (if \<not> list_all succeeds (ws_checks wifi ethernet) then Inl Abort
      else
        let s = fold ws_net_event early \<lparr>server = None, running = []\<rparr>;
            (h, s1) = start_webserver started s
        in Inr (s1\<lparr>server := h\<rparr>))"

section \<open>Memory\<close>

text \<open>
  The steps of the server: any request, or the execution of the oldest queued send.
\<close>

datatype ws_step = Request ws_request | RunWork

definition ws_run :: "ws_step \<Rightarrow> fault + ws_state \<Rightarrow> fault + ws_state" where
  "ws_run st r =
     (case r of
        Inl f \<Rightarrow> Inl f
      | Inr s \<Rightarrow>
          (case st of
             Request rq \<Rightarrow> map_sum id snd (echo_handler rq s)
           | RunWork \<Rightarrow>
               (case work s of [] \<Rightarrow> Inr s | fd # fds \<Rightarrow> Inr (ws_async_send fd (s\<lparr>work := fds\<rparr>)))))"

text \<open>
  A request that asks for an asynchronous send, and one whose send the work queue refuses.
\<close>

definition asks_async :: "ws_request \<Rightarrow> bool" where
  "asks_async rq \<longleftrightarrow> \<not> is_get rq \<and> len_ret rq = 0 \<and> frame_len rq \<noteq> 0 \<and> calloc_ok rq \<and> body_ret rq = 0
     \<and> frame_type rq = HTTPD_WS_TYPE_TEXT
     \<and> cstr NUL (body rq @ replicate (Suc (frame_len rq) - length (body rq)) NUL)
         = Some ''Trigger async''"

definition refused :: "ws_step \<Rightarrow> bool" where
  "refused st = (case st of Request rq \<Rightarrow> asks_async rq \<and> queue_ret rq \<noteq> 0 | RunWork \<Rightarrow> False)"

lemma trigger_blocks:
  "trigger_async_send rq s = Inr (ret, t) \<Longrightarrow>
   live t = Suc (live s) \<and> length (work t) = length (work s) + (if queue_ret rq = 0 then 1 else 0)"
  by (auto simp: trigger_async_send_def Let_def split: if_splits)

lemma echo_handler_blocks:
  assumes "echo_handler rq s = Inr (ret, t)" and "live s = n + length (work s)"
  shows "live t = n + length (work t) + (if refused (Request rq) then 1 else 0)"
proof (cases "asks_async rq")
  case True
  then have "echo_handler rq s = trigger_async_send rq s"
    by (cases s) (simp add: asks_async_def echo_handler_def echo_tail_def strcmp_eq_def free_buf_def)
  with assms True trigger_blocks [of rq s ret t] show ?thesis
    by (simp add: refused_def)
next
  case False
  with assms show ?thesis
    by (auto simp: asks_async_def refused_def echo_handler_def echo_tail_def strcmp_eq_def
        free_buf_def Let_def split: if_splits option.splits)
qed

lemma ws_run_Inl [simp]: "fold ws_run steps (Inl f) = Inl f"
  by (induction steps) (simp_all add: ws_run_def)

lemma ws_run_blocks:
  assumes "ws_run st (Inr s) = Inr t" and "live s = n + length (work s)"
  shows "live t = n + length (work t) + (if refused st then 1 else 0)"
proof (cases st)
  case (Request rq)
  with assms(1) obtain ret where "echo_handler rq s = Inr (ret, t)"
    by (cases "echo_handler rq s") (auto simp: ws_run_def)
  with echo_handler_blocks assms(2) Request show ?thesis by blast
next
  case RunWork
  with assms show ?thesis by (auto simp: ws_run_def ws_async_send_def refused_def split: list.splits)
qed

lemma ws_runs_blocks:
  assumes "fold ws_run steps (Inr s) = Inr t" and "live s = n + length (work s)"
  shows "live t = n + length (work t) + length (filter refused steps)"
  using assms
proof (induction steps arbitrary: s n)
  case (Cons st steps)
  obtain s' where s': "ws_run st (Inr s) = Inr s'"
    using Cons.prems(1) by (cases "ws_run st (Inr s)") auto
  have "live s' = n + (if refused st then 1 else 0) + length (work s')"
    using ws_run_blocks [OF s' Cons.prems(2)] by simp
  with Cons.IH [of s'] Cons.prems(1) s' show ?case by auto
qed simp

definition one_server :: "ws_server \<Rightarrow> bool" where
  "one_server s \<longleftrightarrow> running s = (case server s of None \<Rightarrow> [] | Some h \<Rightarrow> [h])"

interpretation ws_life: event_machine ws_net_event one_server
proof unfold_locales
  fix s e assume "one_server s"
  then show "one_server (ws_net_event e s)"
    by (cases e) (auto simp: one_server_def connect_handler_def disconnect_handler_def
        stop_webserver_def start_webserver_def split: option.splits)
qed

section \<open>Properties\<close>

text \<open>
  C40: the heap blocks of the echo server.  Over any sequence of requests, whatever fails in them, and of
  queued sends that run, as long as no request faults: the live blocks are those it began with, one
  for each send that is still queued and will free it, and one for each send that the work queue
  refused.  The last are leaked; every other path frees what it allocated.
\<close>

theorem ws_heap_accounted:
  assumes "live s = base" and "work s = []" and "fold ws_run steps (Inr s) = Inr t"
  shows "live t = base + length (work t) + length (filter refused steps)"
  using ws_runs_blocks [OF assms(3), of base] assms(1,2) by simp

definition trigger_request :: ws_request where
  "trigger_request = \<lparr>is_get = False, len_ret = 0, frame_len = 13, frame_type = HTTPD_WS_TYPE_TEXT,
     calloc_ok = True, body_ret = 0, body = ''Trigger async'', arg_ok = True, sockfd = 57,
     queue_ret = 0, send_ret = 0\<rparr>"

definition ws_idle :: ws_state where
  "ws_idle = \<lparr>live = 0, work = [], frames = []\<rparr>"

lemma trigger_run:
  "fold ws_run [Request trigger_request, Request (trigger_request\<lparr>queue_ret := 1\<rparr>)] (Inr ws_idle)
     = Inr \<lparr>live = 2, work = [57], frames = []\<rparr>"
  by (simp add: ws_run_def trigger_request_def ws_idle_def echo_handler_def echo_tail_def
      trigger_async_send_def free_buf_def strcmp_eq_def cstr_def)

theorem ws_heap_accounted_witness:
  "fold ws_run [Request trigger_request, Request (trigger_request\<lparr>queue_ret := 1\<rparr>)] (Inr ws_idle)
     = Inr \<lparr>live = 2, work = [57], frames = []\<rparr>
   \<and> length (filter refused [Request trigger_request, Request (trigger_request\<lparr>queue_ret := 1\<rparr>)]) = 1"
  using ws_heap_accounted [OF _ _ trigger_run, of 0] trigger_run by (simp add: ws_idle_def)

text \<open>
  When the work queue refuses a triggered send, its argument block stays allocated: the handler
  returns the error and one more block is live.
\<close>

lemma ws_refused_send_leaks:
  assumes "\<not> is_get rq" and "len_ret rq = 0" and "calloc_ok rq" and "body_ret rq = 0" and "arg_ok rq"
    and "frame_type rq = HTTPD_WS_TYPE_TEXT" and "frame_len rq = 13" and "body rq = ''Trigger async''"
    and "queue_ret rq \<noteq> 0"
  shows "\<exists>t. echo_handler rq s = Inr (queue_ret rq, t) \<and> live t = Suc (live s) \<and> work t = work s"
  using assms
  by (simp add: echo_handler_def echo_tail_def strcmp_eq_def cstr_def trigger_async_send_def
      free_buf_def)

lemma ws_refused_send_leaks_witness:
  "\<exists>t. echo_handler (trigger_request\<lparr>queue_ret := 1\<rparr>) ws_idle = Inr (1, t) \<and> live t = 1"
  using ws_refused_send_leaks [of "trigger_request\<lparr>queue_ret := 1\<rparr>" ws_idle]
  by (auto simp: trigger_request_def ws_idle_def)

text \<open>
  An empty text frame crashes the handler: no buffer is allocated for it, and the null payload is
  handed to \<open>strcmp\<close>.
\<close>

lemma ws_empty_text_frame_faults:
  assumes "\<not> is_get rq" and "len_ret rq = 0" and "frame_len rq = 0"
    and "frame_type rq = HTTPD_WS_TYPE_TEXT"
  shows "echo_handler rq s = Inl NullDeref"
  using assms by (simp add: echo_handler_def echo_tail_def)

lemma ws_empty_text_frame_faults_witness:
  "echo_handler (trigger_request\<lparr>frame_len := 0, body := []\<rparr>) ws_idle = Inl NullDeref"
  by (rule ws_empty_text_frame_faults) (simp_all add: trigger_request_def)

text \<open>
  When no handler runs before the first start, the connect and disconnect events that follow keep
  exactly one server running while the handle is set and none while it is null, whichever starts
  fail.
\<close>

lemma ws_at_most_one_server:
  assumes "ws_app_main succeeds wifi ethernet [] started = Inr s"
  shows "one_server (fold ws_net_event es s)"
proof (rule ws_life.run_inv)
  show "one_server s"
    using assms by (cases started)
      (auto simp: ws_app_main_def one_server_def start_webserver_def split: if_splits)
qed

lemma ws_started:
  "ws_app_main (\<lambda>_. True) True False [] (Some 7) = Inr \<lparr>server = Some 7, running = [7]\<rparr>"
  by (simp add: ws_app_main_def start_webserver_def list_all_iff)

lemma ws_at_most_one_server_witness:
  "one_server (fold ws_net_event [Disconnected, Connected None, Connected (Some 8)]
     \<lparr>server = Some 7, running = [7]\<rparr>)"
  by (rule ws_at_most_one_server [OF ws_started])

text \<open>
  A connect event before the first start does break it: when the second start then fails, a server
  runs that no handle refers to and that no disconnect stops.
\<close>

lemma ws_early_connect_loses_server:
  assumes "list_all succeeds (ws_checks wifi ethernet)"
  shows "\<exists>s. ws_app_main succeeds wifi ethernet [Connected (Some h)] None = Inr s
    \<and> h \<in> set (running (disconnect_handler s))"
  using assms by (simp add: ws_app_main_def connect_handler_def start_webserver_def
      disconnect_handler_def)

end
