(* ===== verification/WebPage.thy ===== *)
theory WebPage
  imports HttpTask
begin

text \<open>
  The sending side of the page that the server delivers, the script of
  components/web_server/index.html: the queries of its nine buttons, the function
  \<open>new_coordinate\<close> that turns a pointer position on the 600 by 600 canvas into a field of the rocker
  pad and sends it when the field has changed, and \<open>PrefixZero\<close>.  Drawing and the page's text are
  left out.  A pointer position is an integer: the script truncates a touch position, and a
  mouse position is integral.  The handlers that the script installs and removes on the document while
  the rocker is held are part of the state \<open>pointer\<close>.

  The lemmas take a query through the cut of the request task and the parser of the control
  task to the command it stands for.
\<close>

section \<open>Definitions\<close>

datatype button =
    GimbalUPButton | GimbalDOWNButton | GimbalLEFTButton | GimbalRIGHTButton
  | BlasterButton | BlasterButton1 | BlasterButton2 | BlasterButton3 | RobotButton

fun button_query :: "button \<Rightarrow> string" where
  "button_query GimbalUPButton = ''/gimbal?val=0000''"
| "button_query GimbalDOWNButton = ''/gimbal?val=0001''"
| "button_query GimbalLEFTButton = ''/gimbal?val=0002''"
| "button_query GimbalRIGHTButton = ''/gimbal?val=0003''"
| "button_query BlasterButton = ''/blaste?val=0000''"
| "button_query BlasterButton1 = ''/fireSt?val=0000''"
| "button_query BlasterButton2 = ''/Pluck1?val=0000''"
| "button_query BlasterButton3 = ''/luck2P?val=0000''"
| "button_query RobotButton = ''/robott?val=0000''"

text \<open>\<open>(Array(n).join(0) + num).slice(-n)\<close>\<close>

definition PrefixZero :: "int \<Rightarrow> nat \<Rightarrow> string" where
  "PrefixZero num n =
     (let s = replicate (n - 1) (CHR ''0'') @ sprintf_d num in drop (length s - n) s)"

definition rocker_query :: "int \<Rightarrow> int \<Rightarrow> string" where
  "rocker_query x y = ''/rocker?val='' @ PrefixZero x 2 @ PrefixZero y 2"

record rocker_page =
  LastX :: int
  LastY :: int

definition center :: int where
  "center = 600 div 2"

definition clip :: "int \<Rightarrow> int" where
  "clip v = (let v1 = (if v \<ge> 600 then 600 else v) in if v1 \<le> 0 then 0 else v1)"

text \<open>\<open>parseInt (v / (center / 5))\<close>\<close>

definition field :: "int \<Rightarrow> int" where
  "field v = v sdiv (center div 5)"

text \<open>The new state and the query that is fetched, if any.\<close>

definition new_coordinate ::
  "int \<Rightarrow> int \<Rightarrow> 'a rocker_page_scheme \<Rightarrow> 'a rocker_page_scheme \<times> string option" where
  "new_coordinate NowX NowY p =
     (let x = field (clip NowX); y = field (clip NowY) in
      if x \<noteq> LastX p \<or> y \<noteq> LastY p
      then (p\<lparr>LastX := x, LastY := y\<rparr>, Some (rocker_query x y))
      else (p, None))"

text \<open>
  The pointer on the canvas.  Pressing it down installs the document's movement and release handlers,
  the movement handler with the canvas offset it was pressed at; releasing puts the handle back to the
  centre.  After a touch the release handler stays, after a mouse button it is removed.
\<close>

record pointer = rocker_page +
  ontouchmove :: "(int \<times> int) option"
  ontouchend :: bool
  onmousemove :: "(int \<times> int) option"
  onmouseup :: bool

definition page_init :: pointer where
  "page_init = \<lparr>LastX = field center, LastY = field center, ontouchmove = None, ontouchend = False,
     onmousemove = None, onmouseup = False\<rparr>"

text \<open>
  Loading the page calls \<open>new_coordinate\<close> on the centre while \<open>LastX\<close> and \<open>LastY\<close> are still undefined,
  so the centre is sent, and sets them to the centre afterwards.
\<close>

definition page_load :: "pointer \<times> string option" where
  "page_load = (page_init, Some (rocker_query (field (clip center)) (field (clip center))))"

datatype pointer_event =
    TouchStart int int int int | TouchMove int int | TouchEnd
  | MouseDown int int int int | MouseMove int int | MouseUp

fun pointer_handler :: "pointer_event \<Rightarrow> pointer \<Rightarrow> pointer \<times> string option" where
  "pointer_handler (TouchStart pageX pageY x y) p =
     (let (p1, query) = new_coordinate (pageX - x) (pageY - y) p
      in (p1\<lparr>ontouchmove := Some (x, y), ontouchend := True\<rparr>, query))"
| "pointer_handler (TouchMove pageX pageY) p =
     (case ontouchmove p of
        None \<Rightarrow> (p, None)
      | Some (x, y) \<Rightarrow> new_coordinate (pageX - x) (pageY - y) p)"
| "pointer_handler TouchEnd p =
     (if ontouchend p
      then let (p1, query) = new_coordinate center center p in (p1\<lparr>ontouchmove := None\<rparr>, query)
      else (p, None))"
| "pointer_handler (MouseDown clientX clientY x y) p =
     (let (p1, query) = new_coordinate (clientX - x) (clientY - y) p
      in (p1\<lparr>onmousemove := Some (x, y), onmouseup := True\<rparr>, query))"
| "pointer_handler (MouseMove clientX clientY) p =
     (case onmousemove p of
        None \<Rightarrow> (p, None)
      | Some (x, y) \<Rightarrow> new_coordinate (clientX - x) (clientY - y) p)"
| "pointer_handler MouseUp p =
     (if onmouseup p
      then let (p1, query) = new_coordinate center center p
           in (p1\<lparr>onmouseup := False, onmousemove := None\<rparr>, query)
      else (p, None))"

text \<open>The rocker is held, and what the page guarantees when it is not.\<close>

definition held :: "pointer \<Rightarrow> bool" where
  "held p \<longleftrightarrow> ontouchmove p \<noteq> None \<or> onmousemove p \<noteq> None"

definition pointer_inv :: "pointer \<Rightarrow> bool" where
  "pointer_inv p \<longleftrightarrow>
     (\<not> held p \<longrightarrow> LastX p = field center \<and> LastY p = field center)
     \<and> (ontouchmove p \<noteq> None \<longrightarrow> ontouchend p) \<and> (onmousemove p \<noteq> None \<longrightarrow> onmouseup p)
     \<and> on_pad (LastX p) (LastY p)"

text \<open>What each button means to the controller.\<close>

fun button_command :: "button \<Rightarrow> command" where
  "button_command GimbalUPButton = MovePitch (- 10)"
| "button_command GimbalDOWNButton = MovePitch 10"
| "button_command GimbalLEFTButton = MoveYaw 10"
| "button_command GimbalRIGHTButton = MoveYaw (- 10)"
| "button_command BlasterButton = Launch FrictionRun"
| "button_command BlasterButton1 = Launch FrictionStop"
| "button_command BlasterButton2 = Launch PluckRun"
| "button_command BlasterButton3 = Launch PluckStop"
| "button_command RobotButton = Idle"

text \<open>
  The stack behind the value array does not continue the number.
\<close>

definition no_digit_follows :: "string \<Rightarrow> bool" where
  "no_digit_follows beyond \<longleftrightarrow> (case beyond of [] \<Rightarrow> True | c # cs \<Rightarrow> \<not> is_digit c)"

section \<open>The rocker's numbers\<close>

lemma digit_chars:
  "digit_char 0 = CHR ''0''" "digit_char 1 = CHR ''1''" "digit_char 2 = CHR ''2''"
  "digit_char 3 = CHR ''3''"
  by code_simp+

lemma PrefixZero_two:
  assumes "0 \<le> v" and "v < 100"
  shows "PrefixZero v 2 = [digit_char (nat v div 10), digit_char (nat v mod 10)]"
proof (cases "nat v < 10")
  case True
  with assms show ?thesis
    by (simp add: PrefixZero_def sprintf_d_def dec_nat.simps [of "nat v"] digit_chars)
next
  case False
  with assms show ?thesis
    by (simp add: PrefixZero_def sprintf_d_def dec_nat.simps [of "nat v"]
        dec_nat.simps [of "nat v div 10"])
qed

lemma digits_val_no_digit [simp]: "no_digit_follows beyond \<Longrightarrow> digits_val acc beyond = acc"
  by (cases beyond) (simp_all add: no_digit_follows_def)

lemma atoi_two_fields:
  assumes "0 \<le> x" "x < 100" "0 \<le> y" "y < 100" and "no_digit_follows beyond"
  shows "atoi (PrefixZero x 2 @ PrefixZero y 2 @ beyond) = 100 * x + y"
proof -
  have "atoi (PrefixZero x 2 @ PrefixZero y 2 @ beyond)
      = 10 * (10 * (10 * int (nat x div 10) + int (nat x mod 10)) + int (nat y div 10))
        + int (nat y mod 10)"
    using assms by (simp add: PrefixZero_two atoi_digit_first)
  also have "\<dots> = 100 * x + y"
    using assms by (simp add: zdiv_int zmod_int)
  finally show ?thesis .
qed

lemma field_clip: "0 \<le> field (clip v)" "field (clip v) \<le> 10"
  by (auto simp: field_def clip_def center_def sdiv_smod_nonneg intro: order.trans [OF zdiv_mono1 [of _ 600]])

section \<open>The pointer\<close>

lemma new_coordinate_eq:
  "new_coordinate NowX NowY p =
     (let x = field (clip NowX); y = field (clip NowY)
      in (p\<lparr>LastX := x, LastY := y\<rparr>,
          if x = LastX p \<and> y = LastY p then None else Some (rocker_query x y)))"
  by (simp add: new_coordinate_def Let_def)

lemma field_on_pad: "on_pad (field (clip x)) (field (clip y))"
  by (simp add: on_pad_def field_clip)

lemma field_clip_center: "field (clip center) = field center"
  by (simp add: clip_def center_def)

lemma center_on_pad: "on_pad (field center) (field center)"
  using field_on_pad [of center center] by (simp add: field_clip_center)

lemma pointer_handler_inv:
  assumes "pointer_inv p"
  shows "pointer_inv (fst (pointer_handler e p))"
  using assms
  by (cases e)
    (auto simp: pointer_inv_def held_def new_coordinate_eq Let_def field_on_pad field_clip_center
      center_on_pad simp del: not_None_eq split: option.split)

text \<open>What is fetched is the field the page then shows; nothing is fetched when it stays.\<close>

lemma pointer_handler_query:
  "snd (pointer_handler e p) =
     (let p' = fst (pointer_handler e p)
      in if LastX p' = LastX p \<and> LastY p' = LastY p then None
         else Some (rocker_query (LastX p') (LastY p')))"
  by (cases e) (simp_all add: new_coordinate_eq Let_def split: option.split)

lemma mouse_up_releases: "pointer_inv p \<Longrightarrow> onmousemove (fst (pointer_handler MouseUp p)) = None"
  by (auto simp: pointer_inv_def new_coordinate_eq Let_def simp del: not_None_eq)

lemma touch_end_releases:
  "pointer_inv p \<Longrightarrow> ontouchmove (fst (pointer_handler TouchEnd p)) = None"
  "onmousemove (fst (pointer_handler TouchEnd p)) = onmousemove p"
  by (auto simp: pointer_inv_def new_coordinate_eq Let_def simp del: not_None_eq)

interpretation rocker: event_machine "\<lambda>e p. fst (pointer_handler e p)" pointer_inv
  by unfold_locales (rule pointer_handler_inv)

lemma page_init_inv: "pointer_inv page_init"
  by (simp add: pointer_inv_def page_init_def center_on_pad)

section \<open>Queries through the request task and the parser\<close>

lemma queue_item_fields:
  "length uri = 16 \<Longrightarrow> url_Buff_01 (url_item meth uri) = take 7 uri"
  "length uri = 16 \<Longrightarrow> val_Buff_02 (url_item meth uri) = drop 12 uri"
  by (simp_all add: url_Buff_01_def val_Buff_02_def url_item_def nth_append list_eq_iff_nth_eq
      del: upt_rec_numeral)

lemma rocker_query_shape:
  assumes "0 \<le> x" "x < 100" "0 \<le> y" "y < 100"
  shows "length (rocker_query x y) = 16" and "take 5 (rocker_query x y) = ''/rock''"
    and "drop 12 (rocker_query x y) = PrefixZero x 2 @ PrefixZero y 2"
  using assms by (simp_all add: rocker_query_def PrefixZero_two)

lemma rocker_query_command:
  assumes "0 \<le> x" "x < 100" "0 \<le> y" "y < 100" and "no_digit_follows beyond"
  shows "command_of beyond (url_item meth (rocker_query x y)) = Rocker x y"
  using assms(1-4)
  by (simp add: command_of_def Let_def queue_item_fields rocker_query_shape take_take
      atoi_two_fields [OF assms] sdiv_smod_nonneg)

lemma button_query_command:
  assumes "no_digit_follows beyond"
  shows "command_of beyond (url_item meth (button_query b)) = button_command b"
proof -
  have z: "atoi (''000'' @ digit_char d # beyond) = int d" if "d < 10" for d
    using assms that by (simp add: atoi_digit_first digit_chars(1) [symmetric])
  have "atoi (''0000'' @ beyond) = 0" "atoi (''0001'' @ beyond) = 1"
    "atoi (''0002'' @ beyond) = 2" "atoi (''0003'' @ beyond) = 3"
    using z [of 0] z [of 1] z [of 2] z [of 3] by (simp_all add: digit_chars [simplified])
  then show ?thesis
    by (cases b) (simp_all add: command_of_def Let_def queue_item_fields gimbal_command_def)
qed

lemma digit_char_not_letter:
  assumes "d < 10"
  shows "digit_char d \<noteq> NUL" and "digit_char d \<noteq> CHR ''H''" and "digit_char d \<noteq> CHR '' ''"
proof -
  have "(of_char (digit_char d) :: nat) \<noteq> of_char NUL"
    and "(of_char (digit_char d) :: nat) \<noteq> of_char CHR ''H''"
    and "(of_char (digit_char d) :: nat) \<noteq> of_char CHR '' ''"
    using assms by (simp_all add: of_char_digit)
  then show "digit_char d \<noteq> NUL" and "digit_char d \<noteq> CHR ''H''" and "digit_char d \<noteq> CHR '' ''"
    by metis+
qed

lemma rocker_query_line:
  assumes "0 \<le> x" "x < 100" "0 \<le> y" "y < 100"
  shows "request_line_ok ''GET'' (rocker_query x y)"
  using assms
  by (intro request_line_okI)
    (auto simp: rocker_query_def PrefixZero_two digit_char_not_letter [THEN not_sym])

lemma button_query_line:
  "request_line_ok ''GET'' (button_query b)" "length (button_query b) \<le> 16"
  by (cases b; simp add: request_line_okI)+

lemma request_fits_16:
  "length uri \<le> 16 \<Longrightarrow> length rest < 999 \<Longrightarrow> request_fits ''GET'' uri rest"
  by (simp add: request_fits_def request_def Let_def BUFF_SIZE_def)

section \<open>Queries through the whole handler\<close>

context command_queue
begin

lemma handle_leaves_item:
  assumes "0 < cap"
    and line: "request_line_ok ''GET'' uri" "length uri \<le> 16" "length rest < 999"
    and run: "handle_http_request api sc html (request ''GET'' uri rest) fd h = Some (Inr h')"
  shows "contents (queue h') = [url_item ''GET'' uri]"
proof -
  obtain q where q: "xQueueSend api (url_item ''GET'' uri) (xQueueReset api (queue h)) = (True, q)"
    "contents q = [url_item ''GET'' uri]"
    using reset_then_send [OF assms(1)] by metis
  have qd: "queue (http_delay 30 h) = queue h" by (simp add: http_delay_def)
  obtain buff where "(case respond sc html buff (wire (http_delay 30 h)) of None \<Rightarrow> None
       | Some (Inl f) \<Rightarrow> Some (Inl f)
       | Some (Inr k) \<Rightarrow> Some (Inr (requst_error fd (http_delay 30
           ((http_delay 30 h)\<lparr>queue := q, wire := k\<rparr>))))) = Some (Inr h')"
    using handle_request_line [OF line(1) _ request_fits_16 [OF line(2,3)], of api sc html fd h]
      line(2) run q(1)
    by (auto simp: qd Let_def)
  then have "queue h' = q"
    by (auto simp: http_delay_def requst_error_def split: option.splits sum.splits)
  with q show ?thesis by simp
qed

lemma handle_returns:
  assumes "0 < cap"
    and "quiet_after n sc"
    and line: "request_line_ok ''GET'' uri" "length uri \<le> 16" "length rest < 999"
  shows "\<exists>h'. handle_http_request api sc html (request ''GET'' uri rest) fd h = Some (Inr h')
    \<and> contents (queue h') = [url_item ''GET'' uri]"
  using handle_outcome [OF assms(1) line(1) _ request_fits_16 [OF line(2,3)],
      where P = "\<lambda>a b. True" and sc = sc and page = html] line(2)
    respond_ends [OF assms(2)] by fastforce

end

lemma list_queue_30: "queue_contract (list_queue 30) id 30"
  by (rule list_queue_contract)

section \<open>Queries at the motors\<close>

lemma wheels_of_robot: "wheel_drive s = wheels (robot_of s)"
  by (simp add: robot_of_def)

lemma turn_on_rocker:
  assumes "on_pad x y" and "no_digit_follows beyond"
  shows "robot_of (web_recdata_turn (beyond, Some (url_item ''GET'' (rocker_query x y))) s)
    = (robot_of s)\<lparr>wheels := drive_spec (pad_motion x y)\<rparr>"
  using assms by (simp add: turn_obeys rocker_query_command on_pad_def)

lemma turn_on_button:
  assumes "no_digit_follows beyond"
  shows "robot_of (web_recdata_turn (beyond, Some (url_item ''GET'' (button_query b))) s)
    = obey (button_command b) (robot_of s)"
  using assms by (simp add: turn_obeys button_query_command)

lemma rocker_line:
  assumes "on_pad x y"
  shows "request_line_ok ''GET'' (rocker_query x y)" and "length (rocker_query x y) \<le> 16"
  using assms by (simp_all add: on_pad_def rocker_query_line rocker_query_shape)

text \<open>The request for the page itself names no command and halts the chassis.\<close>

lemma document_line: "request_line_ok ''GET'' ''/''" "length ''/'' \<le> 16"
  by (simp_all add: request_line_okI)

lemma document_command: "command_of beyond (url_item ''GET'' ''/'') = HaltChassis"
proof -
  have "take 5 (url_Buff_01 (url_item ''GET'' ''/'')) = ''/ '' @ [NUL, NUL, NUL]" by code_simp
  then show ?thesis by (simp add: command_of_def Let_def)
qed

lemma turn_on_document:
  "robot_of (web_recdata_turn (beyond, Some (url_item ''GET'' ''/'')) s)
    = (robot_of s)\<lparr>wheels := drive_spec Stop\<rparr>"
  by (simp add: turn_obeys document_command)

lemma pad_center: "pad_motion 5 5 = Stop" "on_pad 5 5" "field center = 5"
  by (simp_all add: pad_motion_def third_def on_pad_def field_def center_def)

lemma handler_send:
  assumes "pointer_handler e p = (p', Some query)" and "pointer_inv p"
  shows "query = rocker_query (LastX p') (LastY p')" and "pointer_inv p'"
    and "on_pad (LastX p') (LastY p')"
  using assms pointer_handler_query [of e p] pointer_handler_inv [OF assms(2), of e]
  by (auto simp: Let_def pointer_inv_def split: if_splits)

lemma handler_quiet:
  assumes "pointer_handler e p = (p', None)" and "pointer_inv p"
  shows "LastX p' = LastX p" and "LastY p' = LastY p" and "pointer_inv p'"
  using assms pointer_handler_query [of e p] pointer_handler_inv [OF assms(2), of e]
  by (auto simp: Let_def split: if_splits)

lemma loaded_net:
  "\<exists>h. handle_http_request (list_queue 30) send_everything ''page''
      (request ''GET'' (rocker_query 5 5) ''/1.1'') 54 quiet_robot = Some (Inr h)"
  using lq.handle_returns [of 30, OF _ send_everything_works(2) rocker_line [OF pad_center(2)],
      of "''/1.1''" "''page''" 54 quiet_robot] by auto

section \<open>Properties\<close>

text \<open>
  C24: a released rocker is at rest.  Whatever was done on the page before, with mouse and fingers in
  any mixture, once the mouse button and the fingers are up no movement handler is installed and the
  page shows, and has sent, the centre.
\<close>

theorem released_rocker_rests:
  "let p = fold (\<lambda>e p. fst (pointer_handler e p)) (es @ [MouseUp, TouchEnd]) page_init
   in \<not> held p \<and> LastX p = 5 \<and> LastY p = 5"
proof -
  let ?step = "\<lambda>e p. fst (pointer_handler e p)"
  let ?p = "fold ?step es page_init"
  have inv: "pointer_inv ?p" by (rule rocker.run_inv [OF page_init_inv])
  have up: "pointer_inv (?step MouseUp ?p)" by (rule rocker.handle_inv [OF inv])
  have "\<not> held (?step TouchEnd (?step MouseUp ?p))"
    using touch_end_releases [of "?step MouseUp ?p"] up mouse_up_releases [OF inv]
    by (simp add: held_def)
  moreover have "pointer_inv (?step TouchEnd (?step MouseUp ?p))" by (rule rocker.handle_inv [OF up])
  ultimately show ?thesis by (simp add: pointer_inv_def field_def center_def)
qed

end
