(* ===== verification/ControlTiming.thy ===== *)
theory ControlTiming
  imports Dispatch
begin

text \<open>
  The time of the control task.  \<open>web_recdata\<close> of webserver.c subscribes to the task watchdog, resets
  it at the head of every turn, waits for a command without a limit, acts on it and ends the turn with
  a delay.  Time is counted in FreeRTOS ticks: what the code itself waits is in the call log, and how
  long \<open>xQueueReceive\<close> blocked is an input of each turn.

  The watchdog is part of ESP-IDF.  Its documented behaviour is that it triggers when a subscribed task
  does not reset it for the configured number of seconds (build/config/sdkconfig.h); without the
  option \<open>CONFIG_ESP_TASK_WDT_PANIC\<close> it prints and goes on.
\<close>

section \<open>Definitions\<close>

fun delayed :: "call list \<Rightarrow> nat" where
  "delayed [] = 0"
| "delayed (Task_delay n # cs) = n + delayed cs"
| "delayed (c # cs) = delayed cs"

text \<open>
  The ticks between the resets of successive turns: the wait for the queue, given with each event, and
  what the turn itself waits.
\<close>

fun reset_gaps :: "(nat \<times> string \<times> URL_Data option) list \<Rightarrow> ctl \<Rightarrow> nat list" where
  "reset_gaps [] s = []"
| "reset_gaps ((blocked, ev) # evs) s =
     (let t = web_recdata_turn ev s
      in (blocked + (delayed (calls t) - delayed (calls s))) # reset_gaps evs t)"

definition wdt_ticks :: nat where
  "wdt_ticks =
     (case option_value sdkconfig ''CONFIG_ESP_TASK_WDT_TIMEOUT_S'' of
        Some sec \<Rightarrow> nat sec * 1000 div portTICK_RATE_MS | None \<Rightarrow> 0)"

definition wdt_triggers :: "(nat \<times> string \<times> URL_Data option) list \<Rightarrow> ctl \<Rightarrow> bool" where
  "wdt_triggers evs s \<longleftrightarrow> list_ex (\<lambda>gap. wdt_ticks < gap) (reset_gaps evs s)"

text \<open>What a turn costs by its command: a servo is given a tenth of a second to move.\<close>

fun turn_ticks :: "command \<Rightarrow> nat" where
  "turn_ticks (MovePitch d) = 16"
| "turn_ticks (MoveYaw d) = 16"
| "turn_ticks c = 6"

section \<open>Lemmas\<close>

lemma delayed_writes: "delayed (map (\<lambda>(p, l). Gpio_set_level p l) ws @ cs) = delayed cs"
  by (induction ws) auto

lemma delayed_set_levels [simp, call_log]: "delayed (calls (set_levels ws s)) = delayed (calls s)"
  by (simp add: calls_set_levels rev_map delayed_writes)

lemma delayed_motors [simp]:
  "delayed (calls (snd (Chassis_En s))) = delayed (calls s)"
  "delayed (calls (Chassis_Forward s)) = delayed (calls s)"
  "delayed (calls (Chassis_Backward s)) = delayed (calls s)"
  "delayed (calls (Chassis_Left s)) = delayed (calls s)"
  "delayed (calls (Chassis_Right s)) = delayed (calls s)"
  "delayed (calls (Chassis_Left_revolve s)) = delayed (calls s)"
  "delayed (calls (Chassis_Right_revolve s)) = delayed (calls s)"
  "delayed (calls (Fire_friction_wheel s)) = delayed (calls s)"
  "delayed (calls (Stop_Fire_friction s)) = delayed (calls s)"
  "delayed (calls (Fire_Pluck_Run s)) = delayed (calls s)"
  "delayed (calls (Stop_Fire_Pluck s)) = delayed (calls s)"
  by (simp_all add: Chassis_En_def Chassis_Forward_def Chassis_Backward_def Chassis_Left_def
      Chassis_Right_def Chassis_Left_revolve_def Chassis_Right_revolve_def
      Fire_friction_wheel_def Stop_Fire_friction_def Fire_Pluck_Run_def Stop_Fire_Pluck_def)

lemma delayed_rocker: "delayed (calls (rocker_branch v s)) = delayed (calls s)"
  by (simp add: rocker_branch_def Let_def)

lemma delayed_moves:
  "delayed (calls (move_pitch d s)) = 10 + delayed (calls s)"
  "delayed (calls (move_yaw d s)) = 10 + delayed (calls s)"
  by (simp_all add: move_pitch_def move_yaw_def Let_def servo_set_angle_calls)

lemma delayed_gimbal:
  "delayed (calls (gimbal_branch v s)) + 6 = turn_ticks (gimbal_command v) + delayed (calls s)"
  by (simp add: gimbal_branch_def Let_def gimbal_command_def delayed_moves)

lemma delayed_parse:
  "delayed (calls (parse_and_act beyond d s)) + 6 = turn_ticks (command_of beyond d) + delayed (calls s)"
  by (simp add: parse_and_act_def command_of_def Let_def bcmp_eq_def delayed_gimbal delayed_rocker)

lemma delayed_turn:
  "delayed (calls (web_recdata_turn (beyond, r) s)) =
     delayed (calls s)
     + turn_ticks (command_of beyond (case r of Some d \<Rightarrow> d | None \<Rightarrow> rec_Data s))"
  using delayed_parse [of beyond "rec_Data s" s] 
    delayed_parse [of beyond "the r" "s\<lparr>rec_Data := the r\<rparr>"]
  by (cases r) (simp_all add: web_recdata_turn_def vTaskDelay_def portTICK_RATE_MS_eq)

lemma turn_ticks_le: "turn_ticks c \<le> 16"
  by (cases c) simp_all

lemma wdt_ticks_eq: "wdt_ticks = 500"
  by (simp add: wdt_ticks_def option_value_literal [OF sdk_TASK_WDT_TIMEOUT_S] portTICK_RATE_MS_eq)

lemma reset_gaps_bounds:
  "list_all2 (\<lambda>e gap. fst e \<le> gap \<and> gap \<le> fst e + 16) evs (reset_gaps evs s)"
proof (induction evs arbitrary: s)
  case (Cons e evs)
  obtain blocked beyond r where e: "e = (blocked, beyond, r)" by (metis surj_pair)
  show ?case using Cons turn_ticks_le by (simp add: e Let_def delayed_turn)
qed simp

section \<open>Properties\<close>

text \<open>
  C26: a turn of the control task keeps it from its queue for exactly the ticks of its command, at most
  160 milliseconds, whatever was received and whatever the stack holds.
\<close>

theorem control_turn_latency:
  "delayed (calls (web_recdata_turn (beyond, r) s)) - delayed (calls s)
     = turn_ticks (command_of beyond (case r of Some d \<Rightarrow> d | None \<Rightarrow> rec_Data s))
   \<and> (delayed (calls (web_recdata_turn (beyond, r) s)) - delayed (calls s)) * portTICK_RATE_MS \<le> 160"
  using turn_ticks_le by (simp add: delayed_turn portTICK_RATE_MS_eq mult_le_mono)

text \<open>
  C34: the watchdog depends on how long the control task waits for its queue.  While no wait lasts longer
  than 4.84 seconds it never triggers; a wait of more than five seconds triggers it, because the wait
  has no limit and nothing resets the watchdog meanwhile.  (Between the two it depends on the command:
  the turn that follows the wait counts too.)  It then only reports, as the option that would make it
  stop the program is not defined.
\<close>

theorem control_task_watchdog:
  "(list_all (\<lambda>e. fst e \<le> 484) evs \<longrightarrow> \<not> wdt_triggers evs s)
   \<and> (list_ex (\<lambda>e. 500 < fst e) evs \<longrightarrow> wdt_triggers evs s)
   \<and> \<not> is_defined sdkconfig ''CONFIG_ESP_TASK_WDT_PANIC''"
proof -
  note gaps = reset_gaps_bounds [of evs s, unfolded list_all2_conv_all_nth]
  have "\<not> wdt_triggers evs s" if "list_all (\<lambda>e. fst e \<le> 484) evs"
  proof -
    have "reset_gaps evs s ! i \<le> 500" if "i < length evs" for i
      using gaps that \<open>list_all (\<lambda>e. fst e \<le> 484) evs\<close> by (fastforce simp: list_all_length)
    then show ?thesis using gaps
      by (simp add: wdt_triggers_def wdt_ticks_eq list_ex_length) (metis leD)
  qed
  moreover have "wdt_triggers evs s" if "list_ex (\<lambda>e. 500 < fst e) evs"
    using gaps that by (fastforce simp: wdt_triggers_def wdt_ticks_eq list_ex_length)
  ultimately show ?thesis by (simp add: is_defined_def sdk_no_WDT_PANIC)
qed

theorem control_task_watchdog_witness:
  "wdt_triggers [(20, [NUL], None), (600, [NUL], None)] ctl_init
   \<and> \<not> wdt_triggers [(20, [NUL], None), (400, [NUL], None)] ctl_init"
  using control_task_watchdog [of "[(20, [NUL], None), (600, [NUL], None)]" ctl_init]
    control_task_watchdog [of "[(20, [NUL], None), (400, [NUL], None)]" ctl_init] by simp

end
