(* ===== verification/Connections.thy ===== *)
theory Connections
  imports WebServer "HOL-Library.Multiset"
begin

text \<open>
  The connections of the web server: the listening task (\<open>webserver_turn\<close>), the request tasks it
  creates and the control task, over the limited number of sockets that lwIP offers
  (\<open>CONFIG_LWIP_MAX_SOCKETS\<close> in build/config/sdkconfig.h).  A request task is in one of three places of
  \<open>handle_http_request\<close>: before it empties the queue, between \<open>xQueueReset\<close> and \<open>xQueueSend\<close>, and
  after that until it closes its socket.

  lwIP's documented behaviour is the guard \<open>room\<close>: \<open>accept\<close> returns a descriptor only while fewer
  sockets are open than the limit.  One is in use all the time, the listening one, and a second when the
  name server has opened its own (\<open>dns\<close>).

  The queue's part of a step is a step of \<open>traffic\<close>: the development of WebServer.thy is the abstract
  view of this one.
\<close>

section \<open>Definitions\<close>

definition request_sockets :: "bool \<Rightarrow> nat" where
  "request_sockets dns =
     (case option_value sdkconfig ''CONFIG_LWIP_MAX_SOCKETS'' of
        Some n \<Rightarrow> nat n - (if dns then 2 else 1)
      | None \<Rightarrow> 0)"

record 'q conns =
  listener :: server
  waiting :: "int list"                 \<comment> \<open>tasks before the queue is emptied\<close>
  armed :: "(int \<times> URL_Data) list"      \<comment> \<open>tasks between reset and send\<close>
  answering :: "int list"               \<comment> \<open>tasks that have sent\<close>
  lost :: "int list"                    \<comment> \<open>descriptors no task was created for\<close>
  shut :: "int list"                    \<comment> \<open>descriptors closed\<close>
  line :: "'q shared"

definition open_sockets :: "'q conns \<Rightarrow> nat" where
  "open_sockets s =
     length (waiting s) + length (armed s) + length (answering s) + length (lost s)"

definition room :: "bool \<Rightarrow> 'q conns \<Rightarrow> bool" where
  "room dns s \<longleftrightarrow> open_sockets s < request_sockets dns"

text \<open>
  A turn of the accept loop: nothing was accepted, or a descriptor was and its task was created or not.
\<close>

inductive accept_step :: "bool \<Rightarrow> 'q conns \<Rightarrow> 'q conns \<Rightarrow> bool" for dns where
  nothing: "new_fd ev = - 1 \<Longrightarrow> webserver_turn ev (Inr (listener s)) = Inr v \<Longrightarrow>
     accept_step dns s (s\<lparr>listener := v\<rparr>)"
| accepted_task: "new_fd ev \<noteq> - 1 \<Longrightarrow> room dns s \<Longrightarrow> task_created ev \<Longrightarrow>
     webserver_turn ev (Inr (listener s)) = Inr v \<Longrightarrow>
     accept_step dns s (s\<lparr>listener := v, waiting := new_fd ev # waiting s\<rparr>)"
| accepted_lost: "new_fd ev \<noteq> - 1 \<Longrightarrow> room dns s \<Longrightarrow> \<not> task_created ev \<Longrightarrow>
     webserver_turn ev (Inr (listener s)) = Inr v \<Longrightarrow>
     accept_step dns s (s\<lparr>listener := v, lost := new_fd ev # lost s\<rparr>)"

text \<open>
  A request task between the points where the others can see it: it has received something that it
  jumps to \<open>requst_error\<close> on and closes; or it has received a request and empties the queue; it sends;
  it closes.  That a whole run of \<open>handle_http_request\<close> is made of these steps is shown below.
\<close>

inductive task_step :: "'q queue_api \<Rightarrow> 'q conns \<Rightarrow> 'q conns \<Rightarrow> bool" for api where
  bad_request: "waiting s = a @ fd # b \<Longrightarrow> queued_item rcv = Inr None \<Longrightarrow>
     task_step api s (s\<lparr>waiting := a @ b, shut := fd # shut s\<rparr>)"
| resets: "waiting s = a @ fd # b \<Longrightarrow> queued_item rcv = Inr (Some d) \<Longrightarrow>
     task_step api s (s\<lparr>waiting := a @ b, armed := (fd, d) # armed s,
       line := (line s)\<lparr>cmds := xQueueReset api (cmds (line s)), pending := d # pending (line s)\<rparr>\<rparr>)"
| sends: "armed s = a @ (fd, d) # b \<Longrightarrow> xQueueSend api d (cmds (line s)) = (ok, q) \<Longrightarrow>
     task_step api s (s\<lparr>armed := a @ b, answering := fd # answering s,
       line := (line s)\<lparr>cmds := q, pending := map snd (a @ b),
         send_failed := (send_failed (line s) \<or> \<not> ok)\<rparr>\<rparr>)"
| closes: "answering s = a @ fd # b \<Longrightarrow>
     task_step api s (s\<lparr>answering := a @ b, shut := fd # shut s\<rparr>)"

text \<open>All of them, and the control task's receives.\<close>

inductive conn_step :: "'q queue_api \<Rightarrow> bool \<Rightarrow> 'q conns \<Rightarrow> 'q conns \<Rightarrow> bool" for api dns where
  accepts: "accept_step dns s t \<Longrightarrow> conn_step api dns s t"
| serves: "task_step api s t \<Longrightarrow> conn_step api dns s t"
| receives: "xQueueReceive api (cmds (line s)) = Some (d, q) \<Longrightarrow>
     conn_step api dns s (s\<lparr>line := (line s)\<lparr>cmds := q, taken := d # taken (line s)\<rparr>\<rparr>)"

inductive_cases conn_step_cases: "conn_step api dns s t"
inductive_cases accept_step_cases: "accept_step dns s t"
inductive_cases task_step_cases: "task_step api s t"

definition conns_init :: "'q \<Rightarrow> 'q conns" where
  "conns_init q = \<lparr>listener = server_init, waiting = [], armed = [], answering = [], lost = [],
     shut = [], line = \<lparr>pending = [], cmds = q, send_failed = False, taken = []\<rparr>\<rparr>"

text \<open>The descriptors the server has, or had, to do with, each as often as it was handed out.\<close>

definition known_fds :: "'q conns \<Rightarrow> int multiset" where
  "known_fds s = mset (waiting s) + mset (map fst (armed s)) + mset (answering s) + mset (lost s)
     + mset (shut s)"

definition conn_inv :: "bool \<Rightarrow> 'q conns \<Rightarrow> bool" where
  "conn_inv dns s \<longleftrightarrow> open_sockets s \<le> request_sockets dns \<and> pending (line s) = map snd (armed s)
     \<and> known_fds s = mset (accepted (listener s))"

section \<open>Lemmas\<close>

lemma request_sockets_eq: "request_sockets dns = (if dns then 8 else 9)"
  by (simp add: request_sockets_def option_value_literal [OF sdk_MAX_SOCKETS])

lemma webserver_turn_accepted:
  "webserver_turn ev (Inr v) = Inr w \<Longrightarrow>
     accepted w = (if new_fd ev = - 1 then accepted v else new_fd ev # accepted v)"
  by (auto simp: webserver_turn_def Let_def split: if_splits)

lemma accept_step_inv: "accept_step dns s t \<Longrightarrow> conn_inv dns s \<Longrightarrow> conn_inv dns t"
  by (erule accept_step_cases)
    (auto simp: conn_inv_def open_sockets_def known_fds_def room_def dest!: webserver_turn_accepted)

lemma task_step_inv: "task_step api s t \<Longrightarrow> conn_inv dns s \<Longrightarrow> conn_inv dns t"
  by (erule task_step_cases) (auto simp: conn_inv_def open_sockets_def known_fds_def)

lemma conn_step_inv:
  assumes "conn_step api dns s t" and inv: "conn_inv dns s"
  shows "conn_inv dns t"
  using assms(1)
proof cases
  case accepts
  then show ?thesis using inv by (rule accept_step_inv)
next
  case serves
  then show ?thesis using inv by (rule task_step_inv)
next
  case (receives d q)
  with inv show ?thesis by (simp add: conn_inv_def open_sockets_def known_fds_def)
qed

lemma conn_run_inv:
  "(conn_step api dns)\<^sup>*\<^sup>* s t \<Longrightarrow> conn_inv dns s \<Longrightarrow> conn_inv dns t"
  by (induction rule: rtranclp_induct) (auto intro: conn_step_inv)

lemma conns_init_inv: "conn_inv dns (conns_init q)"
  by (simp add: conn_inv_def conns_init_def open_sockets_def known_fds_def server_init_def)

text \<open>A step is one of \<open>traffic\<close> on the queue, or leaves it alone.\<close>

lemma accept_step_line: "accept_step dns s t \<Longrightarrow> line t = line s"
  by (erule accept_step_cases) simp_all

lemma task_step_traffic:
  assumes "task_step api s t" and inv: "conn_inv dns s"
  shows "traffic api (request_sockets dns) (line s) (line t) \<or> line t = line s"
  using assms(1)
proof cases
  case (resets a fd b rcv d)
  with inv have "length (pending (line s)) < request_sockets dns"
    by (auto simp: conn_inv_def open_sockets_def)
  from traffic.task_reset [OF this, of api d] resets(1) show ?thesis by simp
next
  case (sends a fd d b ok q)
  with inv have "pending (line s) = map snd a @ d # map snd b" by (simp add: conn_inv_def)
  from traffic.task_send [OF this sends(3), of "request_sockets dns"] sends(1) show ?thesis by simp
qed simp_all

lemma conn_step_traffic:
  assumes "conn_step api dns s t" and inv: "conn_inv dns s"
  shows "traffic api (request_sockets dns) (line s) (line t) \<or> line t = line s"
  using assms(1)
proof cases
  case accepts
  then show ?thesis by (simp add: accept_step_line)
next
  case serves
  then show ?thesis using inv by (rule task_step_traffic)
next
  case (receives d q)
  from traffic.control_receive [OF receives(2), of "request_sockets dns"] receives(1) show ?thesis
    by simp
qed

lemma conn_run_traffic:
  assumes "(conn_step api dns)\<^sup>*\<^sup>* s t" and "conn_inv dns s"
  shows "(traffic api (request_sockets dns))\<^sup>*\<^sup>* (line s) (line t)"
  using assms
proof (induction rule: rtranclp_induct)
  case (step t u)
  have "conn_inv dns t" using step.hyps(1) step.prems by (rule conn_run_inv)
  from conn_step_traffic [OF step.hyps(2) this] step.IH [OF step.prems] show ?case
    by (auto intro: rtranclp.rtrancl_into_rtrancl)
qed simp

lemma no_room_stays:
  assumes "conn_step api dns s t" and "length (lost s) = request_sockets dns" and "conn_inv dns s"
  shows "length (lost t) = request_sockets dns"
  using assms
  by (elim conn_step_cases accept_step_cases task_step_cases) (auto simp: room_def open_sockets_def)

text \<open>A request task that is not interrupted, as steps.\<close>

lemma task_run_bad:
  assumes "waiting s = a @ fd # b" and "queued_item rcv = Inr None"
  shows "(task_step api)\<^sup>*\<^sup>* s (s\<lparr>waiting := a @ b, shut := fd # shut s\<rparr>)"
  using task_step.bad_request [OF assms, of api] by blast

lemma task_run_served:
  assumes "waiting s = a @ fd # b" and "queued_item rcv = Inr (Some d)"
  shows "\<exists>t. (task_step api)\<^sup>*\<^sup>* s t \<and> waiting t = a @ b \<and> armed t = armed s
    \<and> answering t = answering s \<and> lost t = lost s \<and> listener t = listener s
    \<and> shut t = fd # shut s \<and> taken (line t) = taken (line s)
    \<and> cmds (line t) = snd (xQueueSend api d (xQueueReset api (cmds (line s))))"
proof -
  obtain ok q where q: "xQueueSend api d (xQueueReset api (cmds (line s))) = (ok, q)" by fastforce
  let ?s1 = "s\<lparr>waiting := a @ b, armed := (fd, d) # armed s, line := (line s)\<lparr>
    cmds := xQueueReset api (cmds (line s)), pending := d # pending (line s)\<rparr>\<rparr>"
  let ?s2 = "?s1\<lparr>armed := armed s, answering := fd # answering s, line := (line ?s1)\<lparr>cmds := q,
    pending := map snd (armed s), send_failed := (send_failed (line s) \<or> \<not> ok)\<rparr>\<rparr>"
  let ?s3 = "?s2\<lparr>answering := answering s, shut := fd # shut s\<rparr>"
  have "task_step api s ?s1" by (rule task_step.resets [OF assms])
  moreover have "task_step api ?s1 ?s2"
    using task_step.sends [of ?s1 "[]" fd d "armed s" api ok q] q by simp
  moreover have "task_step api ?s2 ?s3"
    using task_step.closes [of ?s2 "[]" fd "answering s" api] by simp
  ultimately have "(task_step api)\<^sup>*\<^sup>* s ?s3" by (meson converse_rtranclp_into_rtranclp r_into_rtranclp)
  with q show ?thesis by (intro exI [of _ ?s3]) simp
qed

text \<open>
  Every descriptor that was ever accepted is, exactly once, with one request task, closed, or lost because
  no task could be created for it.
\<close>

lemma descriptors_accounted:
  assumes "(conn_step api dns)\<^sup>*\<^sup>* (conns_init q) s"
  shows "mset (accepted (listener s)) = mset (waiting s) + mset (map fst (armed s))
      + mset (answering s) + mset (lost s) + mset (shut s)"
  using conn_run_inv [OF assms conns_init_inv] by (simp add: conn_inv_def known_fds_def)

section \<open>Properties\<close>

text \<open>
  C19: in the configuration the firmware is built with, no command is lost to a full queue.  The ten
  sockets of lwIP leave eight for requests, or nine when the name server has none, so whatever the
  listening task, the request tasks and the control task do and in whatever order, every
  \<open>xQueueSend\<close> succeeds and at most that many commands wait.
\<close>

theorem configured_queue_never_full:
  assumes "queue_contract api contents queue_length" and "contents q = []"
    and "(conn_step api dns)\<^sup>*\<^sup>* (conns_init q) s"
  shows "\<not> send_failed (line s) \<and> length (contents (cmds (line s))) \<le> (if dns then 8 else 9)"
proof -
  have "traffic_inv contents (request_sockets dns) (line s)"
    using command_queue.traffic_run_inv [OF queue_locale [OF assms(1)] _
        conn_run_traffic [OF assms(3) conns_init_inv]]
    by (simp add: request_sockets_eq queue_length_def traffic_inv_def conns_init_def assms(2))
  then show ?thesis by (simp add: traffic_inv_def request_sockets_eq)
qed

text \<open>One client whose request is accepted, queued and taken.\<close>

definition served_once :: "URL_Data list conns" where
  "served_once = (conns_init [])\<lparr>
     listener := \<lparr>urlRecHandle = True, rec_tasks = 1, accepted = [54], http_tasks = [54],
       params = [54], server_ticks = 10\<rparr>,
     answering := [54],
     line := \<lparr>pending = [], cmds = [url_item ''GET'' ''/''], send_failed = False, taken = []\<rparr>\<rparr>"

lemma slash_item: "queued_item (request ''GET'' ''/'' ''/1.1'') = Inr (Some (url_item ''GET'' ''/''))"
  by (rule request_item) (simp_all add: request_line_okI request_fits_def request_def Let_def BUFF_SIZE_def)

lemma served_once_run: "(conn_step (list_queue 30) True)\<^sup>*\<^sup>* (conns_init []) served_once"
proof -
  let ?R = "conn_step (list_queue 30) True" and ?d = "url_item ''GET'' ''/''"
  let ?ev = "\<lparr>new_fd = 54, rec_created = True, para_allocated = True, task_created = True\<rparr>"
  let ?v = "\<lparr>urlRecHandle = True, rec_tasks = 1, accepted = [54], http_tasks = [54], params = [54],
    server_ticks = 10\<rparr>"
  let ?s1 = "(conns_init [])\<lparr>listener := ?v, waiting := [54]\<rparr>"
  let ?s2 = "?s1\<lparr>waiting := [], armed := [(54, ?d)], line := (line ?s1)\<lparr>cmds := [],
    pending := [?d]\<rparr>\<rparr>"
  have a: "accept_step True (conns_init []) ?s1"
    using accept_step.accepted_task [of ?ev True "conns_init []" ?v]
    by (simp add: conns_init_def room_def open_sockets_def request_sockets_eq webserver_turn_def
        server_init_def)
  have b: "task_step (list_queue 30) ?s1 ?s2"
    using task_step.resets [of ?s1 "[]" 54 "[]", OF _ slash_item, of "list_queue 30"]
    by (simp add: conns_init_def list_queue_def)
  have c: "task_step (list_queue 30) ?s2 served_once"
    using task_step.sends [of ?s2 "[]" 54 ?d "[]" "list_queue 30" True "[?d]"]
    by (simp add: conns_init_def list_queue_def served_once_def)
  have "?R (conns_init []) ?s1" by (rule conn_step.accepts [OF a])
  moreover have "?R ?s1 ?s2" by (rule conn_step.serves [OF b])
  moreover have "?R ?s2 served_once" by (rule conn_step.serves [OF c])
  ultimately show ?thesis by (meson r_into_rtranclp rtranclp.rtrancl_into_rtrancl)
qed

theorem configured_queue_never_full_witness:
  "(conn_step (list_queue 30) True)\<^sup>*\<^sup>* (conns_init []) served_once
   \<and> \<not> send_failed (line served_once) \<and> length (cmds (line served_once)) \<le> 8"
proof -
  have c: "queue_contract (list_queue 30) id queue_length"
    using list_queue_contract [of 30] by (simp add: queue_length_def)
  show ?thesis using configured_queue_never_full [OF c _ served_once_run] served_once_run by simp
qed

text \<open>
  C25: the steps of a request task are those of \<open>handle_http_request\<close>.  Whatever a task received and
  however its answer was taken, when the handler returns, the queue and the closed descriptors are
  those of a run of \<open>task_step\<close> that takes this task's descriptor out of the waiting ones, touches no
  other task, and ends with the descriptor closed, once.
\<close>

theorem handler_refines_task_steps:
  assumes "handle_http_request api sc html rcv fd h = Some (Inr h')"
    and "waiting s = a @ fd # b" and "cmds (line s) = queue h" and "shut s = closed h"
  shows "\<exists>t. (task_step api)\<^sup>*\<^sup>* s t \<and> cmds (line t) = queue h' \<and> shut t = closed h'
    \<and> closed h' = fd # closed h \<and> waiting t = a @ b \<and> armed t = armed s \<and> answering t = answering s
    \<and> lost t = lost s \<and> listener t = listener s \<and> taken (line t) = taken (line s)"
  using handle_queue [OF assms(1)]
proof (elim disjE exE conjE)
  assume "queued_item rcv = Inr None" and "queue h' = queue h"
  with task_run_bad [OF assms(2), of rcv api] handle_closes [OF assms(1)] assms(3,4) show ?thesis
    by (intro exI [of _ "s\<lparr>waiting := a @ b, shut := fd # shut s\<rparr>"]) simp
next
  fix d assume "queued_item rcv = Inr (Some d)"
    and "queue h' = snd (xQueueSend api d (xQueueReset api (queue h)))"
  with task_run_served [OF assms(2), of rcv d api] handle_closes [OF assms(1)] assms(3,4) show ?thesis
    by auto
qed

text \<open>A task that has been created for descriptor 54 and has received nothing yet.\<close>

definition one_waiting :: "URL_Data list conns" where
  "one_waiting = (conns_init [])\<lparr>waiting := [54]\<rparr>"

theorem handler_refines_task_steps_witness:
  "\<exists>h t. handle_http_request (list_queue 30) send_everything ''page'' (request ''GET'' ''/'' ''/1.1'')
        54 quiet_robot = Some (Inr h)
     \<and> (task_step (list_queue 30))\<^sup>*\<^sup>* one_waiting t \<and> waiting t = [] \<and> shut t = [54]
     \<and> cmds (line t) = queue h"
proof -
  have "request_line_ok ''GET'' ''/''" by (simp add: request_line_okI)
  moreover have "request_fits ''GET'' ''/'' ''/1.1''"
    by (simp add: request_fits_def request_def Let_def BUFF_SIZE_def)
  ultimately obtain h where h: "handle_http_request (list_queue 30) send_everything ''page''
      (request ''GET'' ''/'' ''/1.1'') 54 quiet_robot = Some (Inr h)"
    using lq.handle_outcome [of 30 "''GET''" "''/''" "''/1.1''" send_everything "''page''"
        "\<lambda>a b. True" 54 quiet_robot] respond_ends [OF send_everything_works(2)] by auto
  from h handler_refines_task_steps [OF h, of one_waiting "[]" "[]"] show ?thesis
    by (auto simp: one_waiting_def conns_init_def quiet_robot_def)
qed

text \<open>
  C35: the lost descriptors end the service.  Nothing closes a descriptor whose task could not be
  created; when this has happened eight times (nine, when the name server has no socket) there is no
  socket left, and in every continuation no request task exists again.
\<close>

theorem lost_descriptors_end_service:
  assumes "(conn_step api dns)\<^sup>*\<^sup>* (conns_init q) s"
    and "length (lost s) = (if dns then 8 else 9)" and "(conn_step api dns)\<^sup>*\<^sup>* s t"
  shows "waiting t = [] \<and> armed t = [] \<and> answering t = []"
proof -
  have inv: "conn_inv dns s" by (rule conn_run_inv [OF assms(1) conns_init_inv])
  have "length (lost t) = request_sockets dns"
    using assms(3)
  proof (induction rule: rtranclp_induct)
    case (step t u)
    then show ?case using no_room_stays conn_run_inv [OF _ inv] by blast
  qed (simp add: assms(2) request_sockets_eq)
  moreover have "open_sockets t \<le> request_sockets dns"
    using conn_run_inv [OF assms(3) inv] by (simp add: conn_inv_def)
  ultimately show ?thesis by (simp add: open_sockets_def)
qed

text \<open>Eight connections for which the task creation fails.\<close>

definition losing :: "nat \<Rightarrow> URL_Data list conns" where
  "losing n = (conns_init [])\<lparr>
     listener := \<lparr>urlRecHandle = False, rec_tasks = 0, accepted = replicate n 54, http_tasks = [],
       params = replicate n 54, server_ticks = 10 * n\<rparr>,
     lost := replicate n 54\<rparr>"

lemma losing_run: "n \<le> 8 \<Longrightarrow> (conn_step (list_queue 30) True)\<^sup>*\<^sup>* (conns_init []) (losing n)"
proof (induction n)
  case 0
  then show ?case by (simp add: losing_def conns_init_def server_init_def)
next
  case (Suc n)
  let ?ev = "\<lparr>new_fd = 54, rec_created = False, para_allocated = True, task_created = False\<rparr>"
  have "accept_step True (losing n) (losing (Suc n))"
    using Suc.prems accept_step.accepted_lost [of ?ev True "losing n" "listener (losing (Suc n))"]
    by (simp add: losing_def conns_init_def room_def open_sockets_def request_sockets_eq
        webserver_turn_def)
  then have "conn_step (list_queue 30) True (losing n) (losing (Suc n))" by (rule conn_step.accepts)
  with Suc show ?case by (auto intro: rtranclp.rtrancl_into_rtrancl)
qed

theorem lost_descriptors_end_service_witness:
  "(conn_step (list_queue 30) True)\<^sup>*\<^sup>* (conns_init []) (losing 8) \<and> waiting (losing 8) = []"
  using losing_run [of 8] lost_descriptors_end_service [OF losing_run [of 8], of "losing 8"]
  by (simp add: losing_def)

end
