(* ===== verification/ConcurrentRemote.thy ===== *)
theory ConcurrentRemote
  imports WebPage WebServer
begin

text \<open>
  The page, the network, several request tasks at once and the control task.  A fetch of the page is in
  flight until a request task has received and parsed it (\<open>handle_http_request\<close>); that task then empties
  the queue and sends its element, as two steps, between which the other tasks and the control task may
  run; the control task receives and acts.  Fetches arrive in any order, because each has a connection
  and a task of its own.  The control task reads on past its value array (\<open>val_Buff_02\<close>), so each of its
  turns depends on what the stack holds there; \<open>stack\<close> says which bytes occur, and a property that needs
  them not to continue the number says so.

  First the link to the whole handler: a request task that is not interrupted is a run of \<open>traffic\<close>.
\<close>

section \<open>Definitions\<close>

text \<open>
  The whole: the page, its fetches that no task has parsed yet, everything it has fetched so far, the
  request tasks with the queue, and the control task.
\<close>

record 'q world =
  screen :: pointer
  inflight :: "string list"
  history :: "string list"
  lane :: "'q shared"
  driver :: ctl

definition fetch :: "string option \<Rightarrow> 'q world \<Rightarrow> 'q world" where
  "fetch query w =
     (case query of
        None \<Rightarrow> w
      | Some u \<Rightarrow> w\<lparr>inflight := u # inflight w, history := u # history w\<rparr>)"

text \<open>
  What the user does, and a connection that fails.  The browser asks for the page itself (\<open>document\<close>)
  before it runs its script (\<open>load_page\<close>).
\<close>

inductive act :: "'q world \<Rightarrow> 'q world \<Rightarrow> bool" where
  document: "act w (fetch (Some ''/'') w)"
| load_page: "page_load = (p, query) \<Longrightarrow> act w (fetch query (w\<lparr>screen := p\<rparr>))"
| move: "pointer_handler e (screen w) = (p, query) \<Longrightarrow> act w (fetch query (w\<lparr>screen := p\<rparr>))"
| press_button: "act w (fetch (Some (button_query b)) w)"
| lose: "inflight w = a @ u # b \<Longrightarrow> act w (w\<lparr>inflight := a @ b\<rparr>)"

text \<open>What the robot does, with at most \<open>tasks\<close> request tasks between their reset and their send.\<close>

inductive serve ::
  "'q queue_api \<Rightarrow> nat \<Rightarrow> string set \<Rightarrow> string \<Rightarrow> 'q world \<Rightarrow> 'q world \<Rightarrow> bool"
  for api tasks stack rest where
  parse: "inflight w = a @ u # b \<Longrightarrow> queued_item (request ''GET'' u rest) = Inr (Some d) \<Longrightarrow>
     length (pending (lane w)) < tasks \<Longrightarrow>
     serve api tasks stack rest w (w\<lparr>inflight := a @ b,
       lane := (lane w)\<lparr>cmds := xQueueReset api (cmds (lane w)), pending := d # pending (lane w)\<rparr>\<rparr>)"
| send: "pending (lane w) = a @ d # b \<Longrightarrow> xQueueSend api d (cmds (lane w)) = (ok, q) \<Longrightarrow>
     serve api tasks stack rest w (w\<lparr>lane := (lane w)\<lparr>cmds := q, pending := a @ b,
       send_failed := (send_failed (lane w) \<or> \<not> ok)\<rparr>\<rparr>)"
| turn: "xQueueReceive api (cmds (lane w)) = Some (d, q) \<Longrightarrow> beyond \<in> stack \<Longrightarrow>
     serve api tasks stack rest w (w\<lparr>lane := (lane w)\<lparr>cmds := q, taken := d # taken (lane w)\<rparr>,
       driver := web_recdata_turn (beyond, Some d) (driver w)\<rparr>)"

inductive_cases act_cases: "act w w'"
inductive_cases serve_cases: "serve api tasks stack rest w w'"

definition quiet :: "('q \<Rightarrow> URL_Data list) \<Rightarrow> 'q world \<Rightarrow> bool" where
  "quiet contents w \<longleftrightarrow>
     inflight w = [] \<and> pending (lane w) = [] \<and> contents (cmds (lane w)) = []"

text \<open>The work that is left: three steps for a fetch, two for a task, one for a waiting element.\<close>

definition work :: "('q \<Rightarrow> URL_Data list) \<Rightarrow> 'q world \<Rightarrow> nat" where
  "work contents w =
     3 * length (inflight w) + 2 * length (pending (lane w)) + length (contents (cmds (lane w)))"

definition page_query :: "string \<Rightarrow> bool" where
  "page_query u \<longleftrightarrow>
     (\<exists>x y. on_pad x y \<and> u = rocker_query x y) \<or> (\<exists>b. u = button_query b) \<or> u = ''/''"

section \<open>The handler as a run of steps\<close>

lemma traffic_handle:
  assumes "length (pending s) < tasks" and "xQueueSend api d (xQueueReset api (cmds s)) = (ok, q)"
  shows "(traffic api tasks)\<^sup>*\<^sup>* s
    (s\<lparr>cmds := q, send_failed := (send_failed s \<or> \<not> ok)\<rparr>)"
proof -
  let ?s1 = "s\<lparr>cmds := xQueueReset api (cmds s), pending := d # pending s\<rparr>"
  have "traffic api tasks s ?s1" by (rule traffic.task_reset [OF assms(1)])
  moreover have "traffic api tasks ?s1 (s\<lparr>cmds := q, send_failed := (send_failed s \<or> \<not> ok)\<rparr>)"
    using traffic.task_send [of ?s1 "[]" d "pending s" api ok q tasks] assms(2) by simp
  ultimately show ?thesis by (meson r_into_rtranclp rtranclp_trans)
qed

section \<open>Every step\<close>

lemma short_item:
  assumes "request_line_ok ''GET'' u" and "length u \<le> 16" and "length rest < 999"
  shows "queued_item (request ''GET'' u rest) = Inr (Some (url_item ''GET'' u))"
  using assms by (intro request_item) (simp_all add: request_fits_16)

lemma page_query_item:
  assumes "page_query u" and "length rest < 999"
  shows "queued_item (request ''GET'' u rest) = Inr (Some (url_item ''GET'' u))"
  using assms rocker_line button_query_line document_line
  by (auto simp: page_query_def intro: short_item)

lemma serve_traffic:
  assumes "serve api tasks stack rest w w'"
  shows "traffic api tasks (lane w) (lane w')"
  using assms by cases (auto intro: traffic.intros)

text \<open>
  What is in flight, with a task or in the queue was fetched by the page; the wheels run as they did
  at the start or as the page has fetched.
\<close>

definition as_sent :: "('q \<Rightarrow> URL_Data list) \<Rightarrow> ctl \<Rightarrow> 'q world \<Rightarrow> bool" where
  "as_sent contents c w \<longleftrightarrow>
     pointer_inv (screen w) \<and> set (inflight w) \<subseteq> set (history w)
     \<and> (\<forall>u \<in> set (history w). page_query u)
     \<and> set (pending (lane w)) \<union> set (contents (cmds (lane w))) \<subseteq> url_item ''GET'' ` set (history w)
     \<and> (wheel_drive (driver w) = wheel_drive c
        \<or> (\<exists>x y. on_pad x y \<and> rocker_query x y \<in> set (history w)
            \<and> wheel_drive (driver w) = drive_spec (pad_motion x y))
        \<or> (''/'' \<in> set (history w) \<and> wheel_drive (driver w) = drive_spec Stop))"

lemma as_sent_fetch:
  assumes "as_sent contents c w" and "pointer_inv p" and "\<And>u. query = Some u \<Longrightarrow> page_query u"
  shows "as_sent contents c (fetch query (w\<lparr>screen := p\<rparr>))"
  using assms by (cases query) (auto simp: as_sent_def fetch_def)

lemma act_as_sent:
  assumes "act w w'" and inv: "as_sent contents c w"
  shows "as_sent contents c w'"
  using assms(1)
proof cases
  case document
  then show ?thesis
    using as_sent_fetch [OF inv, of "screen w" "Some ''/''"] inv
    by (auto simp: page_query_def as_sent_def)
next
  case (load_page p query)
  then show ?thesis
    using as_sent_fetch [OF inv, of p query] page_init_inv pad_center
    by (auto simp: page_load_def page_query_def field_clip_center)
next
  case (move e p query)
  have p: "pointer_inv (screen w)" using inv by (simp add: as_sent_def)
  have "pointer_inv p" using pointer_handler_inv [OF p, of e] move(2) by simp
  moreover have "page_query u" if "query = Some u" for u
    using handler_send [of e "screen w" p u] move(2) p that by (auto simp: page_query_def)
  ultimately show ?thesis unfolding move(1) by (rule as_sent_fetch [OF inv])
next
  case (press_button b)
  then show ?thesis
    using as_sent_fetch [OF inv, of "screen w" "Some (button_query b)"] inv
    by (auto simp: page_query_def as_sent_def)
next
  case (lose a u b)
  then show ?thesis using inv by (auto simp: as_sent_def)
qed

lemma turn_wheels:
  assumes "page_query u" and "no_digit_follows beyond"
  shows "wheel_drive (web_recdata_turn (beyond, Some (url_item ''GET'' u)) s) = wheel_drive s
    \<or> (\<exists>x y. on_pad x y \<and> u = rocker_query x y
        \<and> wheel_drive (web_recdata_turn (beyond, Some (url_item ''GET'' u)) s)
          = drive_spec (pad_motion x y))
    \<or> (u = ''/'' \<and> wheel_drive (web_recdata_turn (beyond, Some (url_item ''GET'' u)) s)
          = drive_spec Stop)"
  using assms(1) unfolding page_query_def
proof (elim disjE exE conjE)
  fix x y assume "on_pad x y" and "u = rocker_query x y"
  then show ?thesis using turn_on_rocker [OF _ assms(2)] by (auto simp: wheels_of_robot)
next
  fix b assume u: "u = button_query b"
  have "wheels (obey (button_command b) r) = wheels r" for r by (cases b) simp_all
  then show ?thesis using turn_on_button [OF assms(2), of b s] by (simp add: u wheels_of_robot)
next
  assume "u = ''/''"
  then show ?thesis by (simp add: wheels_of_robot turn_on_document)
qed

text \<open>
  One element \<open>d\<close> is to come last: it is still in flight alone, or with the only task, or at the end of
  the queue; and when nothing is left, the wheels run the motion \<open>m\<close>.
\<close>

definition last_to_come ::
  "('q \<Rightarrow> URL_Data list) \<Rightarrow> string \<Rightarrow> motion \<Rightarrow> 'q world \<Rightarrow> bool" where
  "last_to_come contents u m w \<longleftrightarrow>
     (inflight w = [u] \<and> pending (lane w) = [])
     \<or> (inflight w = [] \<and> pending (lane w) = [url_item ''GET'' u] \<and> contents (cmds (lane w)) = [])
     \<or> (inflight w = [] \<and> pending (lane w) = []
        \<and> (if contents (cmds (lane w)) = [] then wheel_drive (driver w) = drive_spec m
           else last (contents (cmds (lane w))) = url_item ''GET'' u))"

text \<open>What no step of the robot changes, unless a send fails.\<close>

definition seen :: "'q world \<Rightarrow> pointer \<times> string list \<times> bool" where
  "seen w = (screen w, history w, send_failed (lane w))"

context command_queue
begin

lemma serve_as_sent:
  assumes "length rest < 999" and tail: "\<And>b. b \<in> stack \<Longrightarrow> no_digit_follows b"
    and "serve api tasks stack rest w w'" and inv: "as_sent contents c w"
  shows "as_sent contents c w'"
  using assms(3)
proof cases
  case (parse a u b d)
  then have "page_query u" using inv by (auto simp: as_sent_def)
  with page_query_item assms(1) parse(3) have "d = url_item ''GET'' u" by fastforce
  with parse inv after_reset show ?thesis by (auto simp: as_sent_def)
next
  case (send a d b ok q)
  with inv after_send [OF send(3)] show ?thesis
    by (auto simp: as_sent_def)
next
  case (turn d q beyond)
  have front: "contents (cmds (lane w)) = d # contents q"
    by (rule before_receive [OF turn(2)])
  with inv obtain u where u: "u \<in> set (history w)" "d = url_item ''GET'' u"
    by (auto simp: as_sent_def)
  with inv have "page_query u" by (simp add: as_sent_def)
  from turn_wheels [OF this tail [OF turn(3)], of "driver w"] inv u front show ?thesis
    unfolding turn(1) by (auto simp: as_sent_def) blast+
qed

lemma world_as_sent:
  assumes "length rest < 999" and "\<And>b. b \<in> stack \<Longrightarrow> no_digit_follows b"
    and "(sup act (serve api tasks stack rest))\<^sup>*\<^sup>* w w'" and "as_sent contents c w"
  shows "as_sent contents c w'"
  using assms(3,4)
  by (induction rule: rtranclp_induct)
    (auto intro: act_as_sent serve_as_sent [OF assms(1,2)])

section \<open>Settling\<close>

lemma serve_work:
  assumes "serve api tasks stack rest w w'"
  shows "work contents w' < work contents w"
  using assms
proof cases
  case (parse a u b d)
  then show ?thesis by (simp add: work_def after_reset)
next
  case (send a d b ok q)
  then show ?thesis using after_send [OF send(3)] by (simp add: work_def)
next
  case (turn d q beyond)
  then show ?thesis using before_receive [OF turn(2)] by (simp add: work_def)
qed

lemma serve_progress:
  assumes "0 < tasks" and "length rest < 999" and "b0 \<in> stack"
    and "\<forall>u \<in> set (inflight w). page_query u" and "\<not> quiet contents w"
  shows "\<exists>w'. serve api tasks stack rest w w'"
proof (cases "pending (lane w)")
  case (Cons d ds)
  obtain ok q where "xQueueSend api d (cmds (lane w)) = (ok, q)" by fastforce
  with serve.send [of w "[]" d ds api ok q tasks stack rest] Cons show ?thesis by auto
next
  case Nil
  show ?thesis
  proof (cases "inflight w")
    case (Cons u us)
    with assms(2,4) have "queued_item (request ''GET'' u rest) = Inr (Some (url_item ''GET'' u))"
      by (simp add: page_query_item)
    with serve.parse [of w "[]" u us rest _ tasks api stack] Cons Nil assms(1) show ?thesis by auto
  next
    assume none: "inflight w = []"
    with Nil assms(5) obtain d ds where "contents (cmds (lane w)) = d # ds"
      by (cases "contents (cmds (lane w))") (auto simp: quiet_def)
    then obtain q where "xQueueReceive api (cmds (lane w)) = Some (d, q)"
      using receive_front by blast
    from serve.turn [OF this assms(3)] show ?thesis by blast
  qed
qed

lemma serve_page_queries:
  "serve api tasks stack rest w w' \<Longrightarrow> set (inflight w') \<subseteq> set (inflight w)"
  by (cases rule: serve.cases) auto

lemma serve_settles:
  assumes "0 < tasks" and "length rest < 999" and "b0 \<in> stack"
    and "\<forall>u \<in> set (inflight w). page_query u"
  shows "\<exists>t. (serve api tasks stack rest)\<^sup>*\<^sup>* w t \<and> quiet contents t"
  using assms(4)
proof (induction "work contents w" arbitrary: w rule: less_induct)
  case less
  show ?case
  proof (cases "quiet contents w")
    case True
    then show ?thesis by blast
  next
    case False
    then obtain w' where w': "serve api tasks stack rest w w'"
      using serve_progress [OF assms(1-3) less.prems] by blast
    moreover have "\<forall>u \<in> set (inflight w'). page_query u"
      using serve_page_queries [OF w'] less.prems by blast
    ultimately obtain t where "(serve api tasks stack rest)\<^sup>*\<^sup>* w' t" "quiet contents t"
      using less.hyps [OF serve_work [OF w']] by blast
    with w' show ?thesis by (meson converse_rtranclp_into_rtranclp)
  qed
qed

lemma serve_run_bounded:
  assumes "(serve api tasks stack rest ^^ n) w t"
  shows "n + work contents t \<le> work contents w"
  using assms
proof (induction n arbitrary: t)
  case (Suc n)
  then obtain v where "(serve api tasks stack rest ^^ n) w v" "serve api tasks stack rest v t" by auto
  with Suc.IH [OF this(1)] serve_work [OF this(2)] show ?case by simp
qed simp

lemma serve_last_to_come:
  assumes "0 < cap" and "length rest < 999" and "on_pad x y"
    and tail: "\<And>b. b \<in> stack \<Longrightarrow> no_digit_follows b"
    and step: "serve api tasks stack rest w w'"
    and inv: "last_to_come contents (rocker_query x y) (pad_motion x y) w"
  shows "last_to_come contents (rocker_query x y) (pad_motion x y) w'"
  using step
proof cases
  case (parse a u b d)
  with inv have "u = rocker_query x y" "a = []" "b = []" "pending (lane w) = []"
    by (auto simp: last_to_come_def append_eq_Cons_conv)
  moreover have "queued_item (request ''GET'' (rocker_query x y) rest)
      = Inr (Some (url_item ''GET'' (rocker_query x y)))"
    using rocker_line [OF assms(3)] assms(2) by (intro short_item)
  ultimately show ?thesis
    using parse after_reset by (simp add: last_to_come_def)
next
  case (send a d b ok q)
  with inv have "inflight w = []" "d = url_item ''GET'' (rocker_query x y)" "a = []" "b = []"
    "contents (cmds (lane w)) = []"
    by (auto simp: last_to_come_def append_eq_Cons_conv)
  then show ?thesis
    using send after_send [OF send(3)] assms(1) by (simp add: last_to_come_def)
next
  case (turn d q beyond)
  have front: "contents (cmds (lane w)) = d # contents q"
    by (rule before_receive [OF turn(2)])
  have "wheel_drive (web_recdata_turn (beyond, Some (url_item ''GET'' (rocker_query x y))) s)
      = drive_spec (pad_motion x y)" for s
    using turn_on_rocker [OF assms(3) tail [OF turn(3)]] by (simp add: wheels_of_robot)
  with front inv show ?thesis
    unfolding turn(1) by (auto simp: last_to_come_def split: if_splits)
qed

lemma serve_run_last_to_come:
  assumes "0 < cap" and "length rest < 999" and "on_pad x y"
    and "\<And>b. b \<in> stack \<Longrightarrow> no_digit_follows b" and "(serve api tasks stack rest)\<^sup>*\<^sup>* w t"
    and "last_to_come contents (rocker_query x y) (pad_motion x y) w"
  shows "last_to_come contents (rocker_query x y) (pad_motion x y) t"
  using assms(5,6)
  by (induction rule: rtranclp_induct) (auto intro: serve_last_to_come [OF assms(1-4)])

lemma serve_run_inflight:
  "(serve api tasks stack rest)\<^sup>*\<^sup>* w t \<Longrightarrow> set (inflight t) \<subseteq> set (inflight w)"
  by (induction rule: rtranclp_induct) (use serve_page_queries in blast)+

section \<open>Single steps of the robot\<close>

lemma world_parse:
  assumes "length rest < 999" and "page_query u"
    and "inflight w = a @ u # b" and "length (pending (lane w)) < tasks"
  shows "\<exists>w'. serve api tasks stack rest w w' \<and> inflight w' = a @ b
    \<and> pending (lane w') = url_item ''GET'' u # pending (lane w)
    \<and> contents (cmds (lane w')) = [] \<and> seen w' = seen w"
proof -
  note step = serve.parse [OF assms(3) page_query_item [OF assms(2,1)] assms(4), of api stack]
  show ?thesis
    by (intro exI conjI, rule step) (simp_all add: seen_def after_reset)
qed

lemma world_send:
  assumes "pending (lane w) = d # ds"
    and "length (contents (cmds (lane w))) < cap"
  shows "\<exists>w'. serve api tasks stack rest w w' \<and> inflight w' = inflight w \<and> pending (lane w') = ds
    \<and> contents (cmds (lane w')) = contents (cmds (lane w)) @ [d] \<and> seen w' = seen w"
proof -
  obtain q where q: "xQueueSend api d (cmds (lane w)) = (True, q)"
    "contents q = contents (cmds (lane w)) @ [d]"
    using send_room [OF assms(2)] by blast
  have "pending (lane w) = [] @ d # ds" using assms(1) by simp
  note step = serve.send [OF this q(1), of tasks stack rest]
  show ?thesis by (intro exI conjI, rule step) (simp_all add: seen_def q(2))
qed

lemma world_turn:
  assumes "on_pad x y" and "beyond \<in> stack" and tail: "no_digit_follows beyond"
    and "contents (cmds (lane w)) = url_item ''GET'' (rocker_query x y) # ds"
  shows "\<exists>w'. serve api tasks stack rest w w' \<and> inflight w' = inflight w
    \<and> pending (lane w') = pending (lane w) \<and> contents (cmds (lane w')) = ds \<and> seen w' = seen w
    \<and> wheel_drive (driver w') = drive_spec (pad_motion x y)"
proof -
  obtain q where q: "xQueueReceive api (cmds (lane w))
      = Some (url_item ''GET'' (rocker_query x y), q)" "contents q = ds"
    using receive_front [OF assms(4)] by blast
  note step = serve.turn [OF q(1) assms(2), of tasks rest]
  show ?thesis
    by (intro exI conjI, rule step)
      (simp_all add: seen_def q(2) wheels_of_robot turn_on_rocker [OF assms(1) tail])
qed

text \<open>Both tasks have emptied the queue before either sends, and the release is sent first.\<close>

lemma overtaking_run:
  assumes "2 \<le> cap" and "2 \<le> tasks"
    and rest: "length rest < 999" and pad: "on_pad x y"
    and tail: "beyond \<in> stack" "no_digit_follows beyond"
    and w0: "inflight w0 = [rocker_query 5 5, rocker_query x y]" "pending (lane w0) = []"
  shows "\<exists>t. (serve api tasks stack rest)\<^sup>*\<^sup>* w0 t \<and> quiet contents t \<and> seen t = seen w0
    \<and> wheel_drive (driver t) = drive_spec (pad_motion x y)"
proof -
  let ?drag = "url_item ''GET'' (rocker_query x y)" and ?up = "url_item ''GET'' (rocker_query 5 5)"
  have queries: "page_query (rocker_query x y)" "page_query (rocker_query 5 5)"
    using pad pad_center(2) by (auto simp: page_query_def)
  obtain w1 where w1: "serve api tasks stack rest w0 w1" "inflight w1 = [rocker_query 5 5]"
    "pending (lane w1) = [?drag]" "seen w1 = seen w0"
    using world_parse [OF rest queries(1), of w0 "[rocker_query 5 5]" "[]" tasks stack] w0 assms(2)
    by auto
  obtain w2 where w2: "serve api tasks stack rest w1 w2" "inflight w2 = []"
    "pending (lane w2) = [?up, ?drag]" "contents (cmds (lane w2)) = []" "seen w2 = seen w1"
    using world_parse [OF rest queries(2), of w1 "[]" "[]" tasks stack] w1 assms(2) by auto
  obtain w3 where w3: "serve api tasks stack rest w2 w3" "inflight w3 = []"
    "pending (lane w3) = [?drag]" "contents (cmds (lane w3)) = [?up]" "seen w3 = seen w2"
    using world_send [OF w2(3), of tasks stack rest] w2 assms(1) by auto
  obtain w4 where w4: "serve api tasks stack rest w3 w4" "inflight w4 = []"
    "pending (lane w4) = []" "contents (cmds (lane w4)) = [?up, ?drag]" "seen w4 = seen w3"
    using world_send [OF w3(3), of tasks stack rest] w3 assms(1) by auto
  obtain w5 where w5: "serve api tasks stack rest w4 w5" "inflight w5 = []"
    "pending (lane w5) = []" "contents (cmds (lane w5)) = [?drag]" "seen w5 = seen w4"
    using world_turn [OF pad_center(2) tail w4(4), of tasks rest] w4 by auto
  obtain t where t: "serve api tasks stack rest w5 t" "quiet contents t" "seen t = seen w5"
    "wheel_drive (driver t) = drive_spec (pad_motion x y)"
    using world_turn [OF pad tail w5(4), of tasks rest] w5 by (auto simp: quiet_def)
  have "(serve api tasks stack rest)\<^sup>*\<^sup>* w0 t"
    using w1(1) w2(1) w3(1) w4(1) w5(1) t(1)
    by (meson converse_rtranclp_into_rtranclp r_into_rtranclp)
  with t w5(5) w4(5) w3(5) w2(5) w1(4) show ?thesis by metis
qed

end

lemma drag_and_release:
  assumes "screen w = page_init" and "(x, y) = (field (clip (cx - ox)), field (clip (cy - oy)))"
    and "(x, y) \<noteq> (5, 5)" and "inflight w = []"
  shows "\<exists>w'. act\<^sup>*\<^sup>* w w' \<and> screen w' = page_init
    \<and> inflight w' = [rocker_query 5 5, rocker_query x y] \<and> lane w' = lane w
    \<and> history w' = rocker_query 5 5 # rocker_query x y # history w"
proof -
  let ?p = "page_init\<lparr>LastX := x, LastY := y, onmousemove := Some (ox, oy), onmouseup := True\<rparr>"
  have "pointer_handler (MouseDown cx cy ox oy) (screen w) = (?p, Some (rocker_query x y))"
    using assms(1-3) by (auto simp: new_coordinate_def page_init_def pad_center Let_def)
  from act.move [OF this] obtain w1 where w1: "act w w1" "screen w1 = ?p"
    "inflight w1 = [rocker_query x y]" "history w1 = rocker_query x y # history w" "lane w1 = lane w"
    using assms(4) by (auto simp: fetch_def)
  have "pointer_handler MouseUp (screen w1) = (page_init, Some (rocker_query 5 5))"
    using w1(2) assms(3) by (auto simp: new_coordinate_def page_init_def field_clip_center pad_center Let_def)
  from act.move [OF this] obtain w2 where "act w1 w2" "screen w2 = page_init"
    "inflight w2 = [rocker_query 5 5, rocker_query x y]" "lane w2 = lane w"
    "history w2 = rocker_query 5 5 # rocker_query x y # history w"
    using w1 by (auto simp: fetch_def)
  with w1(1) show ?thesis by (meson converse_rtranclp_into_rtranclp r_into_rtranclp)
qed

lemma nul_tail: "no_digit_follows [NUL]"
  by (simp add: no_digit_follows_def is_digit_def)

lemma two_digit_item:
  assumes "0 \<le> x" "x < 100" "0 \<le> y" "y < 100" and "length rest < 999"
  shows "queued_item (request ''GET'' (rocker_query x y) rest)
    = Inr (Some (url_item ''GET'' (rocker_query x y)))"
  using assms by (intro short_item) (simp_all add: rocker_query_line rocker_query_shape)

section \<open>Properties\<close>

text \<open>
  C17: an uninterrupted request task is a run of the step relation \<open>traffic\<close>.  Whatever it received, when
  \<open>handle_http_request\<close> returns, the queue it leaves is the one that a run of steps of \<open>traffic\<close> leaves,
  which changes neither the other tasks nor what was taken.
\<close>

theorem handler_refines_traffic:
  assumes "handle_http_request api sc html rcv fd h = Some (Inr h')"
    and "cmds s = queue h" and "length (pending s) < tasks"
  shows "\<exists>t. (traffic api tasks)\<^sup>*\<^sup>* s t \<and> cmds t = queue h' \<and> pending t = pending s
    \<and> taken t = taken s"
  using handle_queue [OF assms(1)]
proof (elim disjE exE conjE)
  assume "queue h' = queue h"
  with assms(2) show ?thesis by (intro exI [of _ s]) simp
next
  fix d assume q: "queue h' = snd (xQueueSend api d (xQueueReset api (queue h)))"
  obtain ok q' where s: "xQueueSend api d (xQueueReset api (cmds s)) = (ok, q')" by fastforce
  with q assms(2) traffic_handle [OF assms(3) s] show ?thesis
    by (intro exI [of _ "s\<lparr>cmds := q', send_failed := (send_failed s \<or> \<not> ok)\<rparr>"]) simp
qed

theorem handler_refines_traffic_witness:
  "\<exists>h t. handle_http_request (list_queue 30) send_everything ''page''
        (request ''GET'' (rocker_query 5 5) ''/1.1'') 54 quiet_robot = Some (Inr h)
     \<and> (traffic (list_queue 30) 2)\<^sup>*\<^sup>* idle_shared t \<and> cmds t = queue h \<and> taken t = []"
proof -
  obtain h where h: "handle_http_request (list_queue 30) send_everything ''page''
        (request ''GET'' (rocker_query 5 5) ''/1.1'') 54 quiet_robot = Some (Inr h)"
    using loaded_net by blast
  from h handler_refines_traffic [OF h, of idle_shared 2] show ?thesis
    by (auto simp: idle_shared_def quiet_robot_def)
qed

text \<open>
  C6: the robot invents nothing.  With any number of request tasks, however the requests of the browser
  are delayed, reordered or lost and whenever the control task runs, the wheels run as they did at the
  start, or the motion of a field that the page has fetched, or they stand still after the page itself
  was asked for.  The stack behind the value array must not continue the number.
\<close>

theorem wheels_only_as_sent:
  assumes "queue_contract api contents cap" and "length rest < 999"
    and "\<forall>b \<in> stack. no_digit_follows b"
    and "screen w = page_init" and "history w = []" and "quiet contents w"
    and "(sup act (serve api tasks stack rest))\<^sup>*\<^sup>* w t"
  shows "wheel_drive (driver t) = wheel_drive (driver w)
    \<or> (\<exists>x y. on_pad x y \<and> rocker_query x y \<in> set (history t)
        \<and> wheel_drive (driver t) = drive_spec (pad_motion x y))
    \<or> (''/'' \<in> set (history t) \<and> wheel_drive (driver t) = drive_spec Stop)"
proof -
  have tail: "\<And>b. b \<in> stack \<Longrightarrow> no_digit_follows b" using assms(3) by blast
  have "as_sent contents (driver w) w"
    using assms(4-6) page_init_inv by (simp add: as_sent_def quiet_def)
  from command_queue.world_as_sent [OF queue_locale [OF assms(1)] assms(2) tail assms(7) this]
  show ?thesis by (simp add: as_sent_def)
qed

text \<open>The page as loaded, and the rocker pulled up.\<close>

definition start_world :: "URL_Data list world" where
  "start_world = \<lparr>screen = page_init, inflight = [], history = [], lane = idle_shared,
     driver = ctl_init\<rparr>"

definition dragged :: "URL_Data list world" where
  "dragged = start_world\<lparr>
     screen := page_init\<lparr>LastX := 5, LastY := 0, onmousemove := Some (0, 0), onmouseup := True\<rparr>,
     inflight := [rocker_query 5 0], history := [rocker_query 5 0]\<rparr>"

lemma drag_act: "act start_world dragged"
proof -
  have "pointer_handler (MouseDown 310 20 0 0) (screen start_world) = (screen dragged,
      Some (rocker_query 5 0))"
    by (simp add: start_world_def dragged_def new_coordinate_def page_init_def field_def clip_def
        center_def)
  from act.move [OF this] show ?thesis by (simp add: dragged_def fetch_def start_world_def)
qed

theorem wheels_only_as_sent_witness:
  "(sup act (serve (list_queue 30) 8 {[NUL]} ''/1.1''))\<^sup>*\<^sup>* start_world dragged
   \<and> (wheel_drive (driver dragged) = wheel_drive ctl_init
      \<or> (\<exists>x y. on_pad x y \<and> rocker_query x y \<in> set (history dragged)
          \<and> wheel_drive (driver dragged) = drive_spec (pad_motion x y))
      \<or> (''/'' \<in> set (history dragged) \<and> wheel_drive (driver dragged) = drive_spec Stop))"
proof -
  have run: "(sup act (serve (list_queue 30) 8 {[NUL]} ''/1.1''))\<^sup>*\<^sup>* start_world dragged"
    using drag_act by blast
  have "screen start_world = page_init" "history start_world = []" "quiet id start_world"
    "driver start_world = ctl_init"
    by (simp_all add: start_world_def quiet_def idle_shared_def)
  with run wheels_only_as_sent [OF list_queue_30 _ _ _ _ _ run] nul_tail show ?thesis by simp
qed

text \<open>
  C5: a command settles.  When one rocker fetch is in flight and every earlier request has been queued,
  then whatever waits in the queue and whoever runs when: every run of the robot has at most three steps
  for the fetch and one for each element that waits; as long as a fetch, a task or an element is left
  some step is possible, and such a run to the end exists; and when nothing is left the wheels run the
  motion of that fetch.  So every run that goes on while it can ends with that motion.  The stack behind
  the value array must not continue the number.
\<close>

theorem last_command_settles:
  assumes "queue_contract api contents cap" and "0 < cap" and "0 < tasks" and "length rest < 999"
    and "b0 \<in> stack" and "\<forall>b \<in> stack. no_digit_follows b"
    and "on_pad x y" and "inflight w = [rocker_query x y]" and "pending (lane w) = []"
  shows "(\<forall>t. (serve api tasks stack rest)\<^sup>*\<^sup>* w t \<longrightarrow>
        (if quiet contents t then wheel_drive (driver t) = drive_spec (pad_motion x y)
         else \<exists>t'. serve api tasks stack rest t t'))
    \<and> (\<exists>t. (serve api tasks stack rest)\<^sup>*\<^sup>* w t \<and> quiet contents t)
    \<and> (\<forall>n t. (serve api tasks stack rest ^^ n) w t \<longrightarrow> n \<le> 3 + length (contents (cmds (lane w))))"
proof -
  note queue = queue_locale [OF assms(1)]
  have tail: "\<And>b. b \<in> stack \<Longrightarrow> no_digit_follows b" using assms(6) by blast
  have start: "last_to_come contents (rocker_query x y) (pad_motion x y) w"
    using assms(8,9) by (simp add: last_to_come_def)
  have page: "\<forall>u \<in> set (inflight w). page_query u" using assms(7,8) by (auto simp: page_query_def)
  have "if quiet contents t then wheel_drive (driver t) = drive_spec (pad_motion x y)
      else \<exists>t'. serve api tasks stack rest t t'"
    if run: "(serve api tasks stack rest)\<^sup>*\<^sup>* w t" for t
  proof (cases "quiet contents t")
    case True
    with command_queue.serve_run_last_to_come [OF queue assms(2,4,7) tail run start] show ?thesis
      by (auto simp: last_to_come_def quiet_def)
  next
    case False
    have "\<forall>u \<in> set (inflight t). page_query u"
      using command_queue.serve_run_inflight [OF queue run] page by blast
    with False command_queue.serve_progress [OF queue assms(3-5)] show ?thesis by simp
  qed
  moreover have "\<exists>t. (serve api tasks stack rest)\<^sup>*\<^sup>* w t \<and> quiet contents t"
    by (rule command_queue.serve_settles [OF queue assms(3-5) page])
  moreover have "n \<le> 3 + length (contents (cmds (lane w)))"
    if "(serve api tasks stack rest ^^ n) w t" for n t
    using command_queue.serve_run_bounded [OF queue that] assms(8,9) by (simp add: work_def)
  ultimately show ?thesis by blast
qed

theorem last_command_settles_witness:
  "\<exists>t. (serve (list_queue 30) 8 {[NUL]} ''/1.1'')\<^sup>*\<^sup>* dragged t \<and> quiet id t
     \<and> wheel_drive (driver t) = drive_spec Forward"
proof -
  have pad: "on_pad 5 0" "pad_motion 5 0 = Forward"
    by (simp_all add: on_pad_def pad_motion_def third_def)
  have "inflight dragged = [rocker_query 5 0]" "pending (lane dragged) = []"
    by (simp_all add: dragged_def start_world_def idle_shared_def)
  with last_command_settles [OF list_queue_30 _ _ _ _ _ pad(1), of 8 "''/1.1''" "[NUL]" "{[NUL]}" dragged]
    pad(2) nul_tail show ?thesis by fastforce
qed

text \<open>
  C29: requests overtake each other.  Even if the stack behind the value array does not continue the
  number: from any state in which the page rests and nothing is under way, the
  user presses the mouse button anywhere off the centre and releases it; both requests are served, no
  send fails, everything comes to rest, the page shows a released rocker, and the wheels run the motion
  of the press.  Two request tasks and a queue of two elements are enough: each task empties the queue
  before either sends, and nothing orders their sends.
\<close>

theorem released_but_driving:
  assumes "queue_contract api contents cap" and "2 \<le> cap" and "2 \<le> tasks"
    and "length rest < 999" and "screen w = page_init" and "quiet contents w"
    and field: "(x, y) = (field (clip (cx - ox)), field (clip (cy - oy)))" and "(x, y) \<noteq> (5, 5)"
    and tail: "beyond \<in> stack" "no_digit_follows beyond"
  shows "\<exists>t. (sup act (serve api tasks stack rest))\<^sup>*\<^sup>* w t \<and> quiet contents t
    \<and> screen t = page_init \<and> send_failed (lane t) = send_failed (lane w)
    \<and> history t = rocker_query 5 5 # rocker_query x y # history w
    \<and> wheel_drive (driver t) = drive_spec (pad_motion x y)"
proof -
  have pad: "on_pad x y" using field field_on_pad by simp
  have idle: "inflight w = []" "pending (lane w) = []" using assms(6) by (simp_all add: quiet_def)
  obtain w0 where w0: "act\<^sup>*\<^sup>* w w0" "inflight w0 = [rocker_query 5 5, rocker_query x y]"
    "seen w0 = (page_init, rocker_query 5 5 # rocker_query x y # history w, send_failed (lane w))"
    "pending (lane w0) = []"
    using drag_and_release [OF assms(5) field assms(8) idle(1)] idle(2) by (auto simp: seen_def)
  obtain t where t: "(serve api tasks stack rest)\<^sup>*\<^sup>* w0 t" "quiet contents t" "seen t = seen w0"
    "wheel_drive (driver t) = drive_spec (pad_motion x y)"
    using command_queue.overtaking_run [OF queue_locale [OF assms(1)] assms(2-4) pad tail w0(2,4)] by blast
  have "(sup act (serve api tasks stack rest))\<^sup>*\<^sup>* w t"
    using rtranclp_mono [OF sup_ge1, THEN predicate2D, OF w0(1)]
      rtranclp_mono [OF sup_ge2, THEN predicate2D, OF t(1)] by (rule rtranclp_trans)
  with t w0(3) show ?thesis by (auto simp: seen_def)
qed

theorem released_but_driving_witness:
  "\<exists>t. (sup act (serve (list_queue 30) 8 {[NUL]} ''/1.1''))\<^sup>*\<^sup>* start_world t \<and> quiet id t
     \<and> \<not> held (screen t) \<and> wheel_drive (driver t) = drive_spec Forward"
proof -
  have start: "screen start_world = page_init" "quiet id start_world"
    by (simp_all add: start_world_def quiet_def idle_shared_def)
  have field: "(5, 0) = (field (clip (310 - 0)), field (clip (20 - 0)))"
    by (simp add: field_def clip_def center_def)
  have "pad_motion 5 0 = Forward" "\<not> held page_init"
    by (simp_all add: pad_motion_def third_def held_def page_init_def)
  then show ?thesis
    using released_but_driving [OF list_queue_30 _ _ _ start field _ _ nul_tail, of 8 "''/1.1''" "{[NUL]}"]
    by auto
qed

text \<open>
  C14: what the page prints the robot reads.  The query of a rocker field, sent as a GET request with any
  headers that fit, cut out of the request by the request task, queued, and cut and read by the control
  task, is the command with the same two numbers, for all numbers of two digits; and the query of each
  button is its command.  The stack must not continue the number.
\<close>

theorem query_roundtrip:
  assumes "length rest < 999" and "no_digit_follows beyond"
  shows "(\<forall>x y. 0 \<le> x \<longrightarrow> x < 100 \<longrightarrow> 0 \<le> y \<longrightarrow> y < 100 \<longrightarrow>
        (\<exists>d. queued_item (request ''GET'' (rocker_query x y) rest) = Inr (Some d)
          \<and> command_of beyond d = Rocker x y))
    \<and> (\<forall>b. \<exists>d. queued_item (request ''GET'' (button_query b) rest) = Inr (Some d)
          \<and> command_of beyond d = button_command b)"
proof (intro conjI allI impI)
  fix x y :: int assume "0 \<le> x" "x < 100" "0 \<le> y" "y < 100"
  with two_digit_item [OF _ _ _ _ assms(1)] rocker_query_command [OF _ _ _ _ assms(2)]
  show "\<exists>d. queued_item (request ''GET'' (rocker_query x y) rest) = Inr (Some d)
      \<and> command_of beyond d = Rocker x y" by simp
next
  fix b
  show "\<exists>d. queued_item (request ''GET'' (button_query b) rest) = Inr (Some d)
      \<and> command_of beyond d = button_command b"
    using short_item [OF button_query_line assms(1)] button_query_command [OF assms(2)] by simp
qed

theorem query_roundtrip_witness:
  "\<exists>d. queued_item (request ''GET'' (rocker_query 7 10) ''/1.1'') = Inr (Some d)
     \<and> command_of [NUL] d = Rocker 7 10"
proof -
  have "no_digit_follows [NUL]" by (simp add: no_digit_follows_def is_digit_def)
  with query_roundtrip [of "''/1.1''" "[NUL]"] show ?thesis by simp
qed

end
