(* ===== verification/RequestTiming.thy ===== *)
theory RequestTiming
  imports HttpTask
begin

text \<open>
  How long a request task of components/web_server/webserver.c lives, and with it how long a socket is
  in use.  \<open>webserver\<close> gives every accepted socket a timeout of ten seconds for each \<open>recv\<close> and each
  \<open>send\<close>; nothing limits their number.  Time is counted in ticks: what the code itself waits is in
  \<open>waited\<close>, and a socket call lasts at most the timeout, which is the documented meaning of \<open>SO_RCVTIMEO\<close>
  and \<open>SO_SNDTIMEO\<close>.
\<close>

section \<open>Definitions\<close>

definition tv_sec :: nat where
  "tv_sec = 10"

definition socket_timeout :: nat where
  "socket_timeout = tv_sec * 1000 div portTICK_RATE_MS"

text \<open>
  The ticks of one run of \<open>handle_http_request\<close> from \<open>h\<close> to \<open>h'\<close>: its \<open>recv\<close> lasts \<open>receiving\<close>, the
  call number \<open>j\<close> of \<open>send\<close> lasts \<open>sending j\<close>, and the rest is what the code itself waits.
\<close>

definition task_ticks :: "nat \<Rightarrow> (nat \<Rightarrow> nat) \<Rightarrow> 'q http \<Rightarrow> 'q http \<Rightarrow> nat" where
  "task_ticks receiving sending h h' =
     receiving + (waited (wire h') - waited (wire h))
     + sum_list (map sending [sends (wire h)..<sends (wire h')])"

section \<open>Calls of send\<close>

lemma my_write_calls:
  assumes quiet: "quiet_after n sc" and run: "my_write sc buffer k = Some (r, k')"
  shows "sends k \<le> sends k' \<and> sends k' \<le> sends k + length buffer + (n - sends k)
    \<and> waited k \<le> waited k' \<and> waited k' \<le> waited k + 10 * (sends k' - sends k)"
  using run
proof (induction "length buffer + (n - sends k)" arbitrary: buffer k rule: less_induct)
  case less
  show ?case
  proof (cases "buffer = []")
    case True
    with less.prems show ?thesis by simp
  next
    case False
    obtain w e where we: "sc (sends k) buffer = (w, e)" by fastforce
    consider (intr) "w \<le> 0" "e = EINTR" | (fail) "w \<le> 0" "e \<noteq> EINTR" | (some) "0 < w" by linarith
    then show ?thesis
    proof cases
      case intr
      let ?k = "k\<lparr>sends := Suc (sends k), waited := waited k + 10\<rparr>"
      have "sends k < n" using quiet we intr by (meson quiet_after_def not_le)
      then have lt: "length buffer + (n - sends ?k) < length buffer + (n - sends k)" by simp
      have "my_write sc buffer ?k = Some (r, k')"
        using less.prems False we intr by (simp add: my_write_Cons)
      from less.hyps [OF lt this] \<open>sends k < n\<close> show ?thesis by auto
    next
      case fail
      with less.prems False we show ?thesis by (cases buffer) (auto simp: my_write_Cons)
    next
      case some
      let ?k = "k\<lparr>sends := Suc (sends k), sent := sent k @ take (nat w) buffer, waited := waited k + 10\<rparr>"
      have lt: "length (drop (nat w) buffer) + (n - sends ?k) < length buffer + (n - sends k)"
        using some False by (cases buffer) (auto simp: less_imp_diff_less)
      have "my_write sc (drop (nat w) buffer) ?k = Some (r, k')"
        using less.prems False we some by (simp add: my_write_Cons)
      from less.hyps [OF lt this] some False show ?thesis by (cases buffer) auto
    qed
  qed
qed

text \<open>How much of the answer there is to send, and that both answers stay below it.\<close>

definition answer_length :: "string \<Rightarrow> nat" where
  "answer_length html = length (HTTP_200 (int (length html))) + length html"

lemma length_HTTP_400: "length HTTP_400 \<le> answer_length html"
  by (simp add: HTTP_400_def HTTP_200_def answer_length_def)

lemma respond_calls:
  assumes quiet: "quiet_after n sc" and run: "respond sc html buff k = Some (Inr k')"
  shows "sends k' \<le> sends k + answer_length html + (n - sends k)
    \<and> waited k' \<le> waited k + 10 * (sends k' - sends k) \<and> sends k \<le> sends k'"
proof -
  obtain b where b: "strcmp_eq NUL buff ''GET'' = Inr b"
    using run by (auto simp: respond_def split: sum.splits)
  show ?thesis
  proof (cases b)
    case True
    with run b obtain r1 k1 r2
      where w1: "my_write sc (HTTP_200 (int (length html))) k = Some (r1, k1)"
        and w2: "my_write sc (int_prefix html) k1 = Some (r2, k')"
      by (auto simp: respond_def Let_def split: if_splits option.splits)
    from my_write_calls [OF quiet w1] my_write_calls [OF quiet w2] length_int_prefix [of html]
    show ?thesis by (auto simp: answer_length_def)
  next
    case False
    with run b obtain r where "my_write sc HTTP_400 k = Some (r, k')"
      by (auto simp: respond_def split: option.splits)
    from my_write_calls [OF quiet this] length_HTTP_400 [of html] show ?thesis by auto
  qed
qed

lemma respond_total:
  assumes "quiet_after n sc"
  shows "\<exists>r. respond sc html buff k = Some r"
proof -
  define W where "W d j = the (my_write sc d j)" for d j
  have "my_write sc d j = Some (W d j)" for d j
    using my_write_ends [OF assms, of d j] by (auto simp: W_def)
  then show ?thesis by (auto simp: respond_def Let_def split: sum.split bool.split prod.split)
qed

lemma handle_total:
  assumes "quiet_after n sc"
  shows "\<exists>r. handle_http_request api sc html rcv fd h = Some r"
proof -
  obtain R where "\<And>buff k. respond sc html buff k = Some (R buff k)"
    using respond_total [OF assms] by metis
  then show ?thesis
    by (auto simp: handle_http_request_def Let_def split: sum.split option.split prod.split)
qed

lemma handle_calls:
  assumes quiet: "quiet_after n sc"
    and run: "handle_http_request api sc html rcv fd h = Some (Inr h')"
  shows "sends (wire h') \<le> sends (wire h) + answer_length html + (n - sends (wire h))
    \<and> waited (wire h') \<le> waited (wire h) + 60 + 10 * (sends (wire h') - sends (wire h))"
proof -
  consider "wire h' = wire (http_delay 30 h)"
    | buff k where "respond sc html buff (wire (http_delay 30 h)) = Some (Inr k)"
        "wire h' = k\<lparr>waited := waited k + 30\<rparr>"
    using run by (auto simp: handle_http_request_def Let_def requst_error_def http_delay_def
        split: prod.splits if_splits sum.splits option.splits)
  then show ?thesis
  proof cases
    case 1
    then show ?thesis by (simp add: http_delay_def)
  next
    case 2
    from respond_calls [OF quiet 2(1)] 2(2) show ?thesis by (simp add: http_delay_def)
  qed
qed

section \<open>The slow client\<close>

definition one_byte :: send_call where
  "one_byte j d = (1, OtherErrno 0)"

lemma my_write_one_byte:
  "my_write one_byte d k = Some (0, k\<lparr>sends := sends k + length d, sent := sent k @ d,
     waited := waited k + 10 * length d\<rparr>)"
proof (induction d arbitrary: k)
  case (Cons c d)
  have "my_write one_byte (c # d) k = my_write one_byte d
      (k\<lparr>sends := Suc (sends k), sent := sent k @ [c], waited := waited k + 10\<rparr>)"
    by (simp add: my_write_Cons [of _ _ _ 1 "OtherErrno 0"] one_byte_def)
  then show ?case by (simp add: Cons.IH)
qed simp

lemma one_byte_quiet: "quiet_after 0 one_byte"
  by (simp add: quiet_after_def one_byte_def)

lemma socket_timeout_eq: "socket_timeout = 1000"
  by (simp add: socket_timeout_def tv_sec_def portTICK_RATE_MS_eq)

lemma sum_list_sends:
  fixes f :: "nat \<Rightarrow> nat"
  assumes "\<And>j. f j \<le> c"
  shows "sum_list (map f [a..<b]) \<le> (b - a) * c"
  using sum_list_mono [of "[a..<b]" f "\<lambda>_. c"] assms by (simp add: sum_list_triv)

section \<open>Properties\<close>

text \<open>
  C16: a request task ends in bounded time, and its socket is then closed.  Whatever it receives and
  however the client takes the answer, if the first \<open>n\<close> calls of \<open>send\<close> at most are interrupted and
  no socket call outlasts its timeout, \<open>handle_http_request\<close> returns; and unless it has run past the end of an
  array it has closed its descriptor, after at most one call for each byte of header and
  page and each interruption, each ten seconds and ten ticks, and 10.6 seconds beside them.
\<close>

theorem request_task_bounded:
  assumes "quiet_after n sc" and "sends (wire h) = 0"
    and "receiving \<le> socket_timeout" and "\<And>j. sending j \<le> socket_timeout"
  shows "\<exists>r. handle_http_request api sc html rcv fd h = Some r
    \<and> (\<forall>h'. r = Inr h' \<longrightarrow> closed h' = fd # closed h
         \<and> task_ticks receiving sending h h' \<le> 1060 + 1010 * (answer_length html + n))"
proof -
  obtain r where r: "handle_http_request api sc html rcv fd h = Some r"
    using handle_total [OF assms(1)] by blast
  have "task_ticks receiving sending h h' \<le> 1060 + 1010 * (answer_length html + n)"
    if "r = Inr h'" for h'
  proof -
    have c: "sends (wire h') \<le> answer_length html + n"
      and w: "waited (wire h') - waited (wire h) \<le> 60 + 10 * sends (wire h')"
      using handle_calls [OF assms(1)] r that assms(2) by fastforce+
    have "sum_list (map sending [0..<sends (wire h')]) \<le> 1000 * sends (wire h')"
      using sum_list_sends [of sending socket_timeout 0 "sends (wire h')"] assms(4)
      by (simp add: socket_timeout_eq)
    with w assms(3) have "task_ticks receiving sending h h' \<le> 1060 + 1010 * sends (wire h')"
      unfolding task_ticks_def assms(2) socket_timeout_eq by linarith
    also have "\<dots> \<le> 1060 + 1010 * (answer_length html + n)" using c by simp
    finally show ?thesis .
  qed
  with r handle_closes show ?thesis by blast
qed

theorem request_task_bounded_witness:
  "\<exists>h'. handle_http_request (list_queue 30) one_byte ''page'' (request ''GET'' ''/'' ''/1.1'') 54
        quiet_robot = Some (Inr h')
     \<and> closed h' = [54]
     \<and> task_ticks 1000 (\<lambda>j. 1000 - j) quiet_robot h' \<le> 1060 + 1010 * answer_length ''page''"
proof -
  have "request_line_ok ''GET'' ''/''" by (simp add: request_line_okI)
  moreover have "request_fits ''GET'' ''/'' ''/1.1''"
    by (simp add: request_fits_def request_def Let_def BUFF_SIZE_def)
  ultimately obtain h' where "handle_http_request (list_queue 30) one_byte ''page''
      (request ''GET'' ''/'' ''/1.1'') 54 quiet_robot = Some (Inr h')"
    using lq.handle_outcome [of 30 "''GET''" "''/''" "''/1.1''" one_byte "''page''" "\<lambda>a b. True" 54
        quiet_robot] respond_ends [OF one_byte_quiet] by auto
  with request_task_bounded [OF one_byte_quiet, of quiet_robot 1000 "\<lambda>j. 1000 - j" "list_queue 30"
      "''page''" "request ''GET'' ''/'' ''/1.1''" 54]
  show ?thesis by (auto simp: quiet_robot_def socket_timeout_eq)
qed

text \<open>
  C33: nothing better holds.  A client that takes one byte with every call is served to the last byte,
  with a call of \<open>send\<close> for each: as each may take ten seconds, the task and its socket are held for
  ten seconds a byte, and there is no limit on the whole.
\<close>

theorem slow_client_holds_socket:
  assumes "length html < 2 ^ 31"
    and "request_line_ok ''GET'' uri" and "request_fits ''GET'' uri rest" and "length uri < 30"
  shows "\<exists>h'. handle_http_request api one_byte html (request ''GET'' uri rest) fd h = Some (Inr h')
    \<and> sent (wire h') = sent (wire h) @ HTTP_200 (int (length html)) @ html
    \<and> task_ticks 0 (\<lambda>j. socket_timeout) h h' = 60 + 1010 * answer_length html"
proof -
  obtain buff where buff: "cstr NUL buff = Some ''GET''" and
    eq: "handle_http_request api one_byte html (request ''GET'' uri rest) fd h =
      (let h0 = http_delay 30 h;
           (sendFlag, q) = xQueueSend api (url_item ''GET'' uri) (xQueueReset api (queue h0)) in
       (case respond one_byte html buff (wire h0) of
          None \<Rightarrow> None
        | Some (Inl f) \<Rightarrow> Some (Inl f)
        | Some (Inr k) \<Rightarrow>
            Some (Inr (requst_error fd (http_delay 30 (h0\<lparr>queue := q, wire := k\<rparr>))))))"
    using handle_request_line [OF assms(2) _ assms(3,4), of api one_byte html fd h] by auto
  show ?thesis
    using buff length_HTTP_200 [of "int (length html)"]
    by (simp add: eq respond_def strcmp_eq_def Let_def my_write_one_byte http_delay_def
        requst_error_def task_ticks_def socket_timeout_eq answer_length_def sum_list_triv
        int_prefix_page [OF assms(1)] split: prod.split)
qed

theorem slow_client_holds_socket_witness:
  "\<exists>h'. handle_http_request (list_queue 30) one_byte ''page'' (request ''GET'' ''/'' ''/1.1'') 54
        quiet_robot = Some (Inr h')
     \<and> task_ticks 0 (\<lambda>j. socket_timeout) quiet_robot h' = 60 + 1010 * answer_length ''page''"
proof -
  have "request_line_ok ''GET'' ''/''" by (simp add: request_line_okI)
  moreover have "request_fits ''GET'' ''/'' ''/1.1''"
    by (simp add: request_fits_def request_def Let_def BUFF_SIZE_def)
  ultimately show ?thesis
    using slow_client_holds_socket [of "''page''" "''/''" "''/1.1''" "list_queue 30" 54 quiet_robot]
    by fastforce
qed

end
