(* ===== verification/CompilerProbe.thy ===== *)
theory CompilerProbe
  imports CString
begin

unbundle bit_operations_syntax

text \<open>
  The compiler probes of the build, CMakeCCompilerId.c and CMakeCXXCompilerId.cpp below
  build/CMakeFiles/3.20.3 (the boot loader's build has byte-identical copies).  A probe is compiled with
  the selected compiler; from the macros the compiler predefines it makes strings such as
  \<open>INFO:compiler[GNU]\<close>, which CMake looks for in the object file to learn the compiler, its version, the
  platform and the default dialect.

  The predefined macros are the argument \<open>m\<close> of the definitions: a macro that is not defined has no
  value.  In a condition an undefined macro counts as 0; in an array initialiser it is an undeclared
  name, and the probe does not compile.  Each branch of the conditional chain is one definition, which
  adds its \<open>#define\<close> lines to the record \<open>probe\<close>; where a macro is defined again the later definition
  counts, as with the compilers in question.  Branches that are the same in both files are shared.
\<close>

section \<open>Macros\<close>

type_synonym macros = "string \<Rightarrow> int option"

definition defined :: "macros \<Rightarrow> string \<Rightarrow> bool" where
  "defined m n \<longleftrightarrow> m n \<noteq> None"

definition pp :: "macros \<Rightarrow> string \<Rightarrow> int" where
  "pp m n = (case m n of Some v \<Rightarrow> v | None \<Rightarrow> 0)"

text \<open>A character constant plus a number, stored in a \<open>char\<close>.\<close>

definition plus_char :: "char \<Rightarrow> int \<Rightarrow> char" where
  "plus_char c i = char_of (of_char c + i)"

definition DEC :: "int \<Rightarrow> string" where
  "DEC n =
     [plus_char (CHR ''0'') ((n sdiv 10000000) smod 10),
      plus_char (CHR ''0'') ((n sdiv 1000000) smod 10),
      plus_char (CHR ''0'') ((n sdiv 100000) smod 10),
      plus_char (CHR ''0'') ((n sdiv 10000) smod 10),
      plus_char (CHR ''0'') ((n sdiv 1000) smod 10),
      plus_char (CHR ''0'') ((n sdiv 100) smod 10),
      plus_char (CHR ''0'') ((n sdiv 10) smod 10),
      plus_char (CHR ''0'') (n smod 10)]"

definition HEX :: "int \<Rightarrow> string" where
  "HEX n =
     [plus_char (CHR ''0'') (drop_bit 28 n AND 15),
      plus_char (CHR ''0'') (drop_bit 24 n AND 15),
      plus_char (CHR ''0'') (drop_bit 20 n AND 15),
      plus_char (CHR ''0'') (drop_bit 16 n AND 15),
      plus_char (CHR ''0'') (drop_bit 12 n AND 15),
      plus_char (CHR ''0'') (drop_bit 8 n AND 15),
      plus_char (CHR ''0'') (drop_bit 4 n AND 15),
      plus_char (CHR ''0'') (n AND 15)]"

text \<open>
  The body of a version macro: \<open>DEC\<close> or \<open>HEX\<close> of an expression in one predefined macro.  \<open>Inl\<close> names the
  macro when it is undefined.
\<close>

type_synonym version_part = "(string + string) option"

definition DEC_of :: "(int \<Rightarrow> int) \<Rightarrow> macros \<Rightarrow> string \<Rightarrow> version_part" where
  "DEC_of f m n = Some (case m n of None \<Rightarrow> Inl n | Some v \<Rightarrow> Inr (DEC (f v)))"

definition HEX_of :: "(int \<Rightarrow> int) \<Rightarrow> macros \<Rightarrow> string \<Rightarrow> version_part" where
  "HEX_of f m n = Some (case m n of None \<Rightarrow> Inl n | Some v \<Rightarrow> Inr (HEX (f v)))"

record probe =
  COMPILER_ID :: string
  SIMULATE_ID :: "string option"
  COMPILER_VERSION_MAJOR :: version_part
  COMPILER_VERSION_MINOR :: version_part
  COMPILER_VERSION_PATCH :: version_part
  COMPILER_VERSION_TWEAK :: version_part
  COMPILER_VERSION_INTERNAL :: version_part
  SIMULATE_VERSION_MAJOR :: version_part
  SIMULATE_VERSION_MINOR :: version_part
  SIMULATE_VERSION_PATCH :: version_part
  SIMULATE_VERSION_TWEAK :: version_part

definition nothing_defined :: probe where
  "nothing_defined = \<lparr>COMPILER_ID = '''', SIMULATE_ID = None, COMPILER_VERSION_MAJOR = None,
     COMPILER_VERSION_MINOR = None, COMPILER_VERSION_PATCH = None, COMPILER_VERSION_TWEAK = None,
     COMPILER_VERSION_INTERNAL = None, SIMULATE_VERSION_MAJOR = None, SIMULATE_VERSION_MINOR = None,
     SIMULATE_VERSION_PATCH = None, SIMULATE_VERSION_TWEAK = None\<rparr>"

section \<open>The branches\<close>

definition probe_Intel :: "macros \<Rightarrow> probe \<Rightarrow> probe" where
  "probe_Intel m p =
     (let p = p\<lparr>COMPILER_ID := ''Intel''\<rparr>;
          p = (if defined m ''_MSC_VER''
               then p\<lparr>SIMULATE_ID := Some ''MSVC''\<rparr>
               else p);
          p = (if defined m ''__GNUC__''
               then p\<lparr>SIMULATE_ID := Some ''GNU''\<rparr>
               else p);
          p = (if pp m ''__INTEL_COMPILER'' < 2021 \<or> pp m ''__INTEL_COMPILER'' = 202110
                  \<or> pp m ''__INTEL_COMPILER'' = 202111
               then (let p = p\<lparr>COMPILER_VERSION_MAJOR := DEC_of (\<lambda>v. v sdiv 100) m ''__INTEL_COMPILER'',
                               COMPILER_VERSION_MINOR := DEC_of (\<lambda>v. (v sdiv 10) smod 10) m ''__INTEL_COMPILER''\<rparr>;
                         p = (if defined m ''__INTEL_COMPILER_UPDATE''
                              then p\<lparr>COMPILER_VERSION_PATCH := DEC_of id m ''__INTEL_COMPILER_UPDATE''\<rparr>
                              else p\<lparr>COMPILER_VERSION_PATCH := DEC_of (\<lambda>v. v smod 10) m ''__INTEL_COMPILER''\<rparr>)
                     in p)
               else p\<lparr>COMPILER_VERSION_MAJOR := DEC_of id m ''__INTEL_COMPILER'',
                      COMPILER_VERSION_MINOR := DEC_of id m ''__INTEL_COMPILER_UPDATE'',
                      COMPILER_VERSION_PATCH := Some (Inr (DEC 0))\<rparr>);
          p = (if defined m ''__INTEL_COMPILER_BUILD_DATE''
               then p\<lparr>COMPILER_VERSION_TWEAK := DEC_of id m ''__INTEL_COMPILER_BUILD_DATE''\<rparr>
               else p);
          p = (if defined m ''_MSC_VER''
               then p\<lparr>SIMULATE_VERSION_MAJOR := DEC_of (\<lambda>v. v sdiv 100) m ''_MSC_VER'',
                      SIMULATE_VERSION_MINOR := DEC_of (\<lambda>v. v smod 100) m ''_MSC_VER''\<rparr>
               else p);
          p = (if defined m ''__GNUC__''
               then p\<lparr>SIMULATE_VERSION_MAJOR := DEC_of id m ''__GNUC__''\<rparr>
               else if defined m ''__GNUG__''
               then p\<lparr>SIMULATE_VERSION_MAJOR := DEC_of id m ''__GNUG__''\<rparr>
               else p);
          p = (if defined m ''__GNUC_MINOR__''
               then p\<lparr>SIMULATE_VERSION_MINOR := DEC_of id m ''__GNUC_MINOR__''\<rparr>
               else p);
          p = (if defined m ''__GNUC_PATCHLEVEL__''
               then p\<lparr>SIMULATE_VERSION_PATCH := DEC_of id m ''__GNUC_PATCHLEVEL__''\<rparr>
               else p)
      in p)"

definition probe_IntelLLVM :: "macros \<Rightarrow> probe \<Rightarrow> probe" where
  "probe_IntelLLVM m p =
     (let p = p\<lparr>COMPILER_ID := ''IntelLLVM''\<rparr>;
          p = (if defined m ''_MSC_VER''
               then p\<lparr>SIMULATE_ID := Some ''MSVC''\<rparr>
               else p);
          p = (if defined m ''__GNUC__''
               then p\<lparr>SIMULATE_ID := Some ''GNU''\<rparr>
               else p);
          p = (if pp m ''__INTEL_LLVM_COMPILER'' < 1000000
               then p\<lparr>COMPILER_VERSION_MAJOR := DEC_of (\<lambda>v. v sdiv 100) m ''__INTEL_LLVM_COMPILER'',
                      COMPILER_VERSION_MINOR := DEC_of (\<lambda>v. (v sdiv 10) smod 10) m ''__INTEL_LLVM_COMPILER'',
                      COMPILER_VERSION_PATCH := DEC_of (\<lambda>v. v smod 10) m ''__INTEL_LLVM_COMPILER''\<rparr>
               else p\<lparr>COMPILER_VERSION_MAJOR := DEC_of (\<lambda>v. v sdiv 10000) m ''__INTEL_LLVM_COMPILER'',
                      COMPILER_VERSION_MINOR := DEC_of (\<lambda>v. (v sdiv 100) smod 100) m ''__INTEL_LLVM_COMPILER'',
                      COMPILER_VERSION_PATCH := DEC_of (\<lambda>v. v smod 100) m ''__INTEL_LLVM_COMPILER''\<rparr>);
          p = (if defined m ''_MSC_VER''
               then p\<lparr>SIMULATE_VERSION_MAJOR := DEC_of (\<lambda>v. v sdiv 100) m ''_MSC_VER'',
                      SIMULATE_VERSION_MINOR := DEC_of (\<lambda>v. v smod 100) m ''_MSC_VER''\<rparr>
               else p);
          p = (if defined m ''__GNUC__''
               then p\<lparr>SIMULATE_VERSION_MAJOR := DEC_of id m ''__GNUC__''\<rparr>
               else if defined m ''__GNUG__''
               then p\<lparr>SIMULATE_VERSION_MAJOR := DEC_of id m ''__GNUG__''\<rparr>
               else p);
          p = (if defined m ''__GNUC_MINOR__''
               then p\<lparr>SIMULATE_VERSION_MINOR := DEC_of id m ''__GNUC_MINOR__''\<rparr>
               else p);
          p = (if defined m ''__GNUC_PATCHLEVEL__''
               then p\<lparr>SIMULATE_VERSION_PATCH := DEC_of id m ''__GNUC_PATCHLEVEL__''\<rparr>
               else p)
      in p)"

definition probe_PathScale :: "macros \<Rightarrow> probe \<Rightarrow> probe" where
  "probe_PathScale m p =
     (let p = p\<lparr>COMPILER_ID := ''PathScale'',
                COMPILER_VERSION_MAJOR := DEC_of id m ''__PATHCC__'',
                COMPILER_VERSION_MINOR := DEC_of id m ''__PATHCC_MINOR__''\<rparr>;
          p = (if defined m ''__PATHCC_PATCHLEVEL__''
               then p\<lparr>COMPILER_VERSION_PATCH := DEC_of id m ''__PATHCC_PATCHLEVEL__''\<rparr>
               else p)
      in p)"

definition probe_Embarcadero :: "macros \<Rightarrow> probe \<Rightarrow> probe" where
  "probe_Embarcadero m p =
     p\<lparr>COMPILER_ID := ''Embarcadero'',
       COMPILER_VERSION_MAJOR := HEX_of (\<lambda>v. (drop_bit 24 v) AND 255) m ''__CODEGEARC_VERSION__'',
       COMPILER_VERSION_MINOR := HEX_of (\<lambda>v. (drop_bit 16 v) AND 255) m ''__CODEGEARC_VERSION__'',
       COMPILER_VERSION_PATCH := DEC_of (\<lambda>v. v AND 65535) m ''__CODEGEARC_VERSION__''\<rparr>"

definition probe_Borland :: "macros \<Rightarrow> probe \<Rightarrow> probe" where
  "probe_Borland m p =
     p\<lparr>COMPILER_ID := ''Borland'',
       COMPILER_VERSION_MAJOR := HEX_of (\<lambda>v. drop_bit 8 v) m ''__BORLANDC__'',
       COMPILER_VERSION_MINOR := HEX_of (\<lambda>v. v AND 255) m ''__BORLANDC__''\<rparr>"

definition probe_Watcom :: "macros \<Rightarrow> probe \<Rightarrow> probe" where
  "probe_Watcom m p =
     (let p = p\<lparr>COMPILER_ID := ''Watcom'',
                COMPILER_VERSION_MAJOR := DEC_of (\<lambda>v. v sdiv 100) m ''__WATCOMC__'',
                COMPILER_VERSION_MINOR := DEC_of (\<lambda>v. (v sdiv 10) smod 10) m ''__WATCOMC__''\<rparr>;
          p = (if pp m ''__WATCOMC__'' smod 10 > 0
               then p\<lparr>COMPILER_VERSION_PATCH := DEC_of (\<lambda>v. v smod 10) m ''__WATCOMC__''\<rparr>
               else p)
      in p)"

definition probe_OpenWatcom :: "macros \<Rightarrow> probe \<Rightarrow> probe" where
  "probe_OpenWatcom m p =
     (let p = p\<lparr>COMPILER_ID := ''OpenWatcom'',
                COMPILER_VERSION_MAJOR := DEC_of (\<lambda>v. (v - 1100) sdiv 100) m ''__WATCOMC__'',
                COMPILER_VERSION_MINOR := DEC_of (\<lambda>v. (v sdiv 10) smod 10) m ''__WATCOMC__''\<rparr>;
          p = (if pp m ''__WATCOMC__'' smod 10 > 0
               then p\<lparr>COMPILER_VERSION_PATCH := DEC_of (\<lambda>v. v smod 10) m ''__WATCOMC__''\<rparr>
               else p)
      in p)"

definition probe_SunPro :: "string \<Rightarrow> macros \<Rightarrow> probe \<Rightarrow> probe" where
  "probe_SunPro nm m p =
     (let p = p\<lparr>COMPILER_ID := ''SunPro''\<rparr>;
          p = (if pp m nm \<ge> 20736
               then p\<lparr>COMPILER_VERSION_MAJOR := HEX_of (\<lambda>v. drop_bit 12 v) m nm,
                      COMPILER_VERSION_MINOR := HEX_of (\<lambda>v. (drop_bit 4 v) AND 255) m nm,
                      COMPILER_VERSION_PATCH := HEX_of (\<lambda>v. v AND 15) m nm\<rparr>
               else p\<lparr>COMPILER_VERSION_MAJOR := HEX_of (\<lambda>v. drop_bit 8 v) m nm,
                      COMPILER_VERSION_MINOR := HEX_of (\<lambda>v. (drop_bit 4 v) AND 15) m nm,
                      COMPILER_VERSION_PATCH := HEX_of (\<lambda>v. v AND 15) m nm\<rparr>)
      in p)"

definition probe_HP :: "string \<Rightarrow> macros \<Rightarrow> probe \<Rightarrow> probe" where
  "probe_HP nm m p =
     p\<lparr>COMPILER_ID := ''HP'',
       COMPILER_VERSION_MAJOR := DEC_of (\<lambda>v. v sdiv 10000) m nm,
       COMPILER_VERSION_MINOR := DEC_of (\<lambda>v. (v sdiv 100) smod 100) m nm,
       COMPILER_VERSION_PATCH := DEC_of (\<lambda>v. v smod 100) m nm\<rparr>"

definition probe_Compaq :: "string \<Rightarrow> macros \<Rightarrow> probe \<Rightarrow> probe" where
  "probe_Compaq nm m p =
     p\<lparr>COMPILER_ID := ''Compaq'',
       COMPILER_VERSION_MAJOR := DEC_of (\<lambda>v. v sdiv 10000000) m nm,
       COMPILER_VERSION_MINOR := DEC_of (\<lambda>v. (v sdiv 100000) smod 100) m nm,
       COMPILER_VERSION_PATCH := DEC_of (\<lambda>v. v smod 10000) m nm\<rparr>"

definition probe_zOS :: "string \<Rightarrow> macros \<Rightarrow> probe \<Rightarrow> probe" where
  "probe_zOS nm m p =
     p\<lparr>COMPILER_ID := ''zOS'',
       COMPILER_VERSION_MAJOR := DEC_of (\<lambda>v. v sdiv 100) m nm,
       COMPILER_VERSION_MINOR := DEC_of (\<lambda>v. (v sdiv 10) smod 10) m nm,
       COMPILER_VERSION_PATCH := DEC_of (\<lambda>v. v smod 10) m nm\<rparr>"

definition probe_XLClang :: "macros \<Rightarrow> probe \<Rightarrow> probe" where
  "probe_XLClang m p =
     p\<lparr>COMPILER_ID := ''XLClang'',
       COMPILER_VERSION_MAJOR := DEC_of id m ''__ibmxl_version__'',
       COMPILER_VERSION_MINOR := DEC_of id m ''__ibmxl_release__'',
       COMPILER_VERSION_PATCH := DEC_of id m ''__ibmxl_modification__'',
       COMPILER_VERSION_TWEAK := DEC_of id m ''__ibmxl_ptf_fix_level__''\<rparr>"

definition probe_XL :: "string \<Rightarrow> macros \<Rightarrow> probe \<Rightarrow> probe" where
  "probe_XL nm m p =
     p\<lparr>COMPILER_ID := ''XL'',
       COMPILER_VERSION_MAJOR := DEC_of (\<lambda>v. v sdiv 100) m nm,
       COMPILER_VERSION_MINOR := DEC_of (\<lambda>v. (v sdiv 10) smod 10) m nm,
       COMPILER_VERSION_PATCH := DEC_of (\<lambda>v. v smod 10) m nm\<rparr>"

definition probe_VisualAge :: "string \<Rightarrow> macros \<Rightarrow> probe \<Rightarrow> probe" where
  "probe_VisualAge nm m p =
     p\<lparr>COMPILER_ID := ''VisualAge'',
       COMPILER_VERSION_MAJOR := DEC_of (\<lambda>v. v sdiv 100) m nm,
       COMPILER_VERSION_MINOR := DEC_of (\<lambda>v. (v sdiv 10) smod 10) m nm,
       COMPILER_VERSION_PATCH := DEC_of (\<lambda>v. v smod 10) m nm\<rparr>"

definition probe_NVHPC :: "macros \<Rightarrow> probe \<Rightarrow> probe" where
  "probe_NVHPC m p =
     (let p = p\<lparr>COMPILER_ID := ''NVHPC'',
                COMPILER_VERSION_MAJOR := DEC_of id m ''__NVCOMPILER_MAJOR__'',
                COMPILER_VERSION_MINOR := DEC_of id m ''__NVCOMPILER_MINOR__''\<rparr>;
          p = (if defined m ''__NVCOMPILER_PATCHLEVEL__''
               then p\<lparr>COMPILER_VERSION_PATCH := DEC_of id m ''__NVCOMPILER_PATCHLEVEL__''\<rparr>
               else p)
      in p)"

definition probe_PGI :: "macros \<Rightarrow> probe \<Rightarrow> probe" where
  "probe_PGI m p =
     (let p = p\<lparr>COMPILER_ID := ''PGI'',
                COMPILER_VERSION_MAJOR := DEC_of id m ''__PGIC__'',
                COMPILER_VERSION_MINOR := DEC_of id m ''__PGIC_MINOR__''\<rparr>;
          p = (if defined m ''__PGIC_PATCHLEVEL__''
               then p\<lparr>COMPILER_VERSION_PATCH := DEC_of id m ''__PGIC_PATCHLEVEL__''\<rparr>
               else p)
      in p)"

definition probe_Cray :: "macros \<Rightarrow> probe \<Rightarrow> probe" where
  "probe_Cray m p =
     p\<lparr>COMPILER_ID := ''Cray'',
       COMPILER_VERSION_MAJOR := DEC_of id m ''_RELEASE_MAJOR'',
       COMPILER_VERSION_MINOR := DEC_of id m ''_RELEASE_MINOR''\<rparr>"

definition probe_TI :: "macros \<Rightarrow> probe \<Rightarrow> probe" where
  "probe_TI m p =
     p\<lparr>COMPILER_ID := ''TI'',
       COMPILER_VERSION_MAJOR := DEC_of (\<lambda>v. v sdiv 1000000) m ''__TI_COMPILER_VERSION__'',
       COMPILER_VERSION_MINOR := DEC_of (\<lambda>v. (v sdiv 1000) smod 1000) m ''__TI_COMPILER_VERSION__'',
       COMPILER_VERSION_PATCH := DEC_of (\<lambda>v. v smod 1000) m ''__TI_COMPILER_VERSION__''\<rparr>"

definition probe_Fujitsu :: "macros \<Rightarrow> probe \<Rightarrow> probe" where
  "probe_Fujitsu m p =
     p\<lparr>COMPILER_ID := ''Fujitsu''\<rparr>"

definition probe_GHS :: "macros \<Rightarrow> probe \<Rightarrow> probe" where
  "probe_GHS m p =
     (let p = p\<lparr>COMPILER_ID := ''GHS''\<rparr>;
          p = (if defined m ''__GHS_VERSION_NUMBER''
               then p\<lparr>COMPILER_VERSION_MAJOR := DEC_of (\<lambda>v. v sdiv 100) m ''__GHS_VERSION_NUMBER'',
                      COMPILER_VERSION_MINOR := DEC_of (\<lambda>v. (v sdiv 10) smod 10) m ''__GHS_VERSION_NUMBER'',
                      COMPILER_VERSION_PATCH := DEC_of (\<lambda>v. v smod 10) m ''__GHS_VERSION_NUMBER''\<rparr>
               else p)
      in p)"

definition probe_TinyCC :: "macros \<Rightarrow> probe \<Rightarrow> probe" where
  "probe_TinyCC m p =
     p\<lparr>COMPILER_ID := ''TinyCC''\<rparr>"

definition probe_Bruce :: "macros \<Rightarrow> probe \<Rightarrow> probe" where
  "probe_Bruce m p =
     p\<lparr>COMPILER_ID := ''Bruce''\<rparr>"

definition probe_SCO :: "macros \<Rightarrow> probe \<Rightarrow> probe" where
  "probe_SCO m p =
     p\<lparr>COMPILER_ID := ''SCO''\<rparr>"

definition probe_ARMCC :: "macros \<Rightarrow> probe \<Rightarrow> probe" where
  "probe_ARMCC m p =
     (let p = p\<lparr>COMPILER_ID := ''ARMCC''\<rparr>;
          p = (if pp m ''__ARMCC_VERSION'' \<ge> 1000000
               then p\<lparr>COMPILER_VERSION_MAJOR := DEC_of (\<lambda>v. v sdiv 1000000) m ''__ARMCC_VERSION'',
                      COMPILER_VERSION_MINOR := DEC_of (\<lambda>v. (v sdiv 10000) smod 100) m ''__ARMCC_VERSION'',
                      COMPILER_VERSION_PATCH := DEC_of (\<lambda>v. v smod 10000) m ''__ARMCC_VERSION''\<rparr>
               else p\<lparr>COMPILER_VERSION_MAJOR := DEC_of (\<lambda>v. v sdiv 100000) m ''__ARMCC_VERSION'',
                      COMPILER_VERSION_MINOR := DEC_of (\<lambda>v. (v sdiv 10000) smod 10) m ''__ARMCC_VERSION'',
                      COMPILER_VERSION_PATCH := DEC_of (\<lambda>v. v smod 10000) m ''__ARMCC_VERSION''\<rparr>)
      in p)"

definition probe_AppleClang :: "macros \<Rightarrow> probe \<Rightarrow> probe" where
  "probe_AppleClang m p =
     (let p = p\<lparr>COMPILER_ID := ''AppleClang''\<rparr>;
          p = (if defined m ''_MSC_VER''
               then p\<lparr>SIMULATE_ID := Some ''MSVC''\<rparr>
               else p);
          p = p\<lparr>COMPILER_VERSION_MAJOR := DEC_of id m ''__clang_major__'',
                COMPILER_VERSION_MINOR := DEC_of id m ''__clang_minor__'',
                COMPILER_VERSION_PATCH := DEC_of id m ''__clang_patchlevel__''\<rparr>;
          p = (if defined m ''_MSC_VER''
               then p\<lparr>SIMULATE_VERSION_MAJOR := DEC_of (\<lambda>v. v sdiv 100) m ''_MSC_VER'',
                      SIMULATE_VERSION_MINOR := DEC_of (\<lambda>v. v smod 100) m ''_MSC_VER''\<rparr>
               else p);
          p = p\<lparr>COMPILER_VERSION_TWEAK := DEC_of id m ''__apple_build_version__''\<rparr>
      in p)"

definition probe_ARMClang :: "macros \<Rightarrow> probe \<Rightarrow> probe" where
  "probe_ARMClang m p =
     p\<lparr>COMPILER_ID := ''ARMClang'',
       COMPILER_VERSION_MAJOR := DEC_of (\<lambda>v. v sdiv 1000000) m ''__ARMCOMPILER_VERSION'',
       COMPILER_VERSION_MINOR := DEC_of (\<lambda>v. (v sdiv 10000) smod 100) m ''__ARMCOMPILER_VERSION'',
       COMPILER_VERSION_PATCH := DEC_of (\<lambda>v. v smod 10000) m ''__ARMCOMPILER_VERSION'',
       COMPILER_VERSION_INTERNAL := DEC_of id m ''__ARMCOMPILER_VERSION''\<rparr>"

definition probe_Clang :: "macros \<Rightarrow> probe \<Rightarrow> probe" where
  "probe_Clang m p =
     (let p = p\<lparr>COMPILER_ID := ''Clang''\<rparr>;
          p = (if defined m ''_MSC_VER''
               then p\<lparr>SIMULATE_ID := Some ''MSVC''\<rparr>
               else p);
          p = p\<lparr>COMPILER_VERSION_MAJOR := DEC_of id m ''__clang_major__'',
                COMPILER_VERSION_MINOR := DEC_of id m ''__clang_minor__'',
                COMPILER_VERSION_PATCH := DEC_of id m ''__clang_patchlevel__''\<rparr>;
          p = (if defined m ''_MSC_VER''
               then p\<lparr>SIMULATE_VERSION_MAJOR := DEC_of (\<lambda>v. v sdiv 100) m ''_MSC_VER'',
                      SIMULATE_VERSION_MINOR := DEC_of (\<lambda>v. v smod 100) m ''_MSC_VER''\<rparr>
               else p)
      in p)"

definition probe_GNU :: "macros \<Rightarrow> probe \<Rightarrow> probe" where
  "probe_GNU m p =
     (let p = p\<lparr>COMPILER_ID := ''GNU'',
                COMPILER_VERSION_MAJOR := DEC_of id m ''__GNUC__''\<rparr>;
          p = (if defined m ''__GNUC_MINOR__''
               then p\<lparr>COMPILER_VERSION_MINOR := DEC_of id m ''__GNUC_MINOR__''\<rparr>
               else p);
          p = (if defined m ''__GNUC_PATCHLEVEL__''
               then p\<lparr>COMPILER_VERSION_PATCH := DEC_of id m ''__GNUC_PATCHLEVEL__''\<rparr>
               else p)
      in p)"

definition probe_MSVC :: "macros \<Rightarrow> probe \<Rightarrow> probe" where
  "probe_MSVC m p =
     (let p = p\<lparr>COMPILER_ID := ''MSVC'',
                COMPILER_VERSION_MAJOR := DEC_of (\<lambda>v. v sdiv 100) m ''_MSC_VER'',
                COMPILER_VERSION_MINOR := DEC_of (\<lambda>v. v smod 100) m ''_MSC_VER''\<rparr>;
          p = (if defined m ''_MSC_FULL_VER''
               then (if pp m ''_MSC_VER'' \<ge> 1400
                     then p\<lparr>COMPILER_VERSION_PATCH := DEC_of (\<lambda>v. v smod 100000) m ''_MSC_FULL_VER''\<rparr>
                     else p\<lparr>COMPILER_VERSION_PATCH := DEC_of (\<lambda>v. v smod 10000) m ''_MSC_FULL_VER''\<rparr>)
               else p);
          p = (if defined m ''_MSC_BUILD''
               then p\<lparr>COMPILER_VERSION_TWEAK := DEC_of id m ''_MSC_BUILD''\<rparr>
               else p)
      in p)"

definition probe_ADSP :: "macros \<Rightarrow> probe \<Rightarrow> probe" where
  "probe_ADSP m p =
     (let p = p\<lparr>COMPILER_ID := ''ADSP''\<rparr>;
          p = (if defined m ''__VISUALDSPVERSION__''
               then p\<lparr>COMPILER_VERSION_MAJOR := HEX_of (\<lambda>v. drop_bit 24 v) m ''__VISUALDSPVERSION__'',
                      COMPILER_VERSION_MINOR := HEX_of (\<lambda>v. (drop_bit 16 v) AND 255) m ''__VISUALDSPVERSION__'',
                      COMPILER_VERSION_PATCH := HEX_of (\<lambda>v. (drop_bit 8 v) AND 255) m ''__VISUALDSPVERSION__''\<rparr>
               else p)
      in p)"

definition probe_IAR :: "macros \<Rightarrow> probe \<Rightarrow> probe" where
  "probe_IAR m p =
     (let p = p\<lparr>COMPILER_ID := ''IAR''\<rparr>;
          p = (if defined m ''__VER__'' \<and> defined m ''__ICCARM__''
               then p\<lparr>COMPILER_VERSION_MAJOR := DEC_of (\<lambda>v. v sdiv 1000000) m ''__VER__'',
                      COMPILER_VERSION_MINOR := DEC_of (\<lambda>v. (v sdiv 1000) smod 1000) m ''__VER__'',
                      COMPILER_VERSION_PATCH := DEC_of (\<lambda>v. v smod 1000) m ''__VER__'',
                      COMPILER_VERSION_INTERNAL := DEC_of id m ''__IAR_SYSTEMS_ICC__''\<rparr>
               else if defined m ''__VER__'' \<and> (defined m ''__ICCAVR__''
                       \<or> defined m ''__ICCRX__'' \<or> defined m ''__ICCRH850__''
                       \<or> defined m ''__ICCRL78__'' \<or> defined m ''__ICC430__''
                       \<or> defined m ''__ICCRISCV__'' \<or> defined m ''__ICCV850__''
                       \<or> defined m ''__ICC8051__'' \<or> defined m ''__ICCSTM8__'')
               then p\<lparr>COMPILER_VERSION_MAJOR := DEC_of (\<lambda>v. v sdiv 100) m ''__VER__'',
                      COMPILER_VERSION_MINOR := DEC_of (\<lambda>v. v - ((v sdiv 100) * 100)) m ''__VER__'',
                      COMPILER_VERSION_PATCH := DEC_of id m ''__SUBVERSION__'',
                      COMPILER_VERSION_INTERNAL := DEC_of id m ''__IAR_SYSTEMS_ICC__''\<rparr>
               else p)
      in p)"

definition probe_SDCC :: "macros \<Rightarrow> probe \<Rightarrow> probe" where
  "probe_SDCC m p =
     (let p = p\<lparr>COMPILER_ID := ''SDCC''\<rparr>;
          p = (if defined m ''__SDCC_VERSION_MAJOR''
               then p\<lparr>COMPILER_VERSION_MAJOR := DEC_of id m ''__SDCC_VERSION_MAJOR'',
                      COMPILER_VERSION_MINOR := DEC_of id m ''__SDCC_VERSION_MINOR'',
                      COMPILER_VERSION_PATCH := DEC_of id m ''__SDCC_VERSION_PATCH''\<rparr>
               else p\<lparr>COMPILER_VERSION_MAJOR := DEC_of (\<lambda>v. v sdiv 100) m ''SDCC'',
                      COMPILER_VERSION_MINOR := DEC_of (\<lambda>v. (v sdiv 10) smod 10) m ''SDCC'',
                      COMPILER_VERSION_PATCH := DEC_of (\<lambda>v. v smod 10) m ''SDCC''\<rparr>)
      in p)"

definition probe_hpux :: "macros \<Rightarrow> probe \<Rightarrow> probe" where
  "probe_hpux m p =
     p\<lparr>COMPILER_ID := ''HP''\<rparr>"

definition probe_unknown :: "macros \<Rightarrow> probe \<Rightarrow> probe" where
  "probe_unknown m p =
     p\<lparr>COMPILER_ID := ''''\<rparr>"

definition probe_Comeau :: "macros \<Rightarrow> probe \<Rightarrow> probe" where
  "probe_Comeau m p =
     p\<lparr>COMPILER_ID := ''Comeau'',
       COMPILER_VERSION_MAJOR := DEC_of (\<lambda>v. v sdiv 100) m ''__COMO_VERSION__'',
       COMPILER_VERSION_MINOR := DEC_of (\<lambda>v. v smod 100) m ''__COMO_VERSION__''\<rparr>"

definition probe_GNU_cxx :: "macros \<Rightarrow> probe \<Rightarrow> probe" where
  "probe_GNU_cxx m p =
     (let p = p\<lparr>COMPILER_ID := ''GNU''\<rparr>;
          p = (if defined m ''__GNUC__''
               then p\<lparr>COMPILER_VERSION_MAJOR := DEC_of id m ''__GNUC__''\<rparr>
               else p\<lparr>COMPILER_VERSION_MAJOR := DEC_of id m ''__GNUG__''\<rparr>);
          p = (if defined m ''__GNUC_MINOR__''
               then p\<lparr>COMPILER_VERSION_MINOR := DEC_of id m ''__GNUC_MINOR__''\<rparr>
               else p);
          p = (if defined m ''__GNUC_PATCHLEVEL__''
               then p\<lparr>COMPILER_VERSION_PATCH := DEC_of id m ''__GNUC_PATCHLEVEL__''\<rparr>
               else p)
      in p)"

section \<open>The chains\<close>

definition c_compiler :: "macros \<Rightarrow> probe \<Rightarrow> probe" where
  "c_compiler m p =
     (if defined m ''__INTEL_COMPILER'' \<or> defined m ''__ICC'' then probe_Intel m p
      else if (defined m ''__clang__'' \<and> defined m ''__INTEL_CLANG_COMPILER'')
              \<or> defined m ''__INTEL_LLVM_COMPILER'' then probe_IntelLLVM m p
      else if defined m ''__PATHCC__'' then probe_PathScale m p
      else if defined m ''__BORLANDC__'' \<and> defined m ''__CODEGEARC_VERSION__''
        then probe_Embarcadero m p
      else if defined m ''__BORLANDC__'' then probe_Borland m p
      else if defined m ''__WATCOMC__'' \<and> pp m ''__WATCOMC__'' < 1200 then probe_Watcom m p
      else if defined m ''__WATCOMC__'' then probe_OpenWatcom m p
      else if defined m ''__SUNPRO_C'' then probe_SunPro ''__SUNPRO_C'' m p
      else if defined m ''__HP_cc'' then probe_HP ''__HP_cc'' m p
      else if defined m ''__DECC'' then probe_Compaq ''__DECC_VER'' m p
      else if defined m ''__IBMC__'' \<and> defined m ''__COMPILER_VER__''
        then probe_zOS ''__IBMC__'' m p
      else if defined m ''__ibmxl__'' \<and> defined m ''__clang__'' then probe_XLClang m p
      else if defined m ''__IBMC__'' \<and> \<not> defined m ''__COMPILER_VER__''
              \<and> pp m ''__IBMC__'' \<ge> 800 then probe_XL ''__IBMC__'' m p
      else if defined m ''__IBMC__'' \<and> \<not> defined m ''__COMPILER_VER__''
              \<and> pp m ''__IBMC__'' < 800 then probe_VisualAge ''__IBMC__'' m p
      else if defined m ''__NVCOMPILER'' then probe_NVHPC m p
      else if defined m ''__PGI'' then probe_PGI m p
      else if defined m ''_CRAYC'' then probe_Cray m p
      else if defined m ''__TI_COMPILER_VERSION__'' then probe_TI m p
      else if defined m ''__FUJITSU'' \<or> defined m ''__FCC_VERSION''
              \<or> defined m ''__fcc_version'' then probe_Fujitsu m p
      else if defined m ''__ghs__'' then probe_GHS m p
      else if defined m ''__TINYC__'' then probe_TinyCC m p
      else if defined m ''__BCC__'' then probe_Bruce m p
      else if defined m ''__SCO_VERSION__'' then probe_SCO m p
      else if defined m ''__ARMCC_VERSION'' \<and> \<not> defined m ''__clang__''
        then probe_ARMCC m p
      else if defined m ''__clang__'' \<and> defined m ''__apple_build_version__''
        then probe_AppleClang m p
      else if defined m ''__clang__'' \<and> defined m ''__ARMCOMPILER_VERSION''
        then probe_ARMClang m p
      else if defined m ''__clang__'' then probe_Clang m p
      else if defined m ''__GNUC__'' then probe_GNU m p
      else if defined m ''_MSC_VER'' then probe_MSVC m p
      else if defined m ''__VISUALDSPVERSION__'' \<or> defined m ''__ADSPBLACKFIN__''
              \<or> defined m ''__ADSPTS__'' \<or> defined m ''__ADSP21000__'' then probe_ADSP m p
      else if defined m ''__IAR_SYSTEMS_ICC__'' \<or> defined m ''__IAR_SYSTEMS_ICC''
        then probe_IAR m p
      else if defined m ''__SDCC_VERSION_MAJOR'' \<or> defined m ''SDCC'' then probe_SDCC m p
      else if defined m ''__hpux'' \<or> defined m ''__hpua'' then probe_hpux m p
      else probe_unknown m p)"

definition cxx_compiler :: "macros \<Rightarrow> probe \<Rightarrow> probe" where
  "cxx_compiler m p =
     (if defined m ''__COMO__'' then probe_Comeau m p
      else if defined m ''__INTEL_COMPILER'' \<or> defined m ''__ICC'' then probe_Intel m p
      else if (defined m ''__clang__'' \<and> defined m ''__INTEL_CLANG_COMPILER'')
              \<or> defined m ''__INTEL_LLVM_COMPILER'' then probe_IntelLLVM m p
      else if defined m ''__PATHCC__'' then probe_PathScale m p
      else if defined m ''__BORLANDC__'' \<and> defined m ''__CODEGEARC_VERSION__''
        then probe_Embarcadero m p
      else if defined m ''__BORLANDC__'' then probe_Borland m p
      else if defined m ''__WATCOMC__'' \<and> pp m ''__WATCOMC__'' < 1200 then probe_Watcom m p
      else if defined m ''__WATCOMC__'' then probe_OpenWatcom m p
      else if defined m ''__SUNPRO_CC'' then probe_SunPro ''__SUNPRO_CC'' m p
      else if defined m ''__HP_aCC'' then probe_HP ''__HP_aCC'' m p
      else if defined m ''__DECCXX'' then probe_Compaq ''__DECCXX_VER'' m p
      else if defined m ''__IBMCPP__'' \<and> defined m ''__COMPILER_VER__''
        then probe_zOS ''__IBMCPP__'' m p
      else if defined m ''__ibmxl__'' \<and> defined m ''__clang__'' then probe_XLClang m p
      else if defined m ''__IBMCPP__'' \<and> \<not> defined m ''__COMPILER_VER__''
              \<and> pp m ''__IBMCPP__'' \<ge> 800 then probe_XL ''__IBMCPP__'' m p
      else if defined m ''__IBMCPP__'' \<and> \<not> defined m ''__COMPILER_VER__''
              \<and> pp m ''__IBMCPP__'' < 800 then probe_VisualAge ''__IBMCPP__'' m p
      else if defined m ''__NVCOMPILER'' then probe_NVHPC m p
      else if defined m ''__PGI'' then probe_PGI m p
      else if defined m ''_CRAYC'' then probe_Cray m p
      else if defined m ''__TI_COMPILER_VERSION__'' then probe_TI m p
      else if defined m ''__FUJITSU'' \<or> defined m ''__FCC_VERSION''
              \<or> defined m ''__fcc_version'' then probe_Fujitsu m p
      else if defined m ''__ghs__'' then probe_GHS m p
      else if defined m ''__SCO_VERSION__'' then probe_SCO m p
      else if defined m ''__ARMCC_VERSION'' \<and> \<not> defined m ''__clang__''
        then probe_ARMCC m p
      else if defined m ''__clang__'' \<and> defined m ''__apple_build_version__''
        then probe_AppleClang m p
      else if defined m ''__clang__'' \<and> defined m ''__ARMCOMPILER_VERSION''
        then probe_ARMClang m p
      else if defined m ''__clang__'' then probe_Clang m p
      else if defined m ''__GNUC__'' \<or> defined m ''__GNUG__'' then probe_GNU_cxx m p
      else if defined m ''_MSC_VER'' then probe_MSVC m p
      else if defined m ''__VISUALDSPVERSION__'' \<or> defined m ''__ADSPBLACKFIN__''
              \<or> defined m ''__ADSPTS__'' \<or> defined m ''__ADSP21000__'' then probe_ADSP m p
      else if defined m ''__IAR_SYSTEMS_ICC__'' \<or> defined m ''__IAR_SYSTEMS_ICC''
        then probe_IAR m p
      else if defined m ''__hpux'' \<or> defined m ''__hpua'' then probe_hpux m p
      else probe_unknown m p)"

text \<open>An empty \<open>#define\<close> contributes no literal to the concatenation, as the empty string does.\<close>

definition platform_id :: "macros \<Rightarrow> string" where
  "platform_id m =
     (if defined m ''__linux'' \<or> defined m ''__linux__'' \<or> defined m ''linux''
      then ''Linux''
      else if defined m ''__CYGWIN__''
      then ''Cygwin''
      else if defined m ''__MINGW32__''
      then ''MinGW''
      else if defined m ''__APPLE__''
      then ''Darwin''
      else if defined m ''_WIN32'' \<or> defined m ''__WIN32__'' \<or> defined m ''WIN32''
      then ''Windows''
      else if defined m ''__FreeBSD__'' \<or> defined m ''__FreeBSD''
      then ''FreeBSD''
      else if defined m ''__NetBSD__'' \<or> defined m ''__NetBSD''
      then ''NetBSD''
      else if defined m ''__OpenBSD__'' \<or> defined m ''__OPENBSD''
      then ''OpenBSD''
      else if defined m ''__sun'' \<or> defined m ''sun''
      then ''SunOS''
      else if defined m ''_AIX'' \<or> defined m ''__AIX'' \<or> defined m ''__AIX__''
              \<or> defined m ''__aix'' \<or> defined m ''__aix__''
      then ''AIX''
      else if defined m ''__hpux'' \<or> defined m ''__hpux__''
      then ''HP-UX''
      else if defined m ''__HAIKU__''
      then ''Haiku''
      else if defined m ''__BeOS'' \<or> defined m ''__BEOS__'' \<or> defined m ''_BEOS''
      then ''BeOS''
      else if defined m ''__QNX__'' \<or> defined m ''__QNXNTO__''
      then ''QNX''
      else if defined m ''__tru64'' \<or> defined m ''_tru64'' \<or> defined m ''__TRU64__''
      then ''Tru64''
      else if defined m ''__riscos'' \<or> defined m ''__riscos__''
      then ''RISCos''
      else if defined m ''__sinix'' \<or> defined m ''__sinix__'' \<or> defined m ''__SINIX__''
      then ''SINIX''
      else if defined m ''__UNIX_SV__''
      then ''UNIX_SV''
      else if defined m ''__bsdos__''
      then ''BSDOS''
      else if defined m ''_MPRAS'' \<or> defined m ''MPRAS''
      then ''MP-RAS''
      else if defined m ''__osf'' \<or> defined m ''__osf__''
      then ''OSF1''
      else if defined m ''_SCO_SV'' \<or> defined m ''SCO_SV'' \<or> defined m ''sco_sv''
      then ''SCO_SV''
      else if defined m ''__ultrix'' \<or> defined m ''__ultrix__'' \<or> defined m ''_ULTRIX''
      then ''ULTRIX''
      else if defined m ''__XENIX__'' \<or> defined m ''_XENIX'' \<or> defined m ''XENIX''
      then ''Xenix''
      else if defined m ''__WATCOMC__''
      then (if defined m ''__LINUX__''
            then ''Linux''
            else if defined m ''__DOS__''
            then ''DOS''
            else if defined m ''__OS2__''
            then ''OS2''
            else if defined m ''__WINDOWS__''
            then ''Windows3x''
            else if defined m ''__VXWORKS__''
            then ''VxWorks''
            else '''')
      else if defined m ''__INTEGRITY''
      then (if defined m ''INT_178B''
            then ''Integrity178''
            else ''Integrity'')
      else '''')"

definition architecture_id :: "macros \<Rightarrow> string" where
  "architecture_id m =
     (if defined m ''_WIN32'' \<and> defined m ''_MSC_VER''
      then (if defined m ''_M_IA64''
            then ''IA64''
            else if defined m ''_M_ARM64EC''
            then ''ARM64EC''
            else if defined m ''_M_X64'' \<or> defined m ''_M_AMD64''
            then ''x64''
            else if defined m ''_M_IX86''
            then ''X86''
            else if defined m ''_M_ARM64''
            then ''ARM64''
            else if defined m ''_M_ARM''
            then (if pp m ''_M_ARM'' = 4
                  then ''ARMV4I''
                  else if pp m ''_M_ARM'' = 5
                  then ''ARMV5I''
                  else ''ARMV'' @ sprintf_d (pp m ''_M_ARM''))
            else if defined m ''_M_MIPS''
            then ''MIPS''
            else if defined m ''_M_SH''
            then ''SHx''
            else '''')
      else if defined m ''__WATCOMC__''
      then (if defined m ''_M_I86''
            then ''I86''
            else if defined m ''_M_IX86''
            then ''X86''
            else '''')
      else if defined m ''__IAR_SYSTEMS_ICC__'' \<or> defined m ''__IAR_SYSTEMS_ICC''
      then (if defined m ''__ICCARM__''
            then ''ARM''
            else if defined m ''__ICCRX__''
            then ''RX''
            else if defined m ''__ICCRH850__''
            then ''RH850''
            else if defined m ''__ICCRL78__''
            then ''RL78''
            else if defined m ''__ICCRISCV__''
            then ''RISCV''
            else if defined m ''__ICCAVR__''
            then ''AVR''
            else if defined m ''__ICC430__''
            then ''MSP430''
            else if defined m ''__ICCV850__''
            then ''V850''
            else if defined m ''__ICC8051__''
            then ''8051''
            else if defined m ''__ICCSTM8__''
            then ''STM8''
            else '''')
      else if defined m ''__ghs__''
      then (if defined m ''__PPC64__''
            then ''PPC64''
            else if defined m ''__ppc__''
            then ''PPC''
            else if defined m ''__ARM__''
            then ''ARM''
            else if defined m ''__x86_64__''
            then ''x64''
            else if defined m ''__i386__''
            then ''X86''
            else '''')
      else if defined m ''__TI_COMPILER_VERSION__''
      then (if defined m ''__TI_ARM__''
            then ''ARM''
            else if defined m ''__MSP430__''
            then ''MSP430''
            else if defined m ''__TMS320C28XX__''
            then ''TMS320C28x''
            else if defined m ''__TMS320C6X__'' \<or> defined m ''_TMS320C6X''
            then ''TMS320C6x''
            else '''')
      else '''')"

definition C_DIALECT :: "macros \<Rightarrow> string" where
  "C_DIALECT m =
     (if \<not> defined m ''__STDC__''
      then (if (defined m ''_MSC_VER'' \<and> \<not> defined m ''__clang__'')
               \<or> defined m ''__ibmxl__'' \<or> defined m ''__IBMC__''
            then ''90''
            else '''')
      else if pp m ''__STDC_VERSION__'' \<ge> 201000
      then ''11''
      else if pp m ''__STDC_VERSION__'' \<ge> 199901
      then ''99''
      else ''90'')"

definition CXX_STD :: "macros \<Rightarrow> int" where
  "CXX_STD m =
     (if defined m ''__INTEL_COMPILER'' \<and> defined m ''_MSVC_LANG''
         \<and> pp m ''_MSVC_LANG'' < 201403
      then (if defined m ''__INTEL_CXX11_MODE__''
            then (if defined m ''__cpp_aggregate_nsdmi''
                  then 201402
                  else 201103)
            else 199711)
      else if defined m ''_MSC_VER'' \<and> defined m ''_MSVC_LANG''
      then pp m ''_MSVC_LANG''
      else pp m ''__cplusplus'')"

definition cxx_dialect :: "macros \<Rightarrow> string" where
  "cxx_dialect m =
     (if CXX_STD m > 202002 then ''23''
      else if CXX_STD m > 201703 then ''20''
      else if CXX_STD m \<ge> 201703 then ''17''
      else if CXX_STD m \<ge> 201402 then ''14''
      else if CXX_STD m \<ge> 201103 then ''11''
      else ''98'')"

section \<open>The object file\<close>

text \<open>The arrays with their terminators; an array that is compiled conditionally may be missing.\<close>

record image =
  info_compiler :: string
  info_simulate :: "string option"
  qnxnto :: "string option"
  info_cray :: "string option"
  info_version :: "string option"
  info_version_internal :: "string option"
  info_simulate_version :: "string option"
  info_platform :: string
  info_arch :: string
  info_language_dialect_default :: string

datatype probe_error = ErrorDirective string | Undeclared string | ReadPastEnd

definition info :: "string \<Rightarrow> string \<Rightarrow> string" where
  "info key body = ''INFO:'' @ key @ ''['' @ body @ '']'' @ [NUL]"

text \<open>The parts of a version as far as they are defined without a gap, separated by dots.\<close>

fun version_tail :: "version_part list \<Rightarrow> string + string" where
  "version_tail (Some (Inr d) # ps) =
     (case version_tail ps of Inl n \<Rightarrow> Inl n | Inr t \<Rightarrow> Inr (''.'' @ d @ t))"
| "version_tail (Some (Inl n) # ps) = Inl n"
| "version_tail ps = Inr ''''"

definition version_array :: "string \<Rightarrow> version_part list \<Rightarrow> probe_error + string option" where
  "version_array key ps =
     (case ps of
        Some (Inr d) # ps' \<Rightarrow>
          (case version_tail ps' of
             Inl n \<Rightarrow> Inl (Undeclared n) | Inr t \<Rightarrow> Inr (Some (info key (d @ t))))
      | Some (Inl n) # _ \<Rightarrow> Inl (Undeclared n)
      | _ \<Rightarrow> Inr None)"

definition probe_image :: "macros \<Rightarrow> probe \<Rightarrow> string \<Rightarrow> probe_error + image" where
  "probe_image m p dialect =
     (case version_array ''compiler_version'' [COMPILER_VERSION_MAJOR p, COMPILER_VERSION_MINOR p,
             COMPILER_VERSION_PATCH p, COMPILER_VERSION_TWEAK p] of
        Inl e \<Rightarrow> Inl e
      | Inr version \<Rightarrow>
     (case version_array ''compiler_version_internal'' [COMPILER_VERSION_INTERNAL p] of
        Inl e \<Rightarrow> Inl e
      | Inr internal \<Rightarrow>
     (case version_array ''simulate_version'' [SIMULATE_VERSION_MAJOR p, SIMULATE_VERSION_MINOR p,
             SIMULATE_VERSION_PATCH p, SIMULATE_VERSION_TWEAK p] of
        Inl e \<Rightarrow> Inl e
      | Inr simulated \<Rightarrow>
          Inr \<lparr>info_compiler = info ''compiler'' (COMPILER_ID p),
            info_simulate = map_option (info ''simulate'') (SIMULATE_ID p),
            qnxnto = (if defined m ''__QNXNTO__'' then Some (info ''qnxnto'' '''') else None),
            info_cray = (if defined m ''__CRAYXT_COMPUTE_LINUX_TARGET''
              then Some (info ''compiler_wrapper'' ''CrayPrgEnv'') else None),
            info_version = version, info_version_internal = internal,
            info_simulate_version = simulated,
            info_platform = info ''platform'' (platform_id m),
            info_arch = info ''arch'' (architecture_id m),
            info_language_dialect_default = info ''dialect_default'' dialect\<rparr>)))"

definition c_image :: "macros \<Rightarrow> probe_error + image" where
  "c_image m =
     (if defined m ''__cplusplus'' then Inl (ErrorDirective ''A C++ compiler has been selected for C.'')
      else probe_image m (c_compiler m nothing_defined) (C_DIALECT m))"

definition cxx_image :: "macros \<Rightarrow> probe_error + image" where
  "cxx_image m =
     (if \<not> defined m ''__cplusplus''
      then Inl (ErrorDirective ''A C compiler has been selected for C++.'')
      else probe_image m (cxx_compiler m nothing_defined) (cxx_dialect m))"

section \<open>The functions main\<close>

fun require :: "nat \<Rightarrow> string list \<Rightarrow> probe_error + int" where
  "require argc [] = Inr 0"
| "require argc (a # as) =
     (if argc < length a
      then case require argc as of Inl e \<Rightarrow> Inl e | Inr r \<Rightarrow> Inr (of_char (a ! argc) + r)
      else Inl ReadPastEnd)"

definition present :: "string option \<Rightarrow> string list" where
  "present a = (case a of None \<Rightarrow> [] | Some s \<Rightarrow> [s])"

text \<open>\<open>void main\<close> of the old C++ dialect returns no value.\<close>

definition c_main :: "macros \<Rightarrow> image \<Rightarrow> nat \<Rightarrow> probe_error + int option" where
  "c_main m im argc =
     (if defined m ''__18CXX'' then Inr None
      else map_sum id Some (require argc ([info_compiler im, info_platform im, info_arch im]
        @ present (info_version im) @ present (info_version_internal im)
        @ present (info_simulate im) @ present (info_simulate_version im)
        @ present (info_cray im) @ [info_language_dialect_default im])))"

definition cxx_main :: "image \<Rightarrow> nat \<Rightarrow> probe_error + int" where
  "cxx_main im argc =
     require argc ([info_compiler im, info_platform im]
       @ present (info_version im) @ present (info_version_internal im)
       @ present (info_simulate im) @ present (info_simulate_version im)
       @ present (info_cray im) @ [info_language_dialect_default im])"

section \<open>Digits\<close>

lemma plus_char_digit: "0 \<le> i \<Longrightarrow> plus_char (CHR ''0'') i = digit_char (nat i)"
proof -
  assume "0 \<le> i"
  then have "48 + i = int (48 + nat i)" by simp
  then show ?thesis by (simp add: plus_char_def digit_char_def del: of_nat_add)
qed

lemma DEC_digits:
  assumes "0 \<le> n"
  shows "DEC n = map (\<lambda>k. digit_char (nat ((n div k) mod 10)))
    [10000000, 1000000, 100000, 10000, 1000, 100, 10, 1]"
  using assms by (simp add: DEC_def sdiv_smod_nonneg plus_char_digit pos_imp_zdiv_nonneg_iff)

lemma digit_step:
  assumes "0 < b"
  shows "10 * (n div (10 * b)) + (n div b) mod 10 = (n div b :: int)"
proof -
  have "n div (10 * b) = n div b div 10" using assms by (simp add: zdiv_zmult2_eq mult.commute)
  then show ?thesis by simp
qed

text \<open>What a reader of decimal numbers makes of the eight characters.\<close>

lemma digits_val_DEC:
  assumes "0 \<le> n" and "n < 10 ^ 8"
  shows "digits_val 0 (DEC n @ rest) = digits_val n rest"
proof -
  have top: "(n div 10000000) mod 10 = n div 10000000" using assms by simp
  note s = digit_step [of 1000000 n] digit_step [of 100000 n] digit_step [of 10000 n]
    digit_step [of 1000 n] digit_step [of 100 n] digit_step [of 10 n] digit_step [of 1 n]
  have "digits_val 0 (DEC n @ rest) = digits_val (10 * (10 * (10 * (10 * (10 * (10 * (10 *
      ((n div 10000000) mod 10) + (n div 1000000) mod 10) + (n div 100000) mod 10)
      + (n div 10000) mod 10) + (n div 1000) mod 10) + (n div 100) mod 10) + (n div 10) mod 10)
      + n mod 10) rest"
    using assms(1) by (simp add: DEC_digits nat_less_iff)
  also have "\<dots> = digits_val n rest"
    unfolding top using s by simp
  finally show ?thesis .
qed

lemma atoi_DEC:
  assumes "0 \<le> n" and "n < 10 ^ 8" and "\<not> is_digit c"
  shows "atoi (DEC n @ c # rest) = n"
proof -
  obtain d cs where "DEC n = digit_char d # cs" "d < 10"
    using assms(1) by (simp add: DEC_digits nat_less_iff)
  then have "atoi (DEC n @ c # rest) = digits_val 0 (DEC n @ c # rest)"
    by (simp add: atoi_digit_first)
  with assms show ?thesis by (simp add: digits_val_DEC)
qed

lemma length_DEC [simp]: "length (DEC n) = 8"
  by (simp add: DEC_def)

section \<open>The GNU compiler\<close>

definition other_compilers :: "string list" where
  "other_compilers =
     [''__INTEL_COMPILER'', ''__ICC'', ''__clang__'', ''__INTEL_LLVM_COMPILER'', ''__PATHCC__'',
      ''__BORLANDC__'', ''__WATCOMC__'', ''__SUNPRO_C'', ''__HP_cc'', ''__DECC'', ''__IBMC__'',
      ''__NVCOMPILER'', ''__PGI'', ''_CRAYC'', ''__TI_COMPILER_VERSION__'', ''__FUJITSU'',
      ''__FCC_VERSION'', ''__fcc_version'', ''__ghs__'', ''__TINYC__'', ''__BCC__'',
      ''__SCO_VERSION__'', ''__ARMCC_VERSION'']"

lemma c_compiler_GNU:
  assumes "list_all (\<lambda>n. \<not> defined m n) other_compilers" and "defined m ''__GNUC__''"
  shows "c_compiler m p = probe_GNU m p"
  using assms by (simp add: other_compilers_def c_compiler_def)

text \<open>What is tested in one file and not in the other.\<close>

definition language_specific :: "string list" where
  "language_specific =
     [''__COMO__'', ''__SUNPRO_C'', ''__SUNPRO_CC'', ''__HP_cc'', ''__HP_aCC'', ''__DECC'',
      ''__DECCXX'', ''__IBMC__'', ''__IBMCPP__'', ''__TINYC__'', ''__BCC__'',
      ''__SDCC_VERSION_MAJOR'', ''SDCC'']"

lemma probe_GNU_same: "defined m ''__GNUC__'' \<Longrightarrow> probe_GNU_cxx m p = probe_GNU m p"
  by (simp add: probe_GNU_def probe_GNU_cxx_def)

section \<open>Arrays\<close>

lemma length_info: "length (info key body) = 8 + length key + length body"
  by (simp add: info_def)

lemma length_version_array:
  "version_array key ps = Inr (Some a) \<Longrightarrow> 8 + length key \<le> length a"
  by (auto simp: version_array_def length_info split: list.splits option.splits sum.splits)

lemma require_inside: "\<forall>a \<in> set as. argc < length a \<Longrightarrow> \<exists>r. require argc as = Inr r"
  by (induction as) auto

lemma require_outside: "a \<in> set as \<Longrightarrow> length a \<le> argc \<Longrightarrow> require argc as = Inl ReadPastEnd"
  by (induction as) (auto split: sum.split)

lemma set_present: "set (present x) = set_option x"
  by (cases x) (simp_all add: present_def)

lemma image_arrays:
  assumes "probe_image m p dialect = Inr im"
  shows "info_compiler im = info ''compiler'' (COMPILER_ID p)"
    and "info_platform im = info ''platform'' (platform_id m)"
    and "info_arch im = info ''arch'' (architecture_id m)"
    and "info_language_dialect_default im = info ''dialect_default'' dialect"
    and "\<forall>a \<in> set (present (info_version im) @ present (info_version_internal im)
      @ present (info_simulate im) @ present (info_simulate_version im)
      @ present (info_cray im)). 12 \<le> length a"
  using assms
  by (auto simp: probe_image_def set_present length_info split: sum.splits if_splits
      dest!: length_version_array)

section \<open>Properties\<close>

text \<open>
  C37: the probe recognises the firmware's compiler.  For every version of gcc that predefines its three
  version macros, and none of the macros of the compilers that are asked for before it, the C probe
  compiles, names GNU, and its version array reads back as the three numbers.
\<close>

theorem gcc_identified:
  assumes "list_all (\<lambda>n. \<not> defined m n) (''__cplusplus'' # other_compilers)"
    and "m ''__GNUC__'' = Some major" and "m ''__GNUC_MINOR__'' = Some minor"
    and "m ''__GNUC_PATCHLEVEL__'' = Some patch"
    and "{major, minor, patch} \<subseteq> {0..<10 ^ 8}"
  shows "\<exists>im a. c_image m = Inr im \<and> info_compiler im = ''INFO:compiler[GNU]'' @ [NUL]
    \<and> info_simulate im = None \<and> info_version im = Some (''INFO:compiler_version['' @ a)
    \<and> atoi a = major \<and> atoi (drop 9 a) = minor \<and> atoi (drop 18 a) = patch"
proof -
  define a where "a = DEC major @ ''.'' @ DEC minor @ ''.'' @ DEC patch @ '']'' @ [NUL]"
  have "c_compiler m nothing_defined = probe_GNU m nothing_defined"
    using assms(1,2) by (intro c_compiler_GNU) (simp_all add: defined_def)
  then have "\<exists>im. c_image m = Inr im \<and> info_compiler im = ''INFO:compiler[GNU]'' @ [NUL]
      \<and> info_simulate im = None \<and> info_version im = Some (''INFO:compiler_version['' @ a)"
    using assms(1-4)
    by (simp add: c_image_def probe_image_def probe_GNU_def defined_def DEC_of_def
        nothing_defined_def version_array_def info_def a_def)
  moreover have "atoi a = major" "atoi (drop 9 a) = minor" "atoi (drop 18 a) = patch"
    using assms(5) atoi_DEC [of major "CHR ''.''"] atoi_DEC [of minor "CHR ''.''"]
      atoi_DEC [of patch "CHR '']''"]
    by (simp_all add: a_def is_digit_def)
  ultimately show ?thesis by blast
qed

text \<open>
  The toolchain the repository was built with; build/CMakeFiles/3.20.3/CMakeCCompiler.cmake records what
  CMake read: GNU, 8.4.0, no platform and the dialect 11.
\<close>

definition xtensa_gcc :: macros where
  "xtensa_gcc = map_of [(''__GNUC__'', 8), (''__GNUC_MINOR__'', 4), (''__GNUC_PATCHLEVEL__'', 0),
     (''__STDC__'', 1), (''__STDC_VERSION__'', 201710)]"

theorem gcc_identified_witness:
  "\<exists>im a. c_image xtensa_gcc = Inr im \<and> info_compiler im = ''INFO:compiler[GNU]'' @ [NUL]
    \<and> info_version im = Some (''INFO:compiler_version['' @ a)
    \<and> atoi a = 8 \<and> atoi (drop 9 a) = 4 \<and> atoi (drop 18 a) = 0
    \<and> platform_id xtensa_gcc = '''' \<and> C_DIALECT xtensa_gcc = ''11''"
proof -
  have "list_all (\<lambda>n. \<not> defined xtensa_gcc n) (''__cplusplus'' # other_compilers)"
    by (simp add: other_compilers_def defined_def xtensa_gcc_def)
  from gcc_identified [OF this, of 8 4 0]
  have "\<exists>im a. c_image xtensa_gcc = Inr im \<and> info_compiler im = ''INFO:compiler[GNU]'' @ [NUL]
      \<and> info_version im = Some (''INFO:compiler_version['' @ a)
      \<and> atoi a = 8 \<and> atoi (drop 9 a) = 4 \<and> atoi (drop 18 a) = 0"
    by (auto simp: xtensa_gcc_def)
  moreover have "platform_id xtensa_gcc = ''''" and "C_DIALECT xtensa_gcc = ''11''"
    by (simp_all add: platform_id_def C_DIALECT_def defined_def pp_def xtensa_gcc_def)
  ultimately show ?thesis by blast
qed

text \<open>
  C38: the C and the C++ probe agree.  With predefined macros that are not specific to one of the two
  languages, both chains take the same branch and define the same, although the files differ in
  the compilers they ask for.
\<close>

theorem probes_agree:
  assumes "list_all (\<lambda>n. \<not> defined m n) language_specific"
    and "defined m ''__GNUG__'' \<longrightarrow> defined m ''__GNUC__''"
  shows "cxx_compiler m p = c_compiler m p"
  using assms
  by (cases "defined m ''__GNUC__''")
    (simp_all add: language_specific_def cxx_compiler_def c_compiler_def probe_GNU_same
      split del: if_split cong del: if_weak_cong)

theorem probes_agree_witness:
  "cxx_compiler xtensa_gcc nothing_defined = c_compiler xtensa_gcc nothing_defined"
  by (rule probes_agree) (simp_all add: language_specific_def defined_def xtensa_gcc_def)

text \<open>
  Run with up to eleven arguments counted by \<open>argc\<close>, \<open>main\<close> of the C probe stays inside its arrays,
  whatever the compiler; where the architecture is unknown, as on the firmware's, the twelfth is
  read past the end of \<open>info_arch\<close>.
\<close>

lemma probe_main_bounds:
  assumes "c_image m = Inr im"
  shows "(argc \<le> 11 \<longrightarrow> (\<exists>r. c_main m im argc = Inr r))
    \<and> (12 \<le> argc \<and> architecture_id m = '''' \<and> \<not> defined m ''__18CXX'' \<longrightarrow>
         c_main m im argc = Inl ReadPastEnd)"
proof -
  define as where "as = [info_compiler im, info_platform im, info_arch im]
    @ present (info_version im) @ present (info_version_internal im)
    @ present (info_simulate im) @ present (info_simulate_version im)
    @ present (info_cray im) @ [info_language_dialect_default im]"
  have "probe_image m (c_compiler m nothing_defined) (C_DIALECT m) = Inr im"
    using assms by (auto simp: c_image_def split: if_splits)
  note im = image_arrays [OF this]
  have "\<forall>a \<in> set as. 12 \<le> length a"
    using im(5) by (auto simp: as_def im(1-4) length_info)
  then have "argc \<le> 11 \<longrightarrow> (\<exists>r. require argc as = Inr r)"
    by (intro impI require_inside) force
  moreover have "12 \<le> argc \<and> architecture_id m = '''' \<longrightarrow> require argc as = Inl ReadPastEnd"
    by (intro impI require_outside [of "info_arch im"]) (auto simp: as_def im(3) length_info)
  moreover have "c_main m im argc
      = (if defined m ''__18CXX'' then Inr None else map_sum id Some (require argc as))"
    unfolding c_main_def as_def ..
  ultimately show ?thesis by auto
qed

lemma probe_main_bounds_witness:
  "\<exists>im. c_image xtensa_gcc = Inr im \<and> (\<exists>r. c_main xtensa_gcc im 1 = Inr r)
     \<and> c_main xtensa_gcc im 12 = Inl ReadPastEnd"
proof -
  have "\<exists>im. c_image xtensa_gcc = Inr im"
    by (simp add: c_image_def probe_image_def c_compiler_def probe_GNU_def defined_def DEC_of_def
        nothing_defined_def version_array_def xtensa_gcc_def)
  then obtain im where im: "c_image xtensa_gcc = Inr im" by blast
  have "architecture_id xtensa_gcc = ''''" "\<not> defined xtensa_gcc ''__18CXX''"
    by (simp_all add: architecture_id_def defined_def xtensa_gcc_def)
  with im probe_main_bounds [OF im, of 1] probe_main_bounds [OF im, of 12] show ?thesis by auto
qed

end
