(* ===== verification/DriverLog.thy ===== *)
theory DriverLog
  imports AppMain
begin

text \<open>
  The driver calls of the whole firmware, in their order: start-up (main.c), then any turns of the
  control task (webserver.c) and any Wi-Fi events (main.c) in any order.  The drivers ask something of
  their caller: a level is written on a pin that was made an output, and is 0 or 1; a servo unit is routed
  to a pin before it is initialised, and initialised before it is given a pulse, which lies within the
  servo's travel; a pin belongs to one peripheral.  The predicate \<open>legal\<close> states this of one call and the
  calls before it, and the theory shows that every call the firmware ever makes is legal.
\<close>

section \<open>Definitions\<close>

fun routed :: "call list \<Rightarrow> mcpwm_unit_t \<Rightarrow> bool" where
  "routed [] v \<longleftrightarrow> False"
| "routed (Mcpwm_gpio_init u g p # cs) v \<longleftrightarrow> u = v \<or> routed cs v"
| "routed (c # cs) v \<longleftrightarrow> routed cs v"

fun servo_pins :: "call list \<Rightarrow> nat list" where
  "servo_pins [] = []"
| "servo_pins (Mcpwm_gpio_init u g p # cs) = p # servo_pins cs"
| "servo_pins (c # cs) = servo_pins cs"

fun initialised :: "call list \<Rightarrow> mcpwm_unit_t \<Rightarrow> bool" where
  "initialised [] v \<longleftrightarrow> False"
| "initialised (Mcpwm_init u t conf # cs) v \<longleftrightarrow> u = v \<or> initialised cs v"
| "initialised (c # cs) v \<longleftrightarrow> initialised cs v"

text \<open>What a driver asks of a call, given the calls before it (newest first).\<close>

fun legal :: "call \<Rightarrow> call list \<Rightarrow> bool" where
  "legal (Gpio_config conf) older \<longleftrightarrow>
     list_all (\<lambda>q. \<not> bit (pin_bit_mask conf) q) (servo_pins older)"
| "legal (Gpio_set_level p l) older \<longleftrightarrow> 
     is_output older p \<and> p \<notin> set (servo_pins older) \<and> (l = 0 \<or> l = 1)"
| "legal (Mcpwm_gpio_init u g p) older \<longleftrightarrow> \<not> is_output older p \<and> p \<notin> set (servo_pins older)"
| "legal (Mcpwm_init u t conf) older \<longleftrightarrow> routed older u"
| "legal (Mcpwm_set_duty_in_us u t g d) older \<longleftrightarrow>
     initialised older u \<and> SERVO_MIN_PULSEWIDTH \<le> d \<and> d \<le> SERVO_MAX_PULSEWIDTH"
| "legal (Task_delay n) older \<longleftrightarrow> True"
| "legal (Os_call c) older \<longleftrightarrow> True"

fun legal_log :: "call list \<Rightarrow> bool" where
  "legal_log [] \<longleftrightarrow> True"
| "legal_log (c # older) \<longleftrightarrow> legal c older \<and> legal_log older"

text \<open>
  What happens once \<open>app_main\<close> has returned: a turn of the control task, with what its receive gave,
  or an event of the Wi-Fi driver.
\<close>

datatype fw_event = Turn "string \<times> URL_Data option" | Wifi system_event_id

fun fw_step :: "fw_event \<Rightarrow> ctl \<Rightarrow> ctl" where
  "fw_step (Turn ev) s = web_recdata_turn ev s"
| "fw_step (Wifi e) s = snd (event_handler e s)"

definition firmware ::
  "(os_call \<Rightarrow> bool) \<Rightarrow> bool \<Rightarrow> fw_event list \<Rightarrow> fault + ctl" where
  "firmware succeeds queue_created es =
     map_sum id (fold fw_step es) (app_main succeeds queue_created ctl_init)"

text \<open>The turns of the control task among the events.\<close>

fun turns :: "fw_event list \<Rightarrow> (string \<times> URL_Data option) list" where
  "turns [] = []"
| "turns (Turn ev # es) = ev # turns es"
| "turns (Wifi e # es) = turns es"

fun wifi_events :: "fw_event list \<Rightarrow> system_event_id list" where
  "wifi_events [] = []"
| "wifi_events (Turn ev # es) = wifi_events es"
| "wifi_events (Wifi e # es) = e # wifi_events es"

text \<open>The robot after start-up: the recorded angles are the middle, and no motor was commanded.\<close>

definition boot_robot :: robot where
  "boot_robot = \<lparr>yaw = 135, pitch = 135, gun = (Undriven, Undriven), wheels = (\<lambda>w. Undriven)\<rparr>"

text \<open>The peripherals are set up as the operations need them, and every call so far was legal.\<close>

definition ready :: "call list \<Rightarrow> bool" where
  "ready cs \<longleftrightarrow> legal_log cs \<and> (\<forall>q \<in> motor_pins. is_output cs q)
     \<and> servo_pins cs = [GPIO_GIMBAL_PITCH, GPIO_GIMBAL_YAW] \<and> (\<forall>u. initialised cs u)"

section \<open>The calls the control task makes\<close>

text \<open>
  The control task makes three kinds of calls: a level of 0 or 1 on a motor pin, a pulse within the
  travel, a delay.  What these keep of the log, every turn keeps.
\<close>

lemma pulse_in_travel:
  "SERVO_MIN_PULSEWIDTH \<le> servo_per_degree_init (clamped a)"
  "servo_per_degree_init (clamped a) \<le> SERVO_MAX_PULSEWIDTH"
  using servo_per_degree_unat [of "clamped a"] pulse_of_degree_bounds [of "min 270 (unat a)"]
  by (simp_all add: unat_clamped word_le_nat_alt servo_consts)

locale control_log =
  fixes inv :: "call list \<Rightarrow> bool"
  assumes level: "inv cs \<Longrightarrow> p \<in> motor_pins \<Longrightarrow> l = 0 \<or> l = 1 \<Longrightarrow> inv (Gpio_set_level p l # cs)"
    and pulse: "inv cs \<Longrightarrow> SERVO_MIN_PULSEWIDTH \<le> d \<Longrightarrow> d \<le> SERVO_MAX_PULSEWIDTH \<Longrightarrow>
      inv (Mcpwm_set_duty_in_us u MCPWM_TIMER_0 MCPWM_OPR_A d # cs)"
    and delay: "inv cs \<Longrightarrow> inv (Task_delay n # cs)"
begin

lemma writes_inv:
  assumes "inv cs" and "list_all (\<lambda>(p, l). p \<in> motor_pins \<and> (l = 0 \<or> l = 1)) ws"
  shows "inv (map (\<lambda>(p, l). Gpio_set_level p l) ws @ cs)"
  using assms by (induction ws) (auto intro: level)

lemma set_levels_inv:
  "inv (calls s) \<Longrightarrow> list_all (\<lambda>(p, l). p \<in> motor_pins \<and> (l = 0 \<or> l = 1)) ws \<Longrightarrow>
   inv (calls (set_levels ws s))"
  by (simp add: calls_set_levels rev_map writes_inv)

lemma chassis_inv:
  assumes "inv (calls s)"
  shows "inv (calls (chassis_op mo s))"
proof -
  obtain ws where "chassis_op mo s = set_levels ws s" and "chassis_table mo ws"
    using chassis_op_writes by blast
  with assms show ?thesis
    by (auto simp: chassis_table_def list_all_iff motor_pins_def intro!: set_levels_inv)
qed

lemma fire_inv: "inv (calls s) \<Longrightarrow> inv (calls (fire_op c s))"
  by (cases c)
    (auto simp: Fire_friction_wheel_def Stop_Fire_friction_def Fire_Pluck_Run_def
      Stop_Fire_Pluck_def FireFlagState_def pin_names motor_pins_def intro!: set_levels_inv)

lemma servo_inv:
  assumes "inv (calls s)"
  shows "inv (calls (snd (servo_set_angle_To a i s)))"
  using assms pulse_in_travel [of a]
  by (auto simp: servo_set_angle_To_def Let_def clamped_def servo_consts vTaskDelay_def
      split: if_splits intro!: delay pulse)

lemma move_inv:
  "inv (calls s) \<Longrightarrow> inv (calls (move_pitch d s))" "inv (calls s) \<Longrightarrow> inv (calls (move_yaw d s))"
  by (simp_all add: move_pitch_def move_yaw_def Let_def servo_inv)

lemma rocker_inv: "inv (calls s) \<Longrightarrow> inv (calls (rocker_branch v s))"
  unfolding rocker_branch_def Let_def chassis_op.simps [symmetric]
  by (simp add: chassis_inv del: chassis_op.simps)

lemma parse_and_act_inv: "inv (calls s) \<Longrightarrow> inv (calls (parse_and_act beyond d s))"
  using chassis_inv [of s Stop] fire_inv [of s FrictionRun] fire_inv [of s FrictionStop]
    fire_inv [of s PluckRun] fire_inv [of s PluckStop]
  by (simp add: parse_and_act_def Let_def gimbal_branch_def rocker_inv move_inv)

end

sublocale control_log \<subseteq> control: event_machine web_recdata_turn "\<lambda>s. inv (calls s)"
proof unfold_locales
  fix s :: ctl and ev assume "inv (calls s)"
  then show "inv (calls (web_recdata_turn ev s))"
    by (cases ev) (auto simp: web_recdata_turn_def Let_def vTaskDelay_def split: option.split
        intro!: delay parse_and_act_inv)
qed

interpretation log_ready: control_log ready
  by unfold_locales
    (auto simp: ready_def motor_pins_def GPIO_GIMBAL_YAW_def GPIO_GIMBAL_PITCH_def)

interpretation log_connected: control_log "\<lambda>cs. connected cs = b" for b
  by unfold_locales simp_all

section \<open>Wi-Fi events\<close>

lemma ready_os: "ready cs \<Longrightarrow> ready (Os_call c # cs)"
  by (simp add: ready_def)

lemma robot_of_os: "robot_of (emit (Os_call c) s) = robot_of s"
  by (simp add: robot_of_def emit_def launcher_def motor_drive_def wheel_drive_def fun_eq_iff)

lemma event_keeps:
  "ready (calls s) \<Longrightarrow> ready (calls (snd (event_handler e s)))"
  "robot_of (snd (event_handler e s)) = robot_of s"
  "rec_Data (snd (event_handler e s)) = rec_Data s"
  by (cases e; simp add: event_handler_def ready_os robot_of_os; simp add: emit_def)+

interpretation firmware_run: event_machine fw_step "\<lambda>s. ready (calls s)"
proof unfold_locales
  fix s :: ctl and e assume "ready (calls s)"
  then show "ready (calls (fw_step e s))"
    by (cases e) (simp_all add: log_ready.control.handle_inv event_keeps)
qed

section \<open>Start-up makes them ready\<close>

lemma start_masks:
  "bit (pin_bit_mask motorA_conf) q \<longleftrightarrow> q \<in> {16, 17}"
  "bit (pin_bit_mask motorB_conf) q \<longleftrightarrow> q \<in> {32, 33}"
  "bit (pin_bit_mask motorC_conf) q \<longleftrightarrow> q \<in> {13, 15}"
  "bit (pin_bit_mask motorD_conf) q \<longleftrightarrow> q \<in> {0, 2}"
  "bit (pin_bit_mask Fire_A_config) q \<longleftrightarrow> q \<in> {18, 5}"
  "bit (pin_bit_mask Fire_B_config) q \<longleftrightarrow> q \<in> {26, 25}"
  by (simp_all add: motorA_conf_def motorB_conf_def motorC_conf_def motorD_conf_def
      Fire_A_config_def Fire_B_config_def chassis_masks fire_masks)

lemma ready_mechanical_start:
  assumes "calls s = []"
  shows "ready (calls (mechanical_start s))"
proof -
  have pulses: "SERVO_MIN_PULSEWIDTH \<le> servo_per_degree_init a
      \<and> servo_per_degree_init a \<le> SERVO_MAX_PULSEWIDTH" if "a < 270" for a
    using pulse_in_travel [of a] that by (simp add: clamped_def not_le [symmetric])
  have "legal_log (calls (mechanical_start s))"
    using pulses [of 90] pulses [of 235]
    by (simp add: mechanical_start_calls assms start_masks)
  moreover have "initialised (calls (mechanical_start s)) u" for u
    by (cases u) (simp_all add: mechanical_start_calls)
  moreover have "servo_pins (calls (mechanical_start s)) = [GPIO_GIMBAL_PITCH, GPIO_GIMBAL_YAW]"
    by (simp add: mechanical_start_calls assms GPIO_GIMBAL_YAW_def GPIO_GIMBAL_PITCH_def)
  ultimately show ?thesis by (simp add: ready_def is_output_mechanical_start)
qed

lemma ready_app_main:
  assumes "calls s = []" and "app_main succeeds queue_created s = Inr t"
  shows "ready (calls t)"
  using assms(2) ready_mechanical_start [OF assms(1)]
  unfolding app_main_result by (auto simp: ready_os split: if_splits)

lemma firmware_ready: "firmware succeeds queue_created es = Inr t \<Longrightarrow> ready (calls t)"
  using ready_app_main [of ctl_init succeeds queue_created]
  by (cases "app_main succeeds queue_created ctl_init")
    (auto simp: firmware_def ctl_init_def intro!: firmware_run.run_inv)


section \<open>Runs of the firmware\<close>

lemma fw_run_robot:
  "robot_of (fold fw_step es s) = fold obey (commands_of (rec_Data s) (turns es)) (robot_of s)"
proof (induction es arbitrary: s rule: turns.induct)
  case (2 ev es)
  then show ?case by (cases ev; cases "snd ev") (simp_all add: turn_obeys)
qed (simp_all add: event_keeps)

lemma fw_run_connected:
  "connected (calls (fold fw_step es s))
     = fold (\<lambda>e b. has_address b e) (wifi_events es) (connected (calls s))"
proof (induction es arbitrary: s rule: wifi_events.induct)
  case (2 ev es)
  have "connected (calls (web_recdata_turn ev s)) = connected (calls s)"
    by (rule log_connected.control.handle_inv) (rule refl)
  with 2 show ?case by simp
qed (simp_all add: connected_event_handler)

lemma app_main_robot:
  assumes "app_main succeeds queue_created ctl_init = Inr t"
  shows "robot_of t = boot_robot" and "rec_Data t = rec_Data ctl_init" and "\<not> connected (calls t)"
proof -
  let ?s = "mechanical_start ctl_init"
  let ?log = "Os_call (XTaskCreate ''webserver_task'' 2048 5) # Os_call (XQueueCreate 30 60)
    # Os_call (XTaskCreate ''dns_task'' 4096 5) # network_calls @ calls ?s"
  have log: "calls t = ?log" and more: "hw.more t = hw.more ?s"
    using assms unfolding app_main_result by (auto simp: network_calls_def split: if_splits)
  have "hw.more ?s = hw.more ctl_init"
    by (simp add: mechanical_start_def vTaskDelay_def FIRE_Init_def gpio_config_def Chassis_Init_def
        Gimbal_server_start_def mcpwm_example_gpio_initialize_def Let_def servo_set_angle_calls)
  with more have "hw.more t = hw.more ctl_init" by simp
  note fields = ctl_fields_of_more [OF this]
  have silent: "pin_level (calls t) q = None" for q
    by (simp add: log network_calls_def mechanical_start_calls ctl_init_def)
  have "launcher t = (Undriven, Undriven)" "wheel_drive t w = Undriven" for w
    by (simp_all add: launcher_def wheel_drive_def motor_drive_def silent drive_of_def)
  with fields show "robot_of t = boot_robot"
    by (simp add: robot_of_def boot_robot_def ctl_init_def servo_consts fun_eq_iff)
  show "rec_Data t = rec_Data ctl_init" by (rule fields)
  show "\<not> connected (calls t)"
    by (simp add: log network_calls_def mechanical_start_calls ctl_init_def)
qed

lemma boots:
  "list_all succeeds checked_calls \<Longrightarrow> \<exists>s. app_main succeeds True ctl_init = Inr s"
  using app_main_log by blast

section \<open>Properties\<close>

text \<open>
  C3: the firmware from reset.  It aborts when one of the six checked calls fails and restarts when the
  queue cannot be made; otherwise, through any turns of the control task and any Wi-Fi events between
  them, the robot is where the abstract controller takes it from \<open>boot_robot\<close> by the commands
  of the turns alone, and the connected bit is what the Wi-Fi events alone make it.
\<close>

theorem firmware_refinement:
  "(\<not> list_all succeeds checked_calls \<longrightarrow> firmware succeeds queue_created es = Inl Abort)
   \<and> (list_all succeeds checked_calls \<and> \<not> queue_created \<longrightarrow>
        firmware succeeds queue_created es = Inl Restart)
   \<and> (list_all succeeds checked_calls \<and> queue_created \<longrightarrow>
        (\<exists>t. firmware succeeds queue_created es = Inr t
          \<and> robot_of t = fold obey (commands_of (rec_Data ctl_init) (turns es)) boot_robot
          \<and> connected (calls t) = fold (\<lambda>e b. has_address b e) (wifi_events es) False))"
proof (intro conjI impI)
  assume "list_all succeeds checked_calls \<and> queue_created"
  then obtain s where s: "app_main succeeds queue_created ctl_init = Inr s" using boots by auto
  note boot = app_main_robot [OF s]
  show "\<exists>t. firmware succeeds queue_created es = Inr t
      \<and> robot_of t = fold obey (commands_of (rec_Data ctl_init) (turns es)) boot_robot
      \<and> connected (calls t) = fold (\<lambda>e b. has_address b e) (wifi_events es) False"
    using s boot fw_run_robot [of es s] fw_run_connected [of es s] by (simp add: firmware_def)
qed (simp_all add: firmware_def app_main_result)

theorem firmware_refinement_witness:
  "\<exists>t. firmware (\<lambda>_. True) True
      [Turn ([NUL], Some (url_item ''GET'' ''/rocker?val=0500'')), Wifi SYSTEM_EVENT_STA_GOT_IP]
        = Inr t
     \<and> robot_of t = boot_robot\<lparr>wheels := drive_spec Forward\<rparr> \<and> connected (calls t)"
proof -
  have "command_of [NUL] (url_item ''GET'' ''/rocker?val=0500'') = Rocker 5 0" by code_simp
  moreover have "on_pad 5 0" "pad_motion 5 0 = Forward"
    by (simp_all add: on_pad_def pad_motion_def third_def)
  moreover have "list_all (\<lambda>_. True) checked_calls" by (simp add: checked_calls_def)
  ultimately show ?thesis
    using firmware_refinement [of "\<lambda>_. True" True "[Turn ([NUL],
      Some (url_item ''GET'' ''/rocker?val=0500'')), Wifi SYSTEM_EVENT_STA_GOT_IP]"]
    by simp
qed

text \<open>
  C7: every driver call the firmware ever makes is legal.  When start-up completes, then through any
  turns of the control task, whatever the queue delivers and whatever follows the value array, and any
  Wi-Fi events between them: no level is written on a pin that was not made an output or that belongs
  to a servo, every level is 0 or 1, no servo unit is used before it is set up, every pulse is within
  the servo's travel, and no pin is given to two peripherals.
\<close>

theorem driver_log_legal:
  assumes "firmware succeeds queue_created es = Inr t"
  shows "legal_log (calls t)"
  using firmware_ready [OF assms] by (simp add: ready_def)

theorem driver_log_legal_witness:
  "\<exists>t. firmware (\<lambda>_. True) True
      [Turn ([NUL], Some (url_item ''GET'' ''/gimbal?val=0002'')), Wifi SYSTEM_EVENT_STA_GOT_IP,
       Turn ([NUL], None)] = Inr t \<and> legal_log (calls t)"
proof -
  let ?es = "[Turn ([NUL], Some (url_item ''GET'' ''/gimbal?val=0002'')),
    Wifi SYSTEM_EVENT_STA_GOT_IP, Turn ([NUL], None)]"
  have "list_all (\<lambda>_. True) checked_calls" by (simp add: checked_calls_def)
  then obtain s where "app_main (\<lambda>_. True) True ctl_init = Inr s" using boots by blast
  then have "firmware (\<lambda>_. True) True ?es = Inr (fold fw_step ?es s)"
    by (simp add: firmware_def)
  with driver_log_legal [OF this] show ?thesis by blast
qed

text \<open>
  The LED component could not be switched back on as it is: after start-up, its first level write is on
  the yaw servo's pin, which nothing made an output.
\<close>

lemma LED_write_illegal:
  assumes "firmware succeeds queue_created es = Inr t"
  shows "\<not> legal_log (calls (MyLED_ON (MyLED_Init t)))"
  using firmware_ready [OF assms]
  by (simp add: ready_def MyLED_ON_def MyLED_Init_def gpio_set_level_def gpio_config_def
      GPIO_OUTPUT_MY_LED_def GPIO_GIMBAL_YAW_def)

end
