(* ===== verification/Spec2Isabelle.thy ===== *)
theory Spec2Isabelle
  imports AppMain RobotControl WsEcho WebPage ControlTiming Connections ConcurrentRemote RequestTiming
    CompilerProbe DriverLog
begin

text \<open>
  \<^bold>\<open>A verification development for the infantry robot firmware\<close>

  The program is an ESP32 firmware in C.  The robot opens a Wi-Fi network; a phone that joins it is
  led by a name server to a web page; the page's buttons and its rocker send GET requests whose URL
  is the command; a request task cuts the URL out of the request and puts it into a queue; a control
  task takes it from the queue and drives four wheels, two launcher motors and two servos.

  \<^bold>\<open>Parts, theories and sources\<close> (paths under src/)

  \<^item> \<open>Prelude\<close>: integer types, the faults a C execution can end in, C's logical negation and
    truncating division, and the locale \<open>event_machine\<close> that lifts "one event keeps the invariant"
    to whole runs.
  \<^item> \<open>CString\<close>: the C library functions on character arrays that the code calls (\<open>strlen\<close>,
    \<open>strstr\<close>, \<open>strcmp\<close>, \<open>bcmp\<close>, \<open>atoi\<close>, \<open>sprintf\<close> with \<open>%d\<close>).  A scan that finds no terminator
    is the fault \<open>OverRead\<close>.
  \<^item> \<open>Platform\<close>: the boundary to the ESP-IDF drivers.  An operation of the program appends its
    driver calls to the log \<open>calls\<close>; pin levels, servo pulses and motor drives are read from that
    log.  The locale \<open>motor_op\<close> is the contract of an operation on some motors (these drives, no
    other pin, no servo, not the caller's state), \<open>motor_op_pair\<close> how two operations combine.
  \<^item> \<open>SdkConfig\<close>: build/config/sdkconfig.h and build/bootloader/config/sdkconfig.h, macro by macro, with
    the preprocessor's replacement.  The other theories read the tick rate, the watchdog's time, the
    number of sockets and the options of the echo server from it.
  \<^item> \<open>Chassis\<close>: main/Chassis/src/Chassis.c and its header.  One definition per function.
  \<^item> \<open>Fire\<close>: main/FIRE/src/Fire.c and its header.
  \<^item> \<open>Gimbal\<close>: main/Gimbal/src/Gimbal.c and its header, in 32-bit unsigned arithmetic.
  \<^item> \<open>Led\<close>: main/LED/src/MyLed.c and its header.
  \<^item> \<open>Dispatch\<close>: \<open>web_recdata\<close> of components/web_server/webserver.c, the control task.  Its state is
    the record \<open>ctl\<close>: the two recorded angles and the last \<open>URL_Data\<close>, on top of the driver log.
  \<^item> \<open>HttpWriter\<close>: \<open>my_write\<close> of webserver.c, with the locale \<open>writer\<close> that the answers rely on.
  \<^item> \<open>HttpTask\<close>: \<open>handle_http_request\<close> of webserver.c, with the locale \<open>command_queue\<close>: the laws of the
    FreeRTOS queue that the request tasks, the control task and the step relations rely on.  The theories
    that use the queue prove their lemmas inside it.
  \<^item> \<open>ControlTiming\<close>: the ticks a turn of \<open>web_recdata\<close> takes, and the task watchdog it subscribes to.
  \<^item> \<open>WebServer\<close>: \<open>webserver\<close> and \<open>web_server_start\<close> of webserver.c, and the step relation
    \<open>traffic\<close> of request tasks and control task on the shared queue.
  \<^item> \<open>RequestTiming\<close>: how long a request task lives under the socket timeouts that \<open>webserver\<close> sets.
  \<^item> \<open>Connections\<close>: the listening task (\<open>accept_step\<close>, over \<open>webserver_turn\<close>), its request tasks
    (\<open>task_step\<close>) and the control task over the limited number of sockets, as the step relation
    \<open>conn_step\<close>; its queue part refines \<open>traffic\<close>, and a run of \<open>handle_http_request\<close> is a run of \<open>task_step\<close>.
  \<^item> \<open>DnsServer\<close>: components/dns_server/my_dns_server.c.
  \<^item> \<open>AppMain\<close>: main/main.c.
  \<^item> \<open>DriverLog\<close>: the firmware from reset, start-up and then turns of the control task and Wi-Fi events in
    any order (\<open>firmware\<close>); \<open>legal\<close> is what the drivers ask of a call.  The locale \<open>control_log\<close> lifts what
    the three kinds of calls of the control task keep of the log to its runs.
  \<^item> \<open>RobotControl\<close>: components/Robot_Control/RobotControl.c.
  \<^item> \<open>WsEcho\<close>: main/ws_echo_server.c, which is in the tree but not in the list of built sources.
  \<^item> \<open>WebPage\<close>: the script of components/web_server/index.html: the requests it sends, and the touch and
    mouse handlers it installs and removes (\<open>pointer_handler\<close> on the record \<open>pointer\<close>).
  \<^item> \<open>ConcurrentRemote\<close>: the page, several request tasks at once and the control task; \<open>act\<close> is what the
    user and the network do, \<open>serve\<close> what the robot does.  It also shows that \<open>handle_http_request\<close>, when
    not interrupted, is a run of \<open>traffic\<close>.
  \<^item> \<open>CompilerProbe\<close>: the compiler probes of CMake below build/CMakeFiles/3.20.3, CMakeCCompilerId.c and
    CMakeCXXCompilerId.cpp.
  \<^item> this theory: page, network and control task together, as the step relation \<open>remote\<close>.

  \<^bold>\<open>What is shown\<close>

  \<^item> Motion: each chassis function gives the drives of the wheel law of an omnidirectional base and
    touches nothing else; the launcher's two motors are independent and follow their own commands; a
    servo's pulse stays between 500 and 2500 microseconds for every 32-bit argument.
  \<^item> Control: the control task refines an abstract controller (\<open>obey\<close> on \<open>robot\<close>), over any sequence of
    successful and failed receives; the recorded angles stay in range; the overlapping rocker tests
    are one decision on an 11 by 11 pad; a turn keeps the task from its queue for at most 160
    milliseconds.
  \<^item> Network: a GET is served and leaves exactly the newest command in the queue; the error paths
    close the socket; the write loop sends a prefix, all of it on success, and ends unless \<open>send\<close> is
    interrupted for ever; a request task returns within a bound in the bytes of its answer; one
    control task exists at most; with the configured number of sockets no
    interleaving fills the queue; a whole run of the handler is made of the steps the interleavings are
    made of.  A client that reads the answer by its Content-Length gets the page.  The name
    server writes inside its buffer and answers with a header that announces one answer, the question
    and a record that reads back as 192.168.4.1.
  \<^item> Start-up: no server task exists before the motor pins are configured.  From reset, every driver call
    ever made is legal, and the robot goes from its boot state where the commands take it, whatever the
    Wi-Fi does.
  \<^item> Configuration: every option of the two headers has a value.  The compiler probes name gcc and its version, and the C and the C++ probe agree on
    every compiler that is not specific to one language.
  \<^item> The whole: a movement of the rocker or a press of a button has its effect at the motors, and the
    wheels follow the pointer through every interleaving of touch and mouse events, page loads and
    control-task turns; a rocker that is released rests at the centre, which stops the wheels.
    With concurrent request tasks the wheels only ever run what the page has fetched, or stand still after
    the page itself was asked for; and the last fetch settles when the earlier ones are queued.  What the
    page prints into a query the robot reads back.  These hold while the stack behind the value array of
    \<open>web_recdata\<close> does not continue the number (\<open>no_digit_follows\<close>), which each of them states; what
    happens otherwise is shown too.
  \<^item> Where the code does not do what it means to, the theorem states what it does: a URI of 30
    characters or more overflows \<open>My_URLString\<close>; the value array is read past its end, so
    that a digit there makes the robot ignore the rocker or turn the other way; a button can
    drop the stop command of a released rocker, and the request of a movement can overtake it, from any
    resting state; a client's pause triggers the watchdog; a slow client holds a socket for
    ten seconds a byte; the echo server keeps a block for every send that is refused; descriptors without a task are never closed and end the service; the page's stop
    button stops nothing; the first gimbal command jumps; the LED's mask names other
    pins; and the smaller ones beside them.

  \<^bold>\<open>Code outside the repository\<close>

  FreeRTOS, lwIP and the HTTP server library of ESP-IDF are arguments of the definitions that call
  them: the queue is a record of functions on an abstract type with the predicate \<open>queue_contract\<close>
  (the laws of \<open>command_queue\<close>) as the documented behaviour, \<open>send\<close> is a function from call number and bytes to a result, and the
  results of \<open>recv\<close>, \<open>recvfrom\<close>, \<open>accept\<close>, \<open>malloc\<close> and \<open>xTaskCreate\<close> are inputs.  That lwIP
  accepts only while a socket is free (\<open>room\<close>) and that the watchdog triggers when its time has passed
  (\<open>wdt_triggers\<close>), and that a socket call ends with its timeout, are the documented behaviour of these.  Every
  property with such a hypothesis is applied at a concrete instance (\<open>list_queue\<close>, \<open>send_everything\<close>).

  \<^bold>\<open>Loops and bounds\<close>

  No definition uses fuel.  The write loop is a partial function in the option monad, because it need
  not end; \<open>quiet_after\<close> is the condition under which it is shown to.  The copy loops end by a measure,
  and the steps of the robot in \<open>serve\<close> decrease the measure \<open>work\<close>.
  The endless task loops are folds over the sequence of their inputs, so a statement about every run
  is a statement about every list.

  \<^bold>\<open>Not modelled\<close>

  Printed and logged text (except where it can fault), the drawing and styling of the page, the
  hardware behind the drivers, and execution time (delays are counted, and the time a blocking call
  takes is an input).  In \<open>remote\<close> a request is handled to its end before the next one is sent; the finer
  interleaving of several request tasks is in \<open>traffic\<close>, \<open>conn_step\<close> and \<open>serve\<close>.  In \<open>remote\<close> and
  \<open>serve\<close> the page is the only client.  In the step relations a request on which the handler runs past an
  array has no step: what such a request does is in \<open>handle_http_request\<close>.
\<close>

section \<open>The system under remote control\<close>

text \<open>
  The page in the browser, the server's side of the network and the control task.  A request is
  handled to its end before the next one is sent; the control task takes its turns in between, at
  any time, with any of the bytes \<open>stack\<close> behind its value array.  The browser asks for the page itself
  (\<open>document\<close>) and then runs its script (\<open>load\<close>); \<open>asked\<close> says that the last request was one for the page
  itself.
\<close>

record 'q system =
  page :: pointer
  asked :: bool
  net :: "'q http"
  task :: ctl

inductive remote ::
  "'q queue_api \<Rightarrow> send_call \<Rightarrow> string \<Rightarrow> string set \<Rightarrow> string \<Rightarrow> button set \<Rightarrow> 'q system \<Rightarrow> 'q system
   \<Rightarrow> bool"
  for api sc html stack rest buttons where
  document:
    "handle_http_request api sc html (request ''GET'' ''/'' rest) fd (net s) = Some (Inr h) \<Longrightarrow>
     remote api sc html stack rest buttons s (s\<lparr>asked := True, net := h\<rparr>)"
| load: "page_load = (p, Some query) \<Longrightarrow>
     handle_http_request api sc html (request ''GET'' query rest) fd (net s) = Some (Inr h) \<Longrightarrow>
     remote api sc html stack rest buttons s (s\<lparr>page := p, asked := False, net := h\<rparr>)"
| drag_quiet: "pointer_handler e (page s) = (p, None) \<Longrightarrow>
     remote api sc html stack rest buttons s (s\<lparr>page := p\<rparr>)"
| drag_send: "pointer_handler e (page s) = (p, Some query) \<Longrightarrow>
     handle_http_request api sc html (request ''GET'' query rest) fd (net s) = Some (Inr h) \<Longrightarrow>
     remote api sc html stack rest buttons s (s\<lparr>page := p, asked := False, net := h\<rparr>)"
| press: "b \<in> buttons \<Longrightarrow>
     handle_http_request api sc html (request ''GET'' (button_query b) rest) fd (net s)
       = Some (Inr h) \<Longrightarrow>
     remote api sc html stack rest buttons s (s\<lparr>asked := False, net := h\<rparr>)"
| control: "xQueueReceive api (queue (net s)) = Some (d, q) \<Longrightarrow> beyond \<in> stack \<Longrightarrow>
     remote api sc html stack rest buttons s
       (s\<lparr>net := (net s)\<lparr>queue := q\<rparr>, task := web_recdata_turn (beyond, Some d) (task s)\<rparr>)"

inductive_cases remote_cases: "remote api sc html stack rest buttons s t"

text \<open>What the last request asks of the wheels: its URI and its motion.\<close>

definition wanted :: "'q system \<Rightarrow> string \<times> motion" where
  "wanted s =
     (if asked s then (''/'', Stop)
      else (rocker_query (LastX (page s)) (LastY (page s)), pad_motion (LastX (page s)) (LastY (page s))))"

definition chassis_follows :: "('q \<Rightarrow> URL_Data list) \<Rightarrow> 'q system \<Rightarrow> bool" where
  "chassis_follows contents s \<longleftrightarrow>
     pointer_inv (page s) \<and>
     (if contents (queue (net s)) = [] then wheel_drive (task s) = drive_spec (snd (wanted s))
      else contents (queue (net s)) = [url_item ''GET'' (fst (wanted s))])"

section \<open>Lemmas\<close>

lemma new_coordinate_send:
  assumes "new_coordinate NowX NowY p = (p', Some query)"
  shows "query = rocker_query (LastX p') (LastY p')" and "on_pad (LastX p') (LastY p')"
    and "LastX p' = field (clip NowX)" and "LastY p' = field (clip NowY)"
  using assms by (auto simp: new_coordinate_def Let_def on_pad_def field_clip split: if_splits)

lemma load_query:
  assumes "page_load = (p, Some query)"
  shows "query = rocker_query (LastX p) (LastY p)" and "pointer_inv p"
  using assms page_init_inv by (auto simp: page_load_def page_init_def field_clip_center)

context command_queue
begin

lemma request_follows:
  assumes "0 < cap" and rest: "length rest < 999"
    and "query = rocker_query (LastX p) (LastY p)" and "pointer_inv p"
    and run: "handle_http_request api sc html (request ''GET'' query rest) fd (net s) = Some (Inr h)"
  shows "chassis_follows contents (s\<lparr>page := p, asked := False, net := h\<rparr>)"
proof -
  have "on_pad (LastX p) (LastY p)" using assms(4) by (simp add: pointer_inv_def)
  from handle_leaves_item [OF assms(1) rocker_line [OF this] rest] run assms(3,4) show ?thesis
    by (simp add: chassis_follows_def wanted_def)
qed

lemma wanted_frame [simp]: "wanted (s\<lparr>net := h, task := c\<rparr>) = wanted s"
  by (simp add: wanted_def)

lemma turn_on_wanted:
  assumes "pointer_inv (page s)" and "no_digit_follows beyond"
  shows "wheel_drive (web_recdata_turn (beyond, Some (url_item ''GET'' (fst (wanted s)))) c)
    = drive_spec (snd (wanted s))"
  using assms turn_on_rocker [OF _ assms(2)]
  by (simp add: wanted_def wheels_of_robot turn_on_document pointer_inv_def)

lemma remote_follows:
  assumes room: "0 < cap" and rest: "length rest < 999"
    and tail: "\<And>b. b \<in> stack \<Longrightarrow> no_digit_follows b"
    and step: "remote api sc html stack rest {} s t" and inv: "chassis_follows contents s"
  shows "chassis_follows contents t"
  using step
proof cases
  case (document fd h)
  with handle_leaves_item [OF room document_line rest document(2)] inv show ?thesis
    by (simp add: chassis_follows_def wanted_def)
next
  case (load p query fd h)
  show ?thesis unfolding load(1)
    by (rule request_follows [OF room rest load_query [OF load(2)] load(3)])
next
  case (drag_quiet e p)
  with inv handler_quiet [OF drag_quiet(2)] show ?thesis
    by (auto simp: chassis_follows_def wanted_def split: if_splits)
next
  case (drag_send e p query fd h)
  have "pointer_inv (page s)" using inv by (simp add: chassis_follows_def)
  note q = handler_send [OF drag_send(2) this]
  show ?thesis unfolding drag_send(1)
    by (rule request_follows [OF room rest q(1,2) drag_send(3)])
next
  case (press b fd h)
  then show ?thesis by simp
next
  case (control d q beyond)
  have "contents (queue (net s)) = d # contents q" by (rule before_receive [OF control(2)])
  with inv have "d = url_item ''GET'' (fst (wanted s))" and "contents q = []"
    by (simp_all add: chassis_follows_def)
  with control(1) turn_on_wanted [OF _ tail [OF control(3)], of s "task s"] inv show ?thesis
    by (simp add: chassis_follows_def)
qed

lemma remote_run_follows:
  assumes "0 < cap" "length rest < 999" and "\<And>b. b \<in> stack \<Longrightarrow> no_digit_follows b"
    and "(remote api sc html stack rest {})\<^sup>*\<^sup>* s t" and "chassis_follows contents s"
  shows "chassis_follows contents t"
  using assms(4,5) by (induction rule: rtranclp_induct) (auto intro: remote_follows [OF assms(1-3)])

end

text \<open>
  The driver calls stay legal when the commands come from the page through concurrent request tasks.
\<close>

lemma serve_ready:
  "serve api tasks stack rest w w' \<Longrightarrow> ready (calls (driver w)) \<Longrightarrow> ready (calls (driver w'))"
  by (erule serve_cases) (simp_all add: log_ready.control.handle_inv)

lemma act_driver: "act w w' \<Longrightarrow> driver w' = driver w"
  by (erule act_cases) (auto simp: fetch_def split: option.splits)

lemma world_ready:
  assumes "(sup act (serve api tasks stack rest))\<^sup>*\<^sup>* w t" and "ready (calls (driver w))"
  shows "ready (calls (driver t))"
  using assms
  by (induction rule: rtranclp_induct) (auto simp: act_driver intro: serve_ready)

lemma world_log_legal:
  assumes "app_main succeeds queue_created ctl_init = Inr (driver w)"
    and "(sup act (serve api tasks stack rest))\<^sup>*\<^sup>* w t"
  shows "legal_log (calls (driver t))"
  using world_ready [OF assms(2) ready_app_main [OF _ assms(1)]]
  by (simp add: ready_def ctl_init_def)

lemma atoi_continued:
  assumes "on_pad x y" and "d < 10" and "no_digit_follows tail"
  shows "atoi (PrefixZero x 2 @ PrefixZero y 2 @ digit_char d # tail) = 1000 * x + 10 * y + int d"
proof -
  have pad: "0 \<le> x" "x < 100" "0 \<le> y" "y < 100" using assms(1) by (simp_all add: on_pad_def)
  then have "atoi (PrefixZero x 2 @ PrefixZero y 2 @ digit_char d # tail)
      = 10 * (10 * (10 * (10 * int (nat x div 10) + int (nat x mod 10)) + int (nat y div 10))
        + int (nat y mod 10)) + int d"
    using assms(2,3) by (simp add: PrefixZero_two atoi_digit_first)
  also have "\<dots> = 1000 * x + 10 * y + int d"
    using pad by (simp add: zdiv_int zmod_int)
  finally show ?thesis .
qed

lemma continued_command:
  assumes "on_pad x y" and "d < 10" and "no_digit_follows tail"
  shows "command_of (digit_char d # tail) (url_item ''GET'' (rocker_query x y))
    = Rocker (10 * x + y div 10) (10 * (y mod 10) + int d)"
proof -
  have split: "1000 * x + 10 * y + int d = 100 * (10 * x + y div 10) + (10 * (y mod 10) + int d)"
    by presburger
  have "(100 * q + r) div 100 = q" "(100 * q + r) mod 100 = r" if "0 \<le> r" "r < 100" for q r :: int
    using that by simp_all
  moreover have "0 \<le> 10 * (y mod 10) + int d" and "10 * (y mod 10) + int d < 100"
    using assms(2) pos_mod_bound [of 10 y] by simp_all
  ultimately have "(1000 * x + 10 * y + int d) div 100 = 10 * x + y div 10"
    and "(1000 * x + 10 * y + int d) mod 100 = 10 * (y mod 10) + int d"
    unfolding split by blast+
  moreover have "0 \<le> 1000 * x + 10 * y + int d" using assms by (simp add: on_pad_def)
  ultimately show ?thesis
    using assms(1) atoi_continued [OF assms] rocker_query_shape [of x y]
    by (auto simp: on_pad_def command_of_def Let_def queue_item_fields take_take sdiv_smod_nonneg)
qed

text \<open>
  In the repository's configuration \<open>app_main\<close> of the echo server registers no event handler: neither
  of the two options it asks for is defined.
\<close>

lemma ws_registers_no_handler:
  "ws_checks (is_defined sdkconfig ''CONFIG_EXAMPLE_CONNECT_WIFI'')
     (is_defined sdkconfig ''CONFIG_EXAMPLE_CONNECT_ETHERNET'')
   = [Ws_nvs_flash_init, Ws_netif_init, Ws_event_loop_create, Ws_example_connect]"
  by (simp add: ws_checks_def is_defined_def sdk_no_EXAMPLE)

section \<open>Properties\<close>

text \<open>
  C1: a movement of the rocker on the page ends at the wheels.  For every pointer position that
  changes the field, the request that the page sends is served, the queue then holds one element
  and the control task takes it, and its turn sets the wheels for the motion of the field under the
  pointer and changes nothing else about the robot.  The stack behind the value array must not begin
  with a digit.
\<close>

theorem rocker_end_to_end:
  assumes "queue_contract api contents cap" and "0 < cap"
    and "quiet_after n sc" and "length rest < 999"
    and "new_coordinate NowX NowY p = (p', Some query)" and "no_digit_follows beyond"
  shows "\<exists>h' d q. handle_http_request api sc html (request ''GET'' query rest) fd h = Some (Inr h')
    \<and> xQueueReceive api (queue h') = Some (d, q) \<and> contents q = []
    \<and> robot_of (web_recdata_turn (beyond, Some d) s)
        = (robot_of s)\<lparr>wheels := drive_spec (pad_motion (field (clip NowX)) (field (clip NowY)))\<rparr>"
proof -
  note q = new_coordinate_send [OF assms(5)]
  obtain h' where "handle_http_request api sc html (request ''GET'' query rest) fd h = Some (Inr h')"
    and one: "contents (queue h') = [url_item ''GET'' query]"
    using command_queue.handle_returns [OF queue_locale [OF assms(1)] assms(2,3) rocker_line [OF q(2)]
        assms(4)] q(1) by blast
  with command_queue.receive_front [OF queue_locale [OF assms(1)] one] turn_on_rocker [OF q(2) assms(6)] q
  show ?thesis by auto
qed

lemma drag_up: "new_coordinate 310 20 page_init
    = (page_init\<lparr>LastX := 5, LastY := 0\<rparr>, Some (rocker_query 5 0))"
  by (simp add: new_coordinate_def page_init_def field_def clip_def center_def)

theorem rocker_end_to_end_witness:
  "\<exists>h' d q. handle_http_request (list_queue 30) send_everything ''page''
        (request ''GET'' (rocker_query 5 0) ''/1.1'') 54 quiet_robot = Some (Inr h')
    \<and> xQueueReceive (list_queue 30) (queue h') = Some (d, q)
    \<and> robot_of (web_recdata_turn ([NUL], Some d) ctl_init)
        = (robot_of ctl_init)\<lparr>wheels := drive_spec Forward\<rparr>"
proof -
  have "no_digit_follows [NUL]" by (simp add: no_digit_follows_def is_digit_def)
  moreover have "pad_motion (field (clip 310)) (field (clip 20)) = Forward"
    by (simp add: field_def clip_def center_def pad_motion_def third_def)
  ultimately show ?thesis
    using rocker_end_to_end [OF list_queue_30 _ send_everything_works(2) _ drag_up,
        of "''/1.1''" "[NUL]" "''page''" 54 quiet_robot ctl_init] by auto
qed

text \<open>
  C12: each of the page's nine buttons has the effect of its command, end to end: the request is
  served, the control task takes it, and the robot obeys \<open>button_command\<close>.  For the button labelled
  "stop" that command is \<open>Idle\<close>: nothing about the robot changes, and wheels that turn go on turning.
\<close>

theorem button_end_to_end:
  assumes "queue_contract api contents cap" and "0 < cap"
    and "quiet_after n sc" and "length rest < 999"
    and "no_digit_follows beyond"
  shows "\<exists>h' d q. handle_http_request api sc html (request ''GET'' (button_query b) rest) fd h
        = Some (Inr h')
    \<and> xQueueReceive api (queue h') = Some (d, q) \<and> contents q = []
    \<and> robot_of (web_recdata_turn (beyond, Some d) s) = obey (button_command b) (robot_of s)"
proof -
  obtain h' where "handle_http_request api sc html (request ''GET'' (button_query b) rest) fd h
        = Some (Inr h')"
    and one: "contents (queue h') = [url_item ''GET'' (button_query b)]"
    using command_queue.handle_returns [OF queue_locale [OF assms(1)] assms(2,3) button_query_line
        assms(4)] by blast
  with command_queue.receive_front [OF queue_locale [OF assms(1)] one] turn_on_button [OF assms(5)]
  show ?thesis by auto
qed

theorem button_end_to_end_witness:
  "\<exists>h' d q. handle_http_request (list_queue 30) send_everything ''page''
        (request ''GET'' ''/robott?val=0000'' ''/1.1'') 54 quiet_robot = Some (Inr h')
    \<and> xQueueReceive (list_queue 30) (queue h') = Some (d, q)
    \<and> robot_of (web_recdata_turn ([NUL], Some d) (Chassis_Forward ctl_init))
        = robot_of (Chassis_Forward ctl_init)"
proof -
  have "no_digit_follows [NUL]" by (simp add: no_digit_follows_def is_digit_def)
  then show ?thesis
    using button_end_to_end [OF list_queue_30 _ send_everything_works(2),
        of "''/1.1''" "[NUL]" "''page''" RobotButton 54 quiet_robot "Chassis_Forward ctl_init"]
    by auto
qed

text \<open>
  C4: the chassis follows the pointer.  After the page was loaded, whatever the robot did before, through
  anything that is done on the page with mouse and fingers, reloading it included, and any turns of
  the control task in between, as soon as no command waits the wheels run the motion of the field
  the page shows, although commands are dropped when a newer one arrives first; only between the request
  for the page itself and the first one of its script they stand still instead.  When the rocker is
  not held they stand still.  Requests are handled one after the other, no button is pressed, no other
  client sends, and the stack behind the value array must not continue the number.
\<close>

theorem chassis_follows_pointer:
  assumes "queue_contract api contents cap" and "0 < cap" and "length rest < 999"
    and "\<forall>b \<in> stack. no_digit_follows b"
    and "page_load = (page s0, Some query)" and "\<not> asked s0"
    and "handle_http_request api sc html (request ''GET'' query rest) fd h0 = Some (Inr (net s0))"
    and "(remote api sc html stack rest {})\<^sup>*\<^sup>* s0 s" and "contents (queue (net s)) = []"
  shows "wheel_drive (task s)
      = drive_spec (if asked s then Stop else pad_motion (LastX (page s)) (LastY (page s)))
    \<and> (\<not> held (page s) \<longrightarrow> wheel_drive (task s) = drive_spec Stop)"
proof -
  note queue = queue_locale [OF assms(1)]
  have tail: "\<And>b. b \<in> stack \<Longrightarrow> no_digit_follows b" using assms(4) by blast
  have "s0\<lparr>asked := False\<rparr> = s0" using assms(6) by (cases s0) simp
  then have "chassis_follows contents s0"
    using command_queue.request_follows [OF queue assms(2,3) load_query [OF assms(5)],
        of sc html fd "s0\<lparr>net := h0\<rparr>"]
      assms(7) by simp
  from command_queue.remote_run_follows [OF queue assms(2,3) tail assms(8) this] assms(9) show ?thesis
    by (auto simp: chassis_follows_def wanted_def pointer_inv_def pad_center)
qed

text \<open>The page loaded while the robot moves to the left, then the rocker pulled up and released.\<close>

lemma send_and_turn:
  assumes "pointer_handler e (page s) = (p, Some (rocker_query x y))" and "on_pad x y"
  shows "\<exists>t. (remote (list_queue 30) send_everything ''page'' {[NUL]} ''/1.1'' {})\<^sup>*\<^sup>* s t
     \<and> page t = p \<and> \<not> asked t \<and> queue (net t) = []"
proof -
  let ?R = "remote (list_queue 30) send_everything ''page'' {[NUL]} ''/1.1'' {}"
  obtain h where h: "handle_http_request (list_queue 30) send_everything ''page''
      (request ''GET'' (rocker_query x y) ''/1.1'') 54 (net s) = Some (Inr h)"
    and one: "queue h = [url_item ''GET'' (rocker_query x y)]"
    using lq.handle_returns [of 30, OF _ send_everything_works(2) rocker_line [OF assms(2)],
        of "''/1.1''" "''page''" 54 "net s"] by auto
  let ?s1 = "s\<lparr>page := p, asked := False, net := h\<rparr>"
  have a: "?R s ?s1" by (rule remote.drag_send [OF assms(1) h])
  have "xQueueReceive (list_queue 30) (queue (net ?s1))
      = Some (url_item ''GET'' (rocker_query x y), [])"
    using one by (simp add: list_queue_def)
  from remote.control [OF this, of "[NUL]" "{[NUL]}" send_everything "''page''" "''/1.1''" "{}"]
  obtain s2 where "?R ?s1 s2" "page s2 = p" "\<not> asked s2" "queue (net s2) = []" by auto
  moreover from a \<open>?R ?s1 s2\<close> have "?R\<^sup>*\<^sup>* s s2" by (meson r_into_rtranclp rtranclp_trans)
  ultimately show ?thesis by blast
qed

lemma mouse_drag:
  "pointer_handler (MouseDown 310 20 0 0) page_init
    = (page_init\<lparr>LastX := 5, LastY := 0, onmousemove := Some (0, 0), onmouseup := True\<rparr>,
       Some (rocker_query 5 0))"
  "pointer_handler MouseUp
      (page_init\<lparr>LastX := 5, LastY := 0, onmousemove := Some (0, 0), onmouseup := True\<rparr>)
    = (page_init, Some (rocker_query 5 5))"
  by (simp_all add: new_coordinate_def page_init_def field_def clip_def center_def)

theorem chassis_follows_pointer_witness:
  "\<exists>s0 s1 s2. page s0 = page_init
     \<and> (remote (list_queue 30) send_everything ''page'' {[NUL]} ''/1.1'' {})\<^sup>*\<^sup>* s0 s1
     \<and> queue (net s1) = [] \<and> wheel_drive (task s1) = drive_spec Forward
     \<and> (remote (list_queue 30) send_everything ''page'' {[NUL]} ''/1.1'' {})\<^sup>*\<^sup>* s1 s2
     \<and> queue (net s2) = [] \<and> wheel_drive (task s2) = drive_spec Stop"
proof -
  let ?R = "remote (list_queue 30) send_everything ''page'' {[NUL]} ''/1.1'' {}"
  obtain h where h: "handle_http_request (list_queue 30) send_everything ''page''
      (request ''GET'' (rocker_query 5 5) ''/1.1'') 54 quiet_robot = Some (Inr h)"
    using loaded_net by blast
  define s0 where "s0 = \<lparr>page = page_init, asked = False, net = h, task = Chassis_Left ctl_init\<rparr>"
  have load: "page_load = (page s0, Some (rocker_query 5 5))"
    by (simp add: s0_def page_load_def field_clip_center pad_center)
  have net: "handle_http_request (list_queue 30) send_everything ''page''
      (request ''GET'' (rocker_query 5 5) ''/1.1'') 54 quiet_robot = Some (Inr (net s0))"
    using h by (simp add: s0_def)
  have tail: "\<forall>b \<in> {[NUL]}. no_digit_follows b" by (simp add: nul_tail)
  have "\<not> asked s0" by (simp add: s0_def)
  note follows = chassis_follows_pointer [OF list_queue_30 _ _ tail load this net]
  obtain s1 where s1: "?R\<^sup>*\<^sup>* s0 s1" "queue (net s1) = []" "\<not> asked s1"
    "page s1 = page_init\<lparr>LastX := 5, LastY := 0, onmousemove := Some (0, 0), onmouseup := True\<rparr>"
    using send_and_turn [of "MouseDown 310 20 0 0" s0] mouse_drag(1)
    by (fastforce simp: s0_def on_pad_def simp del: pointer_handler.simps)
  obtain s2 where s2: "?R\<^sup>*\<^sup>* s1 s2" "queue (net s2) = []" "page s2 = page_init"
    using send_and_turn [of MouseUp s1] mouse_drag(2) pad_center(2)
    by (fastforce simp: s1(4) simp del: pointer_handler.simps)
  have "pad_motion 5 0 = Forward" by (simp add: pad_motion_def third_def)
  then have "wheel_drive (task s1) = drive_spec Forward"
    using follows [OF _ _ s1(1)] s1 by simp
  moreover have "wheel_drive (task s2) = drive_spec Stop"
    using follows [OF _ _ rtranclp_trans [OF s1(1) s2(1)]] s2
    by (simp add: held_def page_init_def pad_center)
  moreover have "page s0 = page_init" by (simp add: s0_def)
  ultimately show ?thesis using s1 s2 by blast
qed

text \<open>
  C28: with the buttons in play this fails.  A button pressed after the pointer is released and before
  the control task's next turn empties the queue of the stop command: both requests are served, but
  the control task sees only the button, and the wheels stay as they were.
\<close>

theorem press_drops_release:
  assumes "queue_contract api contents cap" and "0 < cap"
    and "quiet_after n sc" and "length rest < 999"
    and "new_coordinate center center p = (p', Some query)" and "no_digit_follows beyond"
  shows "\<exists>h1 h2 d q. handle_http_request api sc html (request ''GET'' query rest) fd h = Some (Inr h1)
    \<and> handle_http_request api sc html (request ''GET'' (button_query b) rest) fd' h1 = Some (Inr h2)
    \<and> xQueueReceive api (queue h2) = Some (d, q) \<and> contents q = []
    \<and> wheel_drive (web_recdata_turn (beyond, Some d) s) = wheel_drive s"
proof -
  note q = new_coordinate_send [OF assms(5)]
  note queue = queue_locale [OF assms(1)]
  note returns = command_queue.handle_returns [OF queue assms(2,3)]
  obtain h1 where h1: "handle_http_request api sc html (request ''GET'' query rest) fd h = Some (Inr h1)"
    using returns [OF rocker_line [OF q(2)] assms(4)] q(1) by blast
  obtain h2 where h2: "handle_http_request api sc html (request ''GET'' (button_query b) rest) fd' h1
        = Some (Inr h2)"
    and one: "contents (queue h2) = [url_item ''GET'' (button_query b)]"
    using returns [OF button_query_line assms(4)] by blast
  have "wheels (obey (button_command b) r) = wheels r" for r by (cases b) simp_all
  with h1 h2 command_queue.receive_front [OF queue one] turn_on_button [OF assms(6), of b s] show ?thesis
    by (auto simp: wheels_of_robot)
qed

theorem press_drops_release_witness:
  "\<exists>h1 h2 d q. handle_http_request (list_queue 30) send_everything ''page''
        (request ''GET'' (rocker_query 5 5) ''/1.1'') 54 quiet_robot = Some (Inr h1)
    \<and> handle_http_request (list_queue 30) send_everything ''page''
        (request ''GET'' ''/blaste?val=0000'' ''/1.1'') 55 h1 = Some (Inr h2)
    \<and> xQueueReceive (list_queue 30) (queue h2) = Some (d, q)
    \<and> wheel_drive (web_recdata_turn ([NUL], Some d) (Chassis_Forward ctl_init))
        = wheel_drive (Chassis_Forward ctl_init)"
proof -
  have tail: "no_digit_follows [NUL]" by (simp add: no_digit_follows_def is_digit_def)
  have "new_coordinate center center \<lparr>LastX = 5, LastY = 0\<rparr>
      = (\<lparr>LastX = 5, LastY = 5\<rparr>, Some (rocker_query 5 5))"
    by (simp add: new_coordinate_def field_def clip_def center_def)
  from press_drops_release [OF list_queue_30 _ send_everything_works(2) _ this tail,
      of "''/1.1''" "''page''" 54 quiet_robot BlasterButton 55 "Chassis_Forward ctl_init"]
  show ?thesis by auto
qed

text \<open>
  C31: if the byte behind the four-byte value array is a digit, \<open>atoi\<close> reads it as part of the number
  and a rocker command with a horizontal field of 2 or more, the stop command at the centre
  included, is ignored.
\<close>

theorem stack_digit_disables_rocker:
  assumes "on_pad x y" and "2 \<le> x" and "d < 10" and "no_digit_follows tail"
  shows "robot_of (web_recdata_turn
      (digit_char d # tail, Some (url_item ''GET'' (rocker_query x y))) s) = robot_of s"
  using continued_command [OF assms(1,3,4)] assms(1,2) by (auto simp: turn_obeys on_pad_def)

theorem stack_digit_disables_rocker_witness:
  "robot_of (web_recdata_turn (digit_char 7 # [NUL], Some (url_item ''GET'' (rocker_query 5 5)))
      (Chassis_Forward ctl_init)) = robot_of (Chassis_Forward ctl_init)"
  by (rule stack_digit_disables_rocker)
    (simp_all add: on_pad_def no_digit_follows_def is_digit_def)

text \<open>
  C32: with a horizontal field below 2 such a digit can make one command another.  Whatever single
  digit follows the value array, the top field of the second column, which asks for a turn to the left,
  drives the robot to the right or turns it right.
\<close>

theorem stack_digit_reverses_turn:
  assumes "d < 10" and "no_digit_follows tail"
  shows "pad_motion 1 0 = Left_revolve \<and>
    wheel_drive (web_recdata_turn (digit_char d # tail, Some (url_item ''GET'' (rocker_query 1 0))) s)
      = drive_spec (if 4 \<le> d \<and> d \<le> 6 then Right else Right_revolve)"
proof -
  have "on_pad 1 0" by (simp add: on_pad_def)
  from continued_command [OF this assms] assms(1) show ?thesis
    by (auto simp: turn_obeys wheels_of_robot on_pad_def pad_motion_def third_def)
qed

theorem stack_digit_reverses_turn_witness:
  "wheel_drive (web_recdata_turn (''5'', Some (url_item ''GET'' (rocker_query 1 0))) ctl_init)
    = drive_spec Right"
proof -
  have "digit_char 5 = CHR ''5''" by code_simp
  with stack_digit_reverses_turn [of 5 "[]" ctl_init] show ?thesis
    by (simp add: no_digit_follows_def)
qed

text \<open>
  Requests overtake each other.  The request tasks have equal priority and nothing orders them:
  when the task of a rocker movement is suspended between emptying the queue and sending, the release
  that follows can be queued, and executed, before the movement.  Everything is then idle, no send has failed, and the wheels turn although the rocker
  was released.
\<close>

lemma overtaken_release:
  assumes "queue_contract api contents cap" and "2 \<le> cap" and "2 \<le> tasks" and "pending s0 = []"
    and "on_pad x y" and "no_digit_follows b1" and "no_digit_follows b2"
    and "d1 = url_item ''GET'' (rocker_query x y)" and "d2 = url_item ''GET'' (rocker_query 5 5)"
  shows "\<exists>s1 s2 t. traffic api tasks s0 s1 \<and> pending s1 = [d1]
    \<and> traffic api tasks s1 s2 \<and> pending s2 = [d2, d1]
    \<and> (traffic api tasks)\<^sup>*\<^sup>* s2 t \<and> pending t = [] \<and> contents (cmds t) = []
    \<and> send_failed t = send_failed s0 \<and> taken t = d1 # d2 # taken s0
    \<and> wheel_drive (web_recdata [(b1, Some d2), (b2, Some d1)] c) = drive_spec (pad_motion x y)"
proof -
  have "wheel_drive (web_recdata [(b1, Some d2), (b2, Some d1)] c) = drive_spec (pad_motion x y)"
    using turn_on_rocker [OF assms(5,7)] assms(8) by (simp add: web_recdata_def wheels_of_robot)
  with command_queue.traffic_overtake [OF queue_locale [OF assms(1)] assms(2-4), of d1 d2]
  show ?thesis by metis
qed

lemma overtaken_release_witness:
  "\<exists>t. (traffic (list_queue 30) 2)\<^sup>*\<^sup>* idle_shared t \<and> pending t = [] \<and> cmds t = []
     \<and> taken t = [url_item ''GET'' (rocker_query 5 0), url_item ''GET'' (rocker_query 5 5)]
     \<and> wheel_drive (web_recdata (map (\<lambda>d. ([NUL], Some d)) (rev (taken t))) ctl_init)
         = drive_spec Forward"
proof -
  let ?R = "traffic (list_queue 30) 2"
  have tail: "no_digit_follows [NUL]" by (simp add: no_digit_follows_def is_digit_def)
  have pad: "on_pad 5 0" "pad_motion 5 0 = Forward" by (simp_all add: on_pad_def pad_motion_def third_def)
  have "pending idle_shared = []" "taken idle_shared = []" by (simp_all add: idle_shared_def)
  with overtaken_release [OF list_queue_30 _ _ _ pad(1) tail tail refl refl, of 2 idle_shared ctl_init]
    pad(2)
  obtain s1 s2 t where r: "?R idle_shared s1" "?R s1 s2" "?R\<^sup>*\<^sup>* s2 t"
    and t: "pending t = []" "cmds t = []"
      "taken t = [url_item ''GET'' (rocker_query 5 0), url_item ''GET'' (rocker_query 5 5)]"
      "wheel_drive (web_recdata [([NUL], Some (url_item ''GET'' (rocker_query 5 5))),
         ([NUL], Some (url_item ''GET'' (rocker_query 5 0)))] ctl_init) = drive_spec Forward"
    by auto
  have "?R\<^sup>*\<^sup>* idle_shared t" using r by (meson converse_rtranclp_into_rtranclp)
  with t show ?thesis by auto
qed

end
